(* ===== verification/Prelude.thy ===== *)
theory Prelude
  imports Main
    "HOL-Library.Sublist"
    "HOL-Library.Char_ord"
    "HOL-Library.List_Lexorder"
    "HOL-Library.Product_Lexorder"
begin

text \<open>
  Shared ground of the development: the Python values the daemon exchanges (JSON), the
  exceptions its functions raise, the operations on \<^verbatim>\<open>str\<close> the sources use, the
  ordering clauses of the SQL queries, and the generic list lemmas of the component proofs.

  A Python \<^verbatim>\<open>str\<close> is a \<^typ>\<open>string\<close>: a list of characters with code points below 256
  (Latin-1). The operations below follow Python on that range, white space and case mapping
  of the upper half included. A function that may raise returns \<open>exn + 'a\<close>; a function that
  changes state returns the state on every path, the raising ones too, because what the code
  committed before the \<^verbatim>\<open>raise\<close> stays.
\<close>

named_theorems pystr "Python string operations"
named_theorems regdefs "definitions of the registry operations"
named_theorems rowsimps "projections of table rows through updates"

section \<open>JSON values\<close>

text \<open>
  A finite float is \<open>m * 2 ^ e\<close>; \<^verbatim>\<open>json.loads\<close> also yields the infinities and NaN.
\<close>

datatype pyfloat = Finite int int | Infinity bool | NotANumber

datatype json =
    JNull
  | JBool bool
  | JInt int
  | JFloat pyfloat
  | JStr string
  | JList "json list"
  | JObj "(string \<times> json) list"

type_synonym dict = "(string \<times> json) list"

text \<open>\<^verbatim>\<open>d.get(key)\<close>: the value, or \<^verbatim>\<open>None\<close> where the key is missing.\<close>

definition dict_get :: "dict \<Rightarrow> string \<Rightarrow> json" where
  "dict_get d k = (case map_of d k of None \<Rightarrow> JNull | Some v \<Rightarrow> v)"

text \<open>\<^verbatim>\<open>d.get(key, default)\<close>.\<close>

definition dict_get_default :: "dict \<Rightarrow> string \<Rightarrow> json \<Rightarrow> json" where
  "dict_get_default d k v0 = (case map_of d k of None \<Rightarrow> v0 | Some v \<Rightarrow> v)"

text \<open>The truth value of a JSON value, as \<^verbatim>\<open>if value\<close> and \<^verbatim>\<open>value or default\<close> take it.\<close>

fun truthy :: "json \<Rightarrow> bool" where
  "truthy JNull = False"
| "truthy (JBool b) = b"
| "truthy (JInt n) = (n \<noteq> 0)"
| "truthy (JFloat (Finite m e)) = (m \<noteq> 0)"
| "truthy (JFloat (Infinity neg)) = True"
| "truthy (JFloat NotANumber) = True"
| "truthy (JStr s) = (s \<noteq> [])"
| "truthy (JList xs) = (xs \<noteq> [])"
| "truthy (JObj d) = (d \<noteq> [])"

text \<open>\<^verbatim>\<open>isinstance(value, str)\<close> and the value it then has.\<close>

fun as_str :: "json \<Rightarrow> string option" where
  "as_str (JStr s) = Some s"
| "as_str _ = None"

text \<open>\<^verbatim>\<open>isinstance(value, int)\<close>: Python's \<^verbatim>\<open>bool\<close> is a subclass of \<^verbatim>\<open>int\<close>.\<close>

fun as_int :: "json \<Rightarrow> int option" where
  "as_int (JInt n) = Some n"
| "as_int (JBool b) = Some (if b then 1 else 0)"
| "as_int _ = None"

fun as_obj :: "json \<Rightarrow> dict option" where
  "as_obj (JObj d) = Some d"
| "as_obj _ = None"

fun as_list :: "json \<Rightarrow> json list option" where
  "as_list (JList xs) = Some xs"
| "as_list _ = None"

text \<open>All elements of a list converted, or nothing.\<close>

fun map_all :: "('a \<Rightarrow> 'b option) \<Rightarrow> 'a list \<Rightarrow> 'b list option" where
  "map_all f [] = Some []"
| "map_all f (x # xs) =
     (case f x of None \<Rightarrow> None
      | Some y \<Rightarrow> (case map_all f xs of None \<Rightarrow> None | Some ys \<Rightarrow> Some (y # ys)))"

abbreviation jstrs :: "string list \<Rightarrow> json" where
  "jstrs xs \<equiv> JList (map JStr xs)"

abbreviation jopt :: "string option \<Rightarrow> json" where
  "jopt s \<equiv> (case s of None \<Rightarrow> JNull | Some t \<Rightarrow> JStr t)"

section \<open>Exceptions\<close>

text \<open>
  \<^verbatim>\<open>_RpcError\<close> (daemon/rpc_common.py), \<^verbatim>\<open>WsError\<close> (core/__init__.py), and every other
  exception class by its name.
\<close>

datatype exn =
    RpcError int string "json option"
  | WsError string "string option"
  | PyError string string

abbreviation rpc_err :: "int \<Rightarrow> string \<Rightarrow> dict \<Rightarrow> exn" where
  "rpc_err c m d \<equiv> RpcError c m (Some (JObj d))"

text \<open>\<^verbatim>\<open>str(exc)\<close>.\<close>

definition exn_text :: "exn \<Rightarrow> string" where
  "exn_text e = (case e of RpcError c m d \<Rightarrow> m | WsError m fx \<Rightarrow> m | PyError cls m \<Rightarrow> m)"

text \<open>\<^verbatim>\<open>list(value)\<close>, and the values a \<^verbatim>\<open>for\<close> loop runs through.\<close>

fun py_list :: "json \<Rightarrow> exn + json list" where
  "py_list (JList xs) = Inr xs"
| "py_list (JStr s) = Inr (map (\<lambda>c. JStr [c]) s)"
| "py_list (JObj d) = Inr (map (\<lambda>(k, v). JStr k) d)"
| "py_list _ = Inl (PyError ''TypeError'' ''object is not iterable'')"

section \<open>Python strings\<close>

definition code :: "char \<Rightarrow> nat" where
  "code c = of_char c"

definition is_space :: "char \<Rightarrow> bool" where
  "is_space c = (let n = code c in
     (9 \<le> n \<and> n \<le> 13) \<or> (28 \<le> n \<and> n \<le> 32) \<or> n = 133 \<or> n = 160)"

definition is_upper :: "char \<Rightarrow> bool" where
  "is_upper c = (let n = code c in
     (65 \<le> n \<and> n \<le> 90) \<or> (192 \<le> n \<and> n \<le> 222 \<and> n \<noteq> 215))"

definition lower_char :: "char \<Rightarrow> char" where
  "lower_char c = (if is_upper c then char_of (code c + 32) else c)"

definition lower :: "string \<Rightarrow> string" where
  "lower s = map lower_char s"

definition lstrip_by :: "(char \<Rightarrow> bool) \<Rightarrow> string \<Rightarrow> string" where
  "lstrip_by p s = dropWhile p s"

definition rstrip_by :: "(char \<Rightarrow> bool) \<Rightarrow> string \<Rightarrow> string" where
  "rstrip_by p s = rev (dropWhile p (rev s))"

definition strip_by :: "(char \<Rightarrow> bool) \<Rightarrow> string \<Rightarrow> string" where
  "strip_by p s = rstrip_by p (lstrip_by p s)"

definition strip :: "string \<Rightarrow> string" where
  "strip s = strip_by is_space s"

definition is_ascii :: "string \<Rightarrow> bool" where
  "is_ascii s = list_all (\<lambda>c. code c < 128) s"

text \<open>\<^verbatim>\<open>s.split(sep)\<close> for a one-character separator, and \<^verbatim>\<open>sep.join(parts)\<close>.\<close>

fun split_on :: "char \<Rightarrow> string \<Rightarrow> string list" where
  "split_on c [] = [[]]"
| "split_on c (x # xs) =
     (if x = c then [] # split_on c xs
      else (case split_on c xs of [] \<Rightarrow> [[x]] | h # t \<Rightarrow> (x # h) # t))"

fun join :: "string \<Rightarrow> string list \<Rightarrow> string" where
  "join sep [] = []"
| "join sep [x] = x"
| "join sep (x # y # ys) = x @ sep @ join sep (y # ys)"

text \<open>\<^verbatim>\<open>s.split()\<close>: the words between white space; \<open>w\<close> is the word read so far, reversed.\<close>

fun words_from :: "string \<Rightarrow> string \<Rightarrow> string list" where
  "words_from w [] = (if w = [] then [] else [rev w])"
| "words_from w (c # s) =
    (if is_space c then (if w = [] then words_from [] s else rev w # words_from [] s) else words_from (c # w) s)"

text \<open>\<^verbatim>\<open>s.split(sep, 1)\<close> on a string that contains the separator.\<close>

definition split_once :: "char \<Rightarrow> string \<Rightarrow> string \<times> string" where
  "split_once c s = (takeWhile (\<lambda>x. x \<noteq> c) s, tl (dropWhile (\<lambda>x. x \<noteq> c) s))"

definition replace_char :: "char \<Rightarrow> char \<Rightarrow> string \<Rightarrow> string" where
  "replace_char a b s = map (\<lambda>c. if c = a then b else c) s"

text \<open>
  A regular expression \<^verbatim>\<open>^...$\<close> used with \<^verbatim>\<open>re.match\<close>: \<^verbatim>\<open>$\<close> also matches just before a
  final newline, so the body is matched against the string or against the string without it.
\<close>

definition re_dollar :: "(string \<Rightarrow> bool) \<Rightarrow> string \<Rightarrow> bool" where
  "re_dollar body s = (body s \<or> (s \<noteq> [] \<and> last s = CHR 0x0A \<and> body (butlast s)))"

definition is_digit :: "char \<Rightarrow> bool" where
  "is_digit c = (48 \<le> code c \<and> code c \<le> 57)"

definition is_lower_az :: "char \<Rightarrow> bool" where
  "is_lower_az c = (97 \<le> code c \<and> code c \<le> 122)"

definition is_upper_az :: "char \<Rightarrow> bool" where
  "is_upper_az c = (65 \<le> code c \<and> code c \<le> 90)"

abbreviation is_alnum :: "char \<Rightarrow> bool" where
  "is_alnum c \<equiv> is_digit c \<or> is_lower_az c \<or> is_upper_az c"

text \<open>Decimal rendering of an integer, as \<^verbatim>\<open>str(n)\<close> and f-strings print it.\<close>

fun show_nat :: "nat \<Rightarrow> string" where
  "show_nat n = (if n < 10 then [char_of (48 + n)]
                 else show_nat (n div 10) @ [char_of (48 + n mod 10)])"

declare show_nat.simps [simp del]

definition show_int :: "int \<Rightarrow> string" where
  "show_int n = (if n < 0 then CHR ''-'' # show_nat (nat (- n)) else show_nat (nat n))"

text \<open>A string between single quotes, as the f-strings of the messages write it.\<close>

definition quoted :: "string \<Rightarrow> string" where
  "quoted s = CHR 0x27 # s @ [CHR 0x27]"

section \<open>Ordering clauses\<close>

text \<open>
  \<^verbatim>\<open>ORDER BY column ASC\<close> and \<^verbatim>\<open>DESC\<close>; rows that tie keep their row order.
\<close>

definition order_desc :: "('a \<Rightarrow> 'k::linorder) \<Rightarrow> 'a list \<Rightarrow> 'a list" where
  "order_desc f xs = rev (sort_key f (rev xs))"

lemma set_order_desc [simp]: "set (order_desc f xs) = set xs"
  by (simp add: order_desc_def)

lemma order_desc_Nil_iff [simp]: "order_desc f xs = [] \<longleftrightarrow> xs = []"
  by (metis set_empty set_order_desc)

section \<open>Tables\<close>

text \<open>
  A table is the list of its rows in row order: \<^verbatim>\<open>UPDATE ... SET f WHERE P\<close>,
  \<^verbatim>\<open>DELETE ... WHERE P\<close> and \<^verbatim>\<open>cur.rowcount\<close>.
\<close>

definition update_where :: "('r \<Rightarrow> bool) \<Rightarrow> ('r \<Rightarrow> 'r) \<Rightarrow> 'r list \<Rightarrow> 'r list" where
  "update_where P f rows = map (\<lambda>r. if P r then f r else r) rows"

definition delete_where :: "('r \<Rightarrow> bool) \<Rightarrow> 'r list \<Rightarrow> 'r list" where
  "delete_where P rows = filter (\<lambda>r. \<not> P r) rows"

definition row_count :: "('r \<Rightarrow> bool) \<Rightarrow> 'r list \<Rightarrow> nat" where
  "row_count P rows = length (filter P rows)"

section \<open>Generic lemmas\<close>

lemma set_update_where: "set (update_where P f rows) = (\<lambda>r. if P r then f r else r) ` set rows"
  by (simp add: update_where_def)

lemma set_delete_where [simp]: "set (delete_where P rows) = {r \<in> set rows. \<not> P r}"
  by (auto simp: delete_where_def)

lemma ball_update_where:
  "\<forall>x\<in>set xs. Q x \<Longrightarrow> (\<And>x. P x \<Longrightarrow> Q x \<Longrightarrow> Q (f x)) \<Longrightarrow> \<forall>x\<in>set (update_where P f xs). Q x"
  by (auto simp: update_where_def)

lemma update_where_append [simp]:
  "update_where P f (xs @ ys) = update_where P f xs @ update_where P f ys"
  by (simp add: update_where_def)

lemma update_where_Nil [simp]: "update_where P f [] = []"
  by (simp add: update_where_def)

lemma update_where_Cons [simp]:
  "update_where P f (r # rows) = (if P r then f r else r) # update_where P f rows"
  by (simp add: update_where_def)

lemma update_where_idle: "\<forall>r\<in>set rows. \<not> P r \<Longrightarrow> update_where P f rows = rows"
  by (simp add: update_where_def map_idI)

lemma map_update_where:
  "(\<And>r. g (f r) = g r) \<Longrightarrow> map g (update_where P f rows) = map g rows"
  by (simp add: update_where_def)

lemma find_update_where:
  assumes "\<And>r. k (f r) = k r"
  shows "find (\<lambda>r. k r = x) (update_where P f rows) =
         map_option (\<lambda>r. if P r then f r else r) (find (\<lambda>r. k r = x) rows)"
  using assms by (induction rows) auto

lemma find_delete_where:
  assumes "distinct (map k rows)"
  shows "find (\<lambda>r. k r = x) (delete_where P rows) =
         (case find (\<lambda>r. k r = x) rows of None \<Rightarrow> None | Some r \<Rightarrow> if P r then None else Some r)"
  using assms
proof (induction rows)
  case (Cons r rows)
  show ?case
  proof (cases "k r = x")
    case True
    then have "\<forall>s\<in>set rows. k s \<noteq> x" using Cons.prems by (auto simp: image_iff)
    then have "find (\<lambda>r. k r = x) (filter (\<lambda>r. \<not> P r) rows) = None" by (auto simp: find_None_iff)
    with True show ?thesis by (simp add: delete_where_def)
  next
    case False
    with Cons show ?thesis by (simp add: delete_where_def)
  qed
qed (simp add: delete_where_def)

lemma distinct_delete_where [intro]:
  "distinct (map k rows) \<Longrightarrow> distinct (map k (delete_where P rows))"
  by (induction rows) (auto simp: delete_where_def)

lemma row_count_0_iff: "row_count P rows = 0 \<longleftrightarrow> (\<forall>r\<in>set rows. \<not> P r)"
  by (simp add: row_count_def filter_empty_conv)

lemma map_all_SomeD: "map_all f xs = Some ys \<Longrightarrow> y \<in> set ys \<Longrightarrow> \<exists>x\<in>set xs. f x = Some y"
  by (induction xs arbitrary: ys) (auto split: option.splits)

lemma map_all_SomeD2: "map_all f xs = Some ys \<Longrightarrow> x \<in> set xs \<Longrightarrow> \<exists>y\<in>set ys. f x = Some y"
  by (induction xs arbitrary: ys) (auto split: option.splits)

lemma map_all_None_iff: "map_all f xs = None \<longleftrightarrow> (\<exists>x\<in>set xs. f x = None)"
  by (induction xs) (auto split: option.splits)

lemma map_all_set: "map_all f xs = Some ys \<Longrightarrow> set ys = {y. \<exists>x\<in>set xs. f x = Some y}"
  by (force dest: map_all_SomeD map_all_SomeD2)

lemma find_Some_D: "find P xs = Some x \<Longrightarrow> x \<in> set xs \<and> P x"
  by (induction xs) (auto split: if_splits)

lemma find_None_D: "find P xs = None \<Longrightarrow> x \<in> set xs \<Longrightarrow> \<not> P x"
  by (auto simp: find_None_iff)

lemma find_append: "find P (xs @ ys) = (case find P xs of None \<Rightarrow> find P ys | Some x \<Rightarrow> Some x)"
  by (induction xs) auto

lemma distinct_map_filter [intro]: "distinct (map f xs) \<Longrightarrow> distinct (map f (filter P xs))"
  by (induction xs) auto

lemma find_distinct_key:
  assumes "distinct (map f xs)" "x \<in> set xs"
  shows "find (\<lambda>y. f y = f x) xs = Some x"
  using assms by (induction xs) auto

text \<open>Splitting and joining are inverse to one another.\<close>

lemma split_on_neq_Nil [simp]: "split_on c s \<noteq> []"
  by (cases s) (auto split: list.splits)

lemma join_split_on [pystr]: "join [c] (split_on c s) = s"
proof (induction s)
  case Nil
  show ?case by simp
next
  case (Cons x s)
  obtain h t where ht: "split_on c s = h # t"
    by (meson neq_Nil_conv split_on_neq_Nil)
  with Cons.IH show ?case by (cases t) auto
qed

lemma split_on_no_sep: "c \<notin> set s \<Longrightarrow> split_on c s = [s]"
  by (induction s) auto

lemma split_on_parts: "p \<in> set (split_on c s) \<Longrightarrow> c \<notin> set p"
  by (induction s arbitrary: p) (auto split: list.splits if_splits)

lemma split_on_append_sep: "split_on c (xs @ c # ys) = split_on c xs @ split_on c ys"
proof (induction xs)
  case (Cons x xs)
  obtain h t where "split_on c xs = h # t"
    by (meson neq_Nil_conv split_on_neq_Nil)
  with Cons show ?case by simp
qed simp

lemma split_on_join [pystr]:
  assumes "ps \<noteq> []" "\<forall>p\<in>set ps. c \<notin> set p"
  shows "split_on c (join [c] ps) = ps"
  using assms
proof (induction "[c]" ps rule: join.induct)
  case (3 x y ys)
  have "join [c] (x # y # ys) = x @ c # join [c] (y # ys)" by simp
  with 3 show ?case by (simp only: split_on_append_sep) (simp add: split_on_no_sep)
qed (simp_all add: split_on_no_sep)

text \<open>Stripping is idempotent, and lowering too.\<close>

lemma rstrip_by_last: "rstrip_by p s \<noteq> [] \<Longrightarrow> \<not> p (last (rstrip_by p s))"
proof -
  assume a: "rstrip_by p s \<noteq> []"
  then have "dropWhile p (rev s) \<noteq> []" by (simp add: rstrip_by_def)
  then have "\<not> p (hd (dropWhile p (rev s)))" by (rule hd_dropWhile)
  with a show ?thesis by (simp add: rstrip_by_def last_rev)
qed

lemma rstrip_by_idle: "s = [] \<or> \<not> p (last s) \<Longrightarrow> rstrip_by p s = s"
  by (cases s rule: rev_cases) (auto simp: rstrip_by_def)

lemma rstrip_by_idem [simp]: "rstrip_by p (rstrip_by p s) = rstrip_by p s"
  by (metis rstrip_by_idle rstrip_by_last)

lemma lstrip_by_idle: "s = [] \<or> \<not> p (hd s) \<Longrightarrow> lstrip_by p s = s"
  by (cases s) (auto simp: lstrip_by_def)

lemma rstrip_by_prefix: "prefix (rstrip_by p s) s"
  by (metis dropWhile_eq_drop rev_rev_ident rstrip_by_def suffix_drop suffix_to_prefix)

lemma set_rstrip_by: "set (rstrip_by p s) \<subseteq> set s"
  using rstrip_by_prefix set_mono_prefix by metis

lemma set_lstrip_by: "set (lstrip_by p s) \<subseteq> set s"
  by (auto simp: lstrip_by_def dest: set_dropWhileD)

lemma strip_by_hd: "strip_by p s \<noteq> [] \<Longrightarrow> \<not> p (hd (strip_by p s))"
proof -
  assume ne: "strip_by p s \<noteq> []"
  then have "lstrip_by p s \<noteq> []"
    by (auto simp: strip_by_def rstrip_by_def)
  then have h: "\<not> p (hd (lstrip_by p s))"
    by (auto simp: lstrip_by_def hd_dropWhile)
  from ne obtain zs where "lstrip_by p s = strip_by p s @ zs"
    using rstrip_by_prefix unfolding strip_by_def prefix_def by metis
  with ne h show ?thesis by (metis hd_append2)
qed

lemma strip_by_last: "strip_by p s \<noteq> [] \<Longrightarrow> \<not> p (last (strip_by p s))"
  by (simp add: strip_by_def rstrip_by_last)

lemma strip_by_idle: "s = [] \<or> (\<not> p (hd s) \<and> \<not> p (last s)) \<Longrightarrow> strip_by p s = s"
  by (auto simp: strip_by_def lstrip_by_idle rstrip_by_idle)

lemma strip_by_idem [simp]: "strip_by p (strip_by p s) = strip_by p s"
  by (metis strip_by_hd strip_by_last strip_by_idle)

lemma set_strip_by: "set (strip_by p s) \<subseteq> set s"
  using set_rstrip_by set_lstrip_by by (metis strip_by_def subset_trans)

lemma strip_idem [simp]: "strip (strip s) = strip s"
  by (simp add: strip_def)

lemma code_less_256: "code c < 256"
  by (simp add: code_def)

lemma code_inject: "code c = code d \<longleftrightarrow> c = d"
  by (simp add: code_def)

lemma code_char_of: "n < 256 \<Longrightarrow> code (char_of n) = n"
  by (simp add: code_def)

lemma code_lower_char:
  "code (lower_char c) = (if is_upper c then code c + 32 else code c)"
  by (auto simp: lower_char_def is_upper_def Let_def code_char_of)

lemma not_upper_lower_char [simp]: "\<not> is_upper (lower_char c)"
proof -
  have "code (lower_char c) = (if is_upper c then code c + 32 else code c)"
    by (rule code_lower_char)
  then show ?thesis by (auto simp: is_upper_def Let_def split: if_splits)
qed

lemma lower_char_idem [simp]: "lower_char (lower_char c) = lower_char c"
  by (simp add: lower_char_def [of "lower_char c"])

lemma lower_idem [simp]: "lower (lower s) = lower s"
  by (simp add: lower_def)

lemma lower_append: "lower (s @ t) = lower s @ lower t"
  by (simp add: lower_def)

lemma length_lower [simp]: "length (lower s) = length s"
  by (simp add: lower_def)

lemma lower_Nil_iff [simp]: "lower s = [] \<longleftrightarrow> s = []"
  by (simp add: lower_def)

lemma is_space_lower_char [simp]: "is_space (lower_char c) = is_space c"
proof -
  have "code (lower_char c) = (if is_upper c then code c + 32 else code c)"
    by (rule code_lower_char)
  then show ?thesis
    by (auto simp: is_space_def is_upper_def Let_def split: if_splits)
qed

end
