(* ===== verification/Policy.thy ===== *)
theory Policy
  imports Prelude
begin

text \<open>
  core/policy.py: the pure desk-policy validation. The data model (capability kinds, the
  delegatable parent policy, the requested child scope, verdicts), canonicalisation of
  domains and mounts, the spawn validator, and the three matchers of a lease request against
  the scopes granted to a desk (storage, provision actions, network reach).

  A \<^verbatim>\<open>frozenset\<close> is the list of its elements in iteration order; what the results depend
  on is its \<^const>\<open>set\<close>, and the order only where the code raises on the first bad element.
\<close>

section \<open>Data\<close>

datatype CapabilityKind =
    SPAWN_CHILDREN
  | REQUEST_SECRET_LEASES
  | REQUEST_STORAGE_LEASES
  | REQUEST_PROVISION_LEASES
  | REQUEST_NETWORK_REACH

fun kind_value :: "CapabilityKind \<Rightarrow> string" where
  "kind_value SPAWN_CHILDREN = ''spawn_children''"
| "kind_value REQUEST_SECRET_LEASES = ''request_secret_leases''"
| "kind_value REQUEST_STORAGE_LEASES = ''request_storage_leases''"
| "kind_value REQUEST_PROVISION_LEASES = ''request_provision_leases''"
| "kind_value REQUEST_NETWORK_REACH = ''request_network_reach''"

text \<open>\<^verbatim>\<open>CapabilityKind(value)\<close>: \<^const>\<open>None\<close> is the \<^verbatim>\<open>ValueError\<close>.\<close>

definition kind_of_value :: "string \<Rightarrow> CapabilityKind option" where
  "kind_of_value v = find (\<lambda>k. kind_value k = v)
     [SPAWN_CHILDREN, REQUEST_SECRET_LEASES, REQUEST_STORAGE_LEASES,
      REQUEST_PROVISION_LEASES, REQUEST_NETWORK_REACH]"

type_synonym MountTuple = "string \<times> string \<times> string"

datatype policy_error =
    InvalidDomainFormat string
  | InvalidMountFormat string
  | InvalidMountTuple MountTuple
  | InvalidStorageScopeFormat string

record DeskPolicy =
  pol_firewall_domains :: "string list"
  pol_secrets :: "string list"
  pol_capabilities :: "CapabilityKind list"
  pol_extra_mounts :: "MountTuple list"
  pol_storage_scopes :: "string list"
  pol_provision_scopes :: "string list"
  pol_network_reach :: "string list"
  pol_network_ports :: "int list"

record DeskSpec =
  spec_firewall_domains :: "string list"
  spec_secrets :: "string list"
  spec_capabilities :: "CapabilityKind list"
  spec_extra_mounts :: "MountTuple list"

datatype reject_value =
    VPolicy DeskPolicy
  | VSpec DeskSpec
  | VError policy_error
  | VStrs "string list"
  | VStr string
  | VKinds "CapabilityKind list"
  | VKind CapabilityKind
  | VMounts "MountTuple list"
  | VMount MountTuple

datatype verdict =
    Allow
  | Reject (rule: string) (parent_value: reject_value) (requested_value: reject_value)
      (offending_item: reject_value) (fix_hint: string)

section \<open>Canonicalisation\<close>

text \<open>
  \<^verbatim>\<open>value.encode("idna")\<close> on an ASCII string succeeds exactly when every label is
  shorter than 64 characters, and returns it unchanged.
\<close>

definition canonicalize_domain :: "string \<Rightarrow> policy_error + string" where
  "canonicalize_domain raw =
    (let bad = Inl (InvalidDomainFormat raw); value = strip raw in
     if value = [] then bad
     else if CHR ''*'' \<in> set value then bad
     else if CHR '':'' \<in> set value then bad
     else if \<not> is_ascii value then bad
     else
       let value = lower (rstrip_by (\<lambda>c. c = CHR ''.'') value) in
       if value = [] then bad
       else
         let labels = split_on (CHR ''.'') value in
         if list_ex (\<lambda>label. label = []) labels then bad
         else if list_ex (\<lambda>label. 64 \<le> length label) labels then bad
         else Inr (lower value))"

text \<open>\<^verbatim>\<open>os.path.normpath\<close>, \<^verbatim>\<open>os.path.isabs\<close> (POSIX).\<close>

fun norm_comps :: "bool \<Rightarrow> string list \<Rightarrow> string list \<Rightarrow> string list" where
  "norm_comps absolute new_comps [] = rev new_comps"
| "norm_comps absolute new_comps (part # comps) =
     (if part = [] \<or> part = ''.'' then norm_comps absolute new_comps comps
      else if part \<noteq> ''..'' \<or> (\<not> absolute \<and> new_comps = [])
              \<or> (new_comps \<noteq> [] \<and> hd new_comps = ''..'')
        then norm_comps absolute (part # new_comps) comps
      else norm_comps absolute (tl new_comps) comps)"

definition initial_slashes :: "string \<Rightarrow> nat" where
  "initial_slashes path =
     (if prefix ''/'' path
      then (if prefix ''//'' path \<and> \<not> prefix ''///'' path then 2 else 1)
      else 0)"

definition normpath :: "string \<Rightarrow> string" where
  "normpath path =
     (if path = [] then ''.''
      else
        let k = initial_slashes path;
            comps = norm_comps (k \<noteq> 0) [] (split_on (CHR ''/'') path);
            out = replicate k (CHR ''/'') @ join ''/'' comps
        in if out = [] then ''.'' else out)"

definition isabs :: "string \<Rightarrow> bool" where
  "isabs path = prefix ''/'' path"

definition has_parent_reference :: "string \<Rightarrow> bool" where
  "has_parent_reference path = list_ex (\<lambda>segment. segment = ''..'') (split_on (CHR ''/'') path)"

text \<open>
  \<^verbatim>\<open>_canonicalize_mount_tuple(value, raw)\<close>; the error names the raw string when there is
  one and the tuple otherwise.
\<close>

definition mount_error :: "MountTuple \<Rightarrow> string option \<Rightarrow> policy_error" where
  "mount_error v raw = (case raw of Some r \<Rightarrow> InvalidMountFormat r | None \<Rightarrow> InvalidMountTuple v)"

definition canonicalize_mount_tuple ::
    "MountTuple \<Rightarrow> string option \<Rightarrow> policy_error + MountTuple" where
  "canonicalize_mount_tuple v raw =
    (let bad = Inl (mount_error v raw); (source, target, mode) = v in
     if source = [] \<or> target = [] \<or> mode = [] then bad
     else
       let normalized_source = normpath source;
           normalized_target = normpath target;
           normalized_mode = lower (strip mode) in
       if normalized_mode \<noteq> ''bind'' \<and> normalized_mode \<noteq> ''volume'' then bad
       else if \<not> isabs normalized_target then bad
       else if has_parent_reference normalized_source \<or> has_parent_reference normalized_target
         then bad
       else Inr (normalized_source, normalized_target, normalized_mode))"

fun mount_fields ::
    "string \<Rightarrow> string list \<Rightarrow> (string \<times> string) list \<Rightarrow> policy_error + (string \<times> string) list" where
  "mount_fields raw [] flds = Inr flds"
| "mount_fields raw (item # items) flds =
    (let part = strip item in
     if part = [] \<or> CHR ''='' \<notin> set part then Inl (InvalidMountFormat raw)
     else
       let (key, value) = split_once (CHR ''='') part;
           key = strip key; value = strip value in
       if key = [] \<or> value = [] \<or> key \<in> set (map fst flds)
         then Inl (InvalidMountFormat raw)
       else mount_fields raw items (flds @ [(key, value)]))"

definition canonicalize_mount :: "string \<Rightarrow> policy_error + MountTuple" where
  "canonicalize_mount raw =
    (case mount_fields raw (split_on (CHR '','') raw) [] of
       Inl e \<Rightarrow> Inl e
     | Inr flds \<Rightarrow>
         (case (map_of flds ''source'', map_of flds ''target'', map_of flds ''type'') of
            (Some source, Some target, Some mode) \<Rightarrow>
              if length flds = 3
              then canonicalize_mount_tuple (source, target, mode) (Some raw)
              else Inl (InvalidMountFormat raw)
          | _ \<Rightarrow> Inl (InvalidMountFormat raw)))"

text \<open>\<^verbatim>\<open>frozenset(f(v) for v in values)\<close>: the first element that raises ends it.\<close>

fun canon_seq :: "('a \<Rightarrow> 'e + 'b) \<Rightarrow> 'a list \<Rightarrow> 'e + 'b list" where
  "canon_seq f [] = Inr []"
| "canon_seq f (x # xs) =
     (case f x of Inl e \<Rightarrow> Inl e
      | Inr y \<Rightarrow> (case canon_seq f xs of Inl e \<Rightarrow> Inl e | Inr ys \<Rightarrow> Inr (y # ys)))"

definition canonicalize_domains :: "string list \<Rightarrow> policy_error + string list" where
  "canonicalize_domains values =
     (case canon_seq canonicalize_domain values of Inl e \<Rightarrow> Inl e | Inr ys \<Rightarrow> Inr (remdups ys))"

definition canonicalize_mounts :: "MountTuple list \<Rightarrow> policy_error + MountTuple list" where
  "canonicalize_mounts values =
     (case canon_seq (\<lambda>v. canonicalize_mount_tuple v None) values of
        Inl e \<Rightarrow> Inl e | Inr ys \<Rightarrow> Inr (remdups ys))"

section \<open>The spawn validator\<close>

definition set_minus :: "'a list \<Rightarrow> 'a list \<Rightarrow> 'a list" where
  "set_minus xs ys = filter (\<lambda>x. x \<notin> set ys) (remdups xs)"

definition canonical_inputs ::
    "DeskPolicy \<Rightarrow> DeskSpec
     \<Rightarrow> policy_error + (string list \<times> string list \<times> MountTuple list \<times> MountTuple list)" where
  "canonical_inputs parent child =
    (case canonicalize_domains (pol_firewall_domains parent) of Inl e \<Rightarrow> Inl e | Inr pd \<Rightarrow>
     (case canonicalize_domains (spec_firewall_domains child) of Inl e \<Rightarrow> Inl e | Inr cd \<Rightarrow>
     (case canonicalize_mounts (pol_extra_mounts parent) of Inl e \<Rightarrow> Inl e | Inr pm \<Rightarrow>
     (case canonicalize_mounts (spec_extra_mounts child) of Inl e \<Rightarrow> Inl e | Inr cm \<Rightarrow>
        Inr (pd, cd, pm, cm)))))"

definition validate_spawn :: "DeskPolicy \<Rightarrow> DeskSpec \<Rightarrow> verdict" where
  "validate_spawn parent requested_child =
    (case canonical_inputs parent requested_child of
       Inl e \<Rightarrow> Reject ''invalid_input_format'' (VPolicy parent) (VSpec requested_child) (VError e)
          ''Canonicalize firewall domains and mounts before calling validate_spawn.''
     | Inr (parent_domains, child_domains, parent_mounts, child_mounts) \<Rightarrow>
       (case sort (set_minus child_domains parent_domains) of
          d # _ \<Rightarrow> Reject ''firewall_narrowness'' (VStrs parent_domains) (VStrs child_domains) (VStr d)
             ''Request a subset of the parent's delegatable firewall domains.''
        | [] \<Rightarrow>
       (case sort (set_minus (spec_secrets requested_child) (pol_secrets parent)) of
          s # _ \<Rightarrow> Reject ''secret_narrowness'' (VStrs (pol_secrets parent))
             (VStrs (spec_secrets requested_child)) (VStr s)
             ''Request a subset of the parent's delegatable secrets.''
        | [] \<Rightarrow>
       (case sort_key kind_value
               (set_minus (spec_capabilities requested_child) (pol_capabilities parent)) of
          k # _ \<Rightarrow> Reject ''capability_narrowness'' (VKinds (pol_capabilities parent))
             (VKinds (spec_capabilities requested_child)) (VKind k)
             ''Request a subset of the parent's capabilities.''
        | [] \<Rightarrow>
       (case sort (set_minus child_mounts parent_mounts) of
          m # _ \<Rightarrow> Reject ''mount_narrowness'' (VMounts parent_mounts) (VMounts child_mounts) (VMount m)
             ''Request only mounts already present on the parent desk.''
        | [] \<Rightarrow> Allow)))))"

section \<open>Storage scopes\<close>

record storage_scope =
  sc_bucket :: string
  sc_prefix :: string
  sc_mode_max :: string

record storage_request =
  rq_bucket :: string
  rq_prefix :: string
  rq_mode :: string

definition strip_slashes :: "string \<Rightarrow> string" where
  "strip_slashes s = strip_by (\<lambda>c. c = CHR ''/'') s"

definition parse_storage_scope :: "string \<Rightarrow> policy_error + storage_scope" where
  "parse_storage_scope raw =
    (let bad = Inl (InvalidStorageScopeFormat raw); value = strip raw in
     if value = [] then bad
     else
       let (mode_max, value) =
             (if prefix ''rw:'' value then (''rw'', drop 3 value)
              else if prefix ''ro:'' value then (''ro'', drop 3 value)
              else (''ro'', value)) in
       if \<not> prefix ''s3://'' value then bad
       else
         let body = drop 5 value in
         if body = [] then bad
         else if \<not> suffix ''/*'' body \<and> body = ''*'' then bad
         else
           let body = (if suffix ''/*'' body then take (length body - 2) body else body);
               (bucket, pfx) = (if CHR ''/'' \<in> set body then split_once (CHR ''/'') body
                                else (body, []));
               bucket = strip bucket; pfx = strip_slashes pfx in
           if bucket = [] then bad
           else Inr \<lparr>sc_bucket = bucket, sc_prefix = pfx, sc_mode_max = mode_max\<rparr>)"

definition prefix_matches :: "string \<Rightarrow> string \<Rightarrow> bool" where
  "prefix_matches requested granted =
     (if granted = [] then True
      else if requested = granted then True
      else prefix (granted @ ''/'') requested)"

text \<open>One iteration of the loop over the granted scopes.\<close>

definition storage_scope_admits :: "storage_request \<Rightarrow> string \<Rightarrow> bool" where
  "storage_scope_admits requested raw =
    (case parse_storage_scope raw of
       Inl _ \<Rightarrow> False
     | Inr scope \<Rightarrow>
         if sc_bucket scope \<noteq> rq_bucket requested then False
         else if \<not> prefix_matches (strip_slashes (rq_prefix requested)) (sc_prefix scope) then False
         else if rq_mode requested = ''rw'' \<and> sc_mode_max scope \<noteq> ''rw'' then False
         else True)"

definition matches_storage_scope :: "storage_request \<Rightarrow> string list \<Rightarrow> bool" where
  "matches_storage_scope requested granted =
     (if granted = [] then True else list_ex (storage_scope_admits requested) granted)"

section \<open>Provision actions\<close>

text \<open>
  \<^verbatim>\<open>fnmatch.fnmatchcase\<close>. A bracket expression is a list of single characters and
  ranges; a range whose bounds are out of order matches nothing; an unclosed bracket is the
  character itself.
\<close>

datatype class_item = Single char | Range char char

fun class_items :: "string \<Rightarrow> class_item list" where
  "class_items [] = []"
| "class_items [a] = [Single a]"
| "class_items [a, b] = [Single a, Single b]"
| "class_items (a # b # c # s) =
     (if b = CHR ''-'' then Range a c # class_items s else Single a # class_items (b # c # s))"

fun item_has :: "char \<Rightarrow> class_item \<Rightarrow> bool" where
  "item_has x (Single a) = (x = a)"
| "item_has x (Range a b) = (code a \<le> code x \<and> code x \<le> code b)"

text \<open>The class after an opening bracket and the rest of the pattern, if it is closed.\<close>

definition parse_class :: "string \<Rightarrow> ((char \<Rightarrow> bool) \<times> string) option" where
  "parse_class p =
    (let neg = prefix ''!'' p;
         p1 = (if neg then tl p else p);
         lead = (if prefix '']'' p1 then '']'' else []);
         rest = drop (length lead) p1;
         body = takeWhile (\<lambda>c. c \<noteq> CHR '']'') rest in
     if CHR '']'' \<notin> set rest then None
     else Some ((\<lambda>x. neg \<noteq> list_ex (item_has x) (class_items (lead @ body))),
                tl (dropWhile (\<lambda>c. c \<noteq> CHR '']'') rest)))"

lemma parse_class_shorter: "parse_class p = Some (q, r) \<Longrightarrow> length r < length p"
proof -
  assume a: "parse_class p = Some (q, r)"
  define neg where "neg = prefix ''!'' p"
  define p1 where "p1 = (if neg then tl p else p)"
  define lead where "lead = (if prefix '']'' p1 then '']'' else [])"
  define rest where "rest = drop (length lead) p1"
  have r: "r = tl (dropWhile (\<lambda>c. c \<noteq> CHR '']'') rest)" and i: "CHR '']'' \<in> set rest"
    using a by (auto simp: parse_class_def Let_def neg_def p1_def lead_def rest_def split: if_splits)
  have "length (dropWhile (\<lambda>c. c \<noteq> CHR '']'') rest) \<le> length rest"
    by (rule length_dropWhile_le)
  moreover have "0 < length rest" using i by auto
  ultimately have "length r < length rest" unfolding r length_tl by linarith
  also have "length rest \<le> length p1" by (simp add: rest_def)
  also have "length p1 \<le> length p" by (simp add: p1_def)
  finally show ?thesis .
qed

function fnmatchcase :: "string \<Rightarrow> string \<Rightarrow> bool" where
  "fnmatchcase name [] = (name = [])"
| "fnmatchcase name (p # ps) =
     (if p = CHR ''*'' then
        fnmatchcase name ps \<or> (case name of [] \<Rightarrow> False | _ # ns \<Rightarrow> fnmatchcase ns (p # ps))
      else if p = CHR ''?'' then (case name of [] \<Rightarrow> False | _ # ns \<Rightarrow> fnmatchcase ns ps)
      else if p = CHR ''['' then
        (case parse_class ps of
           None \<Rightarrow> (case name of [] \<Rightarrow> False | n # ns \<Rightarrow> n = p \<and> fnmatchcase ns ps)
         | Some (q, rest) \<Rightarrow> (case name of [] \<Rightarrow> False | n # ns \<Rightarrow> q n \<and> fnmatchcase ns rest))
      else (case name of [] \<Rightarrow> False | n # ns \<Rightarrow> n = p \<and> fnmatchcase ns ps))"
  by pat_completeness auto
termination
  by (relation "measure (\<lambda>(name, pat). length name + length pat)")
    (auto dest: parse_class_shorter)

declare fnmatchcase.simps(2) [simp del]

definition iam_glob_match :: "string \<Rightarrow> string \<Rightarrow> bool" where
  "iam_glob_match action pattern =
     (if pattern = [] then False
      else if pattern = ''*'' \<or> pattern = action then True
      else fnmatchcase action pattern)"

definition matches_provision_actions :: "string list \<Rightarrow> string list \<Rightarrow> bool" where
  "matches_provision_actions requested granted =
     (if granted = [] then True
      else if requested = [] then True
      else list_all (\<lambda>action. action \<noteq> [] \<and> list_ex (iam_glob_match action) granted) requested)"

section \<open>Network reach\<close>

definition rstrip_dots :: "string \<Rightarrow> string" where
  "rstrip_dots s = rstrip_by (\<lambda>c. c = CHR ''.'') s"

text \<open>One iteration of the loop of \<^verbatim>\<open>_matches_any_domain_pattern\<close>.\<close>

definition domain_pattern_admits :: "string \<Rightarrow> string \<Rightarrow> bool" where
  "domain_pattern_admits domain raw =
    (if raw = [] then False
     else
       let pat = rstrip_dots (lower (strip raw)) in
       if pat = ''*'' then True
       else if pat = domain then True
       else if prefix ''*.'' pat \<and> 2 < length pat then
         let sfx = tl pat in
         if suffix sfx domain
         then (let head = take (length domain - length sfx) domain
               in head \<noteq> [] \<and> CHR ''.'' \<notin> set head)
         else False
       else False)"

definition matches_any_domain_pattern :: "string \<Rightarrow> string list \<Rightarrow> bool" where
  "matches_any_domain_pattern domain patterns = list_ex (domain_pattern_admits domain) patterns"

definition matches_network_reach ::
    "string \<Rightarrow> int \<Rightarrow> string list \<Rightarrow> int list \<Rightarrow> bool \<times> string option" where
  "matches_network_reach requested_domain requested_port granted_domains granted_ports =
    (if granted_domains = [] then (False, Some ''no_entitlement'')
     else
       let domain = rstrip_dots (lower (strip requested_domain)) in
       if \<not> matches_any_domain_pattern domain granted_domains
         then (False, Some ''domain_not_entitled'')
       else
         let effective_ports = (if granted_ports \<noteq> [] then granted_ports else [80, 443]) in
         if requested_port \<notin> set effective_ports then (False, Some ''port_not_entitled'')
         else (True, None))"

end
