(* ===== verification/Registry.thy ===== *)
theory Registry
  imports Prelude
begin

text \<open>
  core/registry.py, core/runtime.py and core/capability.py: the SQLite registry. Each table is
  the list of its rows, each row a record with the columns of the schema, and each method of
  \<^verbatim>\<open>Registry\<close> a function on the record of all tables. Columns that hold JSON text are held
  decoded (\<^verbatim>\<open>json.loads\<close> of \<^verbatim>\<open>json.dumps\<close>); a \<^verbatim>\<open>NULL\<close> is \<^const>\<open>None\<close>; the
  readings of the clock are arguments. A violated \<^verbatim>\<open>PRIMARY KEY\<close>, \<^verbatim>\<open>UNIQUE\<close> or
  \<^verbatim>\<open>CHECK\<close> constraint raises \<^verbatim>\<open>sqlite3.IntegrityError\<close> and leaves the tables alone.
\<close>

section \<open>Rows\<close>

record drydock_row =
  dd_id :: string
  dd_name :: string
  dd_project :: string
  dd_repo_path :: string
  dd_worktree_path :: string
  dd_branch :: string
  dd_base_ref :: string
  dd_state :: string
  dd_container_id :: string
  dd_workspace_subdir :: string
  dd_image :: string
  dd_owner :: string
  dd_created_at :: string
  dd_updated_at :: string
  dd_config :: dict
  parent_drydock_id :: "string option"
  delegatable_firewall_domains :: "string list"
  delegatable_secrets :: "string list"
  capabilities :: "string list"
  delegatable_storage_scopes :: "string list"
  delegatable_provision_scopes :: "string list"
  delegatable_network_reach :: "string list"
  network_reach_ports :: "int list"
  resources_hard :: dict
  pinned_yaml_sha256 :: string
  dd_yard_id :: "string option"
  original_resources_hard :: dict

record event_row =
  ev_id :: int
  ev_drydock_id :: string
  ev_event :: string
  ev_timestamp :: string
  ev_data :: dict

record token_row =
  tk_drydock_id :: string
  tk_sha256 :: string
  tk_issued_at :: string
  tk_rotated_at :: "string option"
  tk_scope :: string

datatype CapabilityType = SECRET | STORAGE_MOUNT | INFRA_PROVISION | COMPUTE_QUOTA | NETWORK_REACH

record CapabilityLease =
  lease_id :: string
  ls_drydock_id :: string
  ls_type :: CapabilityType
  ls_scope :: dict
  ls_issued_at :: string
  ls_expiry :: "string option"
  ls_issuer :: string
  ls_revoked :: bool
  ls_revocation_reason :: "string option"

record task_row =
  tl_request_id :: string
  tl_method :: string
  tl_spec :: json
  tl_status :: string
  tl_outcome :: "json option"
  tl_created_at :: string
  tl_completed_at :: "string option"

record deskwatch_row =
  dw_id :: int
  dw_drydock_id :: string
  dw_kind :: string
  dw_name :: string
  dw_timestamp :: string
  dw_status :: string
  dw_detail :: "string option"

record yard_row =
  yd_id :: string
  yd_name :: string
  yd_repo_path :: "string option"
  yd_config :: dict
  yd_created_at :: string
  yd_updated_at :: string

record amendment_row =
  am_id :: string
  am_proposed_by_type :: string
  am_proposed_by_id :: string
  am_proposed_at :: string
  am_yard_id :: "string option"
  am_drydock_id :: "string option"
  am_kind :: string
  am_request :: json
  am_reason :: "string option"
  am_tos_notes :: "string option"
  am_status :: string
  am_reviewed_by :: "string option"
  am_reviewed_at :: "string option"
  am_review_note :: "string option"
  am_applied_at :: "string option"
  am_expires_at :: "string option"

record workload_lease_row =
  wl_id :: string
  wl_drydock_id :: string
  wl_spec :: json
  wl_applied_actions :: "json list"
  wl_granted_at :: string
  wl_expires_at :: string
  wl_status :: string
  wl_revoked_at :: "string option"
  wl_revoke_results :: "json option"

record migration_row =
  mg_id :: string
  mg_drydock_id :: string
  mg_plan :: json
  mg_status :: string
  mg_current_stage :: "string option"
  mg_snapshot_path :: "string option"
  mg_created_at :: string
  mg_completed_at :: "string option"
  mg_error :: "json option"

record clarification_row =
  cl_id :: int
  cl_drydock_id :: string
  cl_kind :: string
  cl_summary :: string
  cl_evidence :: "string option"
  cl_created_at :: string
  cl_expires_at :: string

text \<open>The tables, and the \<^verbatim>\<open>AUTOINCREMENT\<close> counters.\<close>

record registry =
  drydocks :: "drydock_row list"
  events :: "event_row list"
  tokens :: "token_row list"
  leases :: "CapabilityLease list"
  task_log :: "task_row list"
  deskwatch_events :: "deskwatch_row list"
  deskwatch_seq :: int
  yards :: "yard_row list"
  amendments :: "amendment_row list"
  workload_leases :: "workload_lease_row list"
  migrations :: "migration_row list"
  clarifications :: "clarification_row list"
  clarification_seq :: int

definition empty_registry :: registry where
  "empty_registry = \<lparr>drydocks = [], events = [], tokens = [], leases = [], task_log = [],
     deskwatch_events = [], deskwatch_seq = 0, yards = [], amendments = [], workload_leases = [],
     migrations = [], clarifications = [], clarification_seq = 0\<rparr>"

abbreviation IntegrityError :: exn where
  "IntegrityError \<equiv> PyError ''IntegrityError'' ''''"

section \<open>Desk rows\<close>

text \<open>\<^verbatim>\<open>Drydock.__post_init__\<close>: the id of a desk comes from its name.\<close>

definition slug :: "string \<Rightarrow> string" where
  "slug name = replace_char (CHR '' '') (CHR ''_'') (replace_char (CHR ''-'') (CHR ''_'') name)"

definition dock_id_of_name :: "string \<Rightarrow> string" where
  "dock_id_of_name name = ''dock_'' @ slug name"

definition drydock_post_init :: "string \<Rightarrow> drydock_row \<Rightarrow> drydock_row" where
  "drydock_post_init now d =
    (let d = (if dd_id d = [] then d\<lparr>dd_id := dock_id_of_name (dd_name d)\<rparr> else d);
         d = (if dd_created_at d = [] then d\<lparr>dd_created_at := now\<rparr> else d)
     in if dd_updated_at d = [] then d\<lparr>dd_updated_at := now\<rparr> else d)"

definition get_drydock :: "registry \<Rightarrow> string \<Rightarrow> drydock_row option" where
  "get_drydock r name = find (\<lambda>d. dd_name d = name) (drydocks r)"

text \<open>\<^verbatim>\<open>SELECT * FROM drydocks WHERE id = ?\<close>, as the handlers query it.\<close>

definition drydock_by_id :: "registry \<Rightarrow> string \<Rightarrow> drydock_row option" where
  "drydock_by_id r i = find (\<lambda>d. dd_id d = i) (drydocks r)"

text \<open>No row of the event log is ever deleted, so the next \<^verbatim>\<open>AUTOINCREMENT\<close> number is the count plus one.\<close>

definition log_event :: "string \<Rightarrow> string \<Rightarrow> string \<Rightarrow> dict \<Rightarrow> registry \<Rightarrow> registry" where
  "log_event now drydock_id event data r =
     r\<lparr>events := events r @ [\<lparr>ev_id = int (length (events r)) + 1, ev_drydock_id = drydock_id, ev_event = event,
        ev_timestamp = now, ev_data = data\<rparr>]\<rparr>"

text \<open>The row the \<^verbatim>\<open>INSERT\<close> writes: the columns it does not list take their defaults.\<close>

definition inserted_row :: "drydock_row \<Rightarrow> drydock_row" where
  "inserted_row ws = ws\<lparr>parent_drydock_id := None, delegatable_firewall_domains := [],
     delegatable_secrets := [], capabilities := [], delegatable_storage_scopes := [],
     delegatable_provision_scopes := [], delegatable_network_reach := [],
     network_reach_ports := [], resources_hard := [], pinned_yaml_sha256 := [],
     dd_yard_id := None\<rparr>"

definition create_drydock ::
    "string \<Rightarrow> drydock_row \<Rightarrow> registry \<Rightarrow> (exn + drydock_row) \<times> registry" where
  "create_drydock now ws r =
    (case get_drydock r (dd_name ws) of
       Some existing \<Rightarrow>
         (Inl (WsError (''Drydock '' @ quoted (dd_name ws) @ '' already exists (state: '' @ dd_state existing @ '')'')
            (Some (''Use a different name, or destroy it first: ws destroy '' @ dd_name ws))), r)
     | None \<Rightarrow>
         if drydock_by_id r (dd_id ws) \<noteq> None then (Inl IntegrityError, r)
         else
           (Inr ws, log_event now (dd_id ws) ''drydock.created'' []
              (r\<lparr>drydocks := drydocks r @ [inserted_row ws]\<rparr>)))"

definition get_children :: "registry \<Rightarrow> string \<Rightarrow> drydock_row list" where
  "get_children r parent =
     sort_key dd_name (filter (\<lambda>d. parent_drydock_id d = Some parent) (drydocks r))"

definition list_drydocks :: "registry \<Rightarrow> string option \<Rightarrow> string option \<Rightarrow> drydock_row list" where
  "list_drydocks r project state =
     order_desc dd_updated_at
       (filter (\<lambda>d. (case project of Some p \<Rightarrow> p = [] \<or> dd_project d = p | None \<Rightarrow> True) \<and>
                    (case state of Some s \<Rightarrow> s = [] \<or> dd_state d = s | None \<Rightarrow> True)) (drydocks r))"

text \<open>
  \<^verbatim>\<open>update_drydock(name, **fields)\<close>: the keyword arguments are an update of the row; with
  none of them nothing is written.
\<close>

definition update_drydock ::
    "string \<Rightarrow> string \<Rightarrow> (drydock_row \<Rightarrow> drydock_row) option \<Rightarrow> registry
     \<Rightarrow> drydock_row option \<times> registry" where
  "update_drydock now name flds r =
    (case flds of
       None \<Rightarrow> (get_drydock r name, r)
     | Some f \<Rightarrow>
         let r' = r\<lparr>drydocks := update_where (\<lambda>d. dd_name d = name)
                    (\<lambda>d. (f d)\<lparr>dd_updated_at := now\<rparr>) (drydocks r)\<rparr>
         in (get_drydock r' name, r'))"

definition update_state ::
    "string \<Rightarrow> string \<Rightarrow> string \<Rightarrow> registry \<Rightarrow> drydock_row option \<times> registry" where
  "update_state now name state r =
    (let r' = r\<lparr>drydocks := update_where (\<lambda>d. dd_name d = name)
                (\<lambda>d. d\<lparr>dd_state := state, dd_updated_at := now\<rparr>) (drydocks r)\<rparr>
     in case get_drydock r' name of
          None \<Rightarrow> (None, r')
        | Some ws \<Rightarrow> (Some ws, log_event now (dd_id ws) (''drydock.'' @ state) [] r'))"

definition delete_drydock :: "string \<Rightarrow> string \<Rightarrow> registry \<Rightarrow> registry" where
  "delete_drydock now name r =
    (let r' = (case get_drydock r name of None \<Rightarrow> r
               | Some ws \<Rightarrow> log_event now (dd_id ws) ''drydock.destroyed'' [] r)
     in r'\<lparr>drydocks := delete_where (\<lambda>d. dd_name d = name) (drydocks r')\<rparr>)"

definition load_desk_policy :: "registry \<Rightarrow> string \<Rightarrow> drydock_row option" where
  "load_desk_policy r i = drydock_by_id r i"

record desk_delegations =
  dl_firewall_domains :: "string list option"
  dl_secrets :: "string list option"
  dl_capabilities :: "string list option"
  dl_storage_scopes :: "string list option"
  dl_provision_scopes :: "string list option"
  dl_network_reach :: "string list option"
  dl_network_ports :: "int list option"
  dl_resources_hard :: "dict option"

definition or_keep :: "'a option \<Rightarrow> 'a \<Rightarrow> 'a" where
  "or_keep v old = (case v of None \<Rightarrow> old | Some x \<Rightarrow> x)"

definition apply_delegations :: "desk_delegations \<Rightarrow> drydock_row \<Rightarrow> drydock_row" where
  "apply_delegations g d =
     d\<lparr>delegatable_firewall_domains := or_keep (dl_firewall_domains g) (delegatable_firewall_domains d),
       delegatable_secrets := or_keep (dl_secrets g) (delegatable_secrets d),
       capabilities := or_keep (dl_capabilities g) (capabilities d),
       delegatable_storage_scopes := or_keep (dl_storage_scopes g) (delegatable_storage_scopes d),
       delegatable_provision_scopes := or_keep (dl_provision_scopes g) (delegatable_provision_scopes d),
       delegatable_network_reach := or_keep (dl_network_reach g) (delegatable_network_reach d),
       network_reach_ports := or_keep (dl_network_ports g) (network_reach_ports d),
       resources_hard := or_keep (dl_resources_hard g) (resources_hard d)\<rparr>"

definition no_delegations :: desk_delegations where
  "no_delegations = \<lparr>dl_firewall_domains = None, dl_secrets = None, dl_capabilities = None,
     dl_storage_scopes = None, dl_provision_scopes = None, dl_network_reach = None,
     dl_network_ports = None, dl_resources_hard = None\<rparr>"

definition update_desk_delegations ::
    "string \<Rightarrow> string \<Rightarrow> desk_delegations \<Rightarrow> registry \<Rightarrow> registry" where
  "update_desk_delegations now name g r =
     (if g = no_delegations then r
      else snd (update_drydock now name (Some (apply_delegations g)) r))"

text \<open>\<^verbatim>\<open>get_drydock_extra_mounts\<close>.\<close>

definition get_drydock_extra_mounts :: "registry \<Rightarrow> string \<Rightarrow> string list" where
  "get_drydock_extra_mounts r name =
    (case get_drydock r name of
       None \<Rightarrow> []
     | Some d \<Rightarrow>
         (case as_list (dict_get (dd_config d) ''extra_mounts'') of
            None \<Rightarrow> []
          | Some vs \<Rightarrow> List.map_filter as_str vs))"

section \<open>Tokens\<close>

definition insert_token :: "string \<Rightarrow> string \<Rightarrow> string \<Rightarrow> registry \<Rightarrow> registry" where
  "insert_token drydock_id sha issued_at r =
     (if \<exists>t\<in>set (tokens r). tk_drydock_id t = drydock_id then r
      else r\<lparr>tokens := tokens r @ [\<lparr>tk_drydock_id = drydock_id, tk_sha256 = sha,
             tk_issued_at = issued_at, tk_rotated_at = None, tk_scope = ''dock''\<rparr>]\<rparr>)"

definition find_desk_by_token_hash :: "registry \<Rightarrow> string \<Rightarrow> string option" where
  "find_desk_by_token_hash r sha = map_option tk_drydock_id (find (\<lambda>t. tk_sha256 t = sha) (tokens r))"

definition find_token_record_by_hash :: "registry \<Rightarrow> string \<Rightarrow> (string \<times> string) option" where
  "find_token_record_by_hash r sha =
     map_option (\<lambda>t. (tk_drydock_id t, tk_scope t)) (find (\<lambda>t. tk_sha256 t = sha) (tokens r))"

definition designate_auditor :: "string \<Rightarrow> registry \<Rightarrow> (exn + bool) \<times> registry" where
  "designate_auditor drydock_id r =
    (case find (\<lambda>t. tk_scope t = ''auditor'' \<and> tk_drydock_id t \<noteq> drydock_id) (tokens r) of
       Some t \<Rightarrow>
         (Inl (PyError ''ValueError'' (''another drydock ('' @ tk_drydock_id t @
            '') already has the auditor scope on this Harbor; revoke it first'')), r)
     | None \<Rightarrow>
         let hit = (\<lambda>t. tk_drydock_id t = drydock_id \<and> tk_scope t \<noteq> ''auditor'')
         in (Inr (0 < row_count hit (tokens r)),
             r\<lparr>tokens := update_where hit (\<lambda>t. t\<lparr>tk_scope := ''auditor''\<rparr>) (tokens r)\<rparr>))"

definition revoke_auditor_scope :: "string \<Rightarrow> registry \<Rightarrow> bool \<times> registry" where
  "revoke_auditor_scope drydock_id r =
    (let hit = (\<lambda>t. tk_drydock_id t = drydock_id \<and> tk_scope t = ''auditor'')
     in (0 < row_count hit (tokens r),
         r\<lparr>tokens := update_where hit (\<lambda>t. t\<lparr>tk_scope := ''dock''\<rparr>) (tokens r)\<rparr>))"

definition get_auditor_drydock_id :: "registry \<Rightarrow> string option" where
  "get_auditor_drydock_id r = map_option tk_drydock_id (find (\<lambda>t. tk_scope t = ''auditor'') (tokens r))"

definition get_token_info :: "registry \<Rightarrow> string \<Rightarrow> token_row option" where
  "get_token_info r drydock_id = find (\<lambda>t. tk_drydock_id t = drydock_id) (tokens r)"

definition delete_token :: "string \<Rightarrow> registry \<Rightarrow> registry" where
  "delete_token drydock_id r =
     r\<lparr>tokens := delete_where (\<lambda>t. tk_drydock_id t = drydock_id) (tokens r)\<rparr>"

section \<open>Clarifications\<close>

definition insert_clarification ::
    "string \<Rightarrow> string \<Rightarrow> string \<Rightarrow> string option \<Rightarrow> string \<Rightarrow> string \<Rightarrow> registry \<Rightarrow> int \<times> registry" where
  "insert_clarification drydock_id kind summary evidence created expires r =
    (let i = clarification_seq r + 1
     in (i, r\<lparr>clarifications := clarifications r @ [\<lparr>cl_id = i, cl_drydock_id = drydock_id,
              cl_kind = kind, cl_summary = summary, cl_evidence = evidence,
              cl_created_at = created, cl_expires_at = expires\<rparr>], clarification_seq := i\<rparr>))"

definition list_active_clarifications :: "registry \<Rightarrow> string \<Rightarrow> nat \<Rightarrow> clarification_row list" where
  "list_active_clarifications r now limit =
     take limit (order_desc cl_id (filter (\<lambda>c. now < cl_expires_at c) (clarifications r)))"

definition expire_clarifications :: "string \<Rightarrow> registry \<Rightarrow> nat \<times> registry" where
  "expire_clarifications now r =
    (let hit = (\<lambda>c. cl_expires_at c \<le> now)
     in (row_count hit (clarifications r),
         r\<lparr>clarifications := delete_where hit (clarifications r)\<rparr>))"

section \<open>Task log\<close>

text \<open>
  \<^verbatim>\<open>evict_old_task_log\<close>: \<open>cutoff\<close> is the ISO form of the time the caller subtracts the
  retention from.
\<close>

definition evictable :: "string \<Rightarrow> task_row \<Rightarrow> bool" where
  "evictable cutoff t =
     ((tl_status t = ''completed'' \<or> tl_status t = ''failed'') \<and>
      (case tl_completed_at t of None \<Rightarrow> False | Some c \<Rightarrow> c < cutoff))"

definition evict_old_task_log :: "string \<Rightarrow> registry \<Rightarrow> nat \<times> registry" where
  "evict_old_task_log cutoff r =
     (row_count (evictable cutoff) (task_log r),
      r\<lparr>task_log := delete_where (evictable cutoff) (task_log r)\<rparr>)"

text \<open>
  The statements daemon/rpc_common.py runs on the task log. The status it closes a row with is
  always one of the last two.
\<close>

definition task_statuses :: "string list" where
  "task_statuses = [''in_progress'', ''completed'', ''failed'']"

definition get_task :: "registry \<Rightarrow> string \<Rightarrow> task_row option" where
  "get_task r k = find (\<lambda>t. tl_request_id t = k) (task_log r)"

definition insert_task :: "task_row \<Rightarrow> registry \<Rightarrow> exn + registry" where
  "insert_task t r =
     (if get_task r (tl_request_id t) \<noteq> None \<or> tl_status t \<notin> set task_statuses then Inl IntegrityError
      else Inr (r\<lparr>task_log := task_log r @ [t]\<rparr>))"

definition finish_task_log :: "string \<Rightarrow> string \<Rightarrow> string \<Rightarrow> json \<Rightarrow> registry \<Rightarrow> registry" where
  "finish_task_log now request_id status outcome r =
     r\<lparr>task_log := update_where (\<lambda>t. tl_request_id t = request_id)
        (\<lambda>t. t\<lparr>tl_status := status, tl_outcome := Some outcome, tl_completed_at := Some now\<rparr>)
        (task_log r)\<rparr>"

section \<open>Capability leases\<close>

definition get_lease :: "registry \<Rightarrow> string \<Rightarrow> CapabilityLease option" where
  "get_lease r i = find (\<lambda>l. lease_id l = i) (leases r)"

definition insert_lease :: "CapabilityLease \<Rightarrow> registry \<Rightarrow> exn + registry" where
  "insert_lease l r =
     (if get_lease r (lease_id l) \<noteq> None then Inl IntegrityError
      else Inr (r\<lparr>leases := leases r @ [l]\<rparr>))"

definition revoke_lease :: "string \<Rightarrow> string \<Rightarrow> registry \<Rightarrow> bool \<times> registry" where
  "revoke_lease i reason r =
    (let hit = (\<lambda>l. lease_id l = i \<and> \<not> ls_revoked l)
     in (0 < row_count hit (leases r),
         r\<lparr>leases := update_where hit
              (\<lambda>l. l\<lparr>ls_revoked := True, ls_revocation_reason := Some reason\<rparr>) (leases r)\<rparr>))"

definition revoke_leases_for_desk :: "string \<Rightarrow> string \<Rightarrow> registry \<Rightarrow> nat \<times> registry" where
  "revoke_leases_for_desk d reason r =
    (let hit = (\<lambda>l. ls_drydock_id l = d \<and> \<not> ls_revoked l)
     in (row_count hit (leases r),
         r\<lparr>leases := update_where hit
              (\<lambda>l. l\<lparr>ls_revoked := True, ls_revocation_reason := Some reason\<rparr>) (leases r)\<rparr>))"

definition list_active_leases_for_desk :: "registry \<Rightarrow> string \<Rightarrow> CapabilityLease list" where
  "list_active_leases_for_desk r d =
     sort_key ls_issued_at (filter (\<lambda>l. ls_drydock_id l = d \<and> \<not> ls_revoked l) (leases r))"

definition find_active_secret_lease :: "registry \<Rightarrow> string \<Rightarrow> string \<Rightarrow> CapabilityLease option" where
  "find_active_secret_lease r d secret_name =
     find (\<lambda>l. ls_type l = SECRET \<and> dict_get (ls_scope l) ''secret_name'' = JStr secret_name)
       (list_active_leases_for_desk r d)"

definition find_active_storage_lease :: "registry \<Rightarrow> string \<Rightarrow> CapabilityLease option" where
  "find_active_storage_lease r d =
     find (\<lambda>l. ls_type l = STORAGE_MOUNT) (list_active_leases_for_desk r d)"

definition is_aws_type :: "CapabilityType \<Rightarrow> bool" where
  "is_aws_type t = (t = STORAGE_MOUNT \<or> t = INFRA_PROVISION)"

definition find_active_aws_lease :: "registry \<Rightarrow> string \<Rightarrow> CapabilityLease option" where
  "find_active_aws_lease r d = find (\<lambda>l. is_aws_type (ls_type l)) (list_active_leases_for_desk r d)"

section \<open>Workload leases\<close>

definition workload_statuses :: "string list" where
  "workload_statuses = [''active'', ''released'', ''expired'', ''partial-revoked'']"

definition get_workload_lease :: "registry \<Rightarrow> string \<Rightarrow> workload_lease_row option" where
  "get_workload_lease r i = find (\<lambda>l. wl_id l = i) (workload_leases r)"

definition insert_workload_lease :: "workload_lease_row \<Rightarrow> registry \<Rightarrow> exn + registry" where
  "insert_workload_lease l r =
     (if get_workload_lease r (wl_id l) \<noteq> None \<or> wl_status l \<notin> set workload_statuses
      then Inl IntegrityError
      else Inr (r\<lparr>workload_leases := workload_leases r @
                   [l\<lparr>wl_revoked_at := None, wl_revoke_results := None\<rparr>]\<rparr>))"

definition list_active_workload_leases :: "registry \<Rightarrow> string option \<Rightarrow> workload_lease_row list" where
  "list_active_workload_leases r d =
     sort_key wl_expires_at
       (filter (\<lambda>l. wl_status l = ''active'' \<and>
                    (case d of None \<Rightarrow> True | Some i \<Rightarrow> wl_drydock_id l = i)) (workload_leases r))"

definition mark_workload_lease_revoked ::
    "string \<Rightarrow> string \<Rightarrow> json \<Rightarrow> string \<Rightarrow> registry \<Rightarrow> exn + registry" where
  "mark_workload_lease_revoked now i results terminal_status r =
     (if terminal_status \<notin> set workload_statuses \<and> get_workload_lease r i \<noteq> None
      then Inl IntegrityError
      else Inr (r\<lparr>workload_leases := update_where (\<lambda>l. wl_id l = i)
             (\<lambda>l. l\<lparr>wl_status := terminal_status, wl_revoked_at := Some now,
                    wl_revoke_results := Some results\<rparr>) (workload_leases r)\<rparr>))"

section \<open>Migrations\<close>

definition migration_statuses :: "string list" where
  "migration_statuses = [''planned'', ''in_progress'', ''completed'', ''rolled_back'', ''failed'']"

definition get_migration :: "registry \<Rightarrow> string \<Rightarrow> migration_row option" where
  "get_migration r i = find (\<lambda>m. mg_id m = i) (migrations r)"

definition insert_migration ::
    "string \<Rightarrow> string \<Rightarrow> string \<Rightarrow> json \<Rightarrow> string \<Rightarrow> registry \<Rightarrow> exn + registry" where
  "insert_migration now i drydock_id plan status r =
     (if get_migration r i \<noteq> None \<or> status \<notin> set migration_statuses then Inl IntegrityError
      else Inr (r\<lparr>migrations := migrations r @ [\<lparr>mg_id = i, mg_drydock_id = drydock_id,
             mg_plan = plan, mg_status = status, mg_current_stage = None, mg_snapshot_path = None,
             mg_created_at = now, mg_completed_at = None, mg_error = None\<rparr>]\<rparr>))"

record migration_update =
  mu_status :: "string option"
  mu_current_stage :: "string option"
  mu_snapshot_path :: "string option"
  mu_error :: "json option"
  mu_completed_at :: "string option"

definition keep_some :: "'a option \<Rightarrow> 'a option \<Rightarrow> 'a option" where
  "keep_some v old = (case v of None \<Rightarrow> old | Some x \<Rightarrow> Some x)"

definition update_migration :: "string \<Rightarrow> migration_update \<Rightarrow> registry \<Rightarrow> exn + registry" where
  "update_migration i u r =
    (if (case mu_status u of Some s \<Rightarrow> s \<notin> set migration_statuses | None \<Rightarrow> False)
        \<and> get_migration r i \<noteq> None
     then Inl IntegrityError
     else Inr (r\<lparr>migrations := update_where (\<lambda>m. mg_id m = i)
            (\<lambda>m. m\<lparr>mg_status := or_keep (mu_status u) (mg_status m),
                   mg_current_stage := keep_some (mu_current_stage u) (mg_current_stage m),
                   mg_snapshot_path := keep_some (mu_snapshot_path u) (mg_snapshot_path m),
                   mg_error := keep_some (mu_error u) (mg_error m),
                   mg_completed_at := keep_some (mu_completed_at u) (mg_completed_at m)\<rparr>)
            (migrations r)\<rparr>))"

definition list_active_migrations :: "registry \<Rightarrow> string option \<Rightarrow> migration_row list" where
  "list_active_migrations r d =
     order_desc mg_created_at
       (filter (\<lambda>m. mg_status m = ''in_progress'' \<and>
                    (case d of None \<Rightarrow> True | Some i \<Rightarrow> mg_drydock_id m = i)) (migrations r))"

section \<open>Deskwatch events\<close>

definition record_deskwatch_event ::
    "string \<Rightarrow> string \<Rightarrow> string \<Rightarrow> string \<Rightarrow> string option \<Rightarrow> string \<Rightarrow> registry \<Rightarrow> int \<times> registry" where
  "record_deskwatch_event drydock_id kind name status detail ts r =
    (let i = deskwatch_seq r + 1
     in (i, r\<lparr>deskwatch_events := deskwatch_events r @ [\<lparr>dw_id = i, dw_drydock_id = drydock_id,
              dw_kind = kind, dw_name = name, dw_timestamp = ts, dw_status = status,
              dw_detail = detail\<rparr>], deskwatch_seq := i\<rparr>))"

definition last_deskwatch_event :: "registry \<Rightarrow> string \<Rightarrow> string \<Rightarrow> string \<Rightarrow> deskwatch_row option" where
  "last_deskwatch_event r d kind name =
    (case order_desc dw_timestamp
            (filter (\<lambda>e. dw_drydock_id e = d \<and> dw_kind e = kind \<and> dw_name e = name) (deskwatch_events r)) of
       [] \<Rightarrow> None | e # _ \<Rightarrow> Some e)"

definition list_deskwatch_events :: "registry \<Rightarrow> string \<Rightarrow> nat \<Rightarrow> deskwatch_row list" where
  "list_deskwatch_events r d limit =
     take limit (order_desc dw_timestamp (filter (\<lambda>e. dw_drydock_id e = d) (deskwatch_events r)))"

section \<open>Yards\<close>

definition get_yard :: "registry \<Rightarrow> string \<Rightarrow> yard_row option" where
  "get_yard r name = find (\<lambda>y. yd_name y = name) (yards r)"

definition get_yard_by_id :: "registry \<Rightarrow> string \<Rightarrow> yard_row option" where
  "get_yard_by_id r i = find (\<lambda>y. yd_id y = i) (yards r)"

definition create_yard ::
    "string \<Rightarrow> string \<Rightarrow> string option \<Rightarrow> dict \<Rightarrow> registry \<Rightarrow> (exn + yard_row) \<times> registry" where
  "create_yard now name repo_path config r =
    (if get_yard r name \<noteq> None then
       (Inl (WsError (''Yard '' @ quoted name @ '' already exists'')
          (Some (''Use a different name, or destroy it first: ws yard destroy '' @ name))), r)
     else
       let y = \<lparr>yd_id = ''yd_'' @ slug name, yd_name = name, yd_repo_path = repo_path,
                yd_config = config, yd_created_at = now, yd_updated_at = now\<rparr>
       in if get_yard_by_id r (yd_id y) \<noteq> None then (Inl IntegrityError, r)
          else (Inr y, r\<lparr>yards := yards r @ [y]\<rparr>))"

definition list_yards :: "registry \<Rightarrow> yard_row list" where
  "list_yards r = sort_key yd_created_at (yards r)"

definition list_yard_members :: "registry \<Rightarrow> string \<Rightarrow> drydock_row list" where
  "list_yard_members r i = sort_key dd_name (filter (\<lambda>d. dd_yard_id d = Some i) (drydocks r))"

definition destroy_yard :: "string \<Rightarrow> bool \<Rightarrow> registry \<Rightarrow> (exn + nat) \<times> registry" where
  "destroy_yard name with_members r =
    (case get_yard r name of
       None \<Rightarrow> (Inl (WsError (''Yard '' @ quoted name @ '' not found'') (Some ''Check `ws yard list`'')), r)
     | Some yard \<Rightarrow>
         let members = list_yard_members r (yd_id yard) in
         if members \<noteq> [] \<and> \<not> with_members then
           (Inl (WsError (''Yard '' @ quoted name @ '' has '' @ show_nat (length members) @
               '' member drydock(s); refusing to destroy'')
             (Some ''Re-run with --with-members to detach them, or remove members first'')), r)
         else
           (Inr (length members),
            r\<lparr>drydocks := fold (\<lambda>m. update_where (\<lambda>d. dd_id d = dd_id m)
                (\<lambda>d. d\<lparr>dd_yard_id := None\<rparr>)) members (drydocks r),
              yards := delete_where (\<lambda>y. yd_id y = yd_id yard) (yards r)\<rparr>))"

section \<open>Amendments\<close>

definition amendment_statuses :: "string list" where
  "amendment_statuses = [''pending'', ''auto_approved'', ''escalated'', ''approved'', ''denied'',
     ''applied'', ''expired'']"

definition get_amendment :: "registry \<Rightarrow> string \<Rightarrow> amendment_row option" where
  "get_amendment r i = find (\<lambda>a. am_id a = i) (amendments r)"

text \<open>\<open>uuid_hex\<close> is the reading of \<^verbatim>\<open>uuid.uuid4().hex\<close>.\<close>

definition create_amendment ::
    "string \<Rightarrow> string \<Rightarrow> string \<Rightarrow> json \<Rightarrow> string \<Rightarrow> string \<Rightarrow> string option \<Rightarrow> string option
     \<Rightarrow> string option \<Rightarrow> string option \<Rightarrow> string option \<Rightarrow> string \<Rightarrow> registry
     \<Rightarrow> (exn + amendment_row) \<times> registry" where
  "create_amendment now uuid_hex kind request by_type by_id drydock_id yard_id reason tos_notes
     expires_at status r =
    (let a = \<lparr>am_id = ''am_'' @ take 8 uuid_hex, am_proposed_by_type = by_type,
              am_proposed_by_id = by_id, am_proposed_at = now, am_yard_id = yard_id,
              am_drydock_id = drydock_id, am_kind = kind, am_request = request, am_reason = reason,
              am_tos_notes = tos_notes, am_status = status, am_reviewed_by = None,
              am_reviewed_at = None, am_review_note = None, am_applied_at = None,
              am_expires_at = expires_at\<rparr>
     in if get_amendment r (am_id a) \<noteq> None \<or> status \<notin> set amendment_statuses
           \<or> (by_type \<noteq> ''principal'' \<and> by_type \<noteq> ''dockworker'')
        then (Inl IntegrityError, r)
        else (Inr a, r\<lparr>amendments := amendments r @ [a]\<rparr>))"

definition list_amendments ::
    "registry \<Rightarrow> string option \<Rightarrow> string option \<Rightarrow> nat \<Rightarrow> amendment_row list" where
  "list_amendments r status drydock_id limit =
     take limit (order_desc am_proposed_at
       (filter (\<lambda>a. (case status of Some s \<Rightarrow> s = [] \<or> am_status a = s | None \<Rightarrow> True) \<and>
                    (case drydock_id of Some d \<Rightarrow> d = [] \<or> am_drydock_id a = Some d | None \<Rightarrow> True))
          (amendments r)))"

definition update_amendment_status ::
    "string \<Rightarrow> string \<Rightarrow> string \<Rightarrow> string option \<Rightarrow> string option \<Rightarrow> string option \<Rightarrow> registry
     \<Rightarrow> (exn + amendment_row) \<times> registry" where
  "update_amendment_status now i status reviewed_by review_note applied_at r =
    (case get_amendment r i of
       None \<Rightarrow> (Inl (WsError (''Amendment '' @ i @ '' not found'')
                  (Some ''Check `ws amendment list` for valid IDs'')), r)
     | Some existing \<Rightarrow>
         if status \<notin> set amendment_statuses then (Inl IntegrityError, r)
         else
           let reviewed_at =
                 (if (case reviewed_by of Some b \<Rightarrow> b \<noteq> [] | None \<Rightarrow> False) \<and>
                     (case am_reviewed_at existing of Some t \<Rightarrow> t = [] | None \<Rightarrow> True)
                  then Some now else am_reviewed_at existing);
               upd = (\<lambda>a. a\<lparr>am_status := status,
                 am_reviewed_by := keep_some reviewed_by (am_reviewed_by a),
                 am_reviewed_at := keep_some reviewed_at (am_reviewed_at a),
                 am_review_note := keep_some review_note (am_review_note a),
                 am_applied_at := keep_some applied_at (am_applied_at a)\<rparr>)
           in (Inr (upd existing),
               r\<lparr>amendments := update_where (\<lambda>a. am_id a = i) upd (amendments r)\<rparr>))"

definition amendment_due :: "string \<Rightarrow> amendment_row \<Rightarrow> bool" where
  "amendment_due cutoff a =
     ((am_status a = ''pending'' \<or> am_status a = ''escalated'') \<and>
      (case am_expires_at a of None \<Rightarrow> False | Some e \<Rightarrow> e < cutoff))"

definition expire_old_pending_amendments :: "string \<Rightarrow> registry \<Rightarrow> nat \<times> registry" where
  "expire_old_pending_amendments cutoff r =
     (row_count (amendment_due cutoff) (amendments r),
      r\<lparr>amendments := update_where (amendment_due cutoff) (\<lambda>a. a\<lparr>am_status := ''expired''\<rparr>)
          (amendments r)\<rparr>)"

end
