(* ===== verification/Manifest.thy ===== *)
theory Manifest
  imports Registry
begin

text \<open>
  core/snapshot.py, the data: the manifest of a snapshot and the directory that holds it. The
  manifest carries the rows of the desk as the tables have them; the archive holds the files of
  the secret directory and the overlay. Named volumes are not captured by the daemon, which
  always calls with \<^verbatim>\<open>capture_volumes=False\<close>.
\<close>

text \<open>
  A file of a secret directory: its bytes, or a path whose read fails (for lack of permission,
  or with another \<^verbatim>\<open>OSError\<close>, as for a directory).
\<close>

datatype file_node = Bytes string | Denied | Broken

type_synonym secret_dir = "string \<Rightarrow> file_node option"

record registry_dump =
  rd_drydocks :: drydock_row
  rd_tokens :: "token_row list"
  rd_leases :: "CapabilityLease list"
  rd_events :: "event_row list"
  rd_amendments :: "amendment_row list"
  rd_workload_leases :: "workload_lease_row list"

record WorktreeState =
  wt_branch :: string
  wt_commit_sha :: string
  wt_repo_path :: string
  wt_is_dirty :: bool
  wt_dirty_files :: "string list"

record SnapshotManifest =
  mf_version :: int
  mf_migration_id :: string
  mf_drydock_id :: string
  mf_drydock_name :: string
  mf_captured_at :: string
  mf_registry_row :: registry_dump
  mf_overlay_path :: "string option"
  mf_secrets_path :: "string option"
  mf_worktree :: "WorktreeState option"
  mf_bytes_total :: int

record tarball =
  tb_secrets :: "secret_dir option"
  tb_overlay :: "string option"

text \<open>The directory of a migration, with the files that were put in place so far.\<close>

record snapshot_dir =
  sd_tarball :: "tarball option"
  sd_manifest :: "SnapshotManifest option"

definition capture_registry_row :: "registry \<Rightarrow> string \<Rightarrow> registry_dump option" where
  "capture_registry_row r i =
     map_option (\<lambda>d. \<lparr>rd_drydocks = d, rd_tokens = filter (\<lambda>t. tk_drydock_id t = i) (tokens r),
       rd_leases = filter (\<lambda>l. ls_drydock_id l = i) (leases r),
       rd_events = filter (\<lambda>e. ev_drydock_id e = i) (events r),
       rd_amendments = filter (\<lambda>a. am_drydock_id a = Some i) (amendments r),
       rd_workload_leases = filter (\<lambda>l. wl_drydock_id l = i) (workload_leases r)\<rparr>)
       (drydock_by_id r i)"

end
