(* ===== verification/Effects.thy ===== *)
theory Effects
  imports Manifest
begin

text \<open>
  The state the daemon acts on and the shape of its operations. An operation reads and writes
  a \<open>world\<close> and ends with a value or an exception; what it wrote before raising stays written.
  Everything the daemon asks of its surroundings (the clock, random bytes, child processes,
  the operating system's refusal of a write) is a field of an \<open>env\<close>; an answer may depend on how
  many questions were asked before, which the world counts in ticks. The statements on the registry
  fail on a violated constraint only; a full disk or a locked database is outside the model.
  \<open>w_acls\<close> lists the allowlist files of the proxy as they are written, each with its desk.
\<close>

named_theorems effect_simps "results of the basic operations"
named_theorems keeps_rules "what operations keep of a state predicate"

section \<open>Operations\<close>

type_synonym ('s, 'a) rpc = "'s \<Rightarrow> (exn + 'a) \<times> 's"

definition ret :: "'a \<Rightarrow> ('s, 'a) rpc" where
  "ret x w = (Inr x, w)"

definition raise :: "exn \<Rightarrow> ('s, 'a) rpc" where
  "raise e w = (Inl e, w)"

definition bind :: "('s, 'a) rpc \<Rightarrow> ('a \<Rightarrow> ('s, 'b) rpc) \<Rightarrow> ('s, 'b) rpc" where
  "bind m f w = (case m w of (Inl e, w') \<Rightarrow> (Inl e, w') | (Inr x, w') \<Rightarrow> f x w')"

definition andthen :: "('s, unit) rpc \<Rightarrow> ('s, 'b) rpc \<Rightarrow> ('s, 'b) rpc" where
  "andthen m n = bind m (\<lambda>_. n)"

definition reads :: "('s \<Rightarrow> 'a) \<Rightarrow> ('s, 'a) rpc" where
  "reads f w = (Inr (f w), w)"

definition writes :: "('s \<Rightarrow> 's) \<Rightarrow> ('s, unit) rpc" where
  "writes f w = (Inr (), f w)"

definition unless :: "bool \<Rightarrow> exn \<Rightarrow> ('s, unit) rpc" where
  "unless b e = (if b then ret () else raise e)"

definition guarded :: "bool \<Rightarrow> ('s, unit) rpc \<Rightarrow> ('s, unit) rpc" where
  "guarded b m = (if b then m else ret ())"

definition from_sum :: "exn + 'a \<Rightarrow> ('s, 'a) rpc" where
  "from_sum r = (case r of Inl e \<Rightarrow> raise e | Inr x \<Rightarrow> ret x)"

text \<open>The value of an optional, or an exception.\<close>

definition required :: "'a option \<Rightarrow> exn \<Rightarrow> ('s, 'a) rpc" where
  "required v e = (case v of None \<Rightarrow> raise e | Some x \<Rightarrow> ret x)"

text \<open>\<^verbatim>\<open>try: m except ...: h\<close>; the handler re-raises what it does not take.\<close>

definition try_except :: "('s, 'a) rpc \<Rightarrow> (exn \<Rightarrow> ('s, 'a) rpc) \<Rightarrow> ('s, 'a) rpc" where
  "try_except m h w = (case m w of (Inl e, w') \<Rightarrow> h e w' | (Inr x, w') \<Rightarrow> (Inr x, w'))"

text \<open>The outcome of an operation as a value.\<close>

definition outcome_of :: "('s, 'a) rpc \<Rightarrow> ('s, exn + 'a) rpc" where
  "outcome_of m w = (Inr (fst (m w)), snd (m w))"

lemma outcome_of_code [code]: "outcome_of m w = (case m w of (r, w') \<Rightarrow> (Inr r, w'))"
  by (simp add: outcome_of_def split: prod.split)

fun for_each :: "('x \<Rightarrow> ('s, unit) rpc) \<Rightarrow> 'x list \<Rightarrow> ('s, unit) rpc" where
  "for_each f [] = ret ()"
| "for_each f (x # xs) = andthen (f x) (for_each f xs)"

section \<open>The world and its surroundings\<close>

record world =
  w_reg :: registry
  w_files :: "string \<times> string \<Rightarrow> file_node option"
  w_audit :: "dict list"
  w_calls :: "(string list \<times> string option) list"
  w_snapshots :: "string \<Rightarrow> snapshot_dir option"
  w_acls :: "(string \<times> dict) list"
  w_ticks :: nat

text \<open>How \<^verbatim>\<open>subprocess.run\<close> ends: exit code, standard output and error, or an exception.\<close>

datatype proc =
    Completed (returncode: int) (stdout: string) (stderr: string)
  | TimedOut
  | NotFound
  | OsFailure string

record env =
  e_now :: "nat \<Rightarrow> string"
  e_uuid :: "nat \<Rightarrow> string"
  e_token :: "nat \<Rightarrow> string"
  e_sha256 :: "string \<Rightarrow> string"
  e_run :: "nat \<Rightarrow> string list \<Rightarrow> string option \<Rightarrow> proc"
  e_os_error :: "nat \<Rightarrow> string option"
  e_json_loads :: "string \<Rightarrow> json option"
  e_json_dumps :: "json \<Rightarrow> string"
  e_fromisoformat :: "string \<Rightarrow> string option"

type_synonym 'a op = "(world, 'a) rpc"

definition tick :: "nat op" where
  "tick w = (Inr (w_ticks w), w\<lparr>w_ticks := Suc (w_ticks w)\<rparr>)"

text \<open>\<^verbatim>\<open>datetime.now(timezone.utc).isoformat()\<close> and \<^verbatim>\<open>uuid4().hex\<close>.\<close>

definition utc_now :: "env \<Rightarrow> string op" where
  "utc_now env = bind tick (\<lambda>n. ret (e_now env n))"

definition uuid4_hex :: "env \<Rightarrow> string op" where
  "uuid4_hex env = bind tick (\<lambda>n. ret (e_uuid env n))"

definition subprocess_run :: "env \<Rightarrow> string list \<Rightarrow> string option \<Rightarrow> proc op" where
  "subprocess_run env argv inp =
     bind tick (\<lambda>n. andthen (writes (\<lambda>w. w\<lparr>w_calls := w_calls w @ [(argv, inp)]\<rparr>))
       (ret (e_run env n argv inp)))"

text \<open>A write the operating system may refuse.\<close>

definition os_step :: "env \<Rightarrow> (world \<Rightarrow> world) \<Rightarrow> unit op" where
  "os_step env f =
     bind tick (\<lambda>n.
       case e_os_error env n of
         Some msg \<Rightarrow> raise (PyError ''OSError'' msg)
       | None \<Rightarrow> writes f)"

text \<open>Registry methods as operations on the world.\<close>

definition query :: "(registry \<Rightarrow> 'a) \<Rightarrow> 'a op" where
  "query f = reads (\<lambda>w. f (w_reg w))"

definition execute :: "(registry \<Rightarrow> registry) \<Rightarrow> unit op" where
  "execute f = writes (\<lambda>w. w\<lparr>w_reg := f (w_reg w)\<rparr>)"

definition update_reg :: "(registry \<Rightarrow> 'a \<times> registry) \<Rightarrow> 'a op" where
  "update_reg f w = (case f (w_reg w) of (x, r') \<Rightarrow> (Inr x, w\<lparr>w_reg := r'\<rparr>))"

definition call_reg :: "(registry \<Rightarrow> (exn + 'a) \<times> registry) \<Rightarrow> 'a op" where
  "call_reg f w = (case f (w_reg w) of (x, r') \<Rightarrow> (x, w\<lparr>w_reg := r'\<rparr>))"

definition insert_reg :: "(registry \<Rightarrow> exn + registry) \<Rightarrow> unit op" where
  "insert_reg f w = (case f (w_reg w) of Inl e \<Rightarrow> (Inl e, w) | Inr r' \<Rightarrow> (Inr (), w\<lparr>w_reg := r'\<rparr>))"

lemmas effect_defs = ret_def raise_def bind_def andthen_def reads_def writes_def unless_def guarded_def
  from_sum_def required_def try_except_def tick_def utc_now_def uuid4_hex_def subprocess_run_def
  os_step_def query_def execute_def update_reg_def call_reg_def insert_reg_def

section \<open>Inversion\<close>

lemma bind_Inr [effect_simps]:
  "bind m f w = (Inr y, w') \<longleftrightarrow> (\<exists>x w1. m w = (Inr x, w1) \<and> f x w1 = (Inr y, w'))"
  by (auto simp: bind_def split: prod.splits sum.splits)

lemma bind_Inl [effect_simps]:
  "bind m f w = (Inl e, w') \<longleftrightarrow>
     m w = (Inl e, w') \<or> (\<exists>x w1. m w = (Inr x, w1) \<and> f x w1 = (Inl e, w'))"
  by (auto simp: bind_def split: prod.splits sum.splits)

lemma andthen_Inr [effect_simps]:
  "andthen m n w = (Inr y, w') \<longleftrightarrow> (\<exists>w1. m w = (Inr (), w1) \<and> n w1 = (Inr y, w'))"
  by (simp add: andthen_def bind_Inr)

lemma andthen_Inl [effect_simps]:
  "andthen m n w = (Inl e, w') \<longleftrightarrow>
     m w = (Inl e, w') \<or> (\<exists>w1. m w = (Inr (), w1) \<and> n w1 = (Inl e, w'))"
  by (simp add: andthen_def bind_Inl)

lemma ret_eq [effect_simps]: "ret x w = (r, w') \<longleftrightarrow> r = Inr x \<and> w' = w"
  by (auto simp: ret_def)

lemma raise_eq [effect_simps]: "raise e w = (r, w') \<longleftrightarrow> r = Inl e \<and> w' = w"
  by (auto simp: raise_def)

lemma reads_eq [effect_simps]: "reads f w = (r, w') \<longleftrightarrow> r = Inr (f w) \<and> w' = w"
  by (auto simp: reads_def)

lemma writes_eq [effect_simps]: "writes f w = (r, w') \<longleftrightarrow> r = Inr () \<and> w' = f w"
  by (auto simp: writes_def)

lemma unless_eq [effect_simps]:
  "unless b e w = (r, w') \<longleftrightarrow> r = (if b then Inr () else Inl e) \<and> w' = w"
  by (auto simp: unless_def ret_def raise_def)

lemma required_eq [effect_simps]:
  "required v e w = (r, w') \<longleftrightarrow> r = (case v of None \<Rightarrow> Inl e | Some x \<Rightarrow> Inr x) \<and> w' = w"
  by (auto simp: required_def ret_def raise_def split: option.splits)

lemma from_sum_eq [effect_simps]: "from_sum v w = (r, w') \<longleftrightarrow> r = v \<and> w' = w"
  by (auto simp: from_sum_def ret_def raise_def split: sum.splits)

lemma query_eq [effect_simps]: "query f w = (r, w') \<longleftrightarrow> r = Inr (f (w_reg w)) \<and> w' = w"
  by (auto simp: query_def reads_def)

lemma tick_eq [effect_simps]:
  "tick w = (r, w') \<longleftrightarrow> r = Inr (w_ticks w) \<and> w' = w\<lparr>w_ticks := Suc (w_ticks w)\<rparr>"
  by (auto simp: tick_def)

lemma bind_from_sum_Inr [simp]: "bind (from_sum (Inr x)) f = f x"
  by (simp add: bind_def from_sum_def ret_def fun_eq_iff)

text \<open>Running a step whose outcome is known at once.\<close>

named_theorems run_simps "running pure steps"

lemma bind_query [run_simps]: "bind (query f) g w = g (f (w_reg w)) w"
  by (simp add: bind_def query_def reads_def)

lemma andthen_unless [run_simps]: "andthen (unless b e) m w = (if b then m w else (Inl e, w))"
  by (simp add: andthen_def bind_def unless_def ret_def raise_def)

lemma bind_required [run_simps]:
  "bind (required v e) f w = (case v of None \<Rightarrow> (Inl e, w) | Some x \<Rightarrow> f x w)"
  by (simp add: bind_def required_def ret_def raise_def split: option.split)

lemma bind_from_sum [run_simps]:
  "bind (from_sum v) f w = (case v of Inl e \<Rightarrow> (Inl e, w) | Inr x \<Rightarrow> f x w)"
  by (simp add: bind_def from_sum_def ret_def raise_def split: sum.split)

lemma bind_ret [run_simps]: "bind (ret x) f w = f x w"
  by (simp add: bind_def ret_def)

lemma bind_ok: "m w = (Inr x, w1) \<Longrightarrow> bind m f w = f x w1"
  by (simp add: bind_def)

lemma andthen_run: "m w = (a, w1) \<Longrightarrow> andthen m n w = (case a of Inl e \<Rightarrow> (Inl e, w1) | Inr _ \<Rightarrow> n w1)"
  by (simp add: andthen_def bind_def split: sum.split)

text \<open>A run known to succeed.\<close>

lemma run_ok: "\<not> isl (fst p) \<Longrightarrow> p = (Inr (projr (fst p)), snd p)"
  by (cases p) auto

lemma andthen_ret [run_simps]: "andthen (ret ()) m w = m w"
  by (simp add: andthen_def bind_def ret_def)

section \<open>What operations keep\<close>

definition keeps :: "('s \<Rightarrow> bool) \<Rightarrow> ('s, 'a) rpc \<Rightarrow> bool" where
  "keeps P m \<longleftrightarrow> (\<forall>w. P w \<longrightarrow> P (snd (m w)))"

lemma keepsD: "keeps P m \<Longrightarrow> m w = (r, w') \<Longrightarrow> P w \<Longrightarrow> P w'"
  unfolding keeps_def by (metis snd_conv)

lemma keeps_ret [keeps_rules]: "keeps P (ret x)"
  by (simp add: keeps_def ret_def)

lemma keeps_raise [keeps_rules]: "keeps P (raise e)"
  by (simp add: keeps_def raise_def)

lemma keeps_reads [keeps_rules]: "keeps P (reads f)"
  by (simp add: keeps_def reads_def)

lemma keeps_query [keeps_rules]: "keeps P (query f)"
  by (simp add: query_def keeps_reads)

lemma keeps_unless [keeps_rules]: "keeps P (unless b e)"
  by (simp add: unless_def keeps_ret keeps_raise)

lemma keeps_required [keeps_rules]: "keeps P (required v e)"
  by (cases v) (simp_all add: required_def keeps_ret keeps_raise)

lemma keeps_from_sum [keeps_rules]: "keeps P (from_sum v)"
  by (cases v) (simp_all add: from_sum_def keeps_ret keeps_raise)

lemma keeps_bind [keeps_rules]: "keeps P m \<Longrightarrow> (\<And>x. keeps P (f x)) \<Longrightarrow> keeps P (bind m f)"
  unfolding keeps_def bind_def by (auto split: prod.splits sum.splits)

lemma keeps_andthen [keeps_rules]: "keeps P m \<Longrightarrow> keeps P n \<Longrightarrow> keeps P (andthen m n)"
  by (simp add: andthen_def keeps_bind)

lemma keeps_if [keeps_rules]:
  "(b \<Longrightarrow> keeps P m) \<Longrightarrow> (\<not> b \<Longrightarrow> keeps P n) \<Longrightarrow> keeps P (if b then m else n)"
  by simp

lemma keeps_guarded [keeps_rules]: "keeps P m \<Longrightarrow> keeps P (guarded b m)"
  by (simp add: guarded_def keeps_ret)

lemma keeps_option [keeps_rules]:
  "keeps P m \<Longrightarrow> (\<And>x. keeps P (f x)) \<Longrightarrow> keeps P (case v of None \<Rightarrow> m | Some x \<Rightarrow> f x)"
  by (cases v) simp_all

lemma keeps_sum [keeps_rules]:
  "(\<And>x. keeps P (f x)) \<Longrightarrow> (\<And>x. keeps P (g x)) \<Longrightarrow> keeps P (case v of Inl x \<Rightarrow> f x | Inr x \<Rightarrow> g x)"
  by (cases v) simp_all

lemma keeps_prod [keeps_rules]:
  "(\<And>x y. p = (x, y) \<Longrightarrow> keeps P (f x y)) \<Longrightarrow> keeps P (case p of (x, y) \<Rightarrow> f x y)"
  by (cases p) simp

lemma keeps_json [keeps_rules]:
  "keeps P a \<Longrightarrow> (\<And>x. keeps P (b x)) \<Longrightarrow> (\<And>x. keeps P (c x)) \<Longrightarrow> (\<And>x. keeps P (d x)) \<Longrightarrow>
   (\<And>x. v = JStr x \<Longrightarrow> keeps P (e x)) \<Longrightarrow> (\<And>x. keeps P (f x)) \<Longrightarrow> (\<And>x. v = JObj x \<Longrightarrow> keeps P (g x)) \<Longrightarrow>
   keeps P (case v of JNull \<Rightarrow> a | JBool x \<Rightarrow> b x | JInt x \<Rightarrow> c x | JFloat x \<Rightarrow> d x | JStr x \<Rightarrow> e x |
     JList x \<Rightarrow> f x | JObj x \<Rightarrow> g x)"
  by (cases v) simp_all

lemma keeps_try_except [keeps_rules]:
  "keeps P m \<Longrightarrow> (\<And>e. keeps P (h e)) \<Longrightarrow> keeps P (try_except m h)"
  unfolding keeps_def try_except_def by (auto split: prod.splits sum.splits)

lemma keeps_outcome_of [keeps_rules]: "keeps P m \<Longrightarrow> keeps P (outcome_of m)"
  by (simp add: keeps_def outcome_of_def)

lemma keeps_for_each [keeps_rules]: "(\<And>x. keeps P (f x)) \<Longrightarrow> keeps P (for_each f xs)"
  by (induction xs) (simp_all add: keeps_ret keeps_andthen)

lemma keeps_writes: "(\<And>w. P w \<Longrightarrow> P (f w)) \<Longrightarrow> keeps P (writes f)"
  by (simp add: keeps_def writes_def)

text \<open>A predicate of the registry alone.\<close>

abbreviation on_reg :: "(registry \<Rightarrow> bool) \<Rightarrow> world \<Rightarrow> bool" where
  "on_reg P \<equiv> (\<lambda>w. P (w_reg w))"

lemma keeps_reg_tick [keeps_rules]: "keeps (on_reg P) tick"
  by (simp add: keeps_def tick_def)

lemma keeps_reg_utc_now [keeps_rules]: "keeps (on_reg P) (utc_now env)"
  unfolding utc_now_def by (intro keeps_rules)

lemma keeps_reg_uuid [keeps_rules]: "keeps (on_reg P) (uuid4_hex env)"
  unfolding uuid4_hex_def by (intro keeps_rules)

lemma keeps_reg_run [keeps_rules]: "keeps (on_reg P) (subprocess_run env argv inp)"
  unfolding subprocess_run_def by (intro keeps_rules keeps_writes) simp

lemma keeps_os_step: "(\<And>w. P (w_reg w) \<Longrightarrow> P (w_reg (f w))) \<Longrightarrow> keeps (on_reg P) (os_step env f)"
  unfolding os_step_def by (intro keeps_rules keeps_writes)

lemma keeps_execute: "(\<And>r. P r \<Longrightarrow> P (f r)) \<Longrightarrow> keeps (on_reg P) (execute f)"
  by (simp add: keeps_def execute_def writes_def)

lemma keeps_update_reg: "(\<And>r. P r \<Longrightarrow> P (snd (f r))) \<Longrightarrow> keeps (on_reg P) (update_reg f)"
  by (simp add: keeps_def update_reg_def split: prod.split) (metis snd_conv)

lemma keeps_call_reg: "(\<And>r. P r \<Longrightarrow> P (snd (f r))) \<Longrightarrow> keeps (on_reg P) (call_reg f)"
  by (simp add: keeps_def call_reg_def split: prod.split) (metis snd_conv)

lemma keeps_insert_reg: "(\<And>r r'. P r \<Longrightarrow> f r = Inr r' \<Longrightarrow> P r') \<Longrightarrow> keeps (on_reg P) (insert_reg f)"
  by (simp add: keeps_def insert_reg_def split: sum.split)

section \<open>Operations that leave the registry and the files alone\<close>

definition settled :: "registry \<Rightarrow> (string \<times> string \<Rightarrow> file_node option) \<Rightarrow> world \<Rightarrow> bool" where
  "settled r f w \<longleftrightarrow> w_reg w = r \<and> w_files w = f"

lemma settledD:
  assumes "\<And>r f. keeps (settled r f) m" "m w = (res, w')"
  shows "w_reg w' = w_reg w" "w_files w' = w_files w"
  using keepsD [OF assms, of "w_reg w" "w_files w"] by (simp_all add: settled_def)

lemma settled_on_reg: "(\<And>r f. keeps (settled r f) m) \<Longrightarrow> keeps (on_reg P) m"
  unfolding keeps_def using settledD(1) [of m] by (metis keeps_def prod.collapse)

lemma settled_tick [keeps_rules]: "keeps (settled r f) tick"
  by (simp add: keeps_def tick_def settled_def)

lemma settled_utc_now [keeps_rules]: "keeps (settled r f) (utc_now env)"
  unfolding utc_now_def by (intro keeps_rules)

lemma settled_uuid [keeps_rules]: "keeps (settled r f) (uuid4_hex env)"
  unfolding uuid4_hex_def by (intro keeps_rules)

lemma settled_run [keeps_rules]: "keeps (settled r f) (subprocess_run env argv inp)"
  unfolding subprocess_run_def by (intro keeps_rules keeps_writes) (simp add: settled_def)

lemma settled_idle [keeps_rules]: "keeps (settled r f) (os_step env (\<lambda>w. w))"
  unfolding os_step_def by (intro keeps_rules keeps_writes)

section \<open>What operations yield, end with and lead to\<close>

text \<open>
  From a state with \<open>P\<close>: \<open>yields\<close> says something of a returned value, \<open>ends\<close> of a returned value
  and the state it comes with, \<open>leads\<close> of the state after any outcome.
\<close>

named_theorems yields_rules "what operations return"
named_theorems ends_rules "how operations end"

definition yields :: "('s \<Rightarrow> bool) \<Rightarrow> ('s, 'a) rpc \<Rightarrow> ('a \<Rightarrow> bool) \<Rightarrow> bool" where
  "yields P m \<phi> \<longleftrightarrow> (\<forall>w x w'. P w \<longrightarrow> m w = (Inr x, w') \<longrightarrow> \<phi> x)"

definition ends :: "('s, 'a) rpc \<Rightarrow> ('a \<Rightarrow> 's \<Rightarrow> bool) \<Rightarrow> bool" where
  "ends m Q \<longleftrightarrow> (\<forall>w x w'. m w = (Inr x, w') \<longrightarrow> Q x w')"

definition leads :: "('s \<Rightarrow> bool) \<Rightarrow> ('s, 'a) rpc \<Rightarrow> ('s \<Rightarrow> bool) \<Rightarrow> bool" where
  "leads P m Q \<longleftrightarrow> (\<forall>w. P w \<longrightarrow> Q (snd (m w)))"

lemma keeps_bind_val:
  "yields P m \<phi> \<Longrightarrow> keeps P m \<Longrightarrow> (\<And>x. \<phi> x \<Longrightarrow> keeps P (f x)) \<Longrightarrow> keeps P (bind m f)"
  unfolding keeps_def yields_def bind_def by (auto split: prod.splits sum.splits)

lemma keeps_andthen_val:
  "yields P m (\<lambda>_. \<phi>) \<Longrightarrow> keeps P m \<Longrightarrow> (\<phi> \<Longrightarrow> keeps P n) \<Longrightarrow> keeps P (andthen m n)"
  unfolding andthen_def by (rule keeps_bind_val)

lemma keeps_checked: "(v = Inr () \<Longrightarrow> keeps P n) \<Longrightarrow> keeps P (andthen (from_sum v) n)"
  by (rule keeps_andthen_val [where \<phi> = "v = Inr ()"])
    (auto simp: yields_def from_sum_eq intro: keeps_from_sum)

lemma yields_query [yields_rules]: "yields (on_reg P) (query f) (\<lambda>x. \<exists>r. P r \<and> x = f r)"
  by (auto simp: yields_def query_def reads_def)

lemma yields_required [yields_rules]: "yields P (required v e) (\<lambda>x. v = Some x)"
  by (auto simp: yields_def required_eq split: option.splits)

lemma yields_from_sum [yields_rules]: "yields P (from_sum v) (\<lambda>x. v = Inr x)"
  by (auto simp: yields_def from_sum_eq)

lemma yields_unless [yields_rules]: "yields P (unless b e) (\<lambda>_. b)"
  by (auto simp: yields_def unless_eq split: if_splits)

lemma yields_bind:
  "yields P m \<phi> \<Longrightarrow> keeps P m \<Longrightarrow> (\<And>x. \<phi> x \<Longrightarrow> yields P (f x) \<psi>) \<Longrightarrow> yields P (bind m f) \<psi>"
  unfolding yields_def bind_Inr by (meson keepsD)

lemma yields_any: "yields P m (\<lambda>_. True)"
  by (simp add: yields_def)

lemma yields_ret: "\<phi> x \<Longrightarrow> yields P (ret x) \<phi>"
  by (simp add: yields_def ret_def)

lemma endsD: "ends m Q \<Longrightarrow> m w = (Inr x, w') \<Longrightarrow> Q x w'"
  by (simp add: ends_def)

lemma ends_bind [ends_rules]: "(\<And>x. ends (f x) Q) \<Longrightarrow> ends (bind m f) Q"
  unfolding ends_def bind_Inr by blast

lemma ends_bind_val: "ends m (\<lambda>x w. \<phi> x) \<Longrightarrow> (\<And>x. \<phi> x \<Longrightarrow> ends (f x) Q) \<Longrightarrow> ends (bind m f) Q"
  unfolding ends_def bind_Inr by blast

lemma ends_andthen [ends_rules]: "ends n Q \<Longrightarrow> ends (andthen m n) Q"
  unfolding ends_def andthen_Inr by blast

lemma ends_raise [ends_rules]: "ends (raise e) Q"
  by (simp add: ends_def raise_def)

lemma ends_if [ends_rules]: "ends m Q \<Longrightarrow> ends n Q \<Longrightarrow> ends (if b then m else n) Q"
  by simp

lemma ends_prod [ends_rules]: "(\<And>x y. ends (f x y) Q) \<Longrightarrow> ends (case p of (x, y) \<Rightarrow> f x y) Q"
  by (cases p) simp

lemma ends_json [ends_rules]:
  "ends a Q \<Longrightarrow> (\<And>x. ends (b x) Q) \<Longrightarrow> (\<And>x. ends (c x) Q) \<Longrightarrow> (\<And>x. ends (d x) Q) \<Longrightarrow> (\<And>x. ends (e x) Q) \<Longrightarrow>
   (\<And>x. ends (f x) Q) \<Longrightarrow> (\<And>x. ends (g x) Q) \<Longrightarrow> ends (case v of JNull \<Rightarrow> a | JBool x \<Rightarrow> b x |
     JInt x \<Rightarrow> c x | JFloat x \<Rightarrow> d x | JStr x \<Rightarrow> e x | JList x \<Rightarrow> f x | JObj x \<Rightarrow> g x) Q"
  by (cases v) simp_all

lemma leadsD: "leads P m Q \<Longrightarrow> m w = (r, w') \<Longrightarrow> P w \<Longrightarrow> Q w'"
  unfolding leads_def by (metis snd_conv)

lemma leads_bind:
  "keeps P m \<Longrightarrow> (\<And>w. P w \<Longrightarrow> Q w) \<Longrightarrow> (\<And>x. leads P (f x) Q) \<Longrightarrow> leads P (bind m f) Q"
  unfolding leads_def keeps_def bind_def by (auto split: prod.splits sum.splits)

lemma leads_andthen:
  "keeps P m \<Longrightarrow> (\<And>w. P w \<Longrightarrow> Q w) \<Longrightarrow> leads P n Q \<Longrightarrow> leads P (andthen m n) Q"
  unfolding andthen_def by (rule leads_bind)

lemma keeps_andthen_leads:
  assumes "keeps P m" "\<And>w u w'. P w \<Longrightarrow> m w = (Inr u, w') \<Longrightarrow> Q w'" "leads Q n P"
  shows "keeps P (andthen m n)"
  unfolding keeps_def andthen_def bind_def
  using assms by (auto simp: leads_def split: prod.splits sum.splits dest: keepsD)

lemma leads_keeps: "keeps P m \<Longrightarrow> (\<And>w. P w \<Longrightarrow> Q w) \<Longrightarrow> leads P m Q"
  by (simp add: leads_def keeps_def)

lemma leads_if: "leads P m Q \<Longrightarrow> leads P n Q \<Longrightarrow> leads P (if b then m else n) Q"
  by simp

text \<open>From a state with \<open>P\<close>, a run that returns has \<open>Q\<close> of its value and its state.\<close>

definition ensures :: "('s \<Rightarrow> bool) \<Rightarrow> ('s, 'a) rpc \<Rightarrow> ('a \<Rightarrow> 's \<Rightarrow> bool) \<Rightarrow> bool" where
  "ensures P m Q \<longleftrightarrow> (\<forall>w x w'. P w \<longrightarrow> m w = (Inr x, w') \<longrightarrow> Q x w')"

lemma ensuresD: "ensures P m Q \<Longrightarrow> m w = (Inr x, w') \<Longrightarrow> P w \<Longrightarrow> Q x w'"
  by (simp add: ensures_def)

lemma ensures_bind: "ensures P m R \<Longrightarrow> (\<And>x. ensures (R x) (f x) Q) \<Longrightarrow> ensures P (bind m f) Q"
  unfolding ensures_def bind_Inr by blast

lemma ensures_andthen: "ensures P m (\<lambda>_. R) \<Longrightarrow> ensures R n Q \<Longrightarrow> ensures P (andthen m n) Q"
  unfolding andthen_def by (rule ensures_bind)

lemma ensures_keeps: "keeps P m \<Longrightarrow> ensures P m (\<lambda>_. P)"
  unfolding ensures_def keeps_def by (metis snd_conv)

lemma ensures_skip: "keeps P m \<Longrightarrow> ensures P n Q \<Longrightarrow> ensures P (andthen m n) Q"
  by (rule ensures_andthen [OF ensures_keeps])

lemma ensures_pass: "keeps P m \<Longrightarrow> (\<And>x. ensures P (f x) Q) \<Longrightarrow> ensures P (bind m f) Q"
  by (rule ensures_bind [OF ensures_keeps])

lemma ensures_ret: "(\<And>w. P w \<Longrightarrow> Q x w) \<Longrightarrow> ensures P (ret x) Q"
  by (simp add: ensures_def ret_def)

lemma ensures_query: "(\<And>x. ensures (\<lambda>w. P w \<and> x = f (w_reg w)) (g x) Q) \<Longrightarrow> ensures P (bind (query f) g) Q"
  by (rule ensures_bind [of _ _ "\<lambda>x w. P w \<and> x = f (w_reg w)"]) (auto simp: ensures_def query_def reads_def)

lemma ensures_required: "(\<And>x. v = Some x \<Longrightarrow> ensures P (g x) Q) \<Longrightarrow> ensures P (bind (required v e) g) Q"
  by (cases v) (auto simp: ensures_def bind_def required_def ret_def raise_def)

lemma ensures_os_step:
  "(\<And>w n. P w \<Longrightarrow> R (f (w\<lparr>w_ticks := n\<rparr>))) \<Longrightarrow> ensures R m Q \<Longrightarrow> ensures P (andthen (os_step env f) m) Q"
  by (rule ensures_andthen [of _ _ R]) (auto simp: ensures_def os_step_def effect_defs split: option.splits)

lemma ensures_vacuous: "(\<And>w. \<not> P w) \<Longrightarrow> ensures P m Q"
  by (simp add: ensures_def)

lemma ensures_weaken: "ensures P m Q \<Longrightarrow> (\<And>w. P' w \<Longrightarrow> P w) \<Longrightarrow> ensures P' m Q"
  unfolding ensures_def by blast

section \<open>What operations raise\<close>

named_theorems raises_rules "what operations raise"

definition raises_only :: "(exn \<Rightarrow> bool) \<Rightarrow> ('s, 'a) rpc \<Rightarrow> bool" where
  "raises_only \<phi> m \<longleftrightarrow> (\<forall>w e w'. m w = (Inl e, w') \<longrightarrow> \<phi> e)"

lemma raises_onlyD: "raises_only \<phi> m \<Longrightarrow> m w = (Inl e, w') \<Longrightarrow> \<phi> e"
  unfolding raises_only_def by blast

lemma raises_ret [raises_rules]: "raises_only \<phi> (ret x)"
  by (simp add: raises_only_def ret_def)

lemma raises_reads [raises_rules]: "raises_only \<phi> (reads f)"
  by (simp add: raises_only_def reads_def)

lemma raises_writes [raises_rules]: "raises_only \<phi> (writes f)"
  by (simp add: raises_only_def writes_def)

lemma raises_query [raises_rules]: "raises_only \<phi> (query f)"
  by (simp add: query_def raises_reads)

lemma raises_tick [raises_rules]: "raises_only \<phi> tick"
  by (simp add: raises_only_def tick_def)

lemma raises_bind [raises_rules]:
  "raises_only \<phi> m \<Longrightarrow> (\<And>x. raises_only \<phi> (f x)) \<Longrightarrow> raises_only \<phi> (bind m f)"
  unfolding raises_only_def bind_Inl by blast

lemma raises_andthen [raises_rules]:
  "raises_only \<phi> m \<Longrightarrow> raises_only \<phi> n \<Longrightarrow> raises_only \<phi> (andthen m n)"
  by (simp add: andthen_def raises_bind)

lemma raises_raise [raises_rules]: "\<phi> e \<Longrightarrow> raises_only \<phi> (raise e)"
  by (simp add: raises_only_def raise_def)

lemma raises_required [raises_rules]: "\<phi> e \<Longrightarrow> raises_only \<phi> (required v e)"
  by (cases v) (simp_all add: required_def raises_ret raises_raise)

lemma raises_unless [raises_rules]: "\<phi> e \<Longrightarrow> raises_only \<phi> (unless b e)"
  by (simp add: unless_def raises_ret raises_raise)

lemma raises_from_sum [raises_rules]: "(\<And>e. v = Inl e \<Longrightarrow> \<phi> e) \<Longrightarrow> raises_only \<phi> (from_sum v)"
  by (cases v) (simp_all add: from_sum_def raises_ret raises_raise)

lemma raises_if [raises_rules]:
  "raises_only \<phi> m \<Longrightarrow> raises_only \<phi> n \<Longrightarrow> raises_only \<phi> (if b then m else n)"
  by simp

lemma raises_guarded [raises_rules]: "raises_only \<phi> m \<Longrightarrow> raises_only \<phi> (guarded b m)"
  by (simp add: guarded_def raises_ret)

lemma raises_option [raises_rules]:
  "raises_only \<phi> m \<Longrightarrow> (\<And>x. raises_only \<phi> (f x)) \<Longrightarrow> raises_only \<phi> (case v of None \<Rightarrow> m | Some x \<Rightarrow> f x)"
  by (cases v) simp_all

lemma raises_prod [raises_rules]:
  "(\<And>x y. raises_only \<phi> (f x y)) \<Longrightarrow> raises_only \<phi> (case p of (x, y) \<Rightarrow> f x y)"
  by (cases p) simp

lemma raises_json [raises_rules]:
  "raises_only \<phi> a \<Longrightarrow> (\<And>x. raises_only \<phi> (b x)) \<Longrightarrow> (\<And>x. raises_only \<phi> (c x)) \<Longrightarrow> (\<And>x. raises_only \<phi> (d x)) \<Longrightarrow>
   (\<And>x. raises_only \<phi> (e x)) \<Longrightarrow> (\<And>x. raises_only \<phi> (f x)) \<Longrightarrow> (\<And>x. raises_only \<phi> (g x)) \<Longrightarrow>
   raises_only \<phi> (case v of JNull \<Rightarrow> a | JBool x \<Rightarrow> b x | JInt x \<Rightarrow> c x | JFloat x \<Rightarrow> d x | JStr x \<Rightarrow> e x |
     JList x \<Rightarrow> f x | JObj x \<Rightarrow> g x)"
  by (cases v) simp_all

lemma raises_try_except [raises_rules]:
  "(\<And>e. raises_only \<phi> (h e)) \<Longrightarrow> raises_only \<phi> (try_except m h)"
  unfolding raises_only_def try_except_def by (auto split: prod.splits sum.splits)

lemma raises_for_each [raises_rules]: "(\<And>x. raises_only \<phi> (f x)) \<Longrightarrow> raises_only \<phi> (for_each f xs)"
  by (induction xs) (simp_all add: raises_ret raises_andthen)

lemma raises_utc_now [raises_rules]: "raises_only \<phi> (utc_now env)"
  unfolding utc_now_def by (intro raises_rules)

lemma raises_uuid [raises_rules]: "raises_only \<phi> (uuid4_hex env)"
  unfolding uuid4_hex_def by (intro raises_rules)

lemma raises_run [raises_rules]: "raises_only \<phi> (subprocess_run env argv inp)"
  unfolding subprocess_run_def by (intro raises_rules)

lemma raises_execute [raises_rules]: "raises_only \<phi> (execute f)"
  by (simp add: execute_def raises_writes)

lemma raises_update_reg [raises_rules]: "raises_only \<phi> (update_reg f)"
  by (auto simp: raises_only_def update_reg_def split: prod.splits)

lemma raises_os_step [raises_rules]: "(\<And>msg. \<phi> (PyError ''OSError'' msg)) \<Longrightarrow> raises_only \<phi> (os_step env f)"
  unfolding os_step_def by (intro raises_rules)

lemma raises_insert_reg: "(\<And>r e. f r = Inl e \<Longrightarrow> \<phi> e) \<Longrightarrow> raises_only \<phi> (insert_reg f)"
  by (auto simp: raises_only_def insert_reg_def split: sum.splits)

lemma raises_call_reg: "(\<And>r e r'. f r = (Inl e, r') \<Longrightarrow> \<phi> e) \<Longrightarrow> raises_only \<phi> (call_reg f)"
  by (auto simp: raises_only_def call_reg_def split: prod.splits)

text \<open>An error with no data has none, rather than a null.\<close>

definition plain_error :: "exn \<Rightarrow> bool" where
  "plain_error e \<longleftrightarrow> (\<forall>c m. e \<noteq> RpcError c m (Some JNull))"

lemma plain_error_simps [simp]:
  "plain_error (PyError cls msg)" "plain_error (WsError msg fx)"
  "plain_error (RpcError c m (Some (JObj d)))" "plain_error (RpcError c m None)"
  by (simp_all add: plain_error_def)

end
