(* ===== verification/Audit_Log.thy ===== *)
theory Audit_Log
  imports Effects "HOL-Library.AList"
begin

text \<open>
  core/audit.py: the append-only audit log. The log is the list of its entries in the order
  they were written; the operating system may refuse the write.
\<close>

definition V2_EVENTS :: "string list" where
  "V2_EVENTS = [
     ''drydock.created'', ''drydock.resumed'', ''drydock.spawned'', ''drydock.spawn_rejected'',
     ''drydock.stopped'', ''drydock.destroyed'', ''drydock.error'',
     ''lease.issued'', ''lease.renewed'', ''lease.released'',
     ''token.issued'', ''token.revoked'',
     ''tailnet.device_deleted'', ''tailnet.device_delete_failed'',
     ''workload.lease_granted'', ''workload.lease_released'', ''workload.lease_apply_failed'',
     ''workload.lease_expired'', ''workload.lease_partial_revoked'',
     ''drydock.migration_started'', ''drydock.migration_stage'', ''drydock.migrated'',
     ''drydock.migration_rolled_back'', ''drydock.migration_failed'',
     ''auditor.designated'', ''auditor.scope_revoked'', ''auditor.action_dry_run'',
     ''auditor.action_executed'', ''auditor.action_refused'',
     ''auditor.clarification_registered'', ''auditor.clarification_rejected'',
     ''egress.allowlist_updated'', ''egress.allowlist_rejected'']"

text \<open>\<^verbatim>\<open>str(request_id)\<close> for the ids the dispatcher lets through.\<close>

fun py_str :: "json \<Rightarrow> string" where
  "py_str (JStr s) = s"
| "py_str (JInt n) = show_int n"
| "py_str (JBool b) = (if b then ''True'' else ''False'')"
| "py_str _ = ''None''"

definition append_entry :: "env \<Rightarrow> dict \<Rightarrow> unit op" where
  "append_entry env entry = os_step env (\<lambda>w. w\<lparr>w_audit := w_audit w @ [entry]\<rparr>)"

text \<open>The version 1 emitter of the host commands; \<open>extra\<close> overrides the keys it repeats.\<close>

definition dict_update :: "dict \<Rightarrow> dict \<Rightarrow> dict" where
  "dict_update d extra = fold (\<lambda>(k, v) acc. AList.update k v acc) extra d"

definition audit_log_event :: "env \<Rightarrow> string \<Rightarrow> string \<Rightarrow> dict \<Rightarrow> unit op" where
  "audit_log_event env event drydock_id extra =
     bind (utc_now env) (\<lambda>now.
       append_entry env (dict_update
         [(''timestamp'', JStr now), (''event'', JStr event), (''drydock_id'', JStr drydock_id)]
         extra))"

definition audit_entry ::
    "string \<Rightarrow> string \<Rightarrow> string option \<Rightarrow> json \<Rightarrow> string \<Rightarrow> string \<Rightarrow> dict \<Rightarrow> dict" where
  "audit_entry ts event who request_id meth result details =
     [(''ts'', JStr ts), (''event'', JStr event), (''principal'', jopt who),
      (''request_id'', if request_id = JNull then JNull else JStr (py_str request_id)),
      (''method'', JStr meth), (''result'', JStr result), (''details'', JObj details)]"

definition emit_audit ::
    "env \<Rightarrow> string \<Rightarrow> string option \<Rightarrow> json \<Rightarrow> string \<Rightarrow> string \<Rightarrow> dict \<Rightarrow> unit op" where
  "emit_audit env event who request_id meth result details =
     (if event \<notin> set V2_EVENTS then
        raise (PyError ''ValueError'' (''unknown audit event: '' @ quoted event @ '' (known: ['' @
          join '', '' (map quoted (sort V2_EVENTS)) @ ''])''))
      else
        bind (utc_now env) (\<lambda>ts.
          append_entry env (audit_entry ts event who request_id meth result details)))"

section \<open>Facts\<close>

text \<open>Emitting never touches the registry or the files, and only ever extends the log.\<close>

lemma append_entry_cases:
  "append_entry env entry w = (r, w') \<Longrightarrow>
     w_reg w' = w_reg w \<and> w_files w' = w_files w \<and> w_calls w' = w_calls w \<and>
     (case r of Inr _ \<Rightarrow> w_audit w' = w_audit w @ [entry] | Inl _ \<Rightarrow> w_audit w' = w_audit w)"
  by (auto simp: append_entry_def effect_defs split: option.splits)

lemma emit_audit_cases:
  "emit_audit env ev p i m res d w = (r, w') \<Longrightarrow>
     w_reg w' = w_reg w \<and> w_files w' = w_files w \<and> w_calls w' = w_calls w \<and>
     (case r of Inr _ \<Rightarrow> ev \<in> set V2_EVENTS \<and>
                  (\<exists>ts. w_audit w' = w_audit w @ [audit_entry ts ev p i m res d])
      | Inl _ \<Rightarrow> w_audit w' = w_audit w)"
  by (auto simp: emit_audit_def append_entry_def effect_defs split: option.splits if_splits)

lemma keeps_reg_emit_audit [keeps_rules]: "keeps (on_reg P) (emit_audit env ev p i m res d)"
  unfolding keeps_def by (metis emit_audit_cases prod.collapse)

lemma settled_emit_audit [keeps_rules]: "keeps (settled r f) (emit_audit env ev p i m res d)"
  unfolding keeps_def settled_def by (metis emit_audit_cases prod.collapse)

lemma raises_emit_audit [raises_rules]: "raises_only plain_error (emit_audit env ev p i m res d)"
  unfolding emit_audit_def append_entry_def by (intro raises_rules) simp_all

lemma emit_audit_unknown:
  "ev \<notin> set V2_EVENTS \<Longrightarrow> \<exists>msg. emit_audit env ev p i m res d w = (Inl (PyError ''ValueError'' msg), w)"
  by (simp add: emit_audit_def raise_def)

lemma lease_denied_unknown: "''lease.denied'' \<notin> set V2_EVENTS"
  by (simp add: V2_EVENTS_def)

end
