(* ===== verification/Registry_Facts.thy ===== *)
theory Registry_Facts
  imports Registry
begin

text \<open>
  What the registry promises: the keys of every table stay unique and at most one desk is the
  auditor, in every registry its methods can reach; what a lookup returns after an insert
  (the interface the handlers rely on, as a locale interpreted on each keyed table); what
  revocation, eviction, expiry and yard removal do and leave alone.
\<close>

section \<open>The invariant\<close>

definition one_auditor :: "token_row list \<Rightarrow> bool" where
  "one_auditor ts \<longleftrightarrow> (\<forall>t\<in>set ts. \<forall>u\<in>set ts.
     tk_scope t = ''auditor'' \<longrightarrow> tk_scope u = ''auditor'' \<longrightarrow> tk_drydock_id t = tk_drydock_id u)"

definition desk_keys_ok :: "registry \<Rightarrow> bool" where
  "desk_keys_ok r \<longleftrightarrow> distinct (map dd_id (drydocks r)) \<and> distinct (map dd_name (drydocks r))"

definition token_keys_ok :: "registry \<Rightarrow> bool" where
  "token_keys_ok r \<longleftrightarrow> distinct (map tk_drydock_id (tokens r)) \<and> one_auditor (tokens r)"

definition row_keys_ok :: "registry \<Rightarrow> bool" where
  "row_keys_ok r \<longleftrightarrow> distinct (map lease_id (leases r)) \<and> distinct (map tl_request_id (task_log r)) \<and>
     distinct (map am_id (amendments r)) \<and> distinct (map wl_id (workload_leases r)) \<and>
     distinct (map mg_id (migrations r))"

text \<open>The tables numbered by \<^verbatim>\<open>AUTOINCREMENT\<close>: no number twice, none beyond the counter.\<close>

definition numbered :: "int list \<Rightarrow> int \<Rightarrow> bool" where
  "numbered ids n \<longleftrightarrow> 0 \<le> n \<and> distinct ids \<and> (\<forall>i\<in>set ids. 1 \<le> i \<and> i \<le> n)"

definition row_numbers_ok :: "registry \<Rightarrow> bool" where
  "row_numbers_ok r \<longleftrightarrow> numbered (map ev_id (events r)) (int (length (events r))) \<and>
     numbered (map dw_id (deskwatch_events r)) (deskwatch_seq r) \<and>
     numbered (map cl_id (clarifications r)) (clarification_seq r)"

definition yard_keys_ok :: "registry \<Rightarrow> bool" where
  "yard_keys_ok r \<longleftrightarrow> distinct (map yd_id (yards r)) \<and> distinct (map yd_name (yards r))"

definition statuses_ok :: "registry \<Rightarrow> bool" where
  "statuses_ok r \<longleftrightarrow>
     (\<forall>t\<in>set (task_log r). tl_status t \<in> set task_statuses) \<and>
     (\<forall>a\<in>set (amendments r). am_status a \<in> set amendment_statuses) \<and>
     (\<forall>l\<in>set (workload_leases r). wl_status l \<in> set workload_statuses) \<and>
     (\<forall>m\<in>set (migrations r). mg_status m \<in> set migration_statuses)"

definition reg_wf :: "registry \<Rightarrow> bool" where
  "reg_wf r \<longleftrightarrow> desk_keys_ok r \<and> token_keys_ok r \<and> row_keys_ok r \<and> row_numbers_ok r \<and> yard_keys_ok r \<and>
     statuses_ok r"

lemmas reg_wf_defs = reg_wf_def desk_keys_ok_def token_keys_ok_def row_keys_ok_def row_numbers_ok_def
  yard_keys_ok_def statuses_ok_def

lemma numbered_Nil [simp]: "numbered [] n \<longleftrightarrow> 0 \<le> n"
  by (simp add: numbered_def)

lemma numbered_next [intro]: "numbered ids n \<Longrightarrow> numbered (ids @ [n + 1]) (n + 1)"
  by (auto simp: numbered_def)

lemma numbered_count [simp]: "numbered (ids @ [int n + 1]) (1 + int n) \<longleftrightarrow> numbered ids (int n)"
proof
  assume a: "numbered (ids @ [int n + 1]) (1 + int n)"
  have "i \<le> int n" if "i \<in> set ids" for i
    using a that by (cases "i = int n + 1") (auto simp: numbered_def)
  with a show "numbered ids (int n)" by (auto simp: numbered_def)
qed (auto simp: numbered_def)

lemma numbered_delete: "numbered (map f xs) n \<Longrightarrow> numbered (map f (filter P xs)) n"
  by (auto simp: numbered_def distinct_map_filter)


lemma find_None_fresh: "find (\<lambda>x. k x = y) xs = None \<longleftrightarrow> y \<notin> k ` set xs"
  by (auto simp: find_None_iff)

section \<open>Keyed tables\<close>

text \<open>
  The contract of a table with a primary key: an insert fails on a key in use and otherwise
  adds its row, and lookups of other keys do not change.
\<close>

locale row_store =
  fixes key :: "'row \<Rightarrow> string"
    and lookup :: "registry \<Rightarrow> string \<Rightarrow> 'row option"
    and ins :: "'row \<Rightarrow> registry \<Rightarrow> exn + registry"
    and stored :: "'row \<Rightarrow> 'row"
  assumes lookup_key: "lookup r k = Some x \<Longrightarrow> key x = k"
    and ins_used: "lookup r (key x) \<noteq> None \<Longrightarrow> \<exists>e. ins x r = Inl e"
    and lookup_ins: "ins x r = Inr r' \<Longrightarrow>
          lookup r' k = (if k = key x then Some (stored x) else lookup r k)"
begin

lemma ins_fresh: "ins x r = Inr r' \<Longrightarrow> lookup r (key x) = None"
  using ins_used [of r x] by fastforce

lemma ins_frame: "ins x r = Inr r' \<Longrightarrow> lookup r k = Some y \<Longrightarrow> lookup r' k = Some y"
  using ins_fresh [of x r r'] by (auto simp: lookup_ins)

lemma ins_twice: "ins x r = Inr r' \<Longrightarrow> key y = key x \<Longrightarrow> \<exists>e. ins y r' = Inl e"
  using lookup_ins [of x r r' "key x"] ins_used [of r' y] by simp

end

interpretation leases: row_store lease_id get_lease insert_lease "\<lambda>l. l"
  by unfold_locales
    (auto simp: get_lease_def insert_lease_def find_append
      dest: find_Some_D split: if_splits option.splits)

interpretation workloads: row_store wl_id get_workload_lease insert_workload_lease
  "\<lambda>l. l\<lparr>wl_revoked_at := None, wl_revoke_results := None\<rparr>"
  by unfold_locales
    (auto simp: get_workload_lease_def insert_workload_lease_def find_append
      dest: find_Some_D split: if_splits option.splits)

section \<open>Every operation keeps the invariant\<close>

lemma reg_wf_empty: "reg_wf empty_registry"
  by (simp add: reg_wf_defs empty_registry_def one_auditor_def)

lemma reg_wf_log_event [simp]: "reg_wf (log_event now d e dat r) = reg_wf r"
  by (simp add: reg_wf_defs log_event_def)

lemma reg_wf_create_drydock: "reg_wf r \<Longrightarrow> reg_wf (snd (create_drydock now ws r))"
  by (auto simp: create_drydock_def reg_wf_defs log_event_def inserted_row_def get_drydock_def
      drydock_by_id_def find_None_fresh split: option.splits)

lemma reg_wf_update_rows:
  assumes "reg_wf r" "\<And>d. dd_id (f d) = dd_id d" "\<And>d. dd_name (f d) = dd_name d"
  shows "reg_wf (r\<lparr>drydocks := update_where P f (drydocks r)\<rparr>)"
  using assms by (simp add: reg_wf_defs map_update_where)

lemma reg_wf_update_drydock:
  assumes "reg_wf r" "\<And>f d. flds = Some f \<Longrightarrow> dd_id (f d) = dd_id d \<and> dd_name (f d) = dd_name d"
  shows "reg_wf (snd (update_drydock now name flds r))"
  using assms by (auto simp: update_drydock_def Let_def split: option.splits
      intro!: reg_wf_update_rows)

lemma reg_wf_update_state: "reg_wf r \<Longrightarrow> reg_wf (snd (update_state now name st r))"
  by (auto simp: update_state_def Let_def split: option.splits intro!: reg_wf_update_rows)

lemma reg_wf_update_desk_delegations: "reg_wf r \<Longrightarrow> reg_wf (update_desk_delegations now name g r)"
  by (auto simp: update_desk_delegations_def apply_delegations_def intro!: reg_wf_update_drydock)

lemma reg_wf_delete_drydock: "reg_wf r \<Longrightarrow> reg_wf (delete_drydock now name r)"
  by (auto simp: delete_drydock_def Let_def reg_wf_defs log_event_def split: option.splits)

lemma one_auditor_sub:
  "one_auditor ts \<Longrightarrow> (\<And>u. u \<in> set us \<Longrightarrow> tk_scope u = ''auditor'' \<Longrightarrow> u \<in> set ts) \<Longrightarrow> one_auditor us"
  unfolding one_auditor_def by blast

lemma reg_wf_set_tokens:
  "reg_wf r \<Longrightarrow> distinct (map tk_drydock_id ts) \<Longrightarrow> one_auditor ts \<Longrightarrow> reg_wf (r\<lparr>tokens := ts\<rparr>)"
  by (simp add: reg_wf_defs)

lemma reg_wf_tokens: "reg_wf r \<Longrightarrow> distinct (map tk_drydock_id (tokens r)) \<and> one_auditor (tokens r)"
  by (simp add: reg_wf_defs)

lemma reg_wf_insert_token: "reg_wf r \<Longrightarrow> reg_wf (insert_token d sha ts r)"
  using reg_wf_tokens [of r]
  by (auto simp: insert_token_def intro!: reg_wf_set_tokens one_auditor_sub [of "tokens r"])

lemma one_auditor_update:
  assumes "distinct (map tk_drydock_id ts)"
    "\<And>t. t \<in> set ts \<Longrightarrow> tk_scope t = ''auditor'' \<Longrightarrow> tk_drydock_id t = d"
  shows "one_auditor (update_where (\<lambda>t. tk_drydock_id t = d \<and> P t) (\<lambda>t. t\<lparr>tk_scope := s\<rparr>) ts)"
  using assms by (auto simp: one_auditor_def set_update_where)

lemma reg_wf_designate_auditor:
  assumes "reg_wf r"
  shows "reg_wf (snd (designate_auditor d r))"
proof (cases "find (\<lambda>t. tk_scope t = ''auditor'' \<and> tk_drydock_id t \<noteq> d) (tokens r)")
  case None
  then have "\<And>t. t \<in> set (tokens r) \<Longrightarrow> tk_scope t = ''auditor'' \<Longrightarrow> tk_drydock_id t = d"
    by (auto simp: find_None_iff)
  with None assms show ?thesis
    by (simp add: designate_auditor_def Let_def reg_wf_set_tokens reg_wf_tokens map_update_where
        one_auditor_update)
qed (use assms in \<open>simp add: designate_auditor_def\<close>)

lemma reg_wf_revoke_auditor_scope: "reg_wf r \<Longrightarrow> reg_wf (snd (revoke_auditor_scope d r))"
  using reg_wf_tokens [of r]
  by (auto simp: revoke_auditor_scope_def Let_def map_update_where set_update_where
      intro!: reg_wf_set_tokens one_auditor_sub [of "tokens r"])

lemma reg_wf_delete_token: "reg_wf r \<Longrightarrow> reg_wf (delete_token d r)"
  by (auto simp: delete_token_def reg_wf_defs one_auditor_def)

lemma reg_wf_insert_clarification:
  "reg_wf r \<Longrightarrow> reg_wf (snd (insert_clarification d k s e c x r))"
  by (auto simp: insert_clarification_def Let_def reg_wf_defs)

lemma reg_wf_expire_clarifications: "reg_wf r \<Longrightarrow> reg_wf (snd (expire_clarifications now r))"
  by (simp add: expire_clarifications_def Let_def reg_wf_defs delete_where_def numbered_delete)

lemma reg_wf_evict: "reg_wf r \<Longrightarrow> reg_wf (snd (evict_old_task_log cutoff r))"
  by (auto simp: evict_old_task_log_def reg_wf_defs)

lemma reg_wf_insert_task: "reg_wf r \<Longrightarrow> insert_task t r = Inr r' \<Longrightarrow> reg_wf r'"
  by (auto simp: insert_task_def get_task_def reg_wf_defs find_None_fresh split: if_splits)

lemma reg_wf_finish_task_log:
  "reg_wf r \<Longrightarrow> st \<in> set task_statuses \<Longrightarrow> reg_wf (finish_task_log now i st out r)"
  by (auto simp: finish_task_log_def reg_wf_defs map_update_where set_update_where)

lemma reg_wf_insert_lease: "reg_wf r \<Longrightarrow> insert_lease l r = Inr r' \<Longrightarrow> reg_wf r'"
  by (auto simp: insert_lease_def get_lease_def reg_wf_defs find_None_fresh split: if_splits)

lemma reg_wf_revoke_lease: "reg_wf r \<Longrightarrow> reg_wf (snd (revoke_lease i reason r))"
  by (simp add: revoke_lease_def Let_def reg_wf_defs map_update_where)

lemma reg_wf_revoke_leases_for_desk: "reg_wf r \<Longrightarrow> reg_wf (snd (revoke_leases_for_desk d reason r))"
  by (simp add: revoke_leases_for_desk_def Let_def reg_wf_defs map_update_where)

lemma reg_wf_insert_workload_lease:
  "reg_wf r \<Longrightarrow> insert_workload_lease l r = Inr r' \<Longrightarrow> reg_wf r'"
  by (auto simp: insert_workload_lease_def get_workload_lease_def reg_wf_defs find_None_fresh
      split: if_splits)

lemma reg_wf_mark_workload_lease_revoked:
  "reg_wf r \<Longrightarrow> mark_workload_lease_revoked now i res st r = Inr r' \<Longrightarrow> reg_wf r'"
  by (auto simp: mark_workload_lease_revoked_def get_workload_lease_def reg_wf_defs map_update_where
      set_update_where find_None_iff split: if_splits)

lemma reg_wf_insert_migration: "reg_wf r \<Longrightarrow> insert_migration now i d p st r = Inr r' \<Longrightarrow> reg_wf r'"
  by (auto simp: insert_migration_def get_migration_def reg_wf_defs find_None_fresh split: if_splits)

lemma reg_wf_update_migration: "reg_wf r \<Longrightarrow> update_migration i u r = Inr r' \<Longrightarrow> reg_wf r'"
  by (auto simp: update_migration_def get_migration_def reg_wf_defs map_update_where
      set_update_where find_None_iff or_keep_def split: if_splits option.splits)

lemma reg_wf_record_deskwatch_event:
  "reg_wf r \<Longrightarrow> reg_wf (snd (record_deskwatch_event d k n s x ts r))"
  by (auto simp: record_deskwatch_event_def Let_def reg_wf_defs)

lemma reg_wf_create_yard: "reg_wf r \<Longrightarrow> reg_wf (snd (create_yard now n p c r))"
  by (auto simp: create_yard_def Let_def get_yard_def get_yard_by_id_def reg_wf_defs find_None_fresh)

lemma map_fold_update_where:
  "(\<And>d. g (f d) = g d) \<Longrightarrow> map g (fold (\<lambda>m. update_where (P m) f) ms rows) = map g rows"
  by (induction ms arbitrary: rows) (auto simp: map_update_where)

lemma reg_wf_destroy_yard: "reg_wf r \<Longrightarrow> reg_wf (snd (destroy_yard n w r))"
  by (auto simp: destroy_yard_def Let_def reg_wf_defs map_fold_update_where split: option.splits)

lemma reg_wf_create_amendment:
  "reg_wf r \<Longrightarrow> reg_wf (snd (create_amendment now u k q bt bi d y re t x st r))"
  by (auto simp: create_amendment_def Let_def get_amendment_def reg_wf_defs find_None_fresh)

lemma reg_wf_update_amendment_status:
  "reg_wf r \<Longrightarrow> reg_wf (snd (update_amendment_status now i st rb rn ap r))"
  by (auto simp: update_amendment_status_def Let_def reg_wf_defs map_update_where set_update_where
      split: option.splits)

lemma reg_wf_expire_old_pending_amendments:
  "reg_wf r \<Longrightarrow> reg_wf (snd (expire_old_pending_amendments cutoff r))"
  by (auto simp: expire_old_pending_amendments_def reg_wf_defs map_update_where set_update_where
      amendment_statuses_def)

section \<open>Reachable registries\<close>

text \<open>
  One rule per method of \<^verbatim>\<open>Registry\<close> that writes, first those that leave the task log to others. The
  keyword arguments the code passes to \<^verbatim>\<open>update_drydock\<close> never name the key columns.
\<close>

inductive table_step :: "registry \<Rightarrow> registry \<Rightarrow> bool" where
  create_drydock: "table_step r (snd (create_drydock now ws r))"
| update_drydock: "(\<And>d. dd_id (f d) = dd_id d \<and> dd_name (f d) = dd_name d) \<Longrightarrow>
     table_step r (snd (update_drydock now name (Some f) r))"
| update_state: "table_step r (snd (update_state now name st r))"
| update_delegations: "table_step r (update_desk_delegations now name g r)"
| delete_drydock: "table_step r (delete_drydock now name r)"
| log_event: "table_step r (log_event now d e dat r)"
| insert_token: "table_step r (insert_token d sha ts r)"
| designate: "table_step r (snd (designate_auditor d r))"
| revoke_auditor: "table_step r (snd (revoke_auditor_scope d r))"
| delete_token: "table_step r (delete_token d r)"
| insert_clarification: "table_step r (snd (insert_clarification d k s e c x r))"
| expire_clarifications: "table_step r (snd (expire_clarifications now r))"
| insert_lease: "insert_lease l r = Inr r' \<Longrightarrow> table_step r r'"
| revoke_lease: "table_step r (snd (revoke_lease i reason r))"
| revoke_desk: "table_step r (snd (revoke_leases_for_desk d reason r))"
| insert_workload: "insert_workload_lease wl r = Inr r' \<Longrightarrow> table_step r r'"
| mark_workload: "mark_workload_lease_revoked now i res st r = Inr r' \<Longrightarrow> table_step r r'"
| insert_migration: "insert_migration now i d p st r = Inr r' \<Longrightarrow> table_step r r'"
| update_migration: "update_migration i u r = Inr r' \<Longrightarrow> table_step r r'"
| deskwatch: "table_step r (snd (record_deskwatch_event d k n s dt ts r))"
| create_yard: "table_step r (snd (create_yard now n p c r))"
| destroy_yard: "table_step r (snd (destroy_yard n w r))"
| create_amendment: "table_step r (snd (create_amendment now u k q bt bi dd y re t x st r))"
| update_amendment: "table_step r (snd (update_amendment_status now i st rb rn ap r))"
| expire_amendments: "table_step r (snd (expire_old_pending_amendments cutoff r))"

text \<open>
  The task log is written by its eviction and by the two statements of daemon/rpc_common.py and
  daemon/recovery.py: a row is inserted under its constraints and closed as completed or failed.
\<close>

inductive reg_step :: "registry \<Rightarrow> registry \<Rightarrow> bool" where
  table: "table_step r r' \<Longrightarrow> reg_step r r'"
| evict: "reg_step r (snd (evict_old_task_log cutoff r))"
| insert_task: "insert_task t r = Inr r' \<Longrightarrow> reg_step r r'"
| finish_task: "st = ''completed'' \<or> st = ''failed'' \<Longrightarrow> reg_step r (finish_task_log now i st out r)"

lemmas reg_wf_total = reg_wf_create_drydock reg_wf_update_state
  reg_wf_update_desk_delegations reg_wf_delete_drydock reg_wf_insert_token reg_wf_designate_auditor
  reg_wf_revoke_auditor_scope reg_wf_delete_token reg_wf_insert_clarification
  reg_wf_expire_clarifications reg_wf_revoke_lease
  reg_wf_revoke_leases_for_desk reg_wf_record_deskwatch_event
  reg_wf_create_yard reg_wf_destroy_yard reg_wf_create_amendment reg_wf_update_amendment_status
  reg_wf_expire_old_pending_amendments

lemmas reg_wf_inserts = reg_wf_insert_lease [rotated] reg_wf_insert_workload_lease [rotated]
  reg_wf_mark_workload_lease_revoked [rotated] reg_wf_insert_migration [rotated]
  reg_wf_update_migration [rotated]

lemma table_step_wf: "table_step r r' \<Longrightarrow> reg_wf r \<Longrightarrow> reg_wf r'"
proof (induction rule: table_step.induct)
  case (update_drydock f r now name)
  then show ?case by (auto intro!: reg_wf_update_drydock)
qed (erule (1) reg_wf_inserts | erule reg_wf_total | simp only: reg_wf_log_event)+

lemma reg_step_wf: "reg_step r r' \<Longrightarrow> reg_wf r \<Longrightarrow> reg_wf r'"
  by (induction rule: reg_step.induct)
    (auto intro: table_step_wf reg_wf_evict reg_wf_insert_task reg_wf_finish_task_log simp: task_statuses_def)

text \<open>The methods of the first group never write the task log.\<close>

lemma table_step_task_log: "table_step r r' \<Longrightarrow> task_log r' = task_log r"
  by (induction rule: table_step.induct)
    (auto simp: create_drydock_def update_drydock_def update_state_def update_desk_delegations_def delete_drydock_def
      log_event_def insert_token_def designate_auditor_def revoke_auditor_scope_def delete_token_def
      insert_clarification_def expire_clarifications_def insert_lease_def revoke_lease_def revoke_leases_for_desk_def
      insert_workload_lease_def mark_workload_lease_revoked_def insert_migration_def update_migration_def
      record_deskwatch_event_def create_yard_def destroy_yard_def create_amendment_def update_amendment_status_def
      expire_old_pending_amendments_def Let_def split: option.splits if_splits)

lemma table_steps_task_log: "table_step\<^sup>*\<^sup>* r r' \<Longrightarrow> task_log r' = task_log r"
  by (induction rule: rtranclp_induct) (simp_all add: table_step_task_log)

inductive reg_reachable :: "registry \<Rightarrow> bool" where
  start: "reg_reachable empty_registry"
| step: "reg_reachable r \<Longrightarrow> reg_step r r' \<Longrightarrow> reg_reachable r'"

lemma reg_reachable_wf: "reg_reachable r \<Longrightarrow> reg_wf r"
  by (induction rule: reg_reachable.induct) (auto intro: reg_wf_empty reg_step_wf)

section \<open>Leases\<close>

definition active_leases :: "registry \<Rightarrow> string \<Rightarrow> CapabilityLease list" where
  "active_leases r d = filter (\<lambda>l. ls_drydock_id l = d \<and> \<not> ls_revoked l) (leases r)"

lemma set_list_active [simp]: "set (list_active_leases_for_desk r d) = set (active_leases r d)"
  by (simp add: list_active_leases_for_desk_def active_leases_def)

lemma find_active_aws_None_iff:
  "find_active_aws_lease r d = None \<longleftrightarrow> (\<forall>l\<in>set (active_leases r d). \<not> is_aws_type (ls_type l))"
  by (auto simp: find_active_aws_lease_def find_None_iff)

lemma find_active_aws_SomeD:
  "find_active_aws_lease r d = Some l \<Longrightarrow> l \<in> set (active_leases r d) \<and> is_aws_type (ls_type l)"
  unfolding find_active_aws_lease_def by (drule find_Some_D) simp

lemma get_lease_in: "reg_wf r \<Longrightarrow> get_lease r i = Some l \<longleftrightarrow> l \<in> set (leases r) \<and> lease_id l = i"
  using find_distinct_key [of lease_id "leases r" l]
  by (auto simp: get_lease_def reg_wf_defs dest: find_Some_D)

lemma get_lease_revoke:
  "get_lease (snd (revoke_lease i reason r)) j =
     map_option (\<lambda>l. if j = i \<and> \<not> ls_revoked l
       then l\<lparr>ls_revoked := True, ls_revocation_reason := Some reason\<rparr> else l) (get_lease r j)"
proof -
  have "map_option (\<lambda>l. if lease_id l = i \<and> \<not> ls_revoked l then f l else l) (find (\<lambda>l. lease_id l = j) ls)
      = map_option (\<lambda>l. if j = i \<and> \<not> ls_revoked l then f l else l) (find (\<lambda>l. lease_id l = j) ls)"
    for f ls by (cases "find (\<lambda>l. lease_id l = j) ls") (auto dest: find_Some_D)
  then show ?thesis by (simp add: revoke_lease_def Let_def get_lease_def find_update_where)
qed

lemma fst_revoke_lease:
  "reg_wf r \<Longrightarrow> fst (revoke_lease i reason r) \<longleftrightarrow> (\<exists>l. get_lease r i = Some l \<and> \<not> ls_revoked l)"
  by (auto simp: revoke_lease_def Let_def row_count_def filter_empty_conv get_lease_in)

lemma filter_update_where_out:
  assumes "\<And>x. P x \<Longrightarrow> \<not> Q (f x)"
  shows "filter Q (update_where P f xs) = filter (\<lambda>x. Q x \<and> \<not> P x) xs"
  using assms by (induction xs) auto

lemma active_leases_revoke_desk:
  "active_leases (snd (revoke_leases_for_desk d reason r)) e =
     (if e = d then [] else active_leases r e)"
proof -
  have "active_leases (snd (revoke_leases_for_desk d reason r)) e =
      filter (\<lambda>l. (ls_drydock_id l = e \<and> \<not> ls_revoked l) \<and> \<not> (ls_drydock_id l = d \<and> \<not> ls_revoked l)) (leases r)"
    by (simp add: active_leases_def revoke_leases_for_desk_def Let_def filter_update_where_out)
  also have "\<dots> = (if e = d then [] else active_leases r e)"
    by (cases "e = d") (auto simp: active_leases_def intro: filter_cong)
  finally show ?thesis .
qed

lemma active_leases_revoke:
  "active_leases (snd (revoke_lease i reason r)) d = filter (\<lambda>l. lease_id l \<noteq> i) (active_leases r d)"
proof -
  have "active_leases (snd (revoke_lease i reason r)) d =
      filter (\<lambda>l. (ls_drydock_id l = d \<and> \<not> ls_revoked l) \<and> \<not> (lease_id l = i \<and> \<not> ls_revoked l)) (leases r)"
    by (simp add: active_leases_def revoke_lease_def Let_def filter_update_where_out)
  then show ?thesis by (simp add: active_leases_def) (metis (mono_tags, lifting))
qed

lemma length_active_revoke_lt:
  "l \<in> set (active_leases r d) \<Longrightarrow>
   length (active_leases (snd (revoke_lease (lease_id l) reason r)) d) < length (active_leases r d)"
  unfolding active_leases_revoke by (rule length_filter_less) simp_all

lemma active_leases_insert:
  "insert_lease l r = Inr r' \<Longrightarrow>
   active_leases r' d = active_leases r d @ (if ls_drydock_id l = d \<and> \<not> ls_revoked l then [l] else [])"
  by (auto simp: insert_lease_def active_leases_def split: if_splits)

text \<open>Revocation is final: a second one changes nothing and keeps the first reason.\<close>

lemma revoke_lease_final:
  assumes "reg_wf r" "revoke_lease i reason r = (True, r')"
  shows "\<exists>l. get_lease r' i = Some l \<and> ls_revoked l \<and> ls_revocation_reason l = Some reason"
    and "revoke_lease i reason2 r' = (False, r')"
proof -
  have r': "r' = snd (revoke_lease i reason r)" using assms by simp
  from assms fst_revoke_lease [OF assms(1), of i reason] obtain l where
    l: "get_lease r i = Some l" "\<not> ls_revoked l" by auto
  then show ex: "\<exists>l. get_lease r' i = Some l \<and> ls_revoked l \<and> ls_revocation_reason l = Some reason"
    by (simp add: r' get_lease_revoke)
  have wf: "reg_wf r'" using assms(1) by (simp add: r' reg_wf_revoke_lease)
  have none: "\<forall>x\<in>set (leases r'). \<not> (lease_id x = i \<and> \<not> ls_revoked x)"
    using ex get_lease_in [OF wf, of i] by (metis option.inject)
  then have c: "row_count (\<lambda>l. lease_id l = i \<and> \<not> ls_revoked l) (leases r') = 0"
    by (simp add: row_count_0_iff)
  show "revoke_lease i reason2 r' = (False, r')"
    using none by (simp add: revoke_lease_def Let_def c update_where_idle)
qed

lemma revoke_lease_frame:
  "drydocks (snd (revoke_lease i reason r)) = drydocks r"
  "tokens (snd (revoke_lease i reason r)) = tokens r"
  "amendments (snd (revoke_lease i reason r)) = amendments r"
  "task_log (snd (revoke_lease i reason r)) = task_log r"
  by (simp_all add: revoke_lease_def Let_def)

section \<open>Properties\<close>

text \<open>
  (C5) The registry's invariant: in every registry that its methods and the two task-log statements
  can reach from the empty one, ids and names of desks and yards are unique, no two rows of any
  other table share their key (the numbers of events, deskwatch events and clarifications
  included), at most one desk has the auditor scope, and every status that the schema checks (of
  task rows, amendments, workload leases and migrations) is one that it allows.
\<close>

theorem reachable_registry_wf: "reg_reachable r \<Longrightarrow> reg_wf r"
  by (rule reg_reachable_wf)

definition sample_task :: task_row where
  "sample_task = \<lparr>tl_request_id = ''1'', tl_method = ''CreateDesk'', tl_spec = JNull, tl_status = ''in_progress'',
     tl_outcome = None, tl_created_at = ''t'', tl_completed_at = None\<rparr>"

theorem reachable_registry_wf_witness:
  "reg_wf (snd (designate_auditor ''dock_a'' (insert_token ''dock_a'' ''h'' ''t'' (finish_task_log ''t'' ''1'' ''failed'' JNull
     (empty_registry\<lparr>task_log := [sample_task]\<rparr>)))))"
proof (rule reachable_registry_wf)
  let ?a = "empty_registry\<lparr>task_log := [sample_task]\<rparr>"
  have "insert_task sample_task empty_registry = Inr ?a"
    by (simp add: insert_task_def get_task_def empty_registry_def sample_task_def task_statuses_def)
  then have "reg_reachable ?a" by (rule reg_reachable.step [OF reg_reachable.start reg_step.insert_task])
  then have "reg_reachable (finish_task_log ''t'' ''1'' ''failed'' JNull ?a)"
    by (rule reg_reachable.step [OF _ reg_step.finish_task]) simp
  then have "reg_reachable (insert_token ''dock_a'' ''h'' ''t'' (finish_task_log ''t'' ''1'' ''failed'' JNull ?a))"
    by (rule reg_reachable.step [OF _ reg_step.table [OF table_step.insert_token]])
  then show "reg_reachable (snd (designate_auditor ''dock_a'' (insert_token ''dock_a'' ''h'' ''t''
      (finish_task_log ''t'' ''1'' ''failed'' JNull ?a))))"
    by (rule reg_reachable.step [OF _ reg_step.table [OF table_step.designate]])
qed

text \<open>
  Revocation is final: revoking a lease in force marks it with the reason, and revoking it
  again reports nothing revoked and leaves the registry as it is, the first reason included.
\<close>

theorem revocation_is_final:
  assumes "reg_wf r" "get_lease r i = Some l" "\<not> ls_revoked l"
  shows "\<exists>r'. revoke_lease i reason r = (True, r') \<and>
    get_lease r' i = Some (l\<lparr>ls_revoked := True, ls_revocation_reason := Some reason\<rparr>) \<and>
    revoke_lease i reason2 r' = (False, r')"
proof -
  let ?r = "snd (revoke_lease i reason r)"
  have rv: "revoke_lease i reason r = (True, ?r)"
    using fst_revoke_lease [OF assms(1), of i reason] assms(2,3) by (metis prod.collapse)
  show ?thesis
    using rv revoke_lease_final(2) [OF assms(1) rv] assms(2,3) by (auto simp: get_lease_revoke)
qed

definition sample_revocable :: CapabilityLease where
  "sample_revocable = \<lparr>lease_id = ''ls_1'', ls_drydock_id = ''dock_a'', ls_type = SECRET,
     ls_scope = [], ls_issued_at = ''t1'', ls_expiry = None, ls_issuer = ''daemon'', ls_revoked = False,
     ls_revocation_reason = None\<rparr>"

theorem revocation_is_final_witness:
  "\<exists>r'. revoke_lease ''ls_1'' ''released'' (empty_registry\<lparr>leases := [sample_revocable]\<rparr>) = (True, r') \<and>
    get_lease r' ''ls_1'' = Some (sample_revocable\<lparr>ls_revoked := True, ls_revocation_reason := Some ''released''\<rparr>) \<and>
    revoke_lease ''ls_1'' ''superseded'' r' = (False, r')"
  by (rule revocation_is_final) (simp_all add: reg_wf_defs one_auditor_def empty_registry_def
      get_lease_def sample_revocable_def)

end
