(* ===== verification/Rpc_Common.thy ===== *)
theory Rpc_Common
  imports Audit_Log Registry_Facts
begin

text \<open>
  daemon/rpc_common.py: the idempotency contract of the calls that are wrapped in it. The outcome of a
  request is stored in the task log under the text of its id, and a repeated request replays
  it. Proved here: a replay changes nothing and answers what the first call answered; only
  an exception that is not an \<^verbatim>\<open>_RpcError\<close> leaves the row open, and then every retry is told
  to wait.
\<close>

section \<open>Task rows\<close>

interpretation tasks: row_store tl_request_id get_task insert_task "\<lambda>t. t"
  by unfold_locales
    (auto simp: get_task_def insert_task_def find_append
      dest: find_Some_D split: if_splits option.splits)

lemma get_task_finish:
  "get_task (finish_task_log now i st out r) k = map_option (\<lambda>t. if k = i
     then t\<lparr>tl_status := st, tl_outcome := Some out, tl_completed_at := Some now\<rparr> else t) (get_task r k)"
proof -
  have "map_option (\<lambda>t. if tl_request_id t = i then f t else t) (find (\<lambda>t. tl_request_id t = k) ts)
      = map_option (\<lambda>t. if k = i then f t else t) (find (\<lambda>t. tl_request_id t = k) ts)"
    for f ts by (cases "find (\<lambda>t. tl_request_id t = k) ts") (auto dest: find_Some_D)
  then show ?thesis by (simp add: finish_task_log_def get_task_def find_update_where)
qed

section \<open>Replay\<close>

definition internal_error :: exn where
  "internal_error = RpcError (-32603) ''Internal error'' None"

text \<open>
  The code, message and data of a stored error. An outcome without a code or a message raises
  \<^verbatim>\<open>KeyError\<close>; the code is an integer and the message a string in every error stored.
\<close>

definition stored_error :: "dict \<Rightarrow> exn" where
  "stored_error d =
    (case (map_of d ''code'', map_of d ''message'') of
       (Some (JInt c), Some (JStr m)) \<Rightarrow> 
         RpcError c m (case map_of d ''data'' of Some JNull \<Rightarrow> None | v \<Rightarrow> v)
     | _ \<Rightarrow> PyError ''KeyError'' ''code'')"

definition replay_cached_outcome :: "string \<Rightarrow> string \<Rightarrow> json option \<Rightarrow> exn + json" where
  "replay_cached_outcome request_id status outcome =
    (if status = ''in_progress'' then
       Inl (RpcError (-32002) ''request_in_progress''
              (Some (JObj [(''request_id'', JStr request_id)])))
     else if status = ''completed'' then Inr (case outcome of None \<Rightarrow> JNull | Some v \<Rightarrow> v)
     else
       (case outcome of
          Some (JObj d) \<Rightarrow>
            if status = ''failed'' \<and> dict_get d ''destroyed'' = JBool True then Inr (JObj d)
            else if status = ''failed'' then Inl (stored_error d)
            else Inl internal_error
        | _ \<Rightarrow> Inl internal_error))"

definition error_outcome :: "int \<Rightarrow> string \<Rightarrow> json option \<Rightarrow> json" where
  "error_outcome c m data =
     JObj ([(''code'', JInt c), (''message'', JStr m)] @
           (case data of None \<Rightarrow> [] | Some v \<Rightarrow> [(''data'', v)]))"

text \<open>The body after the row is inserted: run, then close the row.\<close>

definition run_logged :: "env \<Rightarrow> string \<Rightarrow> (json \<Rightarrow> string) \<Rightarrow> json op \<Rightarrow> json op" where
  "run_logged env key status_for fn =
     bind
       (try_except fn (\<lambda>e.
          case e of
            RpcError c m data \<Rightarrow>
              bind (utc_now env) (\<lambda>now.
                andthen (execute (finish_task_log now key ''failed'' (error_outcome c m data)))
                  (raise e))
          | _ \<Rightarrow> raise e))
       (\<lambda>result. bind (utc_now env) (\<lambda>now.
          andthen (execute (finish_task_log now key (status_for result) result)) (ret result)))"

definition request_id_required :: exn where
  "request_id_required = RpcError (-32600) ''Invalid Request''
     (Some (JObj [(''reason'', JStr ''request_id_required'')]))"

definition open_row :: "string \<Rightarrow> string \<Rightarrow> string \<Rightarrow> json \<Rightarrow> task_row" where
  "open_row now meth key params = \<lparr>tl_request_id = key, tl_method = meth, tl_spec = params,
     tl_status = ''in_progress'', tl_outcome = None, tl_created_at = now, tl_completed_at = None\<rparr>"

definition with_task_log ::
    "env \<Rightarrow> string \<Rightarrow> json \<Rightarrow> json \<Rightarrow> (json \<Rightarrow> string) \<Rightarrow> json op \<Rightarrow> json op" where
  "with_task_log env meth params request_id status_for fn =
    (if request_id = JNull then raise request_id_required
     else
       let key = py_str request_id in
       bind (query (\<lambda>r. get_task r key)) (\<lambda>cached.
         case cached of
           Some t \<Rightarrow> from_sum (replay_cached_outcome key (tl_status t) (tl_outcome t))
         | None \<Rightarrow>
             bind (utc_now env) (\<lambda>now.
               andthen
                 (insert_reg (insert_task (open_row now meth key params)))
                 (run_logged env key status_for fn))))"

text \<open>\<^verbatim>\<open>status_for\<close> where the handler gives none, and the one of \<^verbatim>\<open>_destroy_desk\<close>.\<close>

definition always_completed :: "json \<Rightarrow> string" where
  "always_completed result = ''completed''"

definition destroy_status :: "json \<Rightarrow> string" where
  "destroy_status result =
    (case result of JObj d \<Rightarrow> if truthy (dict_get d ''partial_failures'') then ''failed'' else ''completed''
     | _ \<Rightarrow> ''completed'')"

section \<open>Facts\<close>

lemma with_task_log_cached:
  assumes "request_id \<noteq> JNull" "get_task (w_reg w) (py_str request_id) = Some t"
  shows "with_task_log env meth params request_id status_for fn w =
     (replay_cached_outcome (py_str request_id) (tl_status t) (tl_outcome t), w)"
  using assms by (simp add: with_task_log_def effect_defs Let_def split: sum.split)

lemma with_task_log_opens:
  assumes "request_id \<noteq> JNull" "get_task (w_reg w) (py_str request_id) = None"
  obtains w1 now where "with_task_log env meth params request_id status_for fn w =
      run_logged env (py_str request_id) status_for fn w1"
    and "insert_task (open_row now meth (py_str request_id) params) (w_reg w) = Inr (w_reg w1)"
    and "w_reg w1\<lparr>task_log := task_log (w_reg w)\<rparr> = w_reg w"
    and "w_files w1 = w_files w" "w_audit w1 = w_audit w" "w_calls w1 = w_calls w"
proof -
  let ?t = "open_row (e_now env (w_ticks w)) meth (py_str request_id) params"
  define w1 where "w1 = w\<lparr>w_ticks := Suc (w_ticks w), w_reg := (w_reg w)\<lparr>task_log := task_log (w_reg w) @ [?t]\<rparr>\<rparr>"
  have ins: "insert_task ?t (w_reg w) = Inr (w_reg w1)"
    using assms by (simp add: insert_task_def task_statuses_def open_row_def w1_def)
  have "with_task_log env meth params request_id status_for fn w =
      run_logged env (py_str request_id) status_for fn w1"
    using assms ins by (simp add: with_task_log_def effect_defs Let_def) (simp add: w1_def)
  with ins show thesis using that [of w1] by (simp add: w1_def)
qed

lemma with_task_log_fresh:
  assumes "request_id \<noteq> JNull" "get_task (w_reg w) (py_str request_id) = None"
  obtains w1 where "with_task_log env meth params request_id status_for fn w =
      run_logged env (py_str request_id) status_for fn w1"
    and "get_task (w_reg w1) (py_str request_id) \<noteq> None"
    and "tl_status (the (get_task (w_reg w1) (py_str request_id))) = ''in_progress''"
    and "w_files w1 = w_files w" "w_audit w1 = w_audit w" "w_calls w1 = w_calls w"
    and "w_reg w1\<lparr>task_log := task_log (w_reg w)\<rparr> = w_reg w"
proof -
  obtain w1 now where 1: "with_task_log env meth params request_id status_for fn w =
      run_logged env (py_str request_id) status_for fn w1"
    "insert_task (open_row now meth (py_str request_id) params) (w_reg w) = Inr (w_reg w1)"
    "w_reg w1\<lparr>task_log := task_log (w_reg w)\<rparr> = w_reg w"
    "w_files w1 = w_files w" "w_audit w1 = w_audit w" "w_calls w1 = w_calls w"
    by (rule with_task_log_opens [OF assms])
  have "get_task (w_reg w1) (py_str request_id) = Some (open_row now meth (py_str request_id) params)"
    using tasks.lookup_ins [OF 1(2), of "py_str request_id"] by (simp add: open_row_def)
  with 1 show thesis using that [of w1] by (simp add: open_row_def)
qed

lemma replay_error_outcome [simp]:
  "data \<noteq> Some JNull \<Longrightarrow>
   replay_cached_outcome k ''failed'' (Some (error_outcome c m data)) = Inl (RpcError c m data)"
  by (cases data) (auto simp: replay_cached_outcome_def error_outcome_def stored_error_def
      dict_get_def split: json.splits)

section \<open>The contract of a logged handler\<close>

text \<open>
  What the wrapper relies on: a handler leaves the task log alone, and an error with no data
  has none rather than a null.
\<close>

abbreviation task_is :: "string \<Rightarrow> task_row option \<Rightarrow> world \<Rightarrow> bool" where
  "task_is k v \<equiv> on_reg (\<lambda>r. get_task r k = v)"

locale logged_handler =
  fixes fn :: "json op"
  assumes task_frame: "keeps (task_is k v) fn"
    and error_data: "raises_only plain_error fn"
begin

lemma row_after:
  assumes "fn w = (r, w')" "get_task (w_reg w) k = Some t"
  shows "get_task (w_reg w') k = Some t"
  using keepsD [OF task_frame assms(1), of k "Some t"] assms(2) by simp

lemma logged_row:
  assumes "get_task (w_reg w) key = Some t" "run_logged env key status_for fn w = (res, w')"
  shows "\<exists>t'. get_task (w_reg w') key = Some t' \<and>
    (case res of
       Inr v \<Rightarrow> tl_status t' = status_for v \<and> tl_outcome t' = Some v
     | Inl (RpcError c m data) \<Rightarrow> tl_status t' = ''failed'' \<and> tl_outcome t' = Some (error_outcome c m data)
     | Inl _ \<Rightarrow> t' = t)"
proof (cases "fn w")
  case (Pair r w1)
  note row = row_after [OF Pair assms(1)]
  show ?thesis
  proof (cases r)
    case (Inl e)
    then show ?thesis using Pair row assms(2)
      by (cases e) (auto simp: run_logged_def effect_defs get_task_finish)
  next
    case (Inr v)
    then show ?thesis using Pair row assms(2)
      by (auto simp: run_logged_def effect_defs get_task_finish)
  qed
qed

lemma logged_error_data:
  "run_logged env key status_for fn w = (Inl (RpcError c m data), w') \<Longrightarrow> data \<noteq> Some JNull"
  using error_data
  by (auto simp: run_logged_def effect_defs raises_only_def plain_error_def
      split: prod.splits sum.splits exn.splits)

text \<open>
  The outcome of a first call decides every later call with the same id, whatever that call
  would run: a value and an \<^verbatim>\<open>_RpcError\<close> come back unchanged, any other exception leaves the
  request in progress; in no case does the world change.
\<close>

lemma retry:
  assumes rid: "request_id \<noteq> JNull" "get_task (w_reg w) (py_str request_id) = None"
    and first: "with_task_log env meth params request_id status_for fn w = (res, w')"
    and status: "\<And>v. res = Inr v \<Longrightarrow> status_for v = ''completed''"
  shows "with_task_log env' meth' params' request_id status_for' fn' w' =
    (case res of
       Inr v \<Rightarrow> Inr v
     | Inl (RpcError c m data) \<Rightarrow> Inl (RpcError c m data)
     | Inl _ \<Rightarrow> Inl (RpcError (-32002) ''request_in_progress''
                  (Some (JObj [(''request_id'', JStr (py_str request_id))]))), w')"
proof -
  obtain w1 where w1: "with_task_log env meth params request_id status_for fn w =
      run_logged env (py_str request_id) status_for fn w1"
    "get_task (w_reg w1) (py_str request_id) \<noteq> None"
    "tl_status (the (get_task (w_reg w1) (py_str request_id))) = ''in_progress''"
    by (rule with_task_log_fresh [OF rid])
  then obtain t where t: "get_task (w_reg w1) (py_str request_id) = Some t" "tl_status t = ''in_progress''"
    by auto
  have run: "run_logged env (py_str request_id) status_for fn w1 = (res, w')"
    using first w1(1) by simp
  from logged_row [OF t(1) run] obtain t' where
    t': "get_task (w_reg w') (py_str request_id) = Some t'" and
    out: "case res of
       Inr v \<Rightarrow> tl_status t' = status_for v \<and> tl_outcome t' = Some v
     | Inl (RpcError c m data) \<Rightarrow> tl_status t' = ''failed'' \<and> tl_outcome t' = Some (error_outcome c m data)
     | Inl _ \<Rightarrow> t' = t" by blast
  have "replay_cached_outcome (py_str request_id) (tl_status t') (tl_outcome t') =
    (case res of
       Inr v \<Rightarrow> Inr v
     | Inl (RpcError c m data) \<Rightarrow> Inl (RpcError c m data)
     | Inl _ \<Rightarrow> Inl (RpcError (-32002) ''request_in_progress''
                  (Some (JObj [(''request_id'', JStr (py_str request_id))]))))"
    using out status t(2) logged_error_data run
    by (auto split: sum.splits exn.splits simp: replay_cached_outcome_def [of _ "''completed''"]
        replay_cached_outcome_def [of _ "''in_progress''"])
  then show ?thesis by (simp add: with_task_log_cached [OF rid(1) t'])
qed

end

end
