(* ===== verification/Auth.thy ===== *)
theory Auth
  imports Rpc_Common
begin

text \<open>
  daemon/auth.py: bearer tokens. A token is issued once per desk, its plaintext goes to the
  desk's secret directory and its digest to the registry; validation looks the digest up.
\<close>

definition TOKEN_FILENAME :: string where
  "TOKEN_FILENAME = ''drydock-token''"

text \<open>
  \<^verbatim>\<open>_write_secret_atomic\<close>: the text is written beside the target and renamed over it, so the
  target changes only once the write has succeeded.
\<close>

definition write_secret_atomic :: "env \<Rightarrow> string \<Rightarrow> string \<Rightarrow> string \<Rightarrow> unit op" where
  "write_secret_atomic env d name plaintext =
     os_step env (\<lambda>w. w\<lparr>w_files := (w_files w)((d, name) := Some (Bytes plaintext))\<rparr>)"

definition generate_token :: "env \<Rightarrow> string op" where
  "generate_token env = bind tick (\<lambda>n. ret (e_token env n))"

definition issue_token_for_desk :: "env \<Rightarrow> string \<Rightarrow> string op" where
  "issue_token_for_desk env drydock_id =
     bind (query (\<lambda>r. get_token_info r drydock_id)) (\<lambda>token_info.
       case token_info of
         Some _ \<Rightarrow>
           bind (reads (\<lambda>w. w_files w (drydock_id, TOKEN_FILENAME))) (\<lambda>node.
             case node of
               None \<Rightarrow> raise (RpcError (-32603) ''token_exists_no_plaintext'' None)
             | Some (Bytes s) \<Rightarrow> ret (strip s)
             | Some Denied \<Rightarrow> raise (PyError ''PermissionError'' '''')
             | Some Broken \<Rightarrow> raise (PyError ''OSError'' ''''))
       | None \<Rightarrow>
           bind (generate_token env) (\<lambda>plaintext.
             andthen (write_secret_atomic env drydock_id TOKEN_FILENAME plaintext)
               (bind (utc_now env) (\<lambda>issued_at.
                  andthen (execute (insert_token drydock_id (e_sha256 env plaintext) issued_at))
                    (ret plaintext)))))"

definition validate_token :: "env \<Rightarrow> string option \<Rightarrow> registry \<Rightarrow> string option" where
  "validate_token env plaintext r =
    (case plaintext of
       None \<Rightarrow> None
     | Some p \<Rightarrow> if p = [] then None else find_desk_by_token_hash r (e_sha256 env p))"

definition validate_token_with_scope ::
    "env \<Rightarrow> string option \<Rightarrow> registry \<Rightarrow> (string \<times> string) option" where
  "validate_token_with_scope env plaintext r =
    (case plaintext of
       None \<Rightarrow> None
     | Some p \<Rightarrow> if p = [] then None else find_token_record_by_hash r (e_sha256 env p))"

section \<open>Facts\<close>

lemma keeps_reg_write_secret [keeps_rules]: "keeps (on_reg P) (write_secret_atomic env d n s)"
  unfolding write_secret_atomic_def by (rule keeps_os_step) simp

lemma keeps_issue_token:
  "(\<And>d sha ts r. P r \<Longrightarrow> P (insert_token d sha ts r)) \<Longrightarrow> keeps (on_reg P) (issue_token_for_desk env d)"
  unfolding issue_token_for_desk_def generate_token_def
  by (intro keeps_rules keeps_execute) (auto split: file_node.split intro: keeps_rules)

lemma validate_scope_agrees:
  "validate_token env p r = map_option fst (validate_token_with_scope env p r)"
  by (auto simp: validate_token_def validate_token_with_scope_def find_desk_by_token_hash_def
      find_token_record_by_hash_def option.map_comp o_def split: option.split)

lemma find_token_insert:
  assumes "find (\<lambda>t. tk_sha256 t = sha) (tokens r) = None" "get_token_info r d = None"
  shows "find_desk_by_token_hash (insert_token d sha ts r) sha = Some d"
proof -
  have "\<not> (\<exists>t\<in>set (tokens r). tk_drydock_id t = d)"
    using assms(2) by (auto simp: get_token_info_def find_None_iff)
  with assms(1) show ?thesis
    by (simp add: find_desk_by_token_hash_def insert_token_def find_append)
qed

text \<open>A token that validates names a desk the registry holds a token row for.\<close>

lemma validate_token_row:
  "validate_token env p r = Some d \<Longrightarrow> \<exists>t\<in>set (tokens r). tk_drydock_id t = d \<and> tk_sha256 t = e_sha256 env (the p)"
  by (auto simp: validate_token_def find_desk_by_token_hash_def dest!: find_Some_D
      split: option.splits if_splits)

end
