(* ===== verification/Secrets_Backend.thy ===== *)
theory Secrets_Backend
  imports Effects
begin

text \<open>
  core/secrets.py and core/storage.py: where leases come from. The file backend reads a desk's
  secret directory; the storage backends mint credentials narrowed by a session policy, by
  calling the AWS command line (\<open>Sts\<close>) or with fixed values (\<open>Stub\<close>).
\<close>

section \<open>Secrets\<close>

text \<open>\<^verbatim>\<open>FileBackend.fetch\<close>.\<close>

definition file_fetch :: "string \<Rightarrow> string \<Rightarrow> string option op" where
  "file_fetch secret_name drydock_id =
     bind (reads (\<lambda>w. w_files w (drydock_id, secret_name))) (\<lambda>node.
       case node of
         None \<Rightarrow> ret None
       | Some (Bytes s) \<Rightarrow> ret (Some s)
       | Some Denied \<Rightarrow> raise (PyError ''BackendPermissionDenied'' (drydock_id @ ''/'' @ secret_name))
       | Some Broken \<Rightarrow> raise (PyError ''BackendUnavailable'' (drydock_id @ ''/'' @ secret_name)))"

text \<open>
  A \<^verbatim>\<open>SecretsBackend\<close>: the file backend, or one that implements the protocol elsewhere, known
  by its answers.
\<close>

datatype secrets_backend =
    is_FileBackend: FileBackend
  | OtherBackend "nat \<Rightarrow> string \<Rightarrow> string \<Rightarrow> exn + string option"

definition fetch :: "secrets_backend \<Rightarrow> string \<Rightarrow> string \<Rightarrow> string option op" where
  "fetch b secret_name drydock_id =
    (case b of
       FileBackend \<Rightarrow> file_fetch secret_name drydock_id
     | OtherBackend f \<Rightarrow> bind tick (\<lambda>n. from_sum (f n secret_name drydock_id)))"

definition build_backend :: "string \<Rightarrow> exn + secrets_backend" where
  "build_backend name =
     (if name = ''file'' then Inr FileBackend
      else Inl (PyError ''ValueError'' (''unknown_secrets_backend: '' @ quoted name)))"

section \<open>Session policies\<close>

definition config_error :: "string \<Rightarrow> exn" where
  "config_error msg = PyError ''StorageBackendConfigError'' msg"

record iam_statement =
  st_sid :: string
  st_action :: "string list"
  st_resource :: "string list"
  st_prefixes :: "string list option"

definition build_session_policy :: "string \<Rightarrow> string \<Rightarrow> string \<Rightarrow> exn + iam_statement list" where
  "build_session_policy bucket pfx mode =
    (let p = rstrip_by (\<lambda>c. c = CHR ''/'') (strip_by (\<lambda>c. c = CHR ''/'') pfx); m = lower mode in
     if m \<noteq> ''ro'' \<and> m \<noteq> ''rw'' then
       Inl (config_error (''unknown mode: '' @ quoted m @ '' (expected 'ro' or 'rw')''))
     else
       let actions = (if m = ''ro'' then [''s3:GetObject'', ''s3:ListBucket'']
                      else [''s3:GetObject'', ''s3:PutObject'', ''s3:DeleteObject'', ''s3:ListBucket'']);
           object_arn = (if p \<noteq> [] then ''arn:aws:s3:::'' @ bucket @ ''/'' @ p @ ''/*''
                         else ''arn:aws:s3:::'' @ bucket @ ''/*'');
           bucket_arn = ''arn:aws:s3:::'' @ bucket
       in Inr (\<lparr>st_sid = ''ScopedObjectAccess'', st_action = filter (\<lambda>a. a \<noteq> ''s3:ListBucket'') actions,
                st_resource = [object_arn], st_prefixes = None\<rparr> #
               (if ''s3:ListBucket'' \<in> set actions then
                  [\<lparr>st_sid = ''ScopedListBucket'', st_action = [''s3:ListBucket''],
                    st_resource = [bucket_arn],
                    st_prefixes = (if p \<noteq> [] then Some [p @ ''/*'', p] else None)\<rparr>]
                else [])))"

fun clean_actions :: "string list \<Rightarrow> exn + string list" where
  "clean_actions [] = Inr []"
| "clean_actions (a # as) =
     (if strip a = [] then Inl (config_error (''invalid IAM action: '' @ quoted a))
      else (case clean_actions as of Inl e \<Rightarrow> Inl e | Inr bs \<Rightarrow> Inr (strip a # bs)))"

definition build_provision_session_policy :: "string list \<Rightarrow> exn + iam_statement list" where
  "build_provision_session_policy actions =
    (case clean_actions actions of
       Inl e \<Rightarrow> Inl e
     | Inr [] \<Rightarrow> Inl (config_error ''provision scope must list at least one IAM action'')
     | Inr cleaned \<Rightarrow> Inr [\<lparr>st_sid = ''ScopedProvisionAccess'', st_action = cleaned,
                            st_resource = [''*''], st_prefixes = None\<rparr>])"

text \<open>The document of a policy, as it is passed to the AWS command line.\<close>

definition statement_json :: "iam_statement \<Rightarrow> json" where
  "statement_json s =
     JObj ([(''Sid'', JStr (st_sid s)), (''Effect'', JStr ''Allow''), (''Action'', jstrs (st_action s)),
            (''Resource'', jstrs (st_resource s))] @
           (case st_prefixes s of None \<Rightarrow> []
            | Some ps \<Rightarrow> [(''Condition'', JObj [(''StringLike'', JObj [(''s3:prefix'', jstrs ps)])])]))"

definition policy_json :: "iam_statement list \<Rightarrow> json" where
  "policy_json ss = JObj [(''Version'', JStr ''2012-10-17''), (''Statement'', JList (map statement_json ss))]"

section \<open>Storage backends\<close>

record StorageCredential =
  access_key_id :: string
  secret_access_key :: string
  session_token :: string
  expiration :: string

definition to_files :: "StorageCredential \<Rightarrow> (string \<times> string) list" where
  "to_files c = [(''aws_access_key_id'', access_key_id c),
     (''aws_secret_access_key'', secret_access_key c),
     (''aws_session_token'', session_token c), (''aws_session_expiration'', expiration c)]"

record sts_config =
  role_arn :: string
  source_profile :: string
  session_duration_seconds :: int
  aws_bin :: string

datatype storage_backend = Sts sts_config | Stub string

definition session_name :: "string \<Rightarrow> string" where
  "session_name drydock_id = take 64 (''drydock-'' @ drydock_id)"

definition contains :: "string \<Rightarrow> string \<Rightarrow> bool" where
  "contains needle hay = list_ex (prefix needle) (suffixes hay)"

definition unavailable :: "string \<Rightarrow> exn" where
  "unavailable msg = PyError ''StorageBackendUnavailable'' msg"

text \<open>
  The credential in the answer of \<^verbatim>\<open>aws sts assume-role\<close>: a missing key or a timestamp that
  does not parse makes the answer malformed; an answer of another shape raises another
  exception, which the code does not translate.
\<close>

definition malformed :: exn where
  "malformed = unavailable ''malformed STS response''"

definition parse_credentials :: "env \<Rightarrow> string \<Rightarrow> exn + StorageCredential" where
  "parse_credentials env out =
    (case e_json_loads env out of
       None \<Rightarrow> Inl malformed
     | Some (JObj data) \<Rightarrow>
         (case map_of data ''Credentials'' of
            None \<Rightarrow> Inl malformed
          | Some (JObj creds) \<Rightarrow>
              (case (map_of creds ''AccessKeyId'', map_of creds ''SecretAccessKey'',
                     map_of creds ''SessionToken'', map_of creds ''Expiration'') of
                 (Some (JStr a), Some (JStr s), Some (JStr t), Some (JStr x)) \<Rightarrow>
                   (case e_fromisoformat env
                           (concat (map (\<lambda>c. if c = CHR ''Z'' then ''+00:00'' else [c]) x)) of
                      None \<Rightarrow> Inl malformed
                    | Some stamp \<Rightarrow> Inr \<lparr>access_key_id = a, secret_access_key = s,
                                     session_token = t, expiration = stamp\<rparr>)
               | (Some _, Some _, Some _, Some _) \<Rightarrow> Inl (PyError ''AttributeError'' [])
               | _ \<Rightarrow> Inl malformed)
          | Some _ \<Rightarrow> Inl (PyError ''TypeError'' []))
     | Some _ \<Rightarrow> Inl (PyError ''TypeError'' []))"

definition assume_role :: "env \<Rightarrow> sts_config \<Rightarrow> string \<Rightarrow> iam_statement list \<Rightarrow> StorageCredential op" where
  "assume_role env c drydock_id policy =
     bind (subprocess_run env
        [aws_bin c, ''sts'', ''assume-role'', ''--profile'', source_profile c,
         ''--role-arn'', role_arn c, ''--role-session-name'', session_name drydock_id,
         ''--policy'', e_json_dumps env (policy_json policy),
         ''--duration-seconds'', show_int (session_duration_seconds c), ''--output'', ''json''] None)
      (\<lambda>p. case p of
         NotFound \<Rightarrow> raise (config_error (''aws CLI not found at '' @ quoted (aws_bin c) @
                       '' - install awscli on the Harbor''))
       | TimedOut \<Rightarrow> raise (unavailable ''aws sts assume-role timed out'')
       | OsFailure msg \<Rightarrow> raise (PyError ''OSError'' msg)
       | Completed rc out err \<Rightarrow>
           if rc \<noteq> 0 then
             let err = strip err in
             if contains ''AccessDenied'' err \<or> contains ''invalid'' (lower err)
             then raise (PyError ''StorageBackendPermissionDenied'' (take 400 err))
             else raise (unavailable (if take 400 err \<noteq> [] then take 400 err else ''aws exit '' @ show_int rc))
           else
             from_sum (parse_credentials env out))"

definition stub_credential :: "string \<Rightarrow> string \<Rightarrow> StorageCredential" where
  "stub_credential fixed drydock_id =
     \<lparr>access_key_id = ''STUB-'' @ drydock_id @ ''-AKID'',
      secret_access_key = ''STUB-'' @ drydock_id @ ''-SECRET'',
      session_token = ''STUB-'' @ drydock_id @ ''-TOKEN'', expiration = fixed\<rparr>"

definition mint_with ::
    "env \<Rightarrow> storage_backend \<Rightarrow> string \<Rightarrow> exn + iam_statement list \<Rightarrow> StorageCredential op" where
  "mint_with env b drydock_id policy =
     bind (from_sum policy) (\<lambda>p.
       case b of Sts c \<Rightarrow> assume_role env c drydock_id p | Stub fixed \<Rightarrow> ret (stub_credential fixed drydock_id))"

definition mint :: "env \<Rightarrow> storage_backend \<Rightarrow> string \<Rightarrow> string \<Rightarrow> string \<Rightarrow> string \<Rightarrow> StorageCredential op" where
  "mint env b drydock_id bucket pfx mode = mint_with env b drydock_id (build_session_policy bucket pfx mode)"

definition mint_provision :: "env \<Rightarrow> storage_backend \<Rightarrow> string \<Rightarrow> string list \<Rightarrow> StorageCredential op" where
  "mint_provision env b drydock_id actions =
     mint_with env b drydock_id (build_provision_session_policy actions)"

definition build_storage_backend :: "string \<Rightarrow> string \<Rightarrow> string \<Rightarrow> int \<Rightarrow> string \<Rightarrow> exn + storage_backend" where
  "build_storage_backend name arn profile duration stub_expiration =
    (if name = ''sts'' then
       (if arn = [] then Inl (config_error
          ''StsAssumeRoleBackend requires role_arn - set [storage] role_arn in daemon.toml'')
        else Inr (Sts \<lparr>role_arn = arn, source_profile = profile,
               session_duration_seconds = duration, aws_bin = ''aws''\<rparr>))
     else if name = ''stub'' then Inr (Stub stub_expiration)
     else Inl (PyError ''ValueError'' (''unknown_storage_backend: '' @ quoted name)))"

section \<open>Facts\<close>

lemma keeps_reg_fetch [keeps_rules]: "keeps (on_reg P) (fetch b name d)"
  unfolding fetch_def file_fetch_def
  by (auto split: secrets_backend.split option.split file_node.split intro!: keeps_rules)

lemma keeps_reg_assume_role [keeps_rules]: "keeps (on_reg P) (assume_role env c d pol)"
  unfolding assume_role_def Let_def
  by (intro keeps_bind keeps_reg_run) (auto split: proc.split intro!: keeps_rules)

lemma keeps_reg_mint_with [keeps_rules]: "keeps (on_reg P) (mint_with env b d pol)"
  unfolding mint_with_def
  by (intro keeps_bind keeps_from_sum) (auto split: storage_backend.split intro: keeps_rules)

lemma keeps_reg_mint [keeps_rules]: "keeps (on_reg P) (mint env b d bkt p m)"
  unfolding mint_def by (rule keeps_rules)

lemma keeps_reg_mint_provision [keeps_rules]: "keeps (on_reg P) (mint_provision env b d acts)"
  unfolding mint_provision_def by (rule keeps_rules)

text \<open>
  A session policy for reading grants no write, and every object resource of a session policy
  lies under the prefix it was made for.
\<close>

lemma session_policy_actions:
  assumes "build_session_policy bucket pfx mode = Inr ss" "s \<in> set ss" "a \<in> set (st_action s)"
  shows "a \<in> {''s3:GetObject'', ''s3:ListBucket''} \<or>
         (lower mode = ''rw'' \<and> a \<in> {''s3:PutObject'', ''s3:DeleteObject''})"
  using assms by (auto simp: build_session_policy_def Let_def split: if_splits)

lemma session_policy_resources:
  assumes "build_session_policy bucket pfx mode = Inr ss" "s \<in> set ss" "x \<in> set (st_resource s)"
  shows "x = ''arn:aws:s3:::'' @ bucket \<and> set (st_action s) = {''s3:ListBucket''} \<or>
         x = ''arn:aws:s3:::'' @ bucket @ ''/'' @
           (let p = rstrip_by (\<lambda>c. c = CHR ''/'') (strip_by (\<lambda>c. c = CHR ''/'') pfx)
            in if p = [] then ''*'' else p @ ''/*'')"
  using assms by (auto simp: build_session_policy_def Let_def split: if_splits)

end
