(* ===== verification/Capability.thy ===== *)
theory Capability
  imports Policy Auth Secrets_Backend
begin

text \<open>
  daemon/capability_handlers.py: leases on secrets, storage, provisioning and network reach.
  The subject of every request is the caller the dispatcher resolved from the token. Each
  handler checks the caller's policy, obtains and materialises the credential, and stores the
  lease; here in the order of the source, with every early exit.
\<close>

section \<open>Requests\<close>

datatype cap_spec =
    SecretSpec (sp_secret_name: string) (sp_source: "string option")
  | StorageSpec (sp_bucket: string) (sp_prefix: string) (sp_mode: string)
  | ProvisionSpec (sp_actions: "string list")
  | ReachSpec (sp_domain: string) (sp_port: int)

definition invalid_params :: "dict \<Rightarrow> exn" where
  "invalid_params d = rpc_err (-32602) ''invalid_params'' d"

abbreviation reason :: "string \<Rightarrow> dict" where
  "reason s \<equiv> [(''reason'', JStr s)]"

text \<open>The regular expressions of the module.\<close>

definition secret_name_re :: "string \<Rightarrow> bool" where
  "secret_name_re = re_dollar (\<lambda>s. 1 \<le> length s \<and> length s \<le> 64 \<and>
     list_all (\<lambda>c. is_alnum c \<or> c \<in> set ''_.-'') s)"

definition low_alnum :: "char \<Rightarrow> bool" where
  "low_alnum c = (is_digit c \<or> is_lower_az c)"

definition bucket_re :: "string \<Rightarrow> bool" where
  "bucket_re = re_dollar (\<lambda>s. 3 \<le> length s \<and> length s \<le> 63 \<and> low_alnum (hd s) \<and> low_alnum (last s) \<and>
     list_all (\<lambda>c. low_alnum c \<or> c \<in> set ''.-'') s)"

definition prefix_re :: "string \<Rightarrow> bool" where
  "prefix_re = re_dollar (\<lambda>s. length s \<le> 256 \<and> list_all (\<lambda>c. is_alnum c \<or> c \<in> set ''_.-/'') s)"

definition domain_label :: "string \<Rightarrow> bool" where
  "domain_label s = (1 \<le> length s \<and> length s \<le> 63 \<and> low_alnum (hd s) \<and> low_alnum (last s) \<and>
     list_all (\<lambda>c. low_alnum c \<or> c = CHR ''-'') s)"

definition network_reach_domain_re :: "string \<Rightarrow> bool" where
  "network_reach_domain_re = re_dollar (\<lambda>s.
     2 \<le> length (split_on (CHR ''.'') s) \<and> list_all domain_label (split_on (CHR ''.'') s))"

definition iam_action_re :: "string \<Rightarrow> bool" where
  "iam_action_re = re_dollar (\<lambda>s. s = ''*'' \<or>
     (length (split_on (CHR '':'') s) = 2 \<and>
      list_all (\<lambda>p. p \<noteq> [] \<and> list_all (\<lambda>c. is_alnum c \<or> c = CHR ''*'') p) (split_on (CHR '':'') s)))"

text \<open>Membership of a JSON value in a set of strings; a list or an object is not hashable.\<close>

definition in_str_set :: "json \<Rightarrow> string list \<Rightarrow> exn + bool" where
  "in_str_set v xs =
    (case v of
       JList _ \<Rightarrow> Inl (PyError ''TypeError'' ''unhashable type'')
     | JObj _ \<Rightarrow> Inl (PyError ''TypeError'' ''unhashable type'')
     | JStr s \<Rightarrow> Inr (s \<in> set xs)
     | _ \<Rightarrow> Inr False)"

definition validate_secret_scope :: "dict \<Rightarrow> exn + cap_spec" where
  "validate_secret_scope scope =
    (case dict_get scope ''secret_name'' of
       JStr name \<Rightarrow>
         if \<not> secret_name_re name then
           Inl (invalid_params (reason ''scope.secret_name must match [A-Za-z0-9_.-]{1,64}''))
         else
           (case dict_get scope ''source_drydock_id'' of
              JNull \<Rightarrow> Inr (SecretSpec name None)
            | JStr src \<Rightarrow> Inr (SecretSpec name (Some src))
            | _ \<Rightarrow> Inl (invalid_params (reason ''scope.source_drydock_id must be a string'')))
     | _ \<Rightarrow> Inl (invalid_params (reason ''scope.secret_name must match [A-Za-z0-9_.-]{1,64}'')))"

definition validate_storage_scope :: "dict \<Rightarrow> exn + cap_spec" where
  "validate_storage_scope scope =
    (let bad_bucket = Inl (invalid_params
           (reason ''scope.bucket must be a valid S3 bucket name (3-63 chars, [a-z0-9.-])''));
         bad_prefix = Inl (invalid_params (reason ''scope.prefix must match [A-Za-z0-9_.-/]{0,256}''))
     in case dict_get scope ''bucket'' of
          JStr bucket \<Rightarrow>
            if \<not> bucket_re bucket then bad_bucket
            else
              (case (case dict_get_default scope ''prefix'' (JStr []) of JNull \<Rightarrow> JStr [] | v \<Rightarrow> v) of
                 JStr pfx \<Rightarrow>
                   if \<not> prefix_re pfx then bad_prefix
                   else
                     let mode = dict_get_default scope ''mode'' (JStr ''ro'') in
                     (case in_str_set mode [''ro'', ''rw''] of
                        Inl e \<Rightarrow> Inl e
                      | Inr False \<Rightarrow> Inl (invalid_params [(''reason'',
                            JStr (''scope.mode must be one of ['' @ quoted ''ro'' @ '', '' @ quoted ''rw'' @ '']'')),
                            (''got'', mode)])
                      | Inr True \<Rightarrow> Inr (StorageSpec bucket (strip_slashes pfx) (the (as_str mode))))
               | _ \<Rightarrow> bad_prefix)
        | _ \<Rightarrow> bad_bucket)"

fun check_actions :: "json list \<Rightarrow> exn + string list" where
  "check_actions [] = Inr []"
| "check_actions (a # as) =
    (let bad = Inl (invalid_params [(''reason'', JStr (''scope.actions entries must match '' @
           quoted ''service:action'' @ '' (e.g. '' @ quoted ''s3:CreateBucket'' @ '', '' @ quoted ''iam:*'' @ '', '' @
           quoted ''*'' @ '')'')), (''got'', a)])
     in case a of
          JStr s \<Rightarrow> if iam_action_re s
            then (case check_actions as of Inl e \<Rightarrow> Inl e | Inr ss \<Rightarrow> Inr (s # ss))
            else bad
        | _ \<Rightarrow> bad)"

definition validate_provision_scope :: "dict \<Rightarrow> exn + cap_spec" where
  "validate_provision_scope scope =
    (case as_list (dict_get scope ''actions'') of
       None \<Rightarrow> Inl (invalid_params (reason ''scope.actions must be a non-empty list''))
     | Some actions \<Rightarrow>
         if actions = [] then Inl (invalid_params (reason ''scope.actions must be a non-empty list''))
         else if 64 < length actions then
           Inl (invalid_params (reason ''scope.actions must be <= 64 entries''))
         else (case check_actions actions of Inl e \<Rightarrow> Inl e | Inr cleaned \<Rightarrow> Inr (ProvisionSpec cleaned)))"

definition validate_network_reach_scope :: "dict \<Rightarrow> exn + cap_spec" where
  "validate_network_reach_scope scope =
    (case dict_get scope ''domain'' of
       JStr domain \<Rightarrow>
         let canonical = rstrip_dots (lower (strip domain)) in
         if \<not> network_reach_domain_re canonical then
           Inl (invalid_params [(''reason'', JStr ''scope.domain must be a valid lowercase FQDN''),
                                (''got'', JStr domain)])
         else
           let port = dict_get_default scope ''port'' (JInt 443) in
           (case port of
              JInt n \<Rightarrow>
                if n < 1 \<or> 65535 < n then
                  Inl (invalid_params [(''reason'', JStr ''scope.port must be an integer in 1..65535''),
                                       (''got'', port)])
                else Inr (ReachSpec canonical n)
            | _ \<Rightarrow> Inl (invalid_params [(''reason'', JStr ''scope.port must be an integer in 1..65535''),
                                         (''got'', port)]))
     | _ \<Rightarrow> Inl (invalid_params (reason ''scope.domain must be a string'')))"

definition supported_capability_types :: "string list" where
  "supported_capability_types = [''SECRET'', ''STORAGE_MOUNT'', ''INFRA_PROVISION'', ''NETWORK_REACH'']"

fun type_value :: "CapabilityType \<Rightarrow> string" where
  "type_value SECRET = ''SECRET''"
| "type_value STORAGE_MOUNT = ''STORAGE_MOUNT''"
| "type_value INFRA_PROVISION = ''INFRA_PROVISION''"
| "type_value COMPUTE_QUOTA = ''COMPUTE_QUOTA''"
| "type_value NETWORK_REACH = ''NETWORK_REACH''"

definition validate_request_params :: "json \<Rightarrow> exn + cap_spec" where
  "validate_request_params params =
    (case as_obj params of
       None \<Rightarrow> Inl (invalid_params (reason ''params must be an object''))
     | Some p \<Rightarrow>
         let t = dict_get p ''type'' in
         (case in_str_set t supported_capability_types of
            Inl e \<Rightarrow> Inl e
          | Inr False \<Rightarrow>
              if t = JStr ''COMPUTE_QUOTA'' then
                Inl (rpc_err (-32013) ''capability_unsupported'' [(''type'', t), (''fix'', JStr
                  (''Supported types: ['' @ join '', '' (map quoted (sort supported_capability_types)) @ '']''))])
              else Inl (invalid_params [(''reason'', JStr ''type must be one of CapabilityType''), (''got'', t)])
          | Inr True \<Rightarrow>
              (case as_obj (dict_get p ''scope'') of
                 None \<Rightarrow> Inl (invalid_params (reason ''scope must be an object''))
               | Some scope \<Rightarrow>
                   if t = JStr ''SECRET'' then validate_secret_scope scope
                   else if t = JStr ''STORAGE_MOUNT'' then validate_storage_scope scope
                   else if t = JStr ''INFRA_PROVISION'' then validate_provision_scope scope
                   else validate_network_reach_scope scope)))"

section \<open>Policy checks and records\<close>

text \<open>
  \<^verbatim>\<open>_check_capability\<close>: every stored string is converted first, so one that names no kind
  raises \<^verbatim>\<open>ValueError\<close>.
\<close>

definition check_capability :: "drydock_row \<Rightarrow> CapabilityKind \<Rightarrow> exn + unit" where
  "check_capability row kind =
    (case map_all kind_of_value (capabilities row) of
       None \<Rightarrow> Inl (PyError ''ValueError'' ''not a valid CapabilityKind'')
     | Some kinds \<Rightarrow>
         if kind \<notin> set kinds then
           Inl (rpc_err (-32005) ''capability_not_granted''
             [(''missing'', JStr (kind_value kind)),
              (''fix'', JStr (''Grant '' @ kind_value kind @ '' in the Dock's project YAML capabilities''))])
         else Inr ())"

definition emit_capability_amendment ::
    "env \<Rightarrow> string \<Rightarrow> json \<Rightarrow> string \<Rightarrow> string \<Rightarrow> string \<Rightarrow> unit op" where
  "emit_capability_amendment env kind request caller status why =
     try_except
       (bind (utc_now env) (\<lambda>now. bind (uuid4_hex env) (\<lambda>u.
          bind (call_reg (create_amendment now u kind request ''dockworker'' caller (Some caller) None
                  (Some why) None None status)) (\<lambda>_. ret ()))))
       (\<lambda>_. ret ())"

definition lookup_drydock :: "registry \<Rightarrow> string \<Rightarrow> drydock_row option" where
  "lookup_drydock r i = find (\<lambda>ws. dd_id ws = i) (list_drydocks r None None)"

definition to_wire :: "CapabilityLease \<Rightarrow> json" where
  "to_wire l = JObj [(''lease_id'', JStr (lease_id l)), (''drydock_id'', JStr (ls_drydock_id l)),
     (''type'', JStr (type_value (ls_type l))), (''scope'', JObj (ls_scope l)),
     (''issued_at'', JStr (ls_issued_at l)), (''expiry'', jopt (ls_expiry l)),
     (''issuer'', JStr (ls_issuer l)), (''revoked'', JBool (ls_revoked l)),
     (''revocation_reason'', jopt (ls_revocation_reason l))]"

definition new_lease ::
    "env \<Rightarrow> string \<Rightarrow> string \<Rightarrow> CapabilityType \<Rightarrow> dict \<Rightarrow> string option \<Rightarrow> CapabilityLease op" where
  "new_lease env tag caller ty scope exp =
     bind (uuid4_hex env) (\<lambda>u. bind (utc_now env) (\<lambda>now.
       ret \<lparr>lease_id = tag @ u, ls_drydock_id = caller, ls_type = ty, ls_scope = scope,
            ls_issued_at = now, ls_expiry = exp, ls_issuer = ''daemon'', ls_revoked = False,
            ls_revocation_reason = None\<rparr>))"

text \<open>
  The end every handler shares: store the lease, record the approval, audit, answer.
\<close>

definition issue ::
    "env \<Rightarrow> json \<Rightarrow> string \<Rightarrow> json \<Rightarrow> string \<Rightarrow> dict \<Rightarrow> CapabilityLease \<Rightarrow> json op" where
  "issue env request_id kind request why extra l =
     andthen (insert_reg (insert_lease l))
       (andthen (emit_capability_amendment env kind request (ls_drydock_id l) ''auto_approved'' why)
         (andthen
           (emit_audit env ''lease.issued'' (Some (ls_drydock_id l)) request_id ''RequestCapability'' ''ok''
             ([(''lease_id'', JStr (lease_id l)), (''drydock_id'', JStr (ls_drydock_id l)),
               (''type'', JStr (type_value (ls_type l))), (''scope'', JObj (ls_scope l)),
               (''expiry'', jopt (ls_expiry l))] @ extra))
           (ret (to_wire l))))"

definition desk_not_found :: "string \<Rightarrow> exn" where
  "desk_not_found d = rpc_err (-32001) ''desk_not_found'' [(''drydock_id'', JStr d)]"

definition desk_not_running :: "string \<Rightarrow> exn" where
  "desk_not_running d = rpc_err (-32010) ''desk_not_running'' [(''drydock_id'', JStr d)]"

definition materialization_failed :: "string \<Rightarrow> exn" where
  "materialization_failed detail = rpc_err (-32011) ''materialization_failed'' [(''detail'', JStr detail)]"

text \<open>The running container of a desk, or the error.\<close>

definition running_container :: "string \<Rightarrow> string op" where
  "running_container caller =
     bind (query (\<lambda>r. lookup_drydock r caller)) (\<lambda>d.
       case d of
         None \<Rightarrow> raise (desk_not_running caller)
       | Some ws \<Rightarrow> if dd_container_id ws = [] then raise (desk_not_running caller)
                    else ret (dd_container_id ws))"

definition catching :: "string \<Rightarrow> 'a op \<Rightarrow> (string \<Rightarrow> exn) \<Rightarrow> 'a op" where
  "catching cls m translate =
     try_except m (\<lambda>e. case e of PyError c msg \<Rightarrow> if c = cls then raise (translate msg) else raise e | _ \<Rightarrow> raise e)"

section \<open>Materialisation\<close>

text \<open>A child process that does not complete raises.\<close>

definition completed_run :: "env \<Rightarrow> string list \<Rightarrow> string option \<Rightarrow> (int \<times> string \<times> string) op" where
  "completed_run env argv inp =
     bind (subprocess_run env argv inp) (\<lambda>p.
       case p of
         Completed rc out err \<Rightarrow> ret (rc, out, err)
       | TimedOut \<Rightarrow> raise (PyError ''TimeoutExpired'' [])
       | NotFound \<Rightarrow> raise (PyError ''FileNotFoundError'' [])
       | OsFailure msg \<Rightarrow> raise (PyError ''OSError'' msg))"

definition materialize_network_reach :: "env \<Rightarrow> string \<Rightarrow> string \<Rightarrow> int \<Rightarrow> json op" where
  "materialize_network_reach env container_id domain port =
     bind (completed_run env [''docker'', ''exec'', ''--user'', ''root'', container_id,
         ''/usr/local/bin/add-allowed-domain.sh'', domain, show_int port] None)
       (\<lambda>(rc, out, err).
         if rc \<noteq> 0 \<and> strip out = [] then
           raise (PyError ''RuntimeError'' (''add-allowed-domain.sh failed (exit '' @ show_int rc @ ''): '' @
             (if strip err \<noteq> [] then strip err else ''no output'')))
         else required (e_json_loads env out)
                (PyError ''RuntimeError'' ''add-allowed-domain.sh returned non-JSON''))"

definition materialize_secret :: "env \<Rightarrow> string \<Rightarrow> string \<Rightarrow> string \<Rightarrow> unit op" where
  "materialize_secret env container_id secret_name payload =
     bind (completed_run env [''docker'', ''exec'', ''--user'', ''root'', container_id,
         ''mkdir'', ''-p'', ''/run/secrets''] None)
       (\<lambda>(rc, out, err).
         if rc \<noteq> 0 then raise (PyError ''RuntimeError'' (''mkdir failed: '' @ strip err))
         else
           let target = ''/run/secrets/'' @ secret_name in
           bind (completed_run env [''docker'', ''exec'', ''-i'', ''--user'', ''root'', container_id, ''sh'', ''-c'',
               ''cat > '' @ target @ '' && chmod 0400 '' @ target @ '' && chown 1000:1000 '' @ target]
               (Some payload))
             (\<lambda>(rc2, out2, err2).
               if rc2 \<noteq> 0 then raise (PyError ''RuntimeError'' (''write failed: '' @ strip err2))
               else ret ()))"

definition put_file :: "string \<Rightarrow> string \<Rightarrow> string \<Rightarrow> world \<Rightarrow> world" where
  "put_file d name bytes w = w\<lparr>w_files := (w_files w)((d, name) := Some (Bytes bytes))\<rparr>"

definition drop_file :: "string \<Rightarrow> string \<Rightarrow> world \<Rightarrow> world" where
  "drop_file d name w = w\<lparr>w_files := (w_files w)((d, name) := None)\<rparr>"

text \<open>
  The directory, then per file: unlink, write, and the change of owner and mode; the system may
  refuse any of them, with the earlier ones done.
\<close>

definition materialize_storage_credentials :: "env \<Rightarrow> string \<Rightarrow> StorageCredential \<Rightarrow> unit op" where
  "materialize_storage_credentials env d cred =
     andthen (os_step env (\<lambda>w. w))
       (for_each (\<lambda>(name, value).
          andthen (os_step env (drop_file d name))
            (andthen (os_step env (put_file d name value)) (os_step env (\<lambda>w. w))))
          (to_files cred))"

definition materialize_to_host_secret_dir :: "env \<Rightarrow> string \<Rightarrow> string \<Rightarrow> string \<Rightarrow> unit op" where
  "materialize_to_host_secret_dir env d secret_name payload =
     andthen (os_step env (\<lambda>w. w))
       (andthen (os_step env (put_file d secret_name payload)) (os_step env (\<lambda>w. w)))"

text \<open>Best-effort removal: a refusal is logged and ignored.\<close>

definition try_drop_file :: "env \<Rightarrow> string \<Rightarrow> string \<Rightarrow> unit op" where
  "try_drop_file env d name = try_except (os_step env (drop_file d name)) (\<lambda>_. ret ())"

definition storage_cred_filenames :: "string list" where
  "storage_cred_filenames = [''aws_access_key_id'', ''aws_secret_access_key'', ''aws_session_token'',
     ''aws_session_expiration'']"

definition remove_storage_credentials :: "env \<Rightarrow> string \<Rightarrow> unit op" where
  "remove_storage_credentials env d = for_each (try_drop_file env d) storage_cred_filenames"

definition remove_from_host_secret_dir :: "env \<Rightarrow> string \<Rightarrow> string \<Rightarrow> unit op" where
  "remove_from_host_secret_dir env d secret_name = try_drop_file env d secret_name"

section \<open>Superseding the previous AWS lease\<close>

lemma length_active_emit:
  assumes "find_active_aws_lease (w_reg w) d = Some l"
    "emit_audit env ev p i m res det
       (w\<lparr>w_reg := snd (revoke_lease (lease_id l) why (w_reg w))\<rparr>) = (r, w')"
  shows "length (active_leases (w_reg w') d) < length (active_leases (w_reg w) d)"
  using emit_audit_cases [OF assms(2)] find_active_aws_SomeD [OF assms(1)] length_active_revoke_lt
  by simp

function supersede :: "env \<Rightarrow> string \<Rightarrow> json \<Rightarrow> string \<Rightarrow> unit op" where
  "supersede env caller request_id why w =
    (case find_active_aws_lease (w_reg w) caller of
       None \<Rightarrow> (Inr (), w)
     | Some prior \<Rightarrow>
         (case emit_audit env ''lease.released'' (Some caller) request_id ''RequestCapability'' ''ok''
                 [(''lease_id'', JStr (lease_id prior)), (''reason'', JStr why)]
                 (w\<lparr>w_reg := snd (revoke_lease (lease_id prior) ''superseded'' (w_reg w))\<rparr>) of
            (Inl e, w') \<Rightarrow> (Inl e, w')
          | (Inr _, w') \<Rightarrow> supersede env caller request_id why w'))"
  by pat_completeness auto
termination
  by (relation "measure (\<lambda>(env, d, i, why, w). length (active_leases (w_reg w) d))")
    (auto intro: length_active_emit [OF _ sym])

declare supersede.simps [simp del]

section \<open>The handlers\<close>

definition reach_fix :: "string \<Rightarrow> string \<Rightarrow> int \<Rightarrow> string" where
  "reach_fix why domain port =
    (let labels = split_on (CHR ''.'') domain;
         glob_hint = (if 3 \<le> length labels
           then ''or a covering glob like '' @ quoted (''*.'' @ join ''.'' (tl labels))
           else ''(no covering glob suggested for short FQDNs - add the bare domain)'')
     in if why = ''no_entitlement''
          then ''Add at least one entry to delegatable_network_reach in the project YAML''
        else if why = ''domain_not_entitled''
          then ''Add '' @ quoted domain @ '' '' @ glob_hint @ '' to delegatable_network_reach''
        else ''Add port '' @ show_int port @ '' to network_reach_ports (default allowlist is [80, 443])'')"

definition handle_network_reach_request :: "env \<Rightarrow> string \<Rightarrow> int \<Rightarrow> string \<Rightarrow> json \<Rightarrow> json op" where
  "handle_network_reach_request env domain port caller request_id =
     bind (query (\<lambda>r. load_desk_policy r caller)) (\<lambda>row.
     bind (required row (desk_not_found caller)) (\<lambda>policy.
     andthen (from_sum (check_capability policy REQUEST_NETWORK_REACH))
     (let granted_domains = delegatable_network_reach policy;
          granted_ports = network_reach_ports policy;
          (allowed, why) = matches_network_reach domain port granted_domains granted_ports;
          requested = JObj [(''domain'', JStr domain), (''port'', JInt port)];
          detail = [(''rule'', JStr ''network_reach''), (''subreason'', jopt why),
                    (''requested'', requested), (''granted_domains'', jstrs granted_domains),
                    (''granted_ports'', JList (map JInt (if granted_ports \<noteq> [] then granted_ports else [80, 443])))]
      in if \<not> allowed then
           andthen (emit_audit env ''lease.denied'' (Some caller) request_id ''RequestCapability'' ''denied''
               ((''type'', JStr ''NETWORK_REACH'') # detail))
             (andthen (emit_capability_amendment env ''network_reach'' requested caller ''escalated''
                 (''narrowness_violated: '' @ (case why of None \<Rightarrow> ''None'' | Some s \<Rightarrow> s)))
               (raise (rpc_err (-32006) ''narrowness_violated''
                 (detail @ [(''fix'', JStr (reach_fix (case why of None \<Rightarrow> [] | Some s \<Rightarrow> s) domain port))]))))
         else
           bind (running_container caller) (\<lambda>container_id.
           bind (catching ''RuntimeError'' (materialize_network_reach env container_id domain port)
                   materialization_failed) (\<lambda>result.
             case result of
               JObj add_result \<Rightarrow>
                 if \<not> truthy (dict_get add_result ''ok'') then
                   let err = dict_get_default add_result ''error'' (JStr ''add_failed'') in
                   andthen (emit_audit env ''lease.denied'' (Some caller) request_id ''RequestCapability'' ''denied''
                       [(''type'', JStr ''NETWORK_REACH''), (''error'', err), (''domain'', JStr domain)])
                     (raise (rpc_err (-32011) ''materialization_failed'' [(''detail'', result),
                       (''fix'', JStr (if err = JStr ''dns_resolution_failed''
                          then ''DNS resolution failed - check that the domain is reachable from the Harbor''
                          else ''Check container logs at /tmp/firewall-add.log for ipset/iptables errors''))]))
                 else
                   bind (from_sum (py_list (dict_get_default add_result ''added'' (JList [])))) (\<lambda>added.
                   bind (from_sum (py_list (dict_get_default add_result ''already_present'' (JList [])))) (\<lambda>present.
                   let wildcard = (''*'' \<in> set granted_domains) in
                   bind (new_lease env ''nr_'' caller NETWORK_REACH
                       [(''domain'', JStr domain), (''port'', JInt port), (''resolved_ips'', JList (added @ present))]
                       None) (\<lambda>l.
                     issue env request_id ''network_reach'' requested
                       (''within_policy'' @ (if wildcard then '' (wildcard grant)'' else []))
                       [(''wildcard_grant'', JBool wildcard)] l)))
             | _ \<Rightarrow> raise (PyError ''AttributeError'' [])))) ))"

definition handle_secret_request ::
    "env \<Rightarrow> exn + secrets_backend \<Rightarrow> string \<Rightarrow> string option \<Rightarrow> string \<Rightarrow> json \<Rightarrow> json op" where
  "handle_secret_request env backend secret_name source caller request_id =
     bind (from_sum backend) (\<lambda>b.
     bind (query (\<lambda>r. load_desk_policy r caller)) (\<lambda>row.
     bind (required row (desk_not_found caller)) (\<lambda>policy.
     andthen (from_sum (check_capability policy REQUEST_SECRET_LEASES))
     (let request = JObj [(''secret_name'', JStr secret_name), (''source_drydock_id'', jopt source)] in
      if secret_name \<notin> set (delegatable_secrets policy) then
        andthen (emit_capability_amendment env ''secret_grant'' request caller ''escalated''
            ''narrowness_violated: secret_not_entitled'')
          (raise (rpc_err (-32006) ''narrowness_violated'' [(''rule'', JStr ''secret_entitlement''),
             (''requested'', JStr secret_name),
             (''fix'', JStr ''Add the secret to delegatable_secrets in the project YAML'')]))
      else
        let fetch_desk_id = (case source of Some s \<Rightarrow> if s \<noteq> [] then s else caller | None \<Rightarrow> caller);
            is_cross_desk = (case source of Some s \<Rightarrow> s \<noteq> caller | None \<Rightarrow> False)
        in bind (query (\<lambda>r. load_desk_policy r (case source of Some s \<Rightarrow> s | None \<Rightarrow> caller))) (\<lambda>source_policy.
           andthen (unless (is_cross_desk \<longrightarrow> source_policy \<noteq> None)
               (rpc_err (-32001) ''source_desk_not_found'' [(''source_drydock_id'', jopt source)]))
           (bind (catching ''BackendPermissionDenied''
                   (catching ''BackendUnavailable'' (fetch b secret_name fetch_desk_id)
                     (\<lambda>m. rpc_err (-32008) ''backend_unavailable'' [(''detail'', JStr m), (''retry'', JBool True)]))
                   (\<lambda>m. rpc_err (-32007) ''backend_permission_denied'' [(''detail'', JStr m)])) (\<lambda>fetched.
            bind (required fetched (rpc_err (-32009) ''backend_missing_secret''
                   [(''secret_name'', JStr secret_name),
                    (''fix'', JStr (''ws secret set '' @ fetch_desk_id @ '' '' @ secret_name @ '' < value''))])) (\<lambda>payload.
            bind (running_container caller) (\<lambda>container_id.
            andthen
              (if is_cross_desk \<and> is_FileBackend b then
                 catching ''OSError'' (materialize_to_host_secret_dir env caller secret_name payload)
                   materialization_failed
               else if \<not> is_FileBackend b then
                 catching ''RuntimeError'' (materialize_secret env container_id secret_name payload)
                   materialization_failed
               else ret ())
              (bind (new_lease env ''ls_'' caller SECRET
                  ((''secret_name'', JStr secret_name) #
                   (case source of Some s \<Rightarrow> if s \<noteq> [] then [(''source_drydock_id'', JStr s)] else [] | None \<Rightarrow> []))
                  None)
                (issue env request_id ''secret_grant'' request ''within_policy'' [])))))))))))"


text \<open>The three refusals of a storage backend, as the handlers translate them.\<close>

definition minting :: "StorageCredential op \<Rightarrow> StorageCredential op" where
  "minting m =
     catching ''StorageBackendConfigError''
       (catching ''StorageBackendPermissionDenied''
         (catching ''StorageBackendUnavailable'' m
           (\<lambda>s. rpc_err (-32008) ''backend_unavailable'' [(''detail'', JStr s), (''retry'', JBool True)]))
         (\<lambda>s. rpc_err (-32007) ''backend_permission_denied'' [(''detail'', JStr s)]))
       (\<lambda>s. rpc_err (-32016) ''storage_backend_config_error'' [(''detail'', JStr s)])"

definition storage_backend_not_configured :: exn where
  "storage_backend_not_configured = rpc_err (-32015) ''storage_backend_not_configured''
     [(''fix'', JStr (''Set [storage] backend = '' @ quoted ''sts'' @ '' and role_arn = '' @ quoted ''...'' @
        '' in ~/.drydock/daemon.toml''))]"

definition handle_storage_request ::
    "env \<Rightarrow> storage_backend option \<Rightarrow> string \<Rightarrow> string \<Rightarrow> string \<Rightarrow> string \<Rightarrow> json \<Rightarrow> json op" where
  "handle_storage_request env storage bucket pfx mode caller request_id =
     bind (required storage storage_backend_not_configured) (\<lambda>sb.
     andthen (supersede env caller request_id ''superseded_by_new_storage_lease'')
     (bind (query (\<lambda>r. load_desk_policy r caller)) (\<lambda>row.
      bind (required row (desk_not_found caller)) (\<lambda>policy.
      andthen (from_sum (check_capability policy REQUEST_STORAGE_LEASES))
      (let granted = delegatable_storage_scopes policy;
           request = [(''bucket'', JStr bucket), (''prefix'', JStr pfx), (''mode'', JStr mode)]
       in if \<not> matches_storage_scope \<lparr>rq_bucket = bucket, rq_prefix = pfx, rq_mode = mode\<rparr> granted then
            andthen (emit_capability_amendment env ''storage_grant'' (JObj request) caller ''escalated''
                ''narrowness_violated: storage_scope_not_entitled'')
              (raise (rpc_err (-32006) ''narrowness_violated'' [(''rule'', JStr ''storage_scope''),
                 (''requested'', JObj request), (''granted'', jstrs granted),
                 (''fix'', JStr (''Add a matching entry to delegatable_storage_scopes in the project YAML (e.g. '' @
                    quoted ''s3://bucket/prefix/*'' @ '' or '' @ quoted ''rw:s3://bucket/prefix/*'' @ '')''))]))
          else
            andthen (bind (running_container caller) (\<lambda>_. ret ()))
            (bind (minting (mint env sb caller bucket pfx mode)) (\<lambda>cred.
             andthen (catching ''OSError'' (materialize_storage_credentials env caller cred) materialization_failed)
             (bind (new_lease env ''ls_'' caller STORAGE_MOUNT
                  (request @ [(''expiration'', JStr (expiration cred))]) (Some (expiration cred)))
               (issue env request_id ''storage_grant'' (JObj request) ''within_policy'' [])))))))))"

definition handle_provision_request ::
    "env \<Rightarrow> storage_backend option \<Rightarrow> string list \<Rightarrow> string \<Rightarrow> json \<Rightarrow> json op" where
  "handle_provision_request env storage actions caller request_id =
     bind (required storage storage_backend_not_configured) (\<lambda>sb.
     andthen (supersede env caller request_id ''superseded_by_new_provision_lease'')
     (bind (query (\<lambda>r. load_desk_policy r caller)) (\<lambda>row.
      bind (required row (desk_not_found caller)) (\<lambda>policy.
      andthen (from_sum (check_capability policy REQUEST_PROVISION_LEASES))
      (let granted = delegatable_provision_scopes policy;
           request = [(''actions'', jstrs actions)]
       in if \<not> matches_provision_actions actions granted then
            andthen (emit_capability_amendment env ''provision_grant'' (JObj request) caller ''escalated''
                ''narrowness_violated: provision_actions_not_entitled'')
              (raise (rpc_err (-32006) ''narrowness_violated'' [(''rule'', JStr ''provision_actions''),
                 (''requested'', jstrs actions), (''granted'', jstrs granted),
                 (''fix'', JStr ''Add matching IAM action globs to delegatable_provision_scopes in the project YAML'')]))
          else
            andthen (bind (running_container caller) (\<lambda>_. ret ()))
            (bind (minting (mint_provision env sb caller actions)) (\<lambda>cred.
             andthen (catching ''OSError'' (materialize_storage_credentials env caller cred) materialization_failed)
             (bind (new_lease env ''ls_'' caller INFRA_PROVISION
                  (request @ [(''expiration'', JStr (expiration cred))]) (Some (expiration cred)))
               (issue env request_id ''provision_grant'' (JObj request) ''within_policy'' [])))))))))"

text \<open>The configuration the server passes to the handlers.\<close>

record cap_config =
  backend_name :: string
  backend :: "secrets_backend option"
  storage_backend :: "storage_backend option"

definition unauthenticated :: exn where
  "unauthenticated = rpc_err (-32004) ''unauthenticated'' (reason ''no_caller'')"

definition handle_spec :: "env \<Rightarrow> cap_config \<Rightarrow> cap_spec \<Rightarrow> string \<Rightarrow> json \<Rightarrow> json op" where
  "handle_spec env cfg spec caller request_id =
    (case spec of
       SecretSpec name source \<Rightarrow>
         handle_secret_request env
           (case backend cfg of Some b \<Rightarrow> Inr b | None \<Rightarrow> build_backend (backend_name cfg))
           name source caller request_id
     | StorageSpec bucket pfx mode \<Rightarrow>
         handle_storage_request env (storage_backend cfg) bucket pfx mode caller request_id
     | ProvisionSpec actions \<Rightarrow>
         handle_provision_request env (storage_backend cfg) actions caller request_id
     | ReachSpec domain port \<Rightarrow> handle_network_reach_request env domain port caller request_id)"

definition request_capability :: "env \<Rightarrow> cap_config \<Rightarrow> json \<Rightarrow> json \<Rightarrow> string option \<Rightarrow> json op" where
  "request_capability env cfg params request_id caller =
     bind (required caller unauthenticated) (\<lambda>c.
     bind (from_sum (validate_request_params params)) (\<lambda>spec.
       handle_spec env cfg spec c request_id))"

definition lease_not_found :: "string \<Rightarrow> exn" where
  "lease_not_found i = rpc_err (-32012) ''lease_not_found'' [(''lease_id'', JStr i)]"

definition release_cleanup :: "env \<Rightarrow> string \<Rightarrow> CapabilityLease \<Rightarrow> unit op" where
  "release_cleanup env caller l =
     andthen
       (if ls_type l = SECRET then
          (case (dict_get (ls_scope l) ''source_drydock_id'', dict_get (ls_scope l) ''secret_name'') of
             (JStr source, JStr name) \<Rightarrow>
               if source \<noteq> caller then
                 bind (query (\<lambda>r. find_active_secret_lease r caller name)) (\<lambda>still_active.
                   if still_active = None then remove_from_host_secret_dir env caller name else ret ())
               else ret ()
           | _ \<Rightarrow> ret ())
        else ret ())
       (if is_aws_type (ls_type l) then
          bind (query (\<lambda>r. find_active_aws_lease r caller)) (\<lambda>still_active.
            if still_active = None then remove_storage_credentials env caller else ret ())
        else ret ())"

definition release_capability :: "env \<Rightarrow> json \<Rightarrow> json \<Rightarrow> string option \<Rightarrow> json op" where
  "release_capability env params request_id caller =
     bind (required caller unauthenticated) (\<lambda>c.
     bind (required (as_obj params) (invalid_params (reason ''params must be an object''))) (\<lambda>p.
       case dict_get p ''lease_id'' of
         JStr i \<Rightarrow>
           if i = [] then raise (invalid_params (reason ''lease_id required (string)''))
           else
             bind (query (\<lambda>r. get_lease r i)) (\<lambda>found.
             bind (required found (lease_not_found i)) (\<lambda>l.
             andthen (unless (ls_drydock_id l = c) (lease_not_found i))
             (bind (update_reg (revoke_lease i ''released'')) (\<lambda>revoked.
              andthen (guarded revoked (release_cleanup env c l))
              (andthen (guarded revoked
                 (emit_audit env ''lease.released'' (Some c) request_id ''ReleaseCapability'' ''ok''
                   [(''lease_id'', JStr i), (''reason'', JStr ''client_release''),
                    (''source_drydock_id'', dict_get (ls_scope l) ''source_drydock_id'')]))
               (ret (JObj [(''lease_id'', JStr i), (''revoked'', JBool revoked)])))))))
       | _ \<Rightarrow> raise (invalid_params (reason ''lease_id required (string)''))))"

end
