(* ===== verification/Policy_Facts.thy ===== *)
theory Policy_Facts
  imports Policy
begin

text \<open>
  What core/policy.py promises. Spawn validation is containment of canonical sets, and a
  rejection names an item outside them; canonical mounts are normal forms; the three scope
  matchers share one interface, a locale interpreted on each of them; storage prefixes are
  compared by path component, host patterns by label, provision actions by glob.
\<close>

section \<open>Facts about canonicalisation\<close>

lemma canon_seq_Inr_iff: "(\<exists>ys. canon_seq f xs = Inr ys) \<longleftrightarrow> (\<forall>x\<in>set xs. \<exists>y. f x = Inr y)"
  by (induction xs) (auto split: sum.splits)

lemma canon_seq_set: "canon_seq f xs = Inr ys \<Longrightarrow> set ys = {y. \<exists>x\<in>set xs. f x = Inr y}"
  by (induction xs arbitrary: ys) (auto split: sum.splits)

lemma canon_seq_Inl: "canon_seq f xs = Inl e \<Longrightarrow> \<exists>x\<in>set xs. f x = Inl e"
  by (induction xs) (auto split: sum.splits)

lemma canonicalize_domains_Inr:
  "canonicalize_domains vs = Inr ys \<Longrightarrow>
   (\<forall>v\<in>set vs. \<exists>d. canonicalize_domain v = Inr d) \<and>
   set ys = {d. \<exists>v\<in>set vs. canonicalize_domain v = Inr d}"
  using canon_seq_Inr_iff [of canonicalize_domain vs] canon_seq_set [of canonicalize_domain vs]
  by (auto simp: canonicalize_domains_def split: sum.splits)

lemma canonicalize_domains_total:
  "\<forall>v\<in>set vs. \<exists>d. canonicalize_domain v = Inr d \<Longrightarrow> \<exists>ys. canonicalize_domains vs = Inr ys"
  using canon_seq_Inr_iff [of canonicalize_domain vs]
  by (auto simp: canonicalize_domains_def)

lemma canonicalize_mounts_Inr:
  "canonicalize_mounts vs = Inr ys \<Longrightarrow>
   (\<forall>v\<in>set vs. \<exists>m. canonicalize_mount_tuple v None = Inr m) \<and>
   set ys = {m. \<exists>v\<in>set vs. canonicalize_mount_tuple v None = Inr m}"
  using canon_seq_Inr_iff [of "\<lambda>v. canonicalize_mount_tuple v None" vs]
    canon_seq_set [of "\<lambda>v. canonicalize_mount_tuple v None" vs]
  by (auto simp: canonicalize_mounts_def split: sum.splits)

lemma canonicalize_mounts_total:
  "\<forall>v\<in>set vs. \<exists>m. canonicalize_mount_tuple v None = Inr m
   \<Longrightarrow> \<exists>ys. canonicalize_mounts vs = Inr ys"
  using canon_seq_Inr_iff [of "\<lambda>v. canonicalize_mount_tuple v None" vs]
  by (auto simp: canonicalize_mounts_def)

lemma set_set_minus [simp]: "set (set_minus xs ys) = set xs - set ys"
  by (auto simp: set_minus_def)

lemma set_minus_Nil_iff: "set_minus xs ys = [] \<longleftrightarrow> set xs \<subseteq> set ys"
  by (metis Diff_eq_empty_iff set_empty set_set_minus)

lemma sort_key_Nil_iff: "sort_key f xs = [] \<longleftrightarrow> xs = []"
  by (metis set_empty set_sort)

lemma sort_Cons_least: "sort xs = y # ys \<Longrightarrow> y \<in> set xs \<and> (\<forall>z\<in>set xs. y \<le> z)"
  by (metis insertE list.set_intros(1) list.simps(15) order_refl set_sort sorted_simps(2) sorted_sort)

text \<open>Which canonical forms the inputs of the validator have, when they all have one.\<close>

definition canonical_domain_set :: "string list \<Rightarrow> string set" where
  "canonical_domain_set vs = {d. \<exists>v\<in>set vs. canonicalize_domain v = Inr d}"

definition canonical_mount_set :: "MountTuple list \<Rightarrow> MountTuple set" where
  "canonical_mount_set vs = {m. \<exists>v\<in>set vs. canonicalize_mount_tuple v None = Inr m}"

definition well_formed_inputs :: "DeskPolicy \<Rightarrow> DeskSpec \<Rightarrow> bool" where
  "well_formed_inputs p c \<longleftrightarrow>
     (\<forall>v\<in>set (pol_firewall_domains p) \<union> set (spec_firewall_domains c).
        \<exists>d. canonicalize_domain v = Inr d) \<and>
     (\<forall>v\<in>set (pol_extra_mounts p) \<union> set (spec_extra_mounts c).
        \<exists>m. canonicalize_mount_tuple v None = Inr m)"

lemma canonical_inputs_Inr:
  assumes "canonical_inputs p c = Inr (pd, cd, pm, cm)"
  shows "well_formed_inputs p c" 
    and "set pd = canonical_domain_set (pol_firewall_domains p)"
    and "set cd = canonical_domain_set (spec_firewall_domains c)"
    and "set pm = canonical_mount_set (pol_extra_mounts p)"
    and "set cm = canonical_mount_set (spec_extra_mounts c)"
proof -
  from assms have *: "canonicalize_domains (pol_firewall_domains p) = Inr pd"
     "canonicalize_domains (spec_firewall_domains c) = Inr cd"
     "canonicalize_mounts (pol_extra_mounts p) = Inr pm"
     "canonicalize_mounts (spec_extra_mounts c) = Inr cm"
    by (auto simp: canonical_inputs_def split: sum.splits)
  note ** = *(1,2)[THEN canonicalize_domains_Inr] *(3,4)[THEN canonicalize_mounts_Inr]
  show "well_formed_inputs p c" using ** by (auto simp: well_formed_inputs_def)
  show "set pd = canonical_domain_set (pol_firewall_domains p)"
    "set cd = canonical_domain_set (spec_firewall_domains c)"
    "set pm = canonical_mount_set (pol_extra_mounts p)"
    "set cm = canonical_mount_set (spec_extra_mounts c)"
    using ** by (simp_all add: canonical_domain_set_def canonical_mount_set_def)
qed

lemma canonical_inputs_total:
  assumes "well_formed_inputs p c"
  shows "\<exists>pd cd pm cm. canonical_inputs p c = Inr (pd, cd, pm, cm)"
proof -
  from assms obtain pd cd where "canonicalize_domains (pol_firewall_domains p) = Inr pd"
     "canonicalize_domains (spec_firewall_domains c) = Inr cd"
    unfolding well_formed_inputs_def by (metis UnI1 UnI2 canonicalize_domains_total)
  moreover from assms obtain pm cm where "canonicalize_mounts (pol_extra_mounts p) = Inr pm"
     "canonicalize_mounts (spec_extra_mounts c) = Inr cm"
    unfolding well_formed_inputs_def by (metis UnI1 UnI2 canonicalize_mounts_total)
  ultimately show ?thesis by (simp add: canonical_inputs_def)
qed

lemma narrow_case:
  assumes "\<And>z zs. B z zs \<noteq> Allow"
  shows "(case sort_key f (set_minus xs ys) of [] \<Rightarrow> v | z # zs \<Rightarrow> B z zs) = Allow \<longleftrightarrow>
         set xs \<subseteq> set ys \<and> v = Allow"
  using assms
  by (auto simp: sort_key_Nil_iff set_minus_Nil_iff split: list.splits)
    (metis list.distinct(1) set_minus_Nil_iff sort_key_Nil_iff subsetD)

lemma validate_spawn_Allow_iff_lists:
  "validate_spawn p c = Allow \<longleftrightarrow>
   (\<exists>pd cd pm cm. canonical_inputs p c = Inr (pd, cd, pm, cm) \<and> set cd \<subseteq> set pd \<and>
      set (spec_secrets c) \<subseteq> set (pol_secrets p) \<and>
      set (spec_capabilities c) \<subseteq> set (pol_capabilities p) \<and> set cm \<subseteq> set pm)"
  by (simp add: validate_spawn_def narrow_case split: sum.split)

lemma validate_spawn_narrow:
  "validate_spawn p c = Allow \<longleftrightarrow>
     well_formed_inputs p c \<and>
     canonical_domain_set (spec_firewall_domains c) \<subseteq> canonical_domain_set (pol_firewall_domains p) \<and>
     set (spec_secrets c) \<subseteq> set (pol_secrets p) \<and>
     set (spec_capabilities c) \<subseteq> set (pol_capabilities p) \<and>
     canonical_mount_set (spec_extra_mounts c) \<subseteq> canonical_mount_set (pol_extra_mounts p)"
proof -
  have "well_formed_inputs p c \<longleftrightarrow> (\<exists>pd cd pm cm. canonical_inputs p c = Inr (pd, cd, pm, cm))"
    using canonical_inputs_total canonical_inputs_Inr(1) by blast
  then show ?thesis
    unfolding validate_spawn_Allow_iff_lists
    by (auto simp: canonical_inputs_Inr(2-5))
qed

text \<open>What a rejection names.\<close>

fun offends :: "DeskPolicy \<Rightarrow> DeskSpec \<Rightarrow> string \<Rightarrow> reject_value \<Rightarrow> bool" where
  "offends p c r (VStr x) =
     (if r = ''firewall_narrowness''
      then x \<in> canonical_domain_set (spec_firewall_domains c)
             - canonical_domain_set (pol_firewall_domains p)
      else r = ''secret_narrowness'' \<and> x \<in> set (spec_secrets c) - set (pol_secrets p))"
| "offends p c r (VKind k) =
     (r = ''capability_narrowness'' \<and> k \<in> set (spec_capabilities c) - set (pol_capabilities p))"
| "offends p c r (VMount m) =
     (r = ''mount_narrowness'' \<and>
      m \<in> canonical_mount_set (spec_extra_mounts c) - canonical_mount_set (pol_extra_mounts p))"
| "offends p c r (VError e) = (r = ''invalid_input_format'' \<and> \<not> well_formed_inputs p c)"
| "offends p c r _ = False"

lemma sort_key_minus_Cons:
  "sort_key f (set_minus xs ys) = z # zs \<Longrightarrow> z \<in> set xs - set ys"
  by (metis list.set_intros(1) set_set_minus set_sort)

section \<open>Facts about normalised paths\<close>

text \<open>A component list \<^const>\<open>normpath\<close> leaves alone.\<close>

definition clean_comp :: "string \<Rightarrow> bool" where
  "clean_comp c \<longleftrightarrow> c \<noteq> [] \<and> c \<noteq> ''.'' \<and> CHR ''/'' \<notin> set c"

text \<open>The stack of the loop: parent references only at its bottom, and none on an absolute path.\<close>

fun settled :: "bool \<Rightarrow> string list \<Rightarrow> bool" where
  "settled absolute [] = True"
| "settled absolute (c # cs) =
     (clean_comp c \<and> settled absolute cs \<and>
      (c = ''..'' \<longrightarrow> \<not> absolute \<and> (cs = [] \<or> hd cs = ''..'')))"

lemma settled_norm_comps:
  assumes "settled a acc" "\<forall>c\<in>set cs. CHR ''/'' \<notin> set c"
  shows "settled a (rev (norm_comps a acc cs))"
  using assms
proof (induction a acc cs rule: norm_comps.induct)
  case (2 absolute new_comps part comps)
  have "settled absolute (tl new_comps)" using 2 by (cases new_comps) auto
  moreover have "clean_comp part" if "part \<noteq> []" "part \<noteq> ''.''"
    using that 2 by (simp add: clean_comp_def)
  moreover have "\<not> absolute" if "new_comps \<noteq> []" "hd new_comps = ''..''"
    using that 2 by (cases new_comps) auto
  ultimately show ?case using 2 by auto
qed simp

lemma settled_append: "settled a (xs @ ys) \<Longrightarrow> settled a ys"
  by (induction xs) auto

lemma norm_comps_settled:
  "settled a (rev cs @ acc) \<Longrightarrow> norm_comps a acc cs = rev acc @ cs"
proof (induction cs arbitrary: acc)
  case (Cons c cs)
  have "settled a (rev cs @ (c # acc))" using Cons.prems by simp
  then have s: "settled a (c # acc)" by (rule settled_append)
  then have "norm_comps a acc (c # cs) = norm_comps a (c # acc) cs"
    by (auto simp: clean_comp_def)
  with Cons show ?case by simp
qed simp

lemma settled_clean: "settled a cs \<Longrightarrow> c \<in> set cs \<Longrightarrow> clean_comp c"
  by (induction cs) auto

lemma settled_abs_no_parent: "settled True cs \<Longrightarrow> ''..'' \<notin> set cs"
  by (induction cs) auto

lemma norm_comps_skip_empty: "norm_comps a acc (replicate k [] @ cs) = norm_comps a acc cs"
  by (induction k) auto

lemma split_on_replicate:
  "split_on c (replicate k c @ s) = replicate k [] @ split_on c s"
  by (induction k) auto

lemma join_clean_hd:
  assumes "cs \<noteq> []" "\<forall>c\<in>set cs. clean_comp c"
  shows "join ''/'' cs \<noteq> [] \<and> hd (join ''/'' cs) \<noteq> CHR ''/''"
proof -
  obtain c r where cs: "cs = c # r" using assms(1) by (cases cs) auto
  have "c \<noteq> []" "hd c \<noteq> CHR ''/''"
    using assms(2) cs by (auto simp: clean_comp_def hd_in_set) (metis hd_in_set)
  moreover have "\<exists>t. join ''/'' cs = c @ t" by (cases r) (auto simp: cs)
  ultimately show ?thesis by auto
qed

lemma initial_slashes_le: "initial_slashes p \<le> 2"
  by (simp add: initial_slashes_def)

lemma initial_slashes_replicate:
  assumes "k \<le> 2" "s = [] \<or> hd s \<noteq> CHR ''/''"
  shows "initial_slashes (replicate k (CHR ''/'') @ s) = k"
proof -
  have "k = 0 \<or> k = 1 \<or> k = 2" using assms(1) by linarith
  then show ?thesis using assms(2)
    by (cases s) (auto simp: initial_slashes_def numeral_2_eq_2)
qed

lemma norm_comps_split_join:
  assumes "settled a (rev cs)"
  shows "norm_comps a [] (split_on (CHR ''/'') (join ''/'' cs)) = cs"
proof (cases "cs = []")
  case False
  have "\<forall>c\<in>set cs. CHR ''/'' \<notin> set c"
    using assms settled_clean by (fastforce simp: clean_comp_def)
  then have "split_on (CHR ''/'') (join ''/'' cs) = cs" by (rule split_on_join [OF False])
  with assms show ?thesis by (simp add: norm_comps_settled)
qed simp

text \<open>The parts of a normalised path.\<close>

lemma normpath_parts:
  assumes "p \<noteq> []"
  obtains k cs where "k = initial_slashes p" "settled (k \<noteq> 0) (rev cs)"
    "normpath p = (if k = 0 \<and> cs = [] then ''.'' else replicate k (CHR ''/'') @ join ''/'' cs)"
proof -
  define k where "k = initial_slashes p"
  define cs where "cs = norm_comps (k \<noteq> 0) [] (split_on (CHR ''/'') p)"
  have s: "settled (k \<noteq> 0) (rev cs)" unfolding cs_def
    by (rule settled_norm_comps) (auto dest: split_on_parts)
  have "cs \<noteq> [] \<Longrightarrow> join ''/'' cs \<noteq> []"
    using join_clean_hd settled_clean [OF s] by (metis set_rev)
  moreover have "normpath p = (let out = replicate k (CHR ''/'') @ join ''/'' cs
      in if out = [] then ''.'' else out)"
    unfolding normpath_def Let_def k_def cs_def using assms by simp
  ultimately have
    "normpath p = (if k = 0 \<and> cs = [] then ''.'' else replicate k (CHR ''/'') @ join ''/'' cs)"
    by auto
  then show ?thesis by (rule that [OF k_def s])
qed

lemma normpath_rebuild:
  assumes "settled (k \<noteq> 0) (rev cs)" "k \<le> 2" "k \<noteq> 0 \<or> cs \<noteq> []"
  shows "normpath (replicate k (CHR ''/'') @ join ''/'' cs) = replicate k (CHR ''/'') @ join ''/'' cs"
proof -
  let ?s = "join ''/'' cs"
  have hd: "?s = [] \<or> hd ?s \<noteq> CHR ''/''"
    using join_clean_hd [of cs] settled_clean [OF assms(1)] by (cases "cs = []") auto
  have ne: "replicate k (CHR ''/'') @ ?s \<noteq> []"
    using join_clean_hd [of cs] settled_clean [OF assms(1)] assms(3) by (cases "cs = []") auto
  have "norm_comps (k \<noteq> 0) [] (split_on (CHR ''/'') (replicate k (CHR ''/'') @ ?s)) = cs"
    using norm_comps_split_join [OF assms(1)]
    by (simp add: split_on_replicate norm_comps_skip_empty)
  with ne show ?thesis
    by (simp add: normpath_def Let_def initial_slashes_replicate [OF assms(2) hd])
qed

lemma normpath_idem: "normpath (normpath p) = normpath p"
proof (cases "p = []")
  case True
  then show ?thesis by (simp add: normpath_def initial_slashes_def)
next
  case False
  then obtain k cs where "k = initial_slashes p" "settled (k \<noteq> 0) (rev cs)"
    "normpath p = (if k = 0 \<and> cs = [] then ''.'' else replicate k (CHR ''/'') @ join ''/'' cs)"
    by (rule normpath_parts)
  then show ?thesis
    using normpath_rebuild [of k cs] initial_slashes_le [of p]
    by (auto simp: normpath_def [of "''.''"] initial_slashes_def [of "''.''"])
qed

lemma normpath_neq_Nil: "normpath p \<noteq> []"
  by (simp add: normpath_def Let_def)

lemma normpath_abs_no_parent:
  assumes "isabs (normpath p)"
  shows "\<not> has_parent_reference (normpath p)"
proof -
  have "p \<noteq> []" using assms by (auto simp: normpath_def isabs_def)
  then obtain k cs where k: "k = initial_slashes p" "settled (k \<noteq> 0) (rev cs)"
    "normpath p = (if k = 0 \<and> cs = [] then ''.'' else replicate k (CHR ''/'') @ join ''/'' cs)"
    by (rule normpath_parts)
  have "k \<noteq> 0"
  proof
    assume "k = 0"
    with k assms have "cs \<noteq> []" "prefix ''/'' (join ''/'' cs)"
      by (auto simp: isabs_def split: if_splits)
    with join_clean_hd [of cs] settled_clean [OF k(2)] show False
      by (auto simp: prefix_def)
  qed
  with k have s: "settled True (rev cs)" by simp
  have "''..'' \<notin> set (split_on (CHR ''/'') (join ''/'' cs))"
  proof (cases "cs = []")
    case False
    have "\<forall>c\<in>set cs. CHR ''/'' \<notin> set c"
      using s settled_clean by (fastforce simp: clean_comp_def)
    with settled_abs_no_parent [OF s] show ?thesis by (simp add: split_on_join [OF False])
  qed simp
  with k \<open>k \<noteq> 0\<close> show ?thesis
    by (auto simp: has_parent_reference_def split_on_replicate list_ex_iff)
qed

section \<open>The matchers as an interface\<close>

text \<open>
  What a client of a matcher relies on: once scopes are declared, a request is admitted
  exactly when one of them admits it. Storage and provision scopes are permissive while
  nothing is declared, network reach is not.
\<close>

locale scope_matcher =
  fixes admits :: "'r \<Rightarrow> 'g \<Rightarrow> bool"
    and matches :: "'r \<Rightarrow> 'g list \<Rightarrow> bool"
  assumes matches_declared: "gs \<noteq> [] \<Longrightarrow> matches r gs \<longleftrightarrow> (\<exists>g\<in>set gs. admits r g)"
begin

lemma matches_mono: "gs \<noteq> [] \<Longrightarrow> set gs \<subseteq> set hs \<Longrightarrow> matches r gs \<Longrightarrow> matches r hs"
  using matches_declared [of gs r] matches_declared [of hs r] by (cases "hs = []") auto

lemma matches_append:
  "gs \<noteq> [] \<Longrightarrow> hs \<noteq> [] \<Longrightarrow> matches r (gs @ hs) \<longleftrightarrow> matches r gs \<or> matches r hs"
  by (simp add: matches_declared Bex_def disj_ac) blast

lemma matches_cong: "set gs = set hs \<Longrightarrow> matches r gs = matches r hs"
  by (metis matches_declared set_empty)

end

locale permissive_matcher = scope_matcher +
  assumes undeclared_permits: "matches r []"
begin

lemma denied_only_when_declared: "\<not> matches r gs \<Longrightarrow> gs \<noteq> [] \<and> (\<forall>g\<in>set gs. \<not> admits r g)"
  by (metis matches_declared undeclared_permits)

end

locale strict_matcher = scope_matcher +
  assumes undeclared_denies: "\<not> matches r []"
begin

lemma matches_iff: "matches r gs \<longleftrightarrow> (\<exists>g\<in>set gs. admits r g)"
  using undeclared_denies matches_declared by (cases "gs = []") auto

lemma strict_mono: "set gs \<subseteq> set hs \<Longrightarrow> matches r gs \<Longrightarrow> matches r hs"
  by (auto simp: matches_iff)

end

interpretation storage: permissive_matcher storage_scope_admits matches_storage_scope
  by unfold_locales (auto simp: matches_storage_scope_def list_ex_iff)

interpretation provision: permissive_matcher
  "\<lambda>action g. action \<noteq> [] \<and> iam_glob_match action g"
  "\<lambda>action. matches_provision_actions [action]"
  by unfold_locales (auto simp: matches_provision_actions_def list_ex_iff)

interpretation reach: strict_matcher domain_pattern_admits matches_any_domain_pattern
  by unfold_locales (auto simp: matches_any_domain_pattern_def list_ex_iff)

section \<open>Storage scopes: path components\<close>

lemma join_append: "ps \<noteq> [] \<Longrightarrow> qs \<noteq> [] \<Longrightarrow> join sep (ps @ qs) = join sep ps @ sep @ join sep qs"
proof (induction sep ps rule: join.induct)
  case (2 sep x)
  then show ?case by (cases qs) auto
qed simp_all

text \<open>
  The string test of \<^verbatim>\<open>_prefix_matches\<close> is the prefix order on path components: a scope
  for \<open>data\<close> covers \<open>data/x\<close> and not \<open>data2\<close>.
\<close>

lemma prefix_matches_components:
  "prefix_matches requested granted \<longleftrightarrow>
   granted = [] \<or> prefix (split_on (CHR ''/'') granted) (split_on (CHR ''/'') requested)"
proof (cases "granted = [] \<or> requested = granted")
  case True
  then show ?thesis by (auto simp: prefix_matches_def)
next
  case False
  have "prefix (granted @ ''/'') requested \<longleftrightarrow>
      prefix (split_on (CHR ''/'') granted) (split_on (CHR ''/'') requested)"
  proof
    assume "prefix (granted @ ''/'') requested"
    then obtain t where "requested = granted @ CHR ''/'' # t" by (auto simp: prefix_def)
    then show "prefix (split_on (CHR ''/'') granted) (split_on (CHR ''/'') requested)"
      by (simp add: split_on_append_sep)
  next
    assume "prefix (split_on (CHR ''/'') granted) (split_on (CHR ''/'') requested)"
    then obtain zs where zs: "split_on (CHR ''/'') requested = split_on (CHR ''/'') granted @ zs"
      by (auto simp: prefix_def)
    have r: "requested = join ''/'' (split_on (CHR ''/'') granted @ zs)"
      using join_split_on [of "CHR ''/''" requested] zs by simp
    have "zs \<noteq> []" using r False by (auto simp: join_split_on)
    then have "requested = granted @ ''/'' @ join ''/'' zs"
      using r by (simp add: join_append join_split_on)
    then show "prefix (granted @ ''/'') requested" by (auto simp: prefix_def)
  qed
  with False show ?thesis by (simp add: prefix_matches_def)
qed

text \<open>Writing a scope out and reading it back.\<close>

definition render_scope :: "storage_scope \<Rightarrow> string" where
  "render_scope sc =
     (if sc_mode_max sc = ''rw'' then ''rw:'' else []) @ ''s3://'' @ sc_bucket sc @
     (if sc_prefix sc = [] then [] else CHR ''/'' # sc_prefix sc) @ ''/*''"

definition wf_scope :: "storage_scope \<Rightarrow> bool" where
  "wf_scope sc \<longleftrightarrow> (sc_mode_max sc = ''ro'' \<or> sc_mode_max sc = ''rw'') \<and>
     sc_bucket sc \<noteq> [] \<and> CHR ''/'' \<notin> set (sc_bucket sc) \<and> strip (sc_bucket sc) = sc_bucket sc \<and>
     strip_slashes (sc_prefix sc) = sc_prefix sc"

lemma is_space_lits: "\<not> is_space (CHR ''r'')" "\<not> is_space (CHR ''s'')" "\<not> is_space (CHR ''*'')"
  by code_simp+

lemma strip_render: "strip (render_scope sc) = render_scope sc"
  unfolding strip_def
  by (rule strip_by_idle) (simp add: render_scope_def is_space_lits)

text \<open>The text of a scope parses back, its prefix without the slashes around it.\<close>

lemma render_parses:
  assumes "sc_mode_max sc = ''ro'' \<or> sc_mode_max sc = ''rw''"
    and "sc_bucket sc \<noteq> []" "CHR ''/'' \<notin> set (sc_bucket sc)" "strip (sc_bucket sc) = sc_bucket sc"
  shows "parse_storage_scope (render_scope sc) = Inr (sc\<lparr>sc_prefix := strip_slashes (sc_prefix sc)\<rparr>)"
proof -
  obtain b p m where sc: "sc = \<lparr>sc_bucket = b, sc_prefix = p, sc_mode_max = m\<rparr>"
    by (cases sc)
  define rest where "rest = b @ (if p = [] then [] else CHR ''/'' # p)"
  have b: "b \<noteq> []" "CHR ''/'' \<notin> set b" "strip b = b" "m = ''ro'' \<or> m = ''rw''"
    using assms by (auto simp: sc)
  have r: "render_scope sc = (if m = ''rw'' then ''rw:'' else []) @ ''s3://'' @ rest @ ''/*''"
    by (simp add: render_scope_def sc rest_def)
  have split: "(if CHR ''/'' \<in> set rest then split_once (CHR ''/'') rest else (rest, [])) = (b, p)"
    using b(2) by (auto simp: rest_def split_once_def takeWhile_append dropWhile_append)
  have body: "rest @ ''/*'' \<noteq> ''*''" "suffix ''/*'' (rest @ ''/*'')"
    "take (length (rest @ ''/*'') - 2) (rest @ ''/*'') = rest"
    using b(1) by (auto simp: suffix_def rest_def append_eq_Cons_conv)
  from b(4) show ?thesis
  proof
    assume m: "m = ''ro''"
    then have "render_scope sc = ''s3://'' @ (rest @ ''/*'')" by (simp add: r)
    then show ?thesis
      unfolding parse_storage_scope_def strip_render Let_def
      using body split b m by (auto simp: sc split: if_splits)
  next
    assume m: "m = ''rw''"
    then have "render_scope sc = ''rw:s3://'' @ (rest @ ''/*'')" by (simp add: r)
    then show ?thesis
      unfolding parse_storage_scope_def strip_render Let_def
      using body split b m by (auto simp: sc split: if_splits)
  qed
qed

section \<open>Provision actions: globs\<close>

definition star_only :: "string \<Rightarrow> bool" where
  "star_only p \<longleftrightarrow> CHR ''?'' \<notin> set p \<and> CHR ''['' \<notin> set p"

lemma star_only_Cons [simp]:
  "star_only (c # p) \<longleftrightarrow> c \<noteq> CHR ''?'' \<and> c \<noteq> CHR ''['' \<and> star_only p"
  by (auto simp: star_only_def)

lemma fnmatch_star:
  "fnmatchcase name (CHR ''*'' # ps) \<longleftrightarrow>
     fnmatchcase name ps \<or> (\<exists>n ns. name = n # ns \<and> fnmatchcase ns (CHR ''*'' # ps))"
  by (subst fnmatchcase.simps(2)) (auto split: list.splits)

lemma fnmatch_literal:
  "c \<noteq> CHR ''*'' \<Longrightarrow> c \<noteq> CHR ''?'' \<Longrightarrow> c \<noteq> CHR ''['' \<Longrightarrow>
   fnmatchcase name (c # ps) \<longleftrightarrow> (\<exists>ns. name = c # ns \<and> fnmatchcase ns ps)"
  by (subst fnmatchcase.simps(2)) (auto split: list.splits)

lemma fnmatch_star_drop: "fnmatchcase v (CHR ''*'' # ps) \<Longrightarrow> fnmatchcase (u @ v) (CHR ''*'' # ps)"
  by (induction u) (auto simp: fnmatch_star [of "_ # _"])

lemma fnmatch_star_split:
  "fnmatchcase name (CHR ''*'' # ps) \<Longrightarrow> \<exists>u v. name = u @ v \<and> fnmatchcase v ps"
proof (induction name)
  case Nil
  then show ?case by (auto simp: fnmatch_star [of "[]"])
next
  case (Cons n name)
  then show ?case
    by (auto simp: fnmatch_star [of "n # name"] intro: exI [of _ "[]"]) (metis append_Cons)
qed

text \<open>A wildcard in the request is an ordinary character for the matcher.\<close>

lemma fnmatch_trans:
  "fnmatchcase r g \<Longrightarrow> star_only g \<Longrightarrow> star_only r \<Longrightarrow> fnmatchcase a r \<Longrightarrow> fnmatchcase a g"
proof (induction "length r + length g" arbitrary: r g a rule: less_induct)
  case less
  show ?case
  proof (cases g)
    case Nil
    with less.prems show ?thesis by simp
  next
    case (Cons p ps)
    have ps: "star_only ps" using less.prems(2) Cons by simp
    show ?thesis
    proof (cases "p = CHR ''*''")
      case False
      then have lit: "fnmatchcase n (p # qs) \<longleftrightarrow> (\<exists>ns. n = p # ns \<and> fnmatchcase ns qs)" for n qs
        using less.prems(2) Cons by (intro fnmatch_literal) auto
      obtain ns where ns: "r = p # ns" "fnmatchcase ns ps"
        using less.prems(1) unfolding Cons lit by blast
      obtain v where v: "a = p # v" "fnmatchcase v ns"
        using less.prems(4) unfolding ns(1) lit by blast
      have "fnmatchcase v ps"
        using less.hyps [OF _ ns(2) ps _ v(2)] less.prems(3) ns(1) Cons by simp
      then show ?thesis unfolding Cons lit using v(1) by blast
    next
      case True
      from less.prems(1) consider "fnmatchcase r ps"
        | n ns where "r = n # ns" "fnmatchcase ns (p # ps)"
        unfolding Cons True fnmatch_star [of r] by blast
      then show ?thesis
      proof cases
        case 1
        have "fnmatchcase a ps"
          using less.hyps [OF _ 1 ps less.prems(3,4)] Cons by simp
        then show ?thesis unfolding Cons True fnmatch_star [of a] by blast
      next
        case (2 n ns)
        have IH: "fnmatchcase v g" if "fnmatchcase v ns" for v
          using less.hyps [of ns g v] 2 that less.prems(2,3) Cons by simp
        show ?thesis
        proof (cases "n = CHR ''*''")
          case True
          then obtain u v where "a = u @ v" "fnmatchcase v ns"
            using less.prems(4) 2(1) fnmatch_star_split by blast
          then show ?thesis using IH fnmatch_star_drop Cons \<open>p = CHR ''*''\<close> by blast
        next
          case False
          then obtain v where "a = n # v" "fnmatchcase v ns"
            using less.prems(3,4) 2(1) fnmatch_literal [of n a ns] by auto
          then show ?thesis
            using IH fnmatch_star_drop [of v ps "[n]"] Cons \<open>p = CHR ''*''\<close> by simp
        qed
      qed
    qed
  qed
qed

lemma iam_glob_fnmatch: "iam_glob_match action pattern \<Longrightarrow> star_only action \<Longrightarrow> fnmatchcase action pattern"
proof -
  have "fnmatchcase [] ''*''" by (simp add: fnmatch_star [of "[]"])
  then have star: "fnmatchcase s ''*''" for s using fnmatch_star_drop [of "[]" "[]" s] by simp
  have "star_only s \<Longrightarrow> fnmatchcase s s" for s
  proof (induction s)
    case (Cons c s)
    show ?case
    proof (cases "c = CHR ''*''")
      case True
      have "fnmatchcase s (CHR ''*'' # s)" using Cons by (simp add: fnmatch_star [of s s])
      then have "fnmatchcase ([c] @ s) (CHR ''*'' # s)" by (rule fnmatch_star_drop)
      with True show ?thesis by simp
    next
      case False
      with Cons show ?thesis using fnmatch_literal [of c "c # s" s] by simp
    qed
  qed simp
  then show "iam_glob_match action pattern \<Longrightarrow> star_only action \<Longrightarrow> fnmatchcase action pattern"
    using star by (auto simp: iam_glob_match_def split: if_splits)
qed

section \<open>Properties\<close>

text \<open>
  (C2) Narrowness of a spawn: \<^verbatim>\<open>validate_spawn\<close> allows a child exactly when every
  requested domain and mount has a canonical form and the child's canonical domains, secrets,
  capabilities and canonical mounts are each contained in the parent's.
\<close>

theorem validate_spawn_allow_iff:
  "validate_spawn p c = Allow \<longleftrightarrow>
     well_formed_inputs p c \<and>
     canonical_domain_set (spec_firewall_domains c) \<subseteq> canonical_domain_set (pol_firewall_domains p) \<and>
     set (spec_secrets c) \<subseteq> set (pol_secrets p) \<and>
     set (spec_capabilities c) \<subseteq> set (pol_capabilities p) \<and>
     canonical_mount_set (spec_extra_mounts c) \<subseteq> canonical_mount_set (pol_extra_mounts p)"
  by (rule validate_spawn_narrow)

definition sample_policy :: DeskPolicy where
  "sample_policy = \<lparr>pol_firewall_domains = [''Example.com.'', ''a.org''], pol_secrets = [''k1'', ''k2''],
     pol_capabilities = [REQUEST_SECRET_LEASES], pol_extra_mounts = [(''/data'', ''/mnt'', ''bind'')],
     pol_storage_scopes = [], pol_provision_scopes = [], pol_network_reach = [], pol_network_ports = []\<rparr>"

definition sample_child :: "string list \<Rightarrow> string list \<Rightarrow> DeskSpec" where
  "sample_child domains secrets = \<lparr>spec_firewall_domains = domains, spec_secrets = secrets,
     spec_capabilities = [REQUEST_SECRET_LEASES], spec_extra_mounts = [(''/data/'', ''/mnt'', ''bind'')]\<rparr>"

text \<open>
  (C8) A rejection names a real offender: the item of the verdict is requested by the child, is
  missing from the parent's grants of the class that the rule names, and a format error is
  reported only when some input has no canonical form.
\<close>

theorem validate_spawn_reject_names_offender:
  "validate_spawn p c = Reject r pv rv item h \<Longrightarrow> offends p c r item"
  using canonical_inputs_total [of p c]
  by (fastforce simp: validate_spawn_def canonical_inputs_Inr(2-5)
      split: sum.splits prod.splits list.splits dest: sort_key_minus_Cons)

theorem validate_spawn_reject_names_offender_witness:
  "offends sample_policy (sample_child [] [''k1'', ''k9'']) ''secret_narrowness'' (VStr ''k9'')"
proof -
  have "validate_spawn sample_policy (sample_child [] [''k1'', ''k9'']) =
      Reject ''secret_narrowness'' (VStrs [''k1'', ''k2'']) (VStrs [''k1'', ''k9'']) (VStr ''k9'')
        (fix_hint (validate_spawn sample_policy (sample_child [] [''k1'', ''k9''])))"
    by code_simp
  then show ?thesis by (rule validate_spawn_reject_names_offender)
qed

text \<open>
  A canonical mount is a fixed point of canonicalisation, whatever raw text goes with it:
  comparing canonical mounts compares normal forms.
\<close>

theorem canonicalize_mount_tuple_idem:
  assumes "canonicalize_mount_tuple v raw = Inr m"
  shows "canonicalize_mount_tuple m raw' = Inr m"
proof -
  obtain s t d where v: "v = (s, t, d)" by (cases v) auto
  let ?d = "lower (strip d)"
  have m: "m = (normpath s, normpath t, ?d)" "?d = ''bind'' \<or> ?d = ''volume''"
    "isabs (normpath t)" "\<not> has_parent_reference (normpath s)" "\<not> has_parent_reference (normpath t)"
    using assms by (auto simp: canonicalize_mount_tuple_def v Let_def split: if_splits)
  have "lower (strip ?d) = ?d" using m(2) by (elim disjE) (simp only:, code_simp)+
  show ?thesis
    using m normpath_neq_Nil normpath_idem \<open>lower (strip ?d) = ?d\<close>
    by (auto simp: canonicalize_mount_tuple_def Let_def lower_def)
qed

theorem canonicalize_mount_tuple_idem_witness:
  "canonicalize_mount_tuple (''/data/x'', ''/mnt'', ''bind'') (Some ''raw'') = Inr (''/data/x'', ''/mnt'', ''bind'')"
  by (rule canonicalize_mount_tuple_idem [where v = "(''/data/./y/../x/'', ''/mnt//'', '' BIND '')" and raw = None])
    code_simp

text \<open>
  (C9) Storage scopes are path components: with scopes declared, a request is admitted exactly
  when some declared scope parses, names its bucket, is a prefix of its path component by
  component, and allows writing if the request writes.
\<close>

theorem storage_request_admitted_iff:
  assumes "granted \<noteq> []"
  shows "matches_storage_scope rq granted \<longleftrightarrow>
    (\<exists>raw\<in>set granted. \<exists>scope. parse_storage_scope raw = Inr scope \<and>
       sc_bucket scope = rq_bucket rq \<and>
       (sc_prefix scope = [] \<or>
        prefix (split_on (CHR ''/'') (sc_prefix scope))
               (split_on (CHR ''/'') (strip_slashes (rq_prefix rq)))) \<and>
       (rq_mode rq = ''rw'' \<longrightarrow> sc_mode_max scope = ''rw''))"
  unfolding storage.matches_declared [OF assms]
  by (intro bex_cong refl)
    (auto simp: storage_scope_admits_def prefix_matches_components split: sum.splits)

theorem storage_request_admitted_iff_witness:
  "\<exists>raw\<in>set [''s3://data/in/*'']. \<exists>scope. parse_storage_scope raw = Inr scope \<and>
     sc_bucket scope = ''data'' \<and>
     (sc_prefix scope = [] \<or>
      prefix (split_on (CHR ''/'') (sc_prefix scope)) (split_on (CHR ''/'') (strip_slashes ''in/x''))) \<and>
     (''ro'' = ''rw'' \<longrightarrow> sc_mode_max scope = ''rw'')"
proof -
  have "matches_storage_scope \<lparr>rq_bucket = ''data'', rq_prefix = ''in/x'', rq_mode = ''ro''\<rparr> [''s3://data/in/*'']"
    by code_simp
  then show ?thesis
    using storage_request_admitted_iff [of "[''s3://data/in/*'']"
        "\<lparr>rq_bucket = ''data'', rq_prefix = ''in/x'', rq_mode = ''ro''\<rparr>"] by simp
qed

text \<open>
  Scopes round trip: the text of a well-formed storage scope parses to that scope.
\<close>

theorem parse_render_scope:
  assumes "wf_scope sc"
  shows "parse_storage_scope (render_scope sc) = Inr sc"
  using assms render_parses [of sc] by (simp add: wf_scope_def)

theorem parse_render_scope_witness:
  "parse_storage_scope (render_scope \<lparr>sc_bucket = ''data'', sc_prefix = ''in/x'', sc_mode_max = ''rw''\<rparr>) =
   Inr \<lparr>sc_bucket = ''data'', sc_prefix = ''in/x'', sc_mode_max = ''rw''\<rparr>"
  by (rule parse_render_scope) code_simp

text \<open>
  A wildcard host pattern covers exactly one more label: \<open>*.base\<close> admits a host exactly
  when its first label is non-empty and the remaining labels are those of the base.
\<close>

theorem wildcard_is_one_label:
  assumes "base \<noteq> []" "rstrip_dots (lower (strip (''*.'' @ base))) = ''*.'' @ base"
  shows "domain_pattern_admits domain (''*.'' @ base) \<longleftrightarrow>
    (\<exists>h. h \<noteq> [] \<and> split_on (CHR ''.'') domain = h # split_on (CHR ''.'') base)"
proof -
  have "domain_pattern_admits domain (''*.'' @ base) \<longleftrightarrow>
      (\<exists>h. h \<noteq> [] \<and> CHR ''.'' \<notin> set h \<and> domain = h @ CHR ''.'' # base)"
    using assms
    by (auto simp: domain_pattern_admits_def Let_def suffix_def intro: exI [of _ "''*''"])
  also have "\<dots> \<longleftrightarrow> (\<exists>h. h \<noteq> [] \<and> split_on (CHR ''.'') domain = h # split_on (CHR ''.'') base)"
  proof (intro iffI; elim exE conjE)
    fix h assume "h \<noteq> []" "CHR ''.'' \<notin> set h" "domain = h @ CHR ''.'' # base"
    then show "\<exists>h. h \<noteq> [] \<and> split_on (CHR ''.'') domain = h # split_on (CHR ''.'') base"
      by (auto simp: split_on_append_sep split_on_no_sep)
  next
    fix h assume h: "h \<noteq> []" "split_on (CHR ''.'') domain = h # split_on (CHR ''.'') base"
    then have "CHR ''.'' \<notin> set h" using split_on_parts by (metis list.set_intros(1))
    moreover have "domain = join ''.'' (h # split_on (CHR ''.'') base)"
      using h(2) join_split_on [of "CHR ''.''" domain] by simp
    then have "domain = h @ CHR ''.'' # base"
      using join_append [of "[h]" "split_on (CHR ''.'') base" "''.''"] by (simp add: join_split_on)
    ultimately show "\<exists>h. h \<noteq> [] \<and> CHR ''.'' \<notin> set h \<and> domain = h @ CHR ''.'' # base"
      using h(1) by blast
  qed
  finally show ?thesis .
qed

theorem wildcard_is_one_label_witness:
  "domain_pattern_admits ''api.example.com'' (''*.'' @ ''example.com'') \<longleftrightarrow>
   (\<exists>h. h \<noteq> [] \<and> split_on (CHR ''.'') ''api.example.com'' = h # split_on (CHR ''.'') ''example.com'')"
  by (rule wildcard_is_one_label) code_simp+

text \<open>
  Network reach is denied by default: a request passes exactly when a declared pattern
  admits the normalised host and the port is declared, 80 and 443 standing in when no port is.
\<close>

theorem matches_network_reach_iff:
  "fst (matches_network_reach domain port domains ports) \<longleftrightarrow>
   (\<exists>pat\<in>set domains. domain_pattern_admits (rstrip_dots (lower (strip domain))) pat) \<and>
   port \<in> set (if ports = [] then [80, 443] else ports)"
  using reach.matches_iff [of "rstrip_dots (lower (strip domain))" domains]
  by (auto simp: matches_network_reach_def Let_def)

text \<open>
  (C10) A granted provision request is narrow: when the desk has grants declared (with none every
  request is admitted) and grants and requests use no wildcard but the star, every action that an
  admitted request covers is covered by some grant.
\<close>

theorem provision_wildcard_request_is_narrow:
  assumes "matches_provision_actions requested granted" "granted \<noteq> []"
    "\<forall>p\<in>set granted \<union> set requested. star_only p"
    "r \<in> set requested" "fnmatchcase a r"
  shows "\<exists>g\<in>set granted. fnmatchcase a g"
proof -
  from assms(1,2,4) obtain g where g: "g \<in> set granted" "iam_glob_match r g"
    by (auto simp: matches_provision_actions_def list_all_iff list_ex_iff split: if_splits)
  then have "fnmatchcase r g" using assms(3,4) by (auto intro: iam_glob_fnmatch)
  then have "fnmatchcase a g" using g(1) assms(3-5) by (auto intro: fnmatch_trans)
  with g(1) show ?thesis by blast
qed

theorem provision_wildcard_request_is_narrow_witness:
  "\<exists>g\<in>set [''s3:*'', ''iam:Get*'']. fnmatchcase ''s3:GetObject'' g"
  by (rule provision_wildcard_request_is_narrow [where requested = "[''s3:Get*'']" and r = "''s3:Get*''"])
    code_simp+

text \<open>
  The converse limit of the glob test: a question mark in a grant admits a request with a
  star, which covers actions that the grant does not.
\<close>

theorem question_mark_grant_is_wide:
  "matches_provision_actions [''s3:Get*''] [''s3:Get?''] \<and>
   fnmatchcase ''s3:GetObject'' ''s3:Get*'' \<and> \<not> fnmatchcase ''s3:GetObject'' ''s3:Get?''"
  by code_simp

end
