(* ===== verification/Sample.thy ===== *)
theory Sample
  imports Effects
begin

text \<open>
  A small harbor on which the hypotheses of the properties hold: one desk with a token, a
  policy and a running container, and surroundings in which every call succeeds.
\<close>

definition sample_env :: env where
  "sample_env = \<lparr>e_now = (\<lambda>n. ''2026-01-01T00:00:'' @ show_nat n), e_uuid = (\<lambda>n. ''u'' @ show_nat n),
     e_token = (\<lambda>n. ''token'' @ show_nat n), e_sha256 = (\<lambda>s. ''sha-'' @ s),
     e_run = (\<lambda>n argv inp. Completed 0 ''{}'' []), e_os_error = (\<lambda>n. None),
     e_json_loads = (\<lambda>s. Some (JObj [(''ok'', JBool True)])), e_json_dumps = (\<lambda>v. ''{}''),
     e_fromisoformat = Some\<rparr>"

definition sample_desk :: drydock_row where
  "sample_desk = \<lparr>dd_id = ''dock_a'', dd_name = ''a'', dd_project = ''p'', dd_repo_path = ''/repo'',
     dd_worktree_path = ''/wt'', dd_branch = ''b'', dd_base_ref = ''HEAD'', dd_state = ''running'',
     dd_container_id = ''c1'', dd_workspace_subdir = [], dd_image = [], dd_owner = [],
     dd_created_at = ''t0'', dd_updated_at = ''t0'', dd_config = [], parent_drydock_id = None,
     delegatable_firewall_domains = [], delegatable_secrets = [''api_key''],
     capabilities = [''request_secret_leases'', ''request_storage_leases'', ''request_network_reach''],
     delegatable_storage_scopes = [''s3://data/in/*''], delegatable_provision_scopes = [],
     delegatable_network_reach = [''*.example.com''], network_reach_ports = [],
     resources_hard = [], pinned_yaml_sha256 = [], dd_yard_id = None, original_resources_hard = []\<rparr>"

definition sample_lease :: CapabilityLease where
  "sample_lease = \<lparr>lease_id = ''ls_1'', ls_drydock_id = ''dock_a'', ls_type = STORAGE_MOUNT,
     ls_scope = [(''bucket'', JStr ''data''), (''prefix'', JStr ''in''), (''mode'', JStr ''ro'')],
     ls_issued_at = ''t1'', ls_expiry = None, ls_issuer = ''daemon'', ls_revoked = False,
     ls_revocation_reason = None\<rparr>"

definition sample_registry :: registry where
  "sample_registry = empty_registry\<lparr>drydocks := [sample_desk], leases := [sample_lease],
     tokens := [\<lparr>tk_drydock_id = ''dock_a'', tk_sha256 = ''sha-secret'', tk_issued_at = ''t0'',
       tk_rotated_at = None, tk_scope = ''dock''\<rparr>]\<rparr>"

definition sample_files :: "string \<times> string \<Rightarrow> file_node option" where
  "sample_files x =
     (if x = (''dock_a'', ''api_key'') then Some (Bytes ''k'')
      else if x = (''dock_a'', ''aws_access_key_id'') then Some (Bytes ''a'') else None)"

definition sample_world :: world where
  "sample_world = \<lparr>w_reg = sample_registry, w_files = sample_files, w_audit = [], w_calls = [],
     w_snapshots = (\<lambda>p. None), w_acls = [], w_ticks = 0\<rparr>"

end
