(* ===== verification/Capability_Facts.thy ===== *)
theory Capability_Facts
  imports Capability Policy_Facts Sample
begin

text \<open>
  What the capability broker promises. Predicates of the registry that tolerate what the
  handlers write are kept by all of them (a locale, interpreted on the registry's invariant, on
  the task log, on the desks, on the leases in force). On top of it: every lease in force that
  a request adds belongs to the caller and is permitted by its policy, a desk has at most one
  AWS lease in force, a release affects its own lease only and is idempotent, retries replay;
  and two behaviours the code does not mean: a denied storage request revokes the lease in
  force, a denied network request is an internal error that blocks its id.
\<close>

section \<open>Input and output leave the registry alone\<close>

lemma keeps_catching: "keeps (on_reg P) m \<Longrightarrow> keeps (on_reg P) (catching cls m f)"
  unfolding catching_def by (intro keeps_rules) (auto split: exn.split intro: keeps_rules)

lemma keeps_minting: "keeps (on_reg P) m \<Longrightarrow> keeps (on_reg P) (minting m)"
  unfolding minting_def by (intro keeps_catching)

lemma keeps_completed_run: "keeps (on_reg P) (completed_run env argv inp)"
  unfolding completed_run_def
  by (intro keeps_bind keeps_reg_run) (auto split: proc.split intro: keeps_rules)

lemma keeps_put: "keeps (on_reg P) (os_step env (put_file d n b))"
  by (rule keeps_os_step) (simp add: put_file_def)

lemma keeps_drop: "keeps (on_reg P) (os_step env (drop_file d n))"
  by (rule keeps_os_step) (simp add: drop_file_def)

lemma keeps_os_skip: "keeps (on_reg P) (os_step env (\<lambda>w. w))"
  by (rule keeps_os_step)

lemma keeps_running_container: "keeps (on_reg P) (running_container c)"
  unfolding running_container_def by (intro keeps_rules)

lemma keeps_materialize:
  "keeps (on_reg P) (materialize_network_reach env cid host port)"
  "keeps (on_reg P) (materialize_secret env cid n b)"
  "keeps (on_reg P) (materialize_storage_credentials env d cred)"
  "keeps (on_reg P) (materialize_to_host_secret_dir env d n b)"
  unfolding materialize_network_reach_def materialize_secret_def materialize_storage_credentials_def
    materialize_to_host_secret_dir_def Let_def
  by (auto intro!: keeps_rules keeps_completed_run keeps_put keeps_drop keeps_os_skip)

lemma keeps_removal:
  "keeps (on_reg P) (remove_storage_credentials env d)"
  "keeps (on_reg P) (remove_from_host_secret_dir env d n)"
  unfolding remove_storage_credentials_def remove_from_host_secret_dir_def try_drop_file_def
  by (auto intro!: keeps_rules keeps_drop)

lemmas broker_io = keeps_catching keeps_minting keeps_running_container keeps_materialize keeps_removal

lemma supersede_keeps:
  assumes revoke: "\<And>w i why. P w \<Longrightarrow> P (w\<lparr>w_reg := snd (revoke_lease i why (w_reg w))\<rparr>)"
    and emit: "\<And>ev who i m res d. keeps P (emit_audit env ev who i m res d)"
  shows "keeps P (supersede env c i why)"
proof -
  have "P w \<Longrightarrow> P (snd (supersede env c i why w))" for w
    using emit
  proof (induction env c i why w rule: supersede.induct)
    case (1 env caller request_id why w)
    show ?case
    proof (cases "find_active_aws_lease (w_reg w) caller")
      case (Some prior)
      let ?w = "w\<lparr>w_reg := snd (revoke_lease (lease_id prior) ''superseded'' (w_reg w))\<rparr>"
      obtain r w' where e: "emit_audit env ''lease.released'' (Some caller) request_id ''RequestCapability''
          ''ok'' [(''lease_id'', JStr (lease_id prior)), (''reason'', JStr why)] ?w = (r, w')"
        by (metis surj_pair)
      have "P w'" using keepsD [OF 1(3) e] revoke [OF 1(2)] by simp
      then show ?thesis using Some e 1(1) [OF Some e [symmetric] _ _ 1(3)]
        by (subst supersede.simps) (auto split: sum.split)
    qed (use 1 in \<open>simp add: supersede.simps\<close>)
  qed
  then show ?thesis by (simp add: keeps_def)
qed

section \<open>Predicates the broker keeps\<close>

text \<open>
  What a predicate of the registry has to tolerate for the handlers of this module to keep it:
  a new amendment, the revocation of a lease, a new lease that is \<open>ok\<close>.
\<close>

locale broker_invariant =
  fixes P :: "registry \<Rightarrow> bool"
    and ok :: "CapabilityLease \<Rightarrow> bool"
  assumes amend: "P r \<Longrightarrow> P (snd (create_amendment now u k q bt bi d y re t x st r))"
    and revoke: "P r \<Longrightarrow> P (snd (revoke_lease i why r))"
    and insert: "P r \<Longrightarrow> ok l \<Longrightarrow> insert_lease l r = Inr r' \<Longrightarrow> P r'"
begin

lemma keeps_amendment: "keeps (on_reg P) (emit_capability_amendment env k q c st why)"
  unfolding emit_capability_amendment_def by (intro keeps_rules keeps_call_reg amend)

lemma keeps_issue: "ok l \<Longrightarrow> keeps (on_reg P) (issue env i k q why extra l)"
  unfolding issue_def by (intro keeps_rules keeps_amendment keeps_insert_reg) (erule (1) insert)

lemma keeps_new_lease: "keeps (on_reg P) (new_lease env tag c ty sc ex)"
  unfolding new_lease_def by (intro keeps_rules)

lemma keeps_supersede: "keeps (on_reg P) (supersede env c i why)"
  by (intro supersede_keeps keeps_rules) (simp add: revoke)

lemmas broker_steps = keeps_amendment keeps_new_lease keeps_supersede broker_io

lemma keeps_release_capability: "keeps (on_reg P) (release_capability env params i caller)"
  unfolding release_capability_def release_cleanup_def
  by (auto split: json.split intro!: keeps_rules broker_steps keeps_update_reg revoke)

end

text \<open>A predicate that tolerates every new lease is kept by every request.\<close>

locale lax_broker_invariant = broker_invariant P "\<lambda>_. True" for P
begin

lemma keeps_handlers:
  "keeps (on_reg P) (handle_network_reach_request env host port c i)"
  "keeps (on_reg P) (handle_secret_request env b n s c i)"
  "keeps (on_reg P) (handle_storage_request env sb bkt p m c i)"
  "keeps (on_reg P) (handle_provision_request env sb acts c i)"
  unfolding handle_network_reach_request_def handle_secret_request_def handle_storage_request_def
    handle_provision_request_def Let_def
  by (auto split: json.split intro!: keeps_rules broker_steps keeps_issue)

lemma keeps_request_capability: "keeps (on_reg P) (request_capability env cfg params i caller)"
  unfolding request_capability_def handle_spec_def
  by (intro keeps_rules) (auto split: cap_spec.split intro!: keeps_handlers)

end

interpretation broker_wf: lax_broker_invariant reg_wf
  by unfold_locales (auto intro: reg_wf_create_amendment reg_wf_revoke_lease reg_wf_insert_lease)

interpretation broker_tasks: lax_broker_invariant "\<lambda>r. get_task r k = v" for k v
  by unfold_locales (auto simp: get_task_def create_amendment_def revoke_lease_def insert_lease_def
      Let_def split: if_splits)

interpretation broker_desks: lax_broker_invariant "\<lambda>r. drydocks r = ds" for ds
  by unfold_locales (auto simp: create_amendment_def revoke_lease_def insert_lease_def
      Let_def split: if_splits)

section \<open>What the policy of a desk permits\<close>

definition has_kind :: "drydock_row \<Rightarrow> CapabilityKind \<Rightarrow> bool" where
  "has_kind d k \<longleftrightarrow> kind_value k \<in> set (capabilities d)"

fun permits :: "drydock_row \<Rightarrow> cap_spec \<Rightarrow> bool" where
  "permits d (SecretSpec name source) =
     (has_kind d REQUEST_SECRET_LEASES \<and> name \<in> set (delegatable_secrets d))"
| "permits d (StorageSpec bucket pfx mode) =
     (has_kind d REQUEST_STORAGE_LEASES \<and>
      matches_storage_scope \<lparr>rq_bucket = bucket, rq_prefix = pfx, rq_mode = mode\<rparr> (delegatable_storage_scopes d))"
| "permits d (ProvisionSpec actions) =
     (has_kind d REQUEST_PROVISION_LEASES \<and>
      matches_provision_actions actions (delegatable_provision_scopes d))"
| "permits d (ReachSpec domain port) =
     (has_kind d REQUEST_NETWORK_REACH \<and>
      fst (matches_network_reach domain port (delegatable_network_reach d) (network_reach_ports d)))"

text \<open>A lease of the requested type and scope, held by the desk that asked.\<close>

fun grants :: "string \<Rightarrow> cap_spec \<Rightarrow> CapabilityLease \<Rightarrow> bool" where
  "grants c (SecretSpec name source) l =
     (ls_drydock_id l = c \<and> ls_type l = SECRET \<and> dict_get (ls_scope l) ''secret_name'' = JStr name)"
| "grants c (StorageSpec bucket pfx mode) l =
     (ls_drydock_id l = c \<and> ls_type l = STORAGE_MOUNT \<and> dict_get (ls_scope l) ''bucket'' = JStr bucket \<and>
      dict_get (ls_scope l) ''prefix'' = JStr pfx \<and> dict_get (ls_scope l) ''mode'' = JStr mode)"
| "grants c (ProvisionSpec actions) l =
     (ls_drydock_id l = c \<and> ls_type l = INFRA_PROVISION \<and> dict_get (ls_scope l) ''actions'' = jstrs actions)"
| "grants c (ReachSpec domain port) l =
     (ls_drydock_id l = c \<and> ls_type l = NETWORK_REACH \<and> dict_get (ls_scope l) ''domain'' = JStr domain \<and>
      dict_get (ls_scope l) ''port'' = JInt port)"

lemma kind_of_value_Some: "kind_of_value v = Some k \<longleftrightarrow> v = kind_value k"
  by (cases k) (auto simp: kind_of_value_def)

lemma check_capability_Inr: "check_capability d k = Inr u \<Longrightarrow> has_kind d k"
  by (auto simp: check_capability_def has_kind_def dest: map_all_SomeD
      split: option.splits if_splits simp: kind_of_value_Some)

lemma yields_new_lease:
  "yields Q (new_lease env tag c ty sc ex)
     (\<lambda>l. ls_drydock_id l = c \<and> ls_type l = ty \<and> ls_scope l = sc \<and> \<not> ls_revoked l)"
  by (auto simp: yields_def new_lease_def effect_defs)

definition may_issue ::
    "(CapabilityLease \<Rightarrow> bool) \<Rightarrow> drydock_row list \<Rightarrow> string \<Rightarrow> cap_spec \<Rightarrow> bool" where
  "may_issue ok ds c spec \<longleftrightarrow>
     (\<forall>d l. find (\<lambda>d. dd_id d = c) ds = Some d \<longrightarrow> permits d spec \<longrightarrow> grants c spec l \<longrightarrow> ok l)"

text \<open>
  While the desks do not change, a lease is inserted only under a policy that permits it.
\<close>

locale strict_broker_invariant = broker_invariant P ok for P ok +
  fixes ds :: "drydock_row list"
  assumes desks: "P r \<Longrightarrow> drydocks r = ds"
begin

lemma yields_policy:
  "yields (on_reg P) (query (\<lambda>r. load_desk_policy r c)) (\<lambda>x. x = find (\<lambda>d. dd_id d = c) ds)"
  by (auto simp: yields_def query_def reads_def load_desk_policy_def drydock_by_id_def desks)

lemma keeps_policy:
  assumes "\<And>d. find (\<lambda>d. dd_id d = c) ds = Some d \<Longrightarrow> keeps (on_reg P) (f d)"
  shows "keeps (on_reg P) (bind (query (\<lambda>r. load_desk_policy r c)) (\<lambda>row. bind (required row e) f))"
  by (intro keeps_bind_val [OF yields_policy keeps_query] keeps_bind_val [OF yields_required keeps_required] assms) simp

lemma keeps_lease:
  assumes "\<And>l. ls_drydock_id l = c \<Longrightarrow> ls_type l = ty \<Longrightarrow> ls_scope l = sc \<Longrightarrow> ok l"
  shows "keeps (on_reg P) (bind (new_lease env tag c ty sc ex) (issue env i k q why extra))"
  by (intro keeps_bind_val [OF yields_new_lease keeps_new_lease] keeps_issue assms) simp_all

lemma keeps_storage_strict:
  assumes "may_issue ok ds c (StorageSpec bkt p m)"
  shows "keeps (on_reg P) (handle_storage_request env sb bkt p m c i)"
  unfolding handle_storage_request_def Let_def
  by (intro keeps_policy keeps_checked keeps_lease keeps_rules broker_steps)
    (use assms check_capability_Inr in \<open>fastforce simp: may_issue_def dict_get_def\<close>)

lemma keeps_provision_strict:
  assumes "may_issue ok ds c (ProvisionSpec acts)"
  shows "keeps (on_reg P) (handle_provision_request env sb acts c i)"
  unfolding handle_provision_request_def Let_def
  by (intro keeps_policy keeps_checked keeps_lease keeps_rules broker_steps)
    (use assms check_capability_Inr in \<open>fastforce simp: may_issue_def dict_get_def\<close>)

lemma keeps_secret_strict:
  assumes "may_issue ok ds c (SecretSpec n s)"
  shows "keeps (on_reg P) (handle_secret_request env b n s c i)"
  unfolding handle_secret_request_def Let_def
  by (intro keeps_policy keeps_checked keeps_lease keeps_rules broker_steps)
    (use assms check_capability_Inr in \<open>fastforce simp: may_issue_def dict_get_def\<close>)

lemma keeps_reach_strict:
  assumes "may_issue ok ds c (ReachSpec host port)"
  shows "keeps (on_reg P) (handle_network_reach_request env host port c i)"
  unfolding handle_network_reach_request_def Let_def
  by (intro keeps_policy keeps_checked keeps_lease keeps_rules broker_steps)
    (use assms check_capability_Inr in \<open>fastforce simp: may_issue_def dict_get_def\<close>)

lemma keeps_request_strict:
  assumes "\<And>c spec. caller = Some c \<Longrightarrow> validate_request_params params = Inr spec \<Longrightarrow> may_issue ok ds c spec"
  shows "keeps (on_reg P) (request_capability env cfg params i caller)"
  unfolding request_capability_def
proof (intro keeps_bind_val [OF yields_required keeps_required]
    keeps_bind_val [OF yields_from_sum keeps_from_sum])
  fix c spec assume "caller = Some c" "validate_request_params params = Inr spec"
  then have "may_issue ok ds c spec" by (rule assms)
  then show "keeps (on_reg P) (handle_spec env cfg spec c i)"
    by (cases spec) (simp_all add: handle_spec_def keeps_storage_strict keeps_provision_strict
        keeps_secret_strict keeps_reach_strict)
qed

end

definition only_new_ok ::
    "drydock_row list \<Rightarrow> CapabilityLease set \<Rightarrow> (CapabilityLease \<Rightarrow> bool) \<Rightarrow> registry \<Rightarrow> bool" where
  "only_new_ok ds old ok r \<longleftrightarrow>
     drydocks r = ds \<and> (\<forall>l\<in>set (leases r). ls_revoked l \<or> l \<in> old \<or> ok l)"

interpretation granted: strict_broker_invariant "only_new_ok ds old ok" ok ds for ds old ok
proof unfold_locales
  fix r i why assume a: "only_new_ok ds old ok r"
  show "only_new_ok ds old ok (snd (revoke_lease i why r))"
    using a ball_update_where [of "leases r" "\<lambda>l. ls_revoked l \<or> l \<in> old \<or> ok l"
        "\<lambda>l. lease_id l = i \<and> \<not> ls_revoked l"
        "\<lambda>l. l\<lparr>ls_revoked := True, ls_revocation_reason := Some why\<rparr>"]
    by (simp add: only_new_ok_def revoke_lease_def Let_def)
qed (auto simp: only_new_ok_def create_amendment_def insert_lease_def Let_def split: if_splits)

section \<open>How requests end\<close>

lemma ends_issue [ends_rules]:
  "ends (issue env i k q why extra l) (\<lambda>v w'. v = to_wire l \<and> get_lease (w_reg w') (lease_id l) = Some l \<and>
     (\<exists>ts det. last (w_audit w') =
        audit_entry ts ''lease.issued'' (Some (ls_drydock_id l)) i ''RequestCapability'' ''ok'' det))"
proof -
  have am: "get_lease (w_reg w2) j = get_lease (w_reg w1) j"
    if "emit_capability_amendment env k q c st why w1 = (r, w2)" for c st w1 r w2 j
    using that by (auto simp: emit_capability_amendment_def effect_defs create_amendment_def Let_def
        get_lease_def split: prod.splits sum.splits if_splits)
  show ?thesis
    unfolding ends_def issue_def
    using leases.lookup_ins am by (fastforce simp: effect_simps insert_reg_def dest!: emit_audit_cases split: sum.splits)
qed

definition issued_to :: "string \<Rightarrow> json \<Rightarrow> json \<Rightarrow> world \<Rightarrow> bool" where
  "issued_to c i v w' \<longleftrightarrow> (\<exists>l ts det. v = to_wire l \<and> ls_drydock_id l = c \<and> \<not> ls_revoked l \<and>
     get_lease (w_reg w') (lease_id l) = Some l \<and>
     last (w_audit w') = audit_entry ts ''lease.issued'' (Some c) i ''RequestCapability'' ''ok'' det)"

lemma ends_lease [ends_rules]:
  "ends (bind (new_lease env tag c ty sc ex) (issue env i k q why extra)) (issued_to c i)"
  unfolding ends_def
proof (intro allI impI)
  fix w v w' assume "bind (new_lease env tag c ty sc ex) (issue env i k q why extra) w = (Inr v, w')"
  then obtain l w1 where l: "new_lease env tag c ty sc ex w = (Inr l, w1)"
    "issue env i k q why extra l w1 = (Inr v, w')" by (auto simp: bind_Inr)
  have "ls_drydock_id l = c" "\<not> ls_revoked l"
    using l(1) yields_new_lease [of "\<lambda>_. True" env tag c ty sc ex] by (auto simp: yields_def)
  then show "issued_to c i v w'" using endsD [OF ends_issue l(2)] by (auto simp: issued_to_def)
qed

lemma ends_handlers:
  "ends (handle_network_reach_request env host port c i) (issued_to c i)"
  "ends (handle_secret_request env b n s c i) (issued_to c i)"
  "ends (handle_storage_request env sb bkt p m c i) (issued_to c i)"
  "ends (handle_provision_request env sb acts c i) (issued_to c i)"
  unfolding handle_network_reach_request_def handle_secret_request_def handle_storage_request_def
    handle_provision_request_def Let_def
  by (intro ends_lease ends_rules)+

lemma request_capability_Inr:
  assumes "request_capability env cfg params i caller w = (Inr v, w')"
  obtains c where "caller = Some c" "issued_to c i v w'"
proof -
  from assms obtain c spec where c: "caller = Some c" "handle_spec env cfg spec c i w = (Inr v, w')"
    by (auto simp: request_capability_def effect_simps split: option.splits)
  have "ends (handle_spec env cfg spec c i) (issued_to c i)"
    by (cases spec) (simp_all add: handle_spec_def ends_handlers)
  from endsD [OF this c(2)] show thesis by (rule that [OF c(1)])
qed

section \<open>One AWS lease at a time\<close>

definition aws_leases :: "registry \<Rightarrow> string \<Rightarrow> CapabilityLease list" where
  "aws_leases r d = filter (\<lambda>l. is_aws_type (ls_type l)) (active_leases r d)"

definition one_aws_lease :: "registry \<Rightarrow> bool" where
  "one_aws_lease r \<longleftrightarrow> (\<forall>d. length (aws_leases r d) \<le> 1)"

definition no_aws_for :: "string \<Rightarrow> registry \<Rightarrow> bool" where
  "no_aws_for c r \<longleftrightarrow> aws_leases r c = [] \<and> one_aws_lease r"

lemma aws_leases_amend: "aws_leases (snd (create_amendment now u k q bt bi d y re t x st r)) = aws_leases r"
  by (auto simp: create_amendment_def aws_leases_def active_leases_def Let_def fun_eq_iff)

lemma aws_leases_revoke:
  "aws_leases (snd (revoke_lease i why r)) d = filter (\<lambda>l. lease_id l \<noteq> i) (aws_leases r d)"
  by (simp add: aws_leases_def active_leases_revoke) (metis (mono_tags, lifting))

lemma aws_leases_insert:
  "insert_lease l r = Inr r' \<Longrightarrow> aws_leases r' d =
     aws_leases r d @ (if ls_drydock_id l = d \<and> \<not> ls_revoked l \<and> is_aws_type (ls_type l) then [l] else [])"
  by (auto simp: aws_leases_def active_leases_insert)

lemma one_aws_revoke: "one_aws_lease r \<Longrightarrow> one_aws_lease (snd (revoke_lease i why r))"
  unfolding one_aws_lease_def aws_leases_revoke by (meson length_filter_le order_trans)

lemma find_active_aws_None: "find_active_aws_lease r d = None \<longleftrightarrow> aws_leases r d = []"
  by (auto simp: find_active_aws_None_iff aws_leases_def filter_empty_conv)

lemma one_aws_amend:
  "one_aws_lease r \<Longrightarrow> one_aws_lease (snd (create_amendment now u k q bt bi d y re t x st r))"
  by (simp add: one_aws_lease_def aws_leases_amend)

lemma one_aws_insert:
  "one_aws_lease r \<Longrightarrow> \<not> is_aws_type (ls_type l) \<or> aws_leases r (ls_drydock_id l) = [] \<Longrightarrow>
   insert_lease l r = Inr r' \<Longrightarrow> one_aws_lease r'"
  by (auto simp: one_aws_lease_def aws_leases_insert)

lemma one_aws_single:
  assumes "one_aws_lease r" "l \<in> set (aws_leases r c)"
  shows "aws_leases r c = [l]"
proof -
  have "length (aws_leases r c) \<le> 1" using assms(1) by (simp add: one_aws_lease_def)
  with assms(2) show ?thesis by (cases "aws_leases r c") auto
qed

interpretation one_aws: broker_invariant one_aws_lease "\<lambda>l. \<not> is_aws_type (ls_type l)"
  by unfold_locales (auto intro: one_aws_amend one_aws_revoke one_aws_insert)

interpretation no_aws: broker_invariant "no_aws_for c" "\<lambda>l. \<not> is_aws_type (ls_type l)" for c
  by unfold_locales (auto simp: no_aws_for_def aws_leases_amend aws_leases_insert aws_leases_revoke
      intro: one_aws_amend one_aws_revoke one_aws_insert)

text \<open>The loop ends with no active AWS lease, unless the audit log refused an entry.\<close>

lemma supersede_clears:
  "supersede env c i why w = (Inr u, w') \<Longrightarrow> aws_leases (w_reg w') c = []"
proof (induction env c i why w rule: supersede.induct)
  case (1 env caller request_id why w)
  from 1(2) show ?case
    unfolding supersede.simps [of env caller request_id why w]
    using 1(1) by (auto simp: find_active_aws_None split: option.splits prod.splits sum.splits)
qed

lemma one_aws_issue:
  "leads (on_reg (no_aws_for c)) (bind (new_lease env tag c ty sc ex) (issue env i k q why extra))
     (on_reg one_aws_lease)"
proof -
  have "leads (on_reg (no_aws_for c)) (issue env i k q why extra l) (on_reg one_aws_lease)"
    if "ls_drydock_id l = c" for l
    unfolding leads_def
  proof (intro allI impI)
    fix w :: world assume w: "no_aws_for c (w_reg w)"
    show "one_aws_lease (w_reg (snd (issue env i k q why extra l w)))"
    proof (cases "insert_lease l (w_reg w)")
      case (Inr r')
      then have "one_aws_lease r'" using w that by (auto simp: no_aws_for_def intro: one_aws_insert)
      moreover have "keeps (on_reg one_aws_lease)
         (andthen (emit_capability_amendment env k q (ls_drydock_id l) ''auto_approved'' why)
           (andthen (emit_audit env ''lease.issued'' (Some (ls_drydock_id l)) i ''RequestCapability'' ''ok''
             ([(''lease_id'', JStr (lease_id l)), (''drydock_id'', JStr (ls_drydock_id l)),
               (''type'', JStr (type_value (ls_type l))), (''scope'', JObj (ls_scope l)),
               (''expiry'', jopt (ls_expiry l))] @ extra)) (ret (to_wire l))))"
        by (intro keeps_rules one_aws.keeps_amendment)
      ultimately show ?thesis
        using Inr by (simp add: issue_def andthen_def [of "insert_reg _"] bind_def insert_reg_def keeps_def)
    qed (use w in \<open>simp add: issue_def effect_defs no_aws_for_def\<close>)
  qed
  then show ?thesis
    unfolding leads_def bind_def
    using yields_new_lease [of "on_reg (no_aws_for c)" env tag c ty sc ex]
      no_aws.keeps_new_lease [of c env tag c ty sc ex]
    by (auto simp: yields_def keeps_def no_aws_for_def split: prod.splits sum.splits)
qed

lemma no_aws_one: "no_aws_for c r \<Longrightarrow> one_aws_lease r"
  by (simp add: no_aws_for_def)

lemma one_aws_after_supersede:
  assumes "leads (on_reg (no_aws_for c)) n (on_reg one_aws_lease)"
  shows "keeps (on_reg one_aws_lease) (andthen (supersede env c i why) n)"
proof (rule keeps_andthen_leads [where Q = "on_reg (no_aws_for c)"])
  fix w u w' assume "one_aws_lease (w_reg w)" "supersede env c i why w = (Inr u, w')"
  then show "no_aws_for c (w_reg w')"
    using supersede_clears keepsD [OF one_aws.keeps_supersede] by (simp add: no_aws_for_def)
qed (use assms one_aws.keeps_supersede in auto)

lemmas leads_steps = leads_if leads_bind leads_andthen leads_keeps [OF keeps_raise]

lemma one_aws_handlers:
  "keeps (on_reg one_aws_lease) (handle_storage_request env sb bkt p m c i)"
  "keeps (on_reg one_aws_lease) (handle_provision_request env sb acts c i)"
  unfolding handle_storage_request_def handle_provision_request_def Let_def
  by (intro keeps_bind [OF keeps_required] one_aws_after_supersede one_aws_issue leads_steps
      keeps_rules no_aws.broker_steps no_aws_one; assumption)+

lemma one_aws_others:
  "keeps (on_reg one_aws_lease) (handle_secret_request env b n s c i)"
  "keeps (on_reg one_aws_lease) (handle_network_reach_request env host port c i)"
  unfolding handle_secret_request_def handle_network_reach_request_def Let_def
  by (intro keeps_rules one_aws.broker_steps one_aws.keeps_issue
      keeps_bind_val [OF yields_new_lease one_aws.keeps_new_lease]; simp add: is_aws_type_def)+

section \<open>The handler under the task log\<close>

lemma raises_catching:
  "raises_only \<phi> m \<Longrightarrow> (\<And>msg. \<phi> (f msg)) \<Longrightarrow> raises_only \<phi> (catching cls m f)"
  unfolding raises_only_def catching_def try_except_def raise_def
  by (auto split: prod.splits sum.splits exn.splits if_splits)

lemma raises_completed_run [raises_rules]: "raises_only plain_error (completed_run env argv inp)"
  unfolding completed_run_def by (intro raises_bind raises_run) (auto split: proc.split intro: raises_rules)

lemma raises_materialize [raises_rules]:
  "raises_only plain_error (materialize_network_reach env cid host port)"
  "raises_only plain_error (materialize_secret env cid n b)"
  "raises_only plain_error (materialize_storage_credentials env d cred)"
  "raises_only plain_error (materialize_to_host_secret_dir env d n b)"
  unfolding materialize_network_reach_def materialize_secret_def materialize_storage_credentials_def
    materialize_to_host_secret_dir_def Let_def
  by (intro raises_rules; simp)+

lemma raises_running_container [raises_rules]: "raises_only plain_error (running_container c)"
  unfolding running_container_def by (intro raises_rules) (simp_all add: desk_not_running_def)

lemma raises_amendment [raises_rules]:
  "raises_only \<phi> (emit_capability_amendment env k q c st why)"
  unfolding emit_capability_amendment_def by (intro raises_rules)

lemma raises_new_lease [raises_rules]: "raises_only \<phi> (new_lease env tag c ty sc ex)"
  unfolding new_lease_def by (intro raises_rules)

lemma raises_issue [raises_rules]: "raises_only plain_error (issue env i k q why extra l)"
  unfolding issue_def
  by (intro raises_rules raises_insert_reg) (auto simp: insert_lease_def split: if_splits)

lemma raises_supersede [raises_rules]: "raises_only plain_error (supersede env c i why)"
proof -
  have "supersede env c i why w = (Inl e, w') \<Longrightarrow> plain_error e" for e w w'
  proof (induction env c i why w rule: supersede.induct)
    case (1 env caller request_id why w)
    from 1(2) show ?case
      unfolding supersede.simps [of env caller request_id why w]
      using 1(1) raises_onlyD [OF raises_emit_audit]
      by (auto split: option.splits prod.splits sum.splits)
  qed
  then show ?thesis by (simp add: raises_only_def)
qed

lemma plain_check_capability: "check_capability d k = Inl e \<Longrightarrow> plain_error e"
  by (auto simp: check_capability_def split: option.splits if_splits)

lemma plain_py_list: "py_list v = Inl e \<Longrightarrow> plain_error e"
  by (cases v) auto

lemma plain_check_actions: "check_actions as = Inl e \<Longrightarrow> plain_error e"
  by (induction as) (auto simp: invalid_params_def Let_def split: json.splits if_splits sum.splits)

lemma plain_invalid_params [simp]: "plain_error (invalid_params d)"
  by (simp add: invalid_params_def)

lemma plain_in_str_set: "in_str_set v xs = Inl e \<Longrightarrow> plain_error e"
  by (auto simp: in_str_set_def split: json.splits)

lemma plain_secret: "validate_secret_scope sc = Inl e \<Longrightarrow> plain_error e"
  by (auto simp: validate_secret_scope_def split: json.splits if_splits)

lemma plain_storage: "validate_storage_scope sc = Inl e \<Longrightarrow> plain_error e"
  unfolding validate_storage_scope_def Let_def
  by (auto dest: plain_in_str_set split: json.splits if_splits sum.splits bool.splits)

lemma plain_provision: "validate_provision_scope sc = Inl e \<Longrightarrow> plain_error e"
  by (auto simp: validate_provision_scope_def dest: plain_check_actions
      split: option.splits if_splits sum.splits)

lemma plain_reach: "validate_network_reach_scope sc = Inl e \<Longrightarrow> plain_error e"
  by (auto simp: validate_network_reach_scope_def Let_def split: json.splits if_splits)

lemma plain_validate:
  assumes "validate_request_params params = Inl e"
  shows "plain_error e"
  using assms unfolding validate_request_params_def Let_def
  by (auto dest: plain_in_str_set plain_secret plain_storage plain_provision plain_reach
      split: option.splits if_splits sum.splits bool.splits)

lemma raises_fetch_file [raises_rules]: "raises_only plain_error (fetch FileBackend n d)"
  unfolding fetch_def file_fetch_def secrets_backend.case
  by (intro raises_bind raises_reads) (auto split: option.split file_node.split intro: raises_rules)

lemma plain_parse_credentials: "parse_credentials env out = Inl e \<Longrightarrow> plain_error e"
  by (auto simp: parse_credentials_def malformed_def unavailable_def split: option.splits json.splits)

lemma raises_assume_role [raises_rules]: "raises_only plain_error (assume_role env c d pol)"
  unfolding assume_role_def Let_def
  by (intro raises_bind raises_run)
    (auto split: proc.split intro!: raises_rules dest: plain_parse_credentials
      simp: config_error_def unavailable_def)

lemma plain_clean_actions: "clean_actions as = Inl e \<Longrightarrow> plain_error e"
  by (induction as) (auto simp: config_error_def split: if_splits sum.splits)

lemma plain_session_policies:
  "build_session_policy b p m = Inl e \<Longrightarrow> plain_error e"
  "build_provision_session_policy acts = Inl e \<Longrightarrow> plain_error e"
  by (auto simp: build_session_policy_def build_provision_session_policy_def config_error_def Let_def
      dest: plain_clean_actions split: if_splits sum.splits list.splits)

lemma raises_mint [raises_rules]:
  "raises_only plain_error (mint env sb d b p m)" "raises_only plain_error (mint_provision env sb d acts)"
  unfolding mint_def mint_provision_def mint_with_def
  by (auto intro!: raises_bind raises_from_sum dest: plain_session_policies
      split: storage_backend.split intro: raises_rules)

lemma raises_minting [raises_rules]: "raises_only plain_error m \<Longrightarrow> raises_only plain_error (minting m)"
  unfolding minting_def by (intro raises_catching) simp_all

lemma raises_handlers:
  "raises_only plain_error (handle_network_reach_request env host port c i)"
  "raises_only plain_error (handle_secret_request env (build_backend nm) n s c i)"
  "raises_only plain_error (handle_storage_request env sb bkt p m c i)"
  "raises_only plain_error (handle_provision_request env sb acts c i)"
proof -
  note rules = raises_catching raises_rules
  note plain = desk_not_found_def materialization_failed_def storage_backend_not_configured_def
  show "raises_only plain_error (handle_network_reach_request env host port c i)"
    unfolding handle_network_reach_request_def Let_def
    by (intro rules) (auto simp: plain dest: plain_check_capability plain_py_list)
  show "raises_only plain_error (handle_storage_request env sb bkt p m c i)"
    unfolding handle_storage_request_def Let_def
    by (intro rules) (auto simp: plain dest: plain_check_capability)
  show "raises_only plain_error (handle_provision_request env sb acts c i)"
    unfolding handle_provision_request_def Let_def
    by (intro rules) (auto simp: plain dest: plain_check_capability)
  show "raises_only plain_error (handle_secret_request env (build_backend nm) n s c i)"
  proof (cases "nm = ''file''")
    case True
    then have b: "build_backend nm = Inr FileBackend" by (simp add: build_backend_def)
    show ?thesis
      unfolding handle_secret_request_def Let_def b bind_from_sum_Inr
      by (intro rules) (auto simp: plain dest: plain_check_capability)
  next
    case False
    then show ?thesis
      by (auto simp: handle_secret_request_def build_backend_def effect_defs raises_only_def)
  qed
qed

lemma raises_request_capability:
  "backend cfg = None \<Longrightarrow> raises_only plain_error (request_capability env cfg params i caller)"
  unfolding request_capability_def handle_spec_def
  by (intro raises_rules)
    (auto simp: unauthenticated_def dest: plain_validate split: cap_spec.split intro!: raises_handlers)

interpretation request_logged:
  logged_handler "request_capability env (cfg\<lparr>backend := None\<rparr>) params i caller" for env cfg params i caller
  by unfold_locales (rule broker_tasks.keeps_request_capability, simp add: raises_request_capability)

section \<open>Release\<close>

lemma keeps_release_cleanup: "keeps (on_reg P) (release_cleanup env c l)"
  unfolding release_cleanup_def by (auto split: json.split intro!: keeps_rules broker_io)

text \<open>The whole of a release that reaches the registry, in one equation.\<close>

lemma release_capability_found:
  assumes "dict_get p ''lease_id'' = JStr k" "k \<noteq> []" "get_lease (w_reg w) k = Some l"
    "ls_drydock_id l = c"
  shows "release_capability env (JObj p) i (Some c) w =
    (let rv = fst (revoke_lease k ''released'' (w_reg w));
         w1 = w\<lparr>w_reg := snd (revoke_lease k ''released'' (w_reg w))\<rparr>
     in andthen (guarded rv (release_cleanup env c l))
          (andthen (guarded rv
             (emit_audit env ''lease.released'' (Some c) i ''ReleaseCapability'' ''ok''
               [(''lease_id'', JStr k), (''reason'', JStr ''client_release''),
                (''source_drydock_id'', dict_get (ls_scope l) ''source_drydock_id'')]))
            (ret (JObj [(''lease_id'', JStr k), (''revoked'', JBool rv)]))) w1)"
  using assms
  by (simp add: release_capability_def bind_def required_def ret_def query_def reads_def unless_def
      andthen_def update_reg_def split_beta Let_def)

lemma release_capability_other:
  assumes "release_capability env params i caller w = (r, w')"
  shows "w' = w \<or> (\<exists>c p k l. caller = Some c \<and> params = JObj p \<and> dict_get p ''lease_id'' = JStr k \<and>
    k \<noteq> [] \<and> get_lease (w_reg w) k = Some l \<and> ls_drydock_id l = c)"
  using assms
  by (auto simp: release_capability_def effect_defs split: option.splits json.splits if_splits prod.splits)
    (cases params; auto)+

lemma release_registry_found:
  assumes "release_capability env (JObj p) i (Some c) w = (r, w')"
    "dict_get p ''lease_id'' = JStr k" "k \<noteq> []" "get_lease (w_reg w) k = Some l" "ls_drydock_id l = c"
  shows "w_reg w' = snd (revoke_lease k ''released'' (w_reg w))"
proof -
  define w1 where "w1 = w\<lparr>w_reg := snd (revoke_lease k ''released'' (w_reg w))\<rparr>"
  have "keeps (on_reg (\<lambda>r. r = w_reg w1)) (andthen (guarded rv (release_cleanup env c l))
      (andthen (guarded rv (emit_audit env ev who j m res d)) (ret v)))" for rv ev who j m res d v
    by (intro keeps_rules keeps_release_cleanup)
  then have "w_reg w' = w_reg w1"
    using assms(1) release_capability_found [OF assms(2-5)] unfolding keeps_def
    by (metis (no_types, lifting) snd_conv w1_def)
  then show ?thesis by (simp add: w1_def)
qed

lemma release_registry:
  assumes "release_capability env params i caller w = (r, w')"
  obtains "w' = w"
  | c p k l where "caller = Some c" "params = JObj p" "dict_get p ''lease_id'' = JStr k"
    "get_lease (w_reg w) k = Some l" "ls_drydock_id l = c"
    "w_reg w' = snd (revoke_lease k ''released'' (w_reg w))"
  using release_capability_other [OF assms] release_registry_found assms by metis

text \<open>Removing the credential files, when the system refuses nothing.\<close>

lemma try_drop_file_ok:
  "(\<And>n. e_os_error env n = None) \<Longrightarrow>
   try_drop_file env d n w = (Inr (), (drop_file d n w)\<lparr>w_ticks := Suc (w_ticks w)\<rparr>)"
  by (simp add: try_drop_file_def effect_defs drop_file_def)

lemma remove_files_ok:
  assumes "\<And>n. e_os_error env n = None" "for_each (try_drop_file env d) ns w = (r, w')"
  shows "r = Inr ()" "w_files w' x = (if fst x = d \<and> snd x \<in> set ns then None else w_files w x)"
proof -
  have *: "r = Inr () \<and> w_files w' x = (if fst x = d \<and> snd x \<in> set ns then None else w_files w x)" for x
    using assms(2)
  proof (induction ns arbitrary: w)
    case (Cons n ns)
    then show ?case
      by (auto simp: andthen_def bind_def try_drop_file_ok assms(1) drop_file_def)
  qed (simp add: ret_def)
  show "r = Inr ()" "w_files w' x = (if fst x = d \<and> snd x \<in> set ns then None else w_files w x)"
    using * by blast+
qed

lemma release_twice_revoked:
  assumes "reg_wf (w_reg w)" "dict_get p ''lease_id'' = JStr k" "k \<noteq> []"
    "get_lease (w_reg w) k = Some l" "ls_drydock_id l = c" "ls_revoked l"
  shows "release_capability env (JObj p) i (Some c) w =
    (Inr (JObj [(''lease_id'', JStr k), (''revoked'', JBool False)]), w)"
proof -
  have none: "\<forall>x\<in>set (leases (w_reg w)). \<not> (lease_id x = k \<and> \<not> ls_revoked x)"
    using assms(4,6) get_lease_in [OF assms(1), of k] by (metis option.inject)
  then have "revoke_lease k ''released'' (w_reg w) = (False, w_reg w)"
    by (simp add: revoke_lease_def Let_def update_where_idle row_count_def filter_empty_conv)
  then show ?thesis
    by (simp add: release_capability_found [OF assms(2-5)] guarded_def andthen_def bind_def ret_def)
qed

section \<open>Denials\<close>

lemma network_reach_denied:
  assumes "load_desk_policy (w_reg w) c = Some d" "check_capability d REQUEST_NETWORK_REACH = Inr ()"
    "\<not> fst (matches_network_reach host port (delegatable_network_reach d) (network_reach_ports d))"
  obtains msg where "handle_network_reach_request env host port c i w = (Inl (PyError ''ValueError'' msg), w)"
proof -
  obtain why where m: "matches_network_reach host port (delegatable_network_reach d) (network_reach_ports d) = (False, why)"
    using assms(3) by (metis (full_types) prod.collapse)
  have "\<exists>msg. handle_network_reach_request env host port c i w = (Inl (PyError ''ValueError'' msg), w)"
    using assms(1,2) m lease_denied_unknown
    by (simp add: handle_network_reach_request_def effect_defs emit_audit_def Let_def)
  then show thesis using that by blast
qed

lemma keeps_files_emit_audit: "keeps (\<lambda>w. w_files w = f) (emit_audit env ev who i m res d)"
  unfolding keeps_def by (metis emit_audit_cases prod.collapse)

lemma supersede_files: "supersede env c i why w = (r, w') \<Longrightarrow> w_files w' = w_files w"
  by (rule keepsD [where P = "\<lambda>v. w_files v = w_files w", OF supersede_keeps])
    (simp_all add: keeps_files_emit_audit)

lemma amendment_files: "emit_capability_amendment env k q c st why w = (r, w') \<Longrightarrow> w_files w' = w_files w"
  by (auto simp: emit_capability_amendment_def effect_defs split: prod.splits sum.splits)

lemma emit_audit_ok:
  "\<forall>n. e_os_error env n = None \<Longrightarrow> ev \<in> set V2_EVENTS \<Longrightarrow> \<exists>w'. emit_audit env ev p i m res d w = (Inr (), w')"
  by (simp add: emit_audit_def append_entry_def effect_defs)

lemma released_known: "''lease.released'' \<in> set V2_EVENTS"
  by (simp add: V2_EVENTS_def)

lemma supersede_ok:
  "\<forall>n. e_os_error env n = None \<Longrightarrow> \<exists>w'. supersede env c i why w = (Inr (), w')"
proof (induction env c i why w rule: supersede.induct)
  case (1 env caller request_id why w)
  show ?case
  proof (cases "find_active_aws_lease (w_reg w) caller")
    case (Some prior)
    obtain w1 where "emit_audit env ''lease.released'' (Some caller) request_id ''RequestCapability''
        ''ok'' [(''lease_id'', JStr (lease_id prior)), (''reason'', JStr why)]
        (w\<lparr>w_reg := snd (revoke_lease (lease_id prior) ''superseded'' (w_reg w))\<rparr>) = (Inr (), w1)"
      using emit_audit_ok [OF 1(2) released_known] by blast
    then show ?thesis using Some 1 by (subst supersede.simps) auto
  qed (simp add: supersede.simps)
qed

lemma amendment_ok:
  assumes "emit_capability_amendment env k q c st why w = (r, w')"
  shows "r = Inr ()" "aws_leases (w_reg w') d = aws_leases (w_reg w) d"
proof -
  show "r = Inr ()"
    using assms by (auto simp: emit_capability_amendment_def effect_defs split: prod.splits sum.splits)
  have "keeps (on_reg (\<lambda>r. aws_leases r d = aws_leases (w_reg w) d)) (emit_capability_amendment env k q c st why)"
    unfolding emit_capability_amendment_def by (intro keeps_rules keeps_call_reg) (simp add: aws_leases_amend)
  from keepsD [OF this assms] show "aws_leases (w_reg w') d = aws_leases (w_reg w) d" by simp
qed

end
