(* ===== verification/Broker_Properties.thy ===== *)
theory Broker_Properties
  imports Capability_Facts
begin

text \<open>
  The properties of the capability broker (daemon/capability_handlers.py), each with the
  concrete harbor of \<open>Sample\<close> as its witness.
\<close>

section \<open>Properties\<close>

text \<open>
  (C1) No lease beyond policy: whatever the outcome of RequestCapability, a lease that is in force
  afterwards and was not there before belongs to the desk the token resolved to, has the type
  and scope of the validated request, and is permitted by that desk's policy.
\<close>

theorem request_grants_only_policy:
  assumes "request_capability env cfg params i caller w = (res, w')"
    "l \<in> set (leases (w_reg w'))" "\<not> ls_revoked l" "l \<notin> set (leases (w_reg w))"
  shows "\<exists>c spec d. caller = Some c \<and> validate_request_params params = Inr spec \<and>
    load_desk_policy (w_reg w) c = Some d \<and> permits d spec \<and> grants c spec l"
proof -
  define ok where "ok = (\<lambda>l. \<exists>c spec d. caller = Some c \<and> validate_request_params params = Inr spec \<and>
    load_desk_policy (w_reg w) c = Some d \<and> permits d spec \<and> grants c spec l)"
  have "may_issue ok (drydocks (w_reg w)) c spec"
    if "caller = Some c" "validate_request_params params = Inr spec" for c spec
    using that by (auto simp: may_issue_def ok_def load_desk_policy_def drydock_by_id_def)
  then have "keeps (on_reg (only_new_ok (drydocks (w_reg w)) (set (leases (w_reg w))) ok))
      (request_capability env cfg params i caller)"
    by (rule granted.keeps_request_strict)
  from keepsD [OF this assms(1)] have "ok l" using assms(2-4) by (auto simp: only_new_ok_def)
  then show ?thesis by (simp add: ok_def)
qed

abbreviation sample_secret_request :: json where
  "sample_secret_request \<equiv> JObj [(''type'', JStr ''SECRET''), (''scope'', JObj [(''secret_name'', JStr ''api_key'')])]"

abbreviation sample_config :: cap_config where
  "sample_config \<equiv> \<lparr>backend_name = ''file'', backend = None, storage_backend = Some (Stub ''t9'')\<rparr>"

definition sample_secret_lease :: CapabilityLease where
  "sample_secret_lease = \<lparr>lease_id = ''ls_u0'', ls_drydock_id = ''dock_a'', ls_type = SECRET,
     ls_scope = [(''secret_name'', JStr ''api_key'')], ls_issued_at = ''2026-01-01T00:00:1'',
     ls_expiry = None, ls_issuer = ''daemon'', ls_revoked = False, ls_revocation_reason = None\<rparr>"

theorem request_grants_only_policy_witness:
  "\<exists>c spec d. Some ''dock_a'' = Some c \<and> validate_request_params sample_secret_request = Inr spec \<and>
    load_desk_policy (w_reg sample_world) c = Some d \<and> permits d spec \<and> grants c spec sample_secret_lease"
proof (rule request_grants_only_policy [where env = sample_env and cfg = sample_config and i = "JInt 1" and
      w = sample_world and params = sample_secret_request and caller = "Some ''dock_a''"])
  show "request_capability sample_env sample_config sample_secret_request (JInt 1) (Some ''dock_a'') sample_world =
    (fst (request_capability sample_env sample_config sample_secret_request (JInt 1) (Some ''dock_a'') sample_world),
     snd (request_capability sample_env sample_config sample_secret_request (JInt 1) (Some ''dock_a'') sample_world))"
    by simp
  show "sample_secret_lease \<in> set (leases (w_reg (snd
     (request_capability sample_env sample_config sample_secret_request (JInt 1) (Some ''dock_a'') sample_world))))"
    by code_simp
  show "\<not> ls_revoked sample_secret_lease" by code_simp
  show "sample_secret_lease \<notin> set (leases (w_reg sample_world))" by code_simp
qed

text \<open>
  (C7) A successful RequestCapability is recorded: it answers with the wire form of a lease of
  the caller that is stored and in force, and the last audit entry says it was issued.
\<close>

theorem request_success_is_recorded:
  assumes "request_capability env cfg params i caller w = (Inr v, w')"
  shows "\<exists>c l ts det. caller = Some c \<and> v = to_wire l \<and> ls_drydock_id l = c \<and> \<not> ls_revoked l \<and>
    get_lease (w_reg w') (lease_id l) = Some l \<and>
    last (w_audit w') = audit_entry ts ''lease.issued'' (Some c) i ''RequestCapability'' ''ok'' det"
  using request_capability_Inr [OF assms] unfolding issued_to_def by metis

abbreviation sample_issued :: "(exn + json) \<times> world" where
  "sample_issued \<equiv>
     request_capability sample_env sample_config sample_secret_request (JInt 1) (Some ''dock_a'') sample_world"

theorem request_success_is_recorded_witness:
  "\<exists>c l ts det. Some ''dock_a'' = Some c \<and> to_wire sample_secret_lease = to_wire l \<and>
    ls_drydock_id l = c \<and> \<not> ls_revoked l \<and> get_lease (w_reg (snd sample_issued)) (lease_id l) = Some l \<and>
    last (w_audit (snd sample_issued)) =
      audit_entry ts ''lease.issued'' (Some c) (JInt 1) ''RequestCapability'' ''ok'' det"
proof (rule request_success_is_recorded)
  have "fst sample_issued = Inr (to_wire sample_secret_lease)" by code_simp
  then show "sample_issued = (Inr (to_wire sample_secret_lease), snd sample_issued)"
    by (metis prod.collapse)
qed

text \<open>
  (C3) One AWS lease at a time: no request and no release makes a desk hold two leases on AWS
  credentials in force, on any path, the failing ones included.
\<close>

theorem one_aws_lease_kept:
  assumes "one_aws_lease (w_reg w)"
  shows "one_aws_lease (w_reg (snd (request_capability env cfg params i caller w))) \<and>
    one_aws_lease (w_reg (snd (release_capability env params i caller w)))"
proof
  have "keeps (on_reg one_aws_lease) (request_capability env cfg params i caller)"
    unfolding request_capability_def handle_spec_def
    by (intro keeps_rules) (auto split: cap_spec.split intro!: one_aws_handlers one_aws_others)
  then show "one_aws_lease (w_reg (snd (request_capability env cfg params i caller w)))"
    using assms by (simp add: keeps_def)
  show "one_aws_lease (w_reg (snd (release_capability env params i caller w)))"
    using assms one_aws.keeps_release_capability by (simp add: keeps_def)
qed

lemma one_aws_sample: "one_aws_lease (w_reg sample_world)"
  by (auto simp: one_aws_lease_def aws_leases_def active_leases_def sample_world_def sample_registry_def
      empty_registry_def)

theorem one_aws_lease_kept_witness:
  "one_aws_lease (w_reg (snd (request_capability sample_env sample_config
     (JObj [(''type'', JStr ''STORAGE_MOUNT''),
            (''scope'', JObj [(''bucket'', JStr ''data''), (''prefix'', JStr ''in/x'')])])
     (JInt 2) (Some ''dock_a'') sample_world))) \<and>
   one_aws_lease (w_reg (snd (release_capability sample_env (JObj [(''lease_id'', JStr ''ls_1'')]) (JInt 3)
     (Some ''dock_a'') sample_world)))"
  by (rule conjI [OF one_aws_lease_kept [OF one_aws_sample, THEN conjunct1]
      one_aws_lease_kept [OF one_aws_sample, THEN conjunct2]])

text \<open>
  (C6) A release affects the caller only: the leases in force of every other desk are the same
  after it, whatever lease the request named.
\<close>

theorem release_affects_caller_only:
  assumes "reg_wf (w_reg w)" "release_capability env params i caller w = (r, w')" "caller \<noteq> Some d"
  shows "active_leases (w_reg w') d = active_leases (w_reg w) d"
  using assms(2)
proof (cases rule: release_registry)
  case (2 c p k l)
  have "\<forall>x\<in>set (active_leases (w_reg w) d). lease_id x \<noteq> k"
    using 2 assms(3) get_lease_in [OF assms(1), of k] by (fastforce simp: active_leases_def)
  then show ?thesis using 2 by (simp add: active_leases_revoke filter_id_conv)
qed simp

lemma reg_wf_sample: "reg_wf (w_reg sample_world)"
  by (simp add: reg_wf_defs one_auditor_def sample_world_def sample_registry_def empty_registry_def)

theorem release_affects_caller_only_witness:
  "active_leases (w_reg (snd (release_capability sample_env (JObj [(''lease_id'', JStr ''ls_1'')]) (JInt 3)
     (Some ''dock_b'') sample_world))) ''dock_a'' = active_leases (w_reg sample_world) ''dock_a''"
  by (rule release_affects_caller_only [OF reg_wf_sample prod.collapse [symmetric]]) simp

text \<open>
  Releasing is idempotent, as the dispatcher assumes: after a release that answered, the same
  request answers that nothing was revoked and changes nothing at all.
\<close>

theorem release_idempotent:
  assumes "reg_wf (w_reg w)" "release_capability env params i caller w = (Inr v, w')"
  shows "\<exists>k. release_capability env' params i' caller w' =
    (Inr (JObj [(''lease_id'', JStr k), (''revoked'', JBool False)]), w')"
proof -
  from assms(2) obtain c p k l where r: "caller = Some c" "params = JObj p"
    "dict_get p ''lease_id'' = JStr k" "k \<noteq> []" "get_lease (w_reg w) k = Some l" "ls_drydock_id l = c"
    by (auto simp: release_capability_def effect_simps split: option.splits json.splits if_splits)
      (cases params; auto)
  have reg: "w_reg w' = snd (revoke_lease k ''released'' (w_reg w))"
    using assms(2) r release_registry_found by blast
  obtain l' where "get_lease (w_reg w') k = Some l'" "ls_drydock_id l' = c" "ls_revoked l'"
    using r by (auto simp: reg get_lease_revoke)
  moreover have "reg_wf (w_reg w')" using assms(1) by (simp add: reg reg_wf_revoke_lease)
  ultimately show ?thesis using r release_twice_revoked by blast
qed

theorem release_idempotent_witness:
  "\<exists>k. release_capability sample_env (JObj [(''lease_id'', JStr ''ls_1'')]) (JInt 4) (Some ''dock_a'')
     (snd (release_capability sample_env (JObj [(''lease_id'', JStr ''ls_1'')]) (JInt 3) (Some ''dock_a'') sample_world)) =
   (Inr (JObj [(''lease_id'', JStr k), (''revoked'', JBool False)]),
    snd (release_capability sample_env (JObj [(''lease_id'', JStr ''ls_1'')]) (JInt 3) (Some ''dock_a'') sample_world))"
proof (rule release_idempotent [OF reg_wf_sample])
  have "fst (release_capability sample_env (JObj [(''lease_id'', JStr ''ls_1'')]) (JInt 3) (Some ''dock_a'') sample_world) =
    Inr (JObj [(''lease_id'', JStr ''ls_1''), (''revoked'', JBool True)])" by code_simp
  then show "release_capability sample_env (JObj [(''lease_id'', JStr ''ls_1'')]) (JInt 3) (Some ''dock_a'') sample_world =
    (Inr (JObj [(''lease_id'', JStr ''ls_1''), (''revoked'', JBool True)]),
     snd (release_capability sample_env (JObj [(''lease_id'', JStr ''ls_1'')]) (JInt 3) (Some ''dock_a'') sample_world))"
    by (metis prod.collapse)
qed

text \<open>
  Releasing a desk's AWS lease takes its credentials away: when the system refuses no
  removal, the call answers that the lease was revoked, the four credential files of the
  caller are gone and every other file is as before.
\<close>

theorem release_removes_credentials:
  assumes "reg_wf (w_reg w)" "one_aws_lease (w_reg w)" "\<forall>n. e_os_error env n = None"
    "dict_get p ''lease_id'' = JStr k" "k \<noteq> []" "get_lease (w_reg w) k = Some l" "ls_drydock_id l = c"
    "is_aws_type (ls_type l)" "\<not> ls_revoked l"
    "release_capability env (JObj p) i (Some c) w = (r, w')"
  shows "r = Inr (JObj [(''lease_id'', JStr k), (''revoked'', JBool True)]) \<and>
    (\<forall>x. w_files w' x = (if fst x = c \<and> snd x \<in> set storage_cred_filenames then None else w_files w x))"
proof -
  define w1 where "w1 = w\<lparr>w_reg := snd (revoke_lease k ''released'' (w_reg w))\<rparr>"
  have rv: "fst (revoke_lease k ''released'' (w_reg w))"
    using assms(6,9) fst_revoke_lease [OF assms(1)] by blast
  have "l \<in> set (aws_leases (w_reg w) c)"
    using assms(6-9) get_lease_in [OF assms(1)] by (auto simp: aws_leases_def active_leases_def)
  then have "aws_leases (w_reg w) c = [l]" by (rule one_aws_single [OF assms(2)])
  then have "aws_leases (w_reg w1) c = []"
    using assms(6) get_lease_in [OF assms(1)] by (simp add: w1_def aws_leases_revoke)
  then have none: "find_active_aws_lease (w_reg w1) c = None" by (simp add: find_active_aws_None)
  obtain r2 w2 where rm: "for_each (try_drop_file env c) storage_cred_filenames w1 = (r2, w2)"
    by (metis surj_pair)
  have ok: "r2 = Inr ()" "\<And>x. w_files w2 x = (if fst x = c \<and> snd x \<in> set storage_cred_filenames then None else w_files w x)"
    using remove_files_ok [OF assms(3) [rule_format] rm] by (simp_all add: w1_def)
  have cl: "release_cleanup env c l w1 = (Inr (), w2)"
    using assms(8) none rm ok(1)
    by (auto simp: release_cleanup_def effect_defs remove_storage_credentials_def is_aws_type_def)
  obtain r3 w3 where em: "emit_audit env ''lease.released'' (Some c) i ''ReleaseCapability'' ''ok''
      [(''lease_id'', JStr k), (''reason'', JStr ''client_release''),
       (''source_drydock_id'', dict_get (ls_scope l) ''source_drydock_id'')] w2 = (r3, w3)"
    by (metis surj_pair)
  have "r3 = Inr ()" "w_files w3 = w_files w2"
    using em assms(3) emit_audit_cases [OF em]
    by (auto simp: emit_audit_def V2_EVENTS_def append_entry_def effect_defs)
  then show ?thesis
    using assms(10) rv cl em ok release_capability_found [OF assms(4-7), of env i]
    by (auto simp: w1_def Let_def guarded_def andthen_def bind_def ret_def)
qed

theorem release_removes_credentials_witness:
  "fst (release_capability sample_env (JObj [(''lease_id'', JStr ''ls_1'')]) (JInt 3) (Some ''dock_a'') sample_world) =
     Inr (JObj [(''lease_id'', JStr ''ls_1''), (''revoked'', JBool True)]) \<and>
   (\<forall>x. w_files (snd (release_capability sample_env (JObj [(''lease_id'', JStr ''ls_1'')]) (JInt 3)
       (Some ''dock_a'') sample_world)) x =
     (if fst x = ''dock_a'' \<and> snd x \<in> set storage_cred_filenames then None else w_files sample_world x))"
  by (rule release_removes_credentials [OF reg_wf_sample one_aws_sample _ _ _ _ _ _ _ prod.collapse [symmetric],
        where l = sample_lease])
    (simp_all add: sample_env_def dict_get_def, code_simp+)

text \<open>
  (C4) Retries of RequestCapability replay: after a first call with a fresh id, a second call with
  the same id runs nothing and changes nothing, and answers with the first call's value or
  error; only when the first call ended in an exception that is not an \<^verbatim>\<open>_RpcError\<close> is it told
  that the request is in progress.
\<close>

theorem request_capability_retry:
  assumes "request_id \<noteq> JNull" "get_task (w_reg w) (py_str request_id) = None" "backend cfg = None"
    "with_task_log env ''RequestCapability'' params request_id always_completed
       (request_capability env cfg params request_id caller) w = (res, w')"
  shows "with_task_log env' ''RequestCapability'' params' request_id always_completed
      (request_capability env' cfg' params' request_id caller') w' =
    (case res of
       Inr v \<Rightarrow> Inr v
     | Inl (RpcError c m data) \<Rightarrow> Inl (RpcError c m data)
     | Inl _ \<Rightarrow> Inl (rpc_err (-32002) ''request_in_progress'' [(''request_id'', JStr (py_str request_id))]), w')"
proof -
  have "cfg\<lparr>backend := None\<rparr> = cfg" using assms(3) by simp
  with assms(4) show ?thesis
    using request_logged.retry [OF assms(1,2), where cfg = cfg] by (simp add: always_completed_def)
qed

theorem request_capability_retry_witness:
  "with_task_log sample_env ''RequestCapability'' JNull (JInt 1) always_completed
     (request_capability sample_env sample_config JNull (JInt 1) (Some ''dock_b''))
     (snd (with_task_log sample_env ''RequestCapability'' sample_secret_request (JInt 1) always_completed
        (request_capability sample_env sample_config sample_secret_request (JInt 1) (Some ''dock_a'')) sample_world)) =
   (case fst (with_task_log sample_env ''RequestCapability'' sample_secret_request (JInt 1) always_completed
        (request_capability sample_env sample_config sample_secret_request (JInt 1) (Some ''dock_a'')) sample_world) of
       Inr v \<Rightarrow> Inr v
     | Inl (RpcError c m data) \<Rightarrow> Inl (RpcError c m data)
     | Inl _ \<Rightarrow> Inl (rpc_err (-32002) ''request_in_progress'' [(''request_id'', JStr (py_str (JInt 1)))]),
    snd (with_task_log sample_env ''RequestCapability'' sample_secret_request (JInt 1) always_completed
        (request_capability sample_env sample_config sample_secret_request (JInt 1) (Some ''dock_a'')) sample_world))"
  by (rule request_capability_retry [OF _ _ _ prod.collapse [symmetric]])
    (simp_all add: get_task_def sample_world_def sample_registry_def empty_registry_def)

text \<open>
  (C12) A denied NETWORK_REACH request is not answered as a denial. When the policy does not cover
  the host and port, the handler raises \<^verbatim>\<open>ValueError\<close> from the audit vocabulary before it records
  an amendment, no registry table but the task log changes, and from then on every retry of the
  id is told that the request is in progress.
\<close>

theorem network_reach_denial_blocks_request:
  assumes "request_id \<noteq> JNull" "get_task (w_reg w) (py_str request_id) = None"
    "validate_request_params params = Inr (ReachSpec host port)"
    "load_desk_policy (w_reg w) c = Some d" "check_capability d REQUEST_NETWORK_REACH = Inr ()"
    "\<not> permits d (ReachSpec host port)" "backend cfg = None"
    "with_task_log env ''RequestCapability'' params request_id always_completed
       (request_capability env cfg params request_id (Some c)) w = (res, w')"
  shows "(\<exists>msg. res = Inl (PyError ''ValueError'' msg)) \<and>
    (w_reg w')\<lparr>task_log := task_log (w_reg w)\<rparr> = w_reg w \<and>
    with_task_log env' ''RequestCapability'' params request_id always_completed
      (request_capability env' cfg params request_id (Some c)) w' =
    (Inl (rpc_err (-32002) ''request_in_progress'' [(''request_id'', JStr (py_str request_id))]), w')"
proof -
  obtain w1 where w1: "with_task_log env ''RequestCapability'' params request_id always_completed
      (request_capability env cfg params request_id (Some c)) w =
      run_logged env (py_str request_id) always_completed
        (request_capability env cfg params request_id (Some c)) w1"
    "w_reg w1\<lparr>task_log := task_log (w_reg w)\<rparr> = w_reg w"
    by (rule with_task_log_fresh [OF assms(1,2)])
  have "drydocks (w_reg w1) = drydocks (w_reg w)" using w1(2) by (metis registry.ext_inject registry.surjective registry.update_convs(5))
  then have pol: "load_desk_policy (w_reg w1) c = Some d"
    using assms(4) by (simp add: load_desk_policy_def drydock_by_id_def)
  have "\<not> fst (matches_network_reach host port (delegatable_network_reach d) (network_reach_ports d))"
    using assms(5,6) check_capability_Inr by auto
  then obtain msg where "handle_network_reach_request env host port c request_id w1 =
      (Inl (PyError ''ValueError'' msg), w1)"
    by (rule network_reach_denied [OF pol assms(5)])
  then have "request_capability env cfg params request_id (Some c) w1 = (Inl (PyError ''ValueError'' msg), w1)"
    using assms(3) by (simp add: request_capability_def required_def handle_spec_def bind_def ret_def)
  then have res: "res = Inl (PyError ''ValueError'' msg)" "w' = w1"
    using assms(8) w1(1) by (auto simp: run_logged_def effect_defs)
  have "cfg\<lparr>backend := None\<rparr> = cfg" using assms(7) by simp
  then have "with_task_log env' ''RequestCapability'' params request_id always_completed
      (request_capability env' cfg params request_id (Some c)) w' =
    (Inl (rpc_err (-32002) ''request_in_progress'' [(''request_id'', JStr (py_str request_id))]), w')"
    using request_logged.retry [OF assms(1,2), where cfg = cfg] assms(8) res(1)
    by (simp add: always_completed_def)
  with res w1(2) show ?thesis by blast
qed

theorem network_reach_denial_blocks_request_witness:
  "\<exists>msg. fst (with_task_log sample_env ''RequestCapability''
       (JObj [(''type'', JStr ''NETWORK_REACH''), (''scope'', JObj [(''domain'', JStr ''evil.org'')])]) (JInt 1)
       always_completed (request_capability sample_env sample_config
         (JObj [(''type'', JStr ''NETWORK_REACH''), (''scope'', JObj [(''domain'', JStr ''evil.org'')])]) (JInt 1)
         (Some ''dock_a'')) sample_world) = Inl (PyError ''ValueError'' msg)"
proof -
  have "validate_request_params
      (JObj [(''type'', JStr ''NETWORK_REACH''), (''scope'', JObj [(''domain'', JStr ''evil.org'')])]) =
      Inr (ReachSpec ''evil.org'' 443)" by code_simp
  moreover have "load_desk_policy (w_reg sample_world) ''dock_a'' = Some sample_desk" by code_simp
  moreover have "check_capability sample_desk REQUEST_NETWORK_REACH = Inr ()" by code_simp
  moreover have "\<not> permits sample_desk (ReachSpec ''evil.org'' 443)" by code_simp
  moreover have "get_task (w_reg sample_world) (py_str (JInt 1)) = None" by code_simp
  ultimately show ?thesis
    using network_reach_denial_blocks_request [OF _ _ _ _ _ _ _ prod.collapse [symmetric],
        of "JInt 1" sample_world _ "''evil.org''" 443 "''dock_a''" sample_desk sample_config] by simp
qed

text \<open>
  (C13) A denied storage request revokes the lease in force. When the scopes of the desk do not
  cover the request, the call is refused with \<open>narrowness_violated\<close>, but by then the desk has
  no AWS lease in force any more, and its credential files are still in place.
\<close>

theorem denied_storage_request_revokes:
  assumes "load_desk_policy (w_reg w) c = Some d" "check_capability d REQUEST_STORAGE_LEASES = Inr ()"
    "\<not> permits d (StorageSpec bucket pfx mode)" "\<forall>n. e_os_error env n = None"
    "handle_storage_request env (Some sb) bucket pfx mode c i w = (res, w')"
  shows "(\<exists>data. res = Inl (RpcError (-32006) ''narrowness_violated'' data)) \<and>
    aws_leases (w_reg w') c = [] \<and> w_files w' = w_files w"
proof -
  obtain w1 where s: "supersede env c i ''superseded_by_new_storage_lease'' w = (Inr (), w1)"
    using supersede_ok [OF assms(4)] by blast
  have desks: "drydocks (w_reg w1) = drydocks (w_reg w)"
    using keepsD [OF broker_desks.keeps_supersede s, of "drydocks (w_reg w)"] by simp
  then have pol: "load_desk_policy (w_reg w1) c = Some d"
    using assms(1) by (simp add: load_desk_policy_def drydock_by_id_def)
  have no: "\<not> matches_storage_scope \<lparr>rq_bucket = bucket, rq_prefix = pfx, rq_mode = mode\<rparr> (delegatable_storage_scopes d)"
    using assms(2,3) check_capability_Inr by auto
  obtain r2 w2 where am: "emit_capability_amendment env ''storage_grant''
      (JObj [(''bucket'', JStr bucket), (''prefix'', JStr pfx), (''mode'', JStr mode)]) c ''escalated''
      ''narrowness_violated: storage_scope_not_entitled'' w1 = (r2, w2)" by (metis surj_pair)
  note am_facts = amendment_ok(1) [OF am] amendment_ok(2) [OF am, of c] amendment_files [OF am]
  have "w' = w2 \<and> (\<exists>data. res = Inl (RpcError (-32006) ''narrowness_violated'' data))"
    using assms(2,5) s pol no am am_facts(1)
    by (auto simp: handle_storage_request_def required_def bind_def ret_def andthen_def query_def reads_def
        from_sum_def raise_def Let_def)
  then show ?thesis using am_facts supersede_clears [OF s] supersede_files [OF s] by auto
qed

theorem denied_storage_request_revokes_witness:
  "(\<exists>data. fst (handle_storage_request sample_env (Some (Stub ''t9'')) ''other'' '''' ''ro'' ''dock_a'' (JInt 5) sample_world) =
      Inl (RpcError (-32006) ''narrowness_violated'' data)) \<and>
   aws_leases (w_reg (snd (handle_storage_request sample_env (Some (Stub ''t9'')) ''other'' '''' ''ro'' ''dock_a''
      (JInt 5) sample_world))) ''dock_a'' = [] \<and>
   w_files (snd (handle_storage_request sample_env (Some (Stub ''t9'')) ''other'' '''' ''ro'' ''dock_a''
      (JInt 5) sample_world)) = w_files sample_world"
  by (rule denied_storage_request_revokes [OF _ _ _ _ prod.collapse [symmetric], where d = sample_desk])
    (code_simp, code_simp, code_simp, simp add: sample_env_def)

end
