(* ===== verification/Resource_Ceilings.thy ===== *)
theory Resource_Ceilings
  imports Prelude
begin

text \<open>
  core/resource_ceilings.py: parsing of the hard resource ceilings of a desk, their rendering
  as docker flags and their JSON form. The input is the JSON value of the configuration; each
  way it can be refused is a constructor of the error type.
\<close>

section \<open>Data\<close>

record HardCeilings =
  cpu_max :: "pyfloat option"
  memory_max :: "string option"
  pids_max :: "int option"

datatype ceiling_error =
    NotAMapping
  | UnknownKeys "string list"
  | CpuBool | CpuType | CpuNotPositive | CpuOverflow
  | PidsType | PidsTooSmall
  | MemBool | MemType | MemNotPositive | MemEmpty | MemUnrecognized string

definition no_ceilings :: HardCeilings where
  "no_ceilings = \<lparr>cpu_max = None, memory_max = None, pids_max = None\<rparr>"

section \<open>Numbers\<close>

text \<open>
  \<^verbatim>\<open>float(n)\<close> of an integer: exact below \<open>2 ^ 53\<close>, otherwise rounded to 53 bits, ties to
  even; \<^verbatim>\<open>OverflowError\<close> (\<^const>\<open>None\<close>) from \<open>2 ^ 1024\<close> on.
\<close>

fun bit_len :: "nat \<Rightarrow> nat" where
  "bit_len n = (if n = 0 then 0 else Suc (bit_len (n div 2)))"

declare bit_len.simps [simp del]

definition float_of_int :: "int \<Rightarrow> pyfloat option" where
  "float_of_int n =
    (let a = nat \<bar>n\<bar> in
     if a < 2 ^ 53 then Some (Finite n 0)
     else
       let k = bit_len a - 53; q = a div 2 ^ k; r = a mod 2 ^ k; half = 2 ^ (k - 1);
           q' = (if half < r \<or> (r = half \<and> odd q) then q + 1 else q) in
       if 2 ^ 1024 \<le> q' * 2 ^ k then None
       else Some (Finite (sgn n * int q') (int k)))"

text \<open>\<^verbatim>\<open>value <= 0\<close> of a float; every comparison with NaN is false.\<close>

fun float_le_zero :: "pyfloat \<Rightarrow> bool" where
  "float_le_zero (Finite m e) = (m \<le> 0)"
| "float_le_zero (Infinity neg) = neg"
| "float_le_zero NotANumber = False"

text \<open>\<^verbatim>\<open>int(digits)\<close>.\<close>

definition digits_value :: "string \<Rightarrow> nat" where
  "digits_value s = foldl (\<lambda>n c. n * 10 + (code c - 48)) 0 s"

text \<open>\<^verbatim>\<open>int(x)\<close> of the float \<open>m * 2 ^ e\<close>: rounded towards zero.\<close>

definition float_trunc :: "int \<Rightarrow> int \<Rightarrow> int" where
  "float_trunc m e = (if 0 \<le> e then m * 2 ^ nat e else (if 0 \<le> m then m div 2 ^ nat (- e) else - ((- m) div 2 ^ nat (- e))))"

section \<open>Parsing\<close>

definition parse_cpu :: "json \<Rightarrow> ceiling_error + pyfloat option" where
  "parse_cpu v =
    (case v of
       JNull \<Rightarrow> Inr None
     | JBool _ \<Rightarrow> Inl CpuBool
     | JInt n \<Rightarrow>
         (if n \<le> 0 then Inl CpuNotPositive
          else (case float_of_int n of None \<Rightarrow> Inl CpuOverflow | Some f \<Rightarrow> Inr (Some f)))
     | JFloat f \<Rightarrow> (if float_le_zero f then Inl CpuNotPositive else Inr (Some f))
     | _ \<Rightarrow> Inl CpuType)"

definition parse_pids :: "json \<Rightarrow> ceiling_error + int option" where
  "parse_pids v =
    (case v of
       JNull \<Rightarrow> Inr None
     | JInt n \<Rightarrow> (if n < 1 then Inl PidsTooSmall else Inr (Some n))
     | _ \<Rightarrow> Inl PidsType)"

text \<open>
  \<^verbatim>\<open>_MEMORY_RE\<close>: digits, white space, one optional letter of \<^verbatim>\<open>kKmMgG\<close>, an optional
  \<^verbatim>\<open>i\<close> and an optional \<^verbatim>\<open>b\<close>. The digits and the lowered unit letter, if it matches. Below code
  point 256, the range of characters here, \<^verbatim>\<open>\d\<close> matches the ten ASCII digits only.
\<close>

definition opt_letter :: "string \<Rightarrow> string \<Rightarrow> string \<times> string" where
  "opt_letter letters s =
     (case s of [] \<Rightarrow> ([], []) | c # cs \<Rightarrow> (if c \<in> set letters then ([c], cs) else ([], s)))"

definition match_memory :: "string \<Rightarrow> (string \<times> string) option" where
  "match_memory s =
    (let digits = takeWhile is_digit s;
         rest = dropWhile is_space (dropWhile is_digit s);
         (unit, rest) = opt_letter ''kKmMgG'' rest;
         (i, rest) = opt_letter ''iI'' rest;
         (b, rest) = opt_letter ''bB'' rest in
     if digits = [] \<or> rest \<noteq> [] then None else Some (digits, lower unit))"

definition docker_unit :: "string \<Rightarrow> string" where
  "docker_unit prefix_letter = (if prefix_letter = [] then ''b'' else prefix_letter)"

definition parse_memory :: "json \<Rightarrow> ceiling_error + string option" where
  "parse_memory v =
    (case v of
       JNull \<Rightarrow> Inr None
     | JBool _ \<Rightarrow> Inl MemBool
     | JInt n \<Rightarrow> (if n \<le> 0 then Inl MemNotPositive else Inr (Some (show_int n @ ''b'')))
     | JStr raw \<Rightarrow>
         (let s = strip raw in
          if s = [] then Inl MemEmpty
          else
            (case match_memory s of
               None \<Rightarrow> Inl (MemUnrecognized raw)
             | Some (digits, unit) \<Rightarrow>
                 let n = digits_value digits in
                 if n = 0 then Inl MemNotPositive
                 else Inr (Some (show_nat n @ docker_unit unit))))
     | _ \<Rightarrow> Inl MemType)"

definition ceiling_keys :: "string list" where
  "ceiling_keys = [''cpu_max'', ''memory_max'', ''pids_max'']"

definition from_dict :: "json \<Rightarrow> ceiling_error + HardCeilings" where
  "from_dict raw =
    (if \<not> truthy raw then Inr no_ceilings
     else (case as_obj raw of
       None \<Rightarrow> Inl NotAMapping
     | Some d \<Rightarrow>
         let unknown = filter (\<lambda>k. k \<notin> set ceiling_keys) (map fst d) in
         if unknown \<noteq> [] then Inl (UnknownKeys (sort (remdups unknown)))
         else
           (case parse_cpu (dict_get d ''cpu_max'') of Inl e \<Rightarrow> Inl e | Inr cpu \<Rightarrow>
           (case parse_memory (dict_get d ''memory_max'') of Inl e \<Rightarrow> Inl e | Inr mem \<Rightarrow>
           (case parse_pids (dict_get d ''pids_max'') of Inl e \<Rightarrow> Inl e | Inr pids \<Rightarrow>
             Inr \<lparr>cpu_max = cpu, memory_max = mem, pids_max = pids\<rparr>)))))"

section \<open>Rendering\<close>

text \<open>How Python prints a float (\<^verbatim>\<open>repr\<close>) is the argument \<open>float_repr\<close>.\<close>

definition to_docker_runargs :: "(pyfloat \<Rightarrow> string) \<Rightarrow> HardCeilings \<Rightarrow> string list" where
  "to_docker_runargs float_repr h =
     (case cpu_max h of None \<Rightarrow> [] | Some f \<Rightarrow> [''--cpus='' @ float_repr f]) @
     (case memory_max h of None \<Rightarrow> [] | Some m \<Rightarrow> [''--memory='' @ m]) @
     (case pids_max h of None \<Rightarrow> [] | Some n \<Rightarrow> [''--pids-limit='' @ show_int n])"

definition is_empty :: "HardCeilings \<Rightarrow> bool" where
  "is_empty h = (cpu_max h = None \<and> memory_max h = None \<and> pids_max h = None)"

definition to_dict :: "HardCeilings \<Rightarrow> dict" where
  "to_dict h =
     (case cpu_max h of None \<Rightarrow> [] | Some f \<Rightarrow> [(''cpu_max'', JFloat f)]) @
     (case memory_max h of None \<Rightarrow> [] | Some m \<Rightarrow> [(''memory_max'', JStr m)]) @
     (case pids_max h of None \<Rightarrow> [] | Some n \<Rightarrow> [(''pids_max'', JInt n)])"

section \<open>Facts\<close>

lemma digits_value_append: "digits_value (s @ [c]) = digits_value s * 10 + (code c - 48)"
  by (simp add: digits_value_def)

lemma code_digit: "n < 10 \<Longrightarrow> code (char_of (48 + n)) = 48 + n"
  by (simp add: code_char_of)

lemma show_nat_digits: "list_all is_digit (show_nat n) \<and> show_nat n \<noteq> [] \<and> digits_value (show_nat n) = n"
proof (induction n rule: show_nat.induct)
  case (1 n)
  have d: "is_digit (char_of (48 + n mod 10))" "code (char_of (48 + n mod 10)) = 48 + n mod 10"
    using code_digit [of "n mod 10"] by (simp_all add: is_digit_def)
  show ?case
  proof (cases "n < 10")
    case True
    then show ?thesis using d by (simp add: show_nat.simps [of n] digits_value_def)
  next
    case False
    then show ?thesis
      using 1 d by (simp add: show_nat.simps [of n] digits_value_append)
  qed
qed

lemma lower_units:
  "lower ''k'' = ''k''" "lower ''m'' = ''m''" "lower ''g'' = ''g''"
  "lower ''K'' = ''k''" "lower ''M'' = ''m''" "lower ''G'' = ''g''" "lower [] = []"
  by code_simp+

lemma docker_form:
  assumes "u \<in> {''b'', ''k'', ''m'', ''g''}" "0 < n"
  shows "parse_memory (JStr (show_nat n @ u)) = Inr (Some (show_nat n @ u))"
proof -
  obtain c where u: "u = [c]" and c: "c \<in> set ''bkmg''" using assms(1) by auto
  have nd: "\<not> is_digit c" "\<not> is_space c" using c by (auto simp: is_digit_def is_space_def code_def)
  have s: "list_all is_digit (show_nat n)" "show_nat n \<noteq> []" "digits_value (show_nat n) = n"
    using show_nat_digits by auto
  then have h: "is_digit (hd (show_nat n))" by (simp add: list_all_iff)
  then have "\<not> is_space (hd (show_nat n))" by (auto simp: is_digit_def is_space_def Let_def)
  then have st: "strip (show_nat n @ u) = show_nat n @ u"
    unfolding strip_def using nd s(2) by (intro strip_by_idle) (simp add: u)
  have tw: "takeWhile is_digit (show_nat n @ [c]) = show_nat n" "dropWhile is_digit (show_nat n @ [c]) = [c]"
    using s(1) nd by (simp_all add: takeWhile_append2 dropWhile_append2 list_all_iff)
  have "match_memory (show_nat n @ [c]) = Some (show_nat n, if c = CHR ''b'' then [] else [c])"
    unfolding match_memory_def tw using c nd s(2)
    by (auto simp: opt_letter_def Let_def lower_units)
  then show ?thesis
    using s st assms(2) c by (auto simp: parse_memory_def Let_def docker_unit_def u)
qed

lemma parse_memory_form:
  assumes "parse_memory v = Inr (Some m)"
  shows "\<exists>n u. 0 < n \<and> u \<in> {''b'', ''k'', ''m'', ''g''} \<and> m = show_nat n @ u"
proof -
  have unit: "docker_unit (lower u) \<in> {''b'', ''k'', ''m'', ''g''}"
    if "opt_letter ''kKmMgG'' r = (u, r')" for u r r'
    using that by (auto simp: opt_letter_def docker_unit_def lower_units split: list.splits if_splits)
  show ?thesis
  proof (cases v)
    case (JInt n)
    then have "0 < nat n" "m = show_nat (nat n) @ ''b''"
      using assms by (auto simp: parse_memory_def show_int_def split: if_splits)
    then show ?thesis by blast
  next
    case (JStr raw)
    then obtain d u where "match_memory (strip raw) = Some (d, u)" "digits_value d \<noteq> 0"
        "m = show_nat (digits_value d) @ docker_unit u"
      using assms by (auto simp: parse_memory_def Let_def split: if_splits option.splits)
    moreover have "docker_unit u \<in> {''b'', ''k'', ''m'', ''g''}"
      using calculation(1) unit
      by (auto simp: match_memory_def Let_def split: prod.splits if_splits)
    ultimately show ?thesis by blast
  qed (use assms in \<open>auto simp: parse_memory_def\<close>)
qed

definition wf_ceilings :: "HardCeilings \<Rightarrow> bool" where
  "wf_ceilings h \<longleftrightarrow>
     (\<forall>f. cpu_max h = Some f \<longrightarrow> \<not> float_le_zero f) \<and>
     (\<forall>m. memory_max h = Some m \<longrightarrow>
        (\<exists>n u. 0 < n \<and> u \<in> {''b'', ''k'', ''m'', ''g''} \<and> m = show_nat n @ u)) \<and>
     (\<forall>n. pids_max h = Some n \<longrightarrow> 1 \<le> n)"

lemma bit_len_lower: "0 < a \<Longrightarrow> 2 ^ (bit_len a - 1) \<le> a"
proof (induction a rule: bit_len.induct)
  case (1 n)
  show ?case
  proof (cases "n div 2 = 0")
    case True
    then show ?thesis using 1 by (subst bit_len.simps) (simp add: bit_len.simps)
  next
    case False
    then have "2 ^ (bit_len (n div 2) - 1) \<le> n div 2" "0 < bit_len (n div 2)"
      using 1 by (simp_all add: bit_len.simps [of "n div 2"])
    then have "2 ^ bit_len (n div 2) \<le> 2 * (n div 2)"
      by (metis Suc_diff_1 mult_le_mono2 power_Suc)
    also have "\<dots> \<le> n" by simp
    finally show ?thesis using 1(2) by (subst bit_len.simps) simp
  qed
qed

lemma float_of_int_pos: "0 < n \<Longrightarrow> float_of_int n = Some f \<Longrightarrow> \<not> float_le_zero f"
proof -
  assume n: "0 < n" and f: "float_of_int n = Some f"
  define a where "a = nat \<bar>n\<bar>"
  define k where "k = bit_len a - 53"
  show ?thesis
  proof (cases "a < 2 ^ 53")
    case True
    then show ?thesis using n f by (auto simp: float_of_int_def Let_def a_def)
  next
    case False
    have "2 ^ k \<le> (2::nat) ^ (bit_len a - 1)" by (rule power_increasing) (auto simp: k_def)
    also have "\<dots> \<le> a" using False by (intro bit_len_lower) auto
    finally have "2 ^ k \<le> a" .
    then have "0 < a div 2 ^ k" by (simp add: div_greater_zero_iff)
    then have "0 < nat n div 2 ^ (bit_len (nat n) - 53)" using n by (simp add: a_def k_def)
    then show ?thesis
      using f n False by (auto simp: float_of_int_def Let_def a_def split: if_splits)
  qed
qed

lemma parse_cpu_form: "parse_cpu v = Inr (Some f) \<Longrightarrow> \<not> float_le_zero f"
  by (cases v) (auto simp: parse_cpu_def not_le dest: float_of_int_pos split: if_splits option.splits)

lemma parse_pids_form: "parse_pids v = Inr (Some n) \<Longrightarrow> 1 \<le> n"
  by (cases v) (auto simp: parse_pids_def split: if_splits)

lemma from_dict_cases:
  assumes "from_dict raw = Inr h"
  shows "h = no_ceilings \<or>
    (\<exists>d. parse_cpu (dict_get d ''cpu_max'') = Inr (cpu_max h) \<and>
         parse_memory (dict_get d ''memory_max'') = Inr (memory_max h) \<and>
         parse_pids (dict_get d ''pids_max'') = Inr (pids_max h))"
  using assms by (fastforce simp: from_dict_def Let_def split: if_splits option.splits sum.splits)

lemma from_dict_sound: "from_dict raw = Inr h \<Longrightarrow> wf_ceilings h"
  using from_dict_cases [of raw h]
  by (auto simp: wf_ceilings_def no_ceilings_def dest: parse_cpu_form parse_memory_form [simplified]
      parse_pids_form)

text \<open>
  (C11) Ceilings that parse are well formed: a memory limit is a positive number and a docker unit,
  a process limit is at least one, and a CPU limit does not compare as at most zero.
\<close>

theorem from_dict_wf: "from_dict raw = Inr h \<Longrightarrow> wf_ceilings h"
  by (rule from_dict_sound)

theorem from_dict_wf_witness:
  "wf_ceilings \<lparr>cpu_max = None, memory_max = Some ''4g'', pids_max = Some 7\<rparr>"
  by (rule from_dict_wf [where raw = "JObj [(''memory_max'', JStr ''4 GiB''), (''pids_max'', JInt 7)]"]) code_simp

lemma dict_get_to_dict:
  "dict_get (to_dict h) ''cpu_max'' = (case cpu_max h of None \<Rightarrow> JNull | Some f \<Rightarrow> JFloat f)"
  "dict_get (to_dict h) ''memory_max'' = (case memory_max h of None \<Rightarrow> JNull | Some m \<Rightarrow> JStr m)"
  "dict_get (to_dict h) ''pids_max'' = (case pids_max h of None \<Rightarrow> JNull | Some n \<Rightarrow> JInt n)"
  by (auto simp: dict_get_def to_dict_def split: option.splits)

lemma to_dict_parses:
  assumes "wf_ceilings h"
  shows "from_dict (JObj (to_dict h)) = Inr h"
proof -
  have cpu: "parse_cpu (case cpu_max h of None \<Rightarrow> JNull | Some f \<Rightarrow> JFloat f) = Inr (cpu_max h)"
    using assms by (auto simp: parse_cpu_def wf_ceilings_def split: option.splits)
  have mem: "parse_memory (case memory_max h of None \<Rightarrow> JNull | Some m \<Rightarrow> JStr m) = Inr (memory_max h)"
    using assms by (fastforce simp: wf_ceilings_def docker_form parse_memory_def [of JNull] split: option.splits)
  have pids: "parse_pids (case pids_max h of None \<Rightarrow> JNull | Some n \<Rightarrow> JInt n) = Inr (pids_max h)"
    using assms by (auto simp: parse_pids_def wf_ceilings_def split: option.splits)
  have keys: "filter (\<lambda>k. k \<notin> set ceiling_keys) (map fst (to_dict h)) = []"
    by (auto simp: to_dict_def ceiling_keys_def split: option.splits)
  show ?thesis
  proof (cases "to_dict h = []")
    case True
    then show ?thesis
      by (cases h) (auto simp: from_dict_def to_dict_def no_ceilings_def split: option.splits)
  next
    case False
    then show ?thesis
      by (simp add: from_dict_def keys dict_get_to_dict cpu mem pids)
  qed
qed

text \<open>
  Hard ceilings round trip: what \<^verbatim>\<open>to_dict\<close> writes of well-formed ceilings, \<^verbatim>\<open>from_dict\<close> reads
  back unchanged.
\<close>

theorem from_dict_to_dict:
  assumes "wf_ceilings h"
  shows "from_dict (JObj (to_dict h)) = Inr h"
  using assms by (rule to_dict_parses)

theorem from_dict_to_dict_witness:
  "from_dict (JObj (to_dict \<lparr>cpu_max = Some (Finite 3 (-1)), memory_max = Some ''4g'', pids_max = Some 7\<rparr>)) =
   Inr \<lparr>cpu_max = Some (Finite 3 (-1)), memory_max = Some ''4g'', pids_max = Some 7\<rparr>"
proof (rule from_dict_to_dict)
  have "from_dict (JObj [(''cpu_max'', JFloat (Finite 3 (-1))), (''memory_max'', JStr ''4g''), (''pids_max'', JInt 7)]) =
      Inr \<lparr>cpu_max = Some (Finite 3 (-1)), memory_max = Some ''4g'', pids_max = Some 7\<rparr>" by code_simp
  then show "wf_ceilings \<lparr>cpu_max = Some (Finite 3 (-1)), memory_max = Some ''4g'', pids_max = Some 7\<rparr>"
    by (rule from_dict_sound)
qed

end
