(* ===== verification/Desk_Spec.thy ===== *)
theory Desk_Spec
  imports Capability Resource_Ceilings
begin

text \<open>
  daemon/handlers.py, the pure part: validation of the parameters of CreateDesk and SpawnChild,
  the parent policy and the child scope that SpawnChild compares, and the targets of
  DestroyDesk, StopDesk and InspectDesk. Where the code puts the text of a caught exception
  into the error's data, the model leaves it empty.
\<close>

section \<open>Field validators\<close>

definition sbind :: "exn + 'a \<Rightarrow> ('a \<Rightarrow> exn + 'b) \<Rightarrow> exn + 'b" where
  "sbind m f = (case m of Inl e \<Rightarrow> Inl e | Inr x \<Rightarrow> f x)"

lemma sbind_Inr [simp]: "sbind m f = Inr y \<longleftrightarrow> (\<exists>x. m = Inr x \<and> f x = Inr y)"
  by (auto simp: sbind_def split: sum.splits)

definition bad_field :: "string \<Rightarrow> string \<Rightarrow> exn" where
  "bad_field field why = invalid_params [(''field'', JStr field), (''reason'', JStr why)]"

definition validated_string_list :: "json \<Rightarrow> string \<Rightarrow> exn + string list" where
  "validated_string_list v field =
    (case v of
       JNull \<Rightarrow> Inr []
     | JList xs \<Rightarrow> (case map_all as_str xs of None \<Rightarrow> Inl (bad_field field ''expected list[str]'') | Some ss \<Rightarrow> Inr ss)
     | _ \<Rightarrow> Inl (bad_field field ''expected list[str]''))"

definition validated_int_list :: "json \<Rightarrow> string \<Rightarrow> exn + int list" where
  "validated_int_list v field =
    (case v of
       JNull \<Rightarrow> Inr []
     | JList xs \<Rightarrow> (case map_all as_int xs of None \<Rightarrow> Inl (bad_field field ''expected list[int]'') | Some ns \<Rightarrow> Inr ns)
     | _ \<Rightarrow> Inl (bad_field field ''expected list[int]''))"

definition validated_dict_list :: "json \<Rightarrow> string \<Rightarrow> exn + dict list" where
  "validated_dict_list v field =
    (case v of
       JNull \<Rightarrow> Inr []
     | JList xs \<Rightarrow> (case map_all as_obj xs of None \<Rightarrow> Inl (bad_field field ''expected list[dict]'') | Some ds \<Rightarrow> Inr ds)
     | _ \<Rightarrow> Inl (bad_field field ''expected list[dict]''))"

definition validated_str_map :: "json \<Rightarrow> string \<Rightarrow> exn + dict" where
  "validated_str_map v field =
    (case v of
       JNull \<Rightarrow> Inr []
     | JObj d \<Rightarrow> if list_all (\<lambda>(k, x). as_str x \<noteq> None) d then Inr d
                 else Inl (bad_field field ''expected dict[str, str]'')
     | _ \<Rightarrow> Inl (bad_field field ''expected dict[str, str]''))"

definition validated_optional_string :: "json \<Rightarrow> string \<Rightarrow> exn + json" where
  "validated_optional_string v field =
    (if v = JNull \<or> as_str v \<noteq> None then Inr v else Inl (bad_field field ''expected str''))"

definition validated_optional_int :: "json \<Rightarrow> string \<Rightarrow> exn + json" where
  "validated_optional_int v field =
    (if v = JNull \<or> as_int v \<noteq> None then Inr v else Inl (bad_field field ''expected int''))"

text \<open>\<^verbatim>\<open>Path(p).is_absolute()\<close> and \<^verbatim>\<open>".." in Path(p).parts\<close>.\<close>

definition validate_devcontainer_subpath :: "string \<Rightarrow> exn + unit" where
  "validate_devcontainer_subpath p =
    (if prefix ''/'' p \<or> ''..'' \<in> set (split_on (CHR ''/'') p)
     then Inl (invalid_params (reason ''devcontainer_subpath must be relative and contain no ..''))
     else Inr ())"

text \<open>\<^verbatim>\<open>str(value or default).lower()\<close>, required to be one of two words.\<close>

definition validated_choice :: "json \<Rightarrow> string \<Rightarrow> string \<Rightarrow> string \<Rightarrow> string \<Rightarrow> exn + string" where
  "validated_choice v field dflt other why =
    (let word = (if \<not> truthy v then dflt else (case v of JStr s \<Rightarrow> lower s | _ \<Rightarrow> [])) in
     if word = dflt \<or> word = other then Inr word else Inl (bad_field field why))"

section \<open>The specification of a desk\<close>

record desk_spec =
  ds_project :: string
  ds_name :: string
  ds_repo_path :: string
  ds_branch :: string
  ds_base_ref :: string
  ds_image :: string
  ds_owner :: string
  ds_workspace_subdir :: string
  ds_devcontainer_subpath :: string
  ds_firewall_extra_domains :: "string list"
  ds_secret_entitlements :: "string list"
  ds_extra_mounts :: "string list"
  ds_delegatable_firewall_domains :: "string list"
  ds_delegatable_secrets :: "string list"
  ds_capabilities :: "string list"
  ds_delegatable_storage_scopes :: "string list"
  ds_delegatable_provision_scopes :: "string list"
  ds_delegatable_network_reach :: "string list"
  ds_network_reach_ports :: "int list"
  ds_egress_proxy :: string
  ds_resources_hard :: dict
  ds_yard :: string
  ds_overlay :: dict

definition str_or :: "json \<Rightarrow> string \<Rightarrow> string" where
  "str_or v dflt = (case v of JStr s \<Rightarrow> if s = [] then dflt else s | _ \<Rightarrow> dflt)"

definition missing_params :: "json \<Rightarrow> string list" where
  "missing_params params =
    (case as_obj params of
       None \<Rightarrow> [''project'', ''name'']
     | Some p \<Rightarrow> filter (\<lambda>k. as_str (dict_get p k) = None \<or> as_str (dict_get p k) = Some []) [''project'', ''name''])"

text \<open>A resource ceiling that is refused; an overflow is no \<^verbatim>\<open>ResourceCeilingError\<close>.\<close>

definition validated_resources_hard :: "json \<Rightarrow> exn + dict" where
  "validated_resources_hard v =
    (case (if truthy v then v else JObj []) of
       JObj d \<Rightarrow>
         if d = [] then Inr d
         else (case from_dict (JObj d) of
                 Inr _ \<Rightarrow> Inr d
               | Inl CpuOverflow \<Rightarrow> Inl (PyError ''OverflowError'' [])
               | Inl _ \<Rightarrow> Inl (bad_field ''resources_hard'' []))
     | _ \<Rightarrow> Inl (bad_field ''resources_hard'' ''must be an object''))"

definition validated_spec :: "json \<Rightarrow> exn + desk_spec" where
  "validated_spec params =
    (if missing_params params \<noteq> [] then Inl (invalid_params [(''missing'', jstrs (missing_params params))])
     else
       let p = the (as_obj params); get = dict_get p;
           project = the (as_str (get ''project'')); name = the (as_str (get ''name''))
       in
       sbind (case get ''devcontainer_subpath'' of
                JNull \<Rightarrow> Inr ''.devcontainer''
              | JStr s \<Rightarrow> Inr s
              | _ \<Rightarrow> Inl (invalid_params [(''field'', JStr ''devcontainer_subpath'')])) (\<lambda>subpath.
       sbind (validate_devcontainer_subpath subpath) (\<lambda>_.
       sbind (validated_string_list (get ''firewall_extra_domains'') ''firewall_extra_domains'') (\<lambda>domains.
       sbind (validated_string_list (get ''firewall_ipv6_hosts'') ''firewall_ipv6_hosts'') (\<lambda>ipv6.
       sbind (validated_string_list (get ''firewall_aws_ip_ranges'') ''firewall_aws_ip_ranges'') (\<lambda>aws.
       sbind (validated_string_list (get ''secret_entitlements'') ''secret_entitlements'') (\<lambda>secrets.
       sbind (validated_string_list (get ''extra_mounts'') ''extra_mounts'') (\<lambda>mounts.
       sbind (validated_string_list (get ''delegatable_firewall_domains'') ''delegatable_firewall_domains'') (\<lambda>dfd.
       sbind (validated_string_list (get ''delegatable_secrets'') ''delegatable_secrets'') (\<lambda>dsec.
       sbind (validated_string_list (get ''capabilities'') ''capabilities'') (\<lambda>caps.
       sbind (validated_string_list (get ''delegatable_storage_scopes'') ''delegatable_storage_scopes'') (\<lambda>dst.
       sbind (validated_string_list (get ''delegatable_provision_scopes'') ''delegatable_provision_scopes'') (\<lambda>dpr.
       sbind (validated_string_list (get ''delegatable_network_reach'') ''delegatable_network_reach'') (\<lambda>dnr.
       sbind (validated_int_list (get ''network_reach_ports'') ''network_reach_ports'') (\<lambda>ports.
       sbind (validated_optional_string (get ''tailscale_hostname'') ''tailscale_hostname'') (\<lambda>ts_host.
       sbind (validated_optional_int (get ''tailscale_serve_port'') ''tailscale_serve_port'') (\<lambda>ts_port.
       sbind (validated_optional_string (get ''tailscale_authkey_env_var'') ''tailscale_authkey_env_var'') (\<lambda>ts_key.
       sbind (validated_optional_string (get ''remote_control_name'') ''remote_control_name'') (\<lambda>rc.
       sbind (validated_int_list (get ''forward_ports'') ''forward_ports'') (\<lambda>fwd.
       sbind (validated_optional_string (get ''claude_profile'') ''claude_profile'') (\<lambda>profile.
       sbind (validated_choice (get ''egress_proxy'') ''egress_proxy'' ''disabled'' ''enabled''
                (''must be '' @ quoted ''enabled'' @ '' or '' @ quoted ''disabled'')) (\<lambda>egress.
       sbind (validated_choice (get ''role'') ''role'' ''worker'' ''auditor''
                (''must be '' @ quoted ''worker'' @ '' or '' @ quoted ''auditor'')) (\<lambda>role.
       sbind (validated_str_map (get ''extra_env'') ''extra_env'') (\<lambda>extra_env.
       sbind (validated_dict_list (get ''storage_mounts'') ''storage_mounts'') (\<lambda>storage.
       sbind (validated_resources_hard (get ''resources_hard'')) (\<lambda>hard.
       sbind (case get ''yard'' of JNull \<Rightarrow> Inr [] | JStr y \<Rightarrow> Inr y
              | _ \<Rightarrow> Inl (bad_field ''yard'' ''must be a string or null'')) (\<lambda>yard.
       sbind (case get ''workspace_subdir'' of JStr s \<Rightarrow> Inr s
              | v \<Rightarrow> if truthy v then Inl (invalid_params [(''field'', JStr ''workspace_subdir'')]) else Inr []) (\<lambda>subdir.
       Inr \<lparr>ds_project = project, ds_name = name,
            ds_repo_path = str_or (get ''repo_path'') (''/srv/code/'' @ project),
            ds_branch = str_or (get ''branch'') (''ws/'' @ name),
            ds_base_ref = str_or (get ''base_ref'') ''HEAD'',
            ds_image = str_or (get ''image'') [], ds_owner = str_or (get ''owner'') [],
            ds_workspace_subdir = subdir, ds_devcontainer_subpath = subpath,
            ds_firewall_extra_domains = domains, ds_secret_entitlements = secrets,
            ds_extra_mounts = mounts, ds_delegatable_firewall_domains = dfd,
            ds_delegatable_secrets = dsec, ds_capabilities = caps, ds_delegatable_storage_scopes = dst,
            ds_delegatable_provision_scopes = dpr, ds_delegatable_network_reach = dnr,
            ds_network_reach_ports = ports, ds_egress_proxy = egress, ds_resources_hard = hard,
            ds_yard = yard,
            ds_overlay = [(''tailscale_hostname'', ts_host), (''tailscale_serve_port'', ts_port),
              (''tailscale_authkey_env_var'', ts_key), (''remote_control_name'', rc),
              (''firewall_extra_domains'', jstrs domains), (''firewall_ipv6_hosts'', jstrs ipv6),
              (''firewall_aws_ip_ranges'', jstrs aws), (''forward_ports'', JList (map JInt fwd)),
              (''claude_profile'', profile), (''extra_env'', JObj extra_env),
              (''storage_mounts'', JList (map JObj storage)), (''resources_hard'', JObj hard),
              (''egress_proxy'', JStr egress), (''role'', JStr role)]\<rparr>
       ))))))))))))))))))))))))))))"

text \<open>\<^verbatim>\<open>_overlay_config_data\<close>: the overlay fields that are neither null nor an empty list.\<close>

definition overlay_config_data :: "desk_spec \<Rightarrow> dict" where
  "overlay_config_data spec = filter (\<lambda>(k, v). v \<noteq> JNull \<and> v \<noteq> JList []) (ds_overlay spec)"

section \<open>What SpawnChild compares\<close>

definition policy_load_failed :: exn where
  "policy_load_failed = rpc_err (-32603) ''policy_load_failed'' [(''reason'', JStr [])]"

definition config_mounts :: "dict \<Rightarrow> string list option" where
  "config_mounts config =
    (case dict_get_default config ''extra_mounts'' (JList []) of JList xs \<Rightarrow> map_all as_str xs | _ \<Rightarrow> None)"

text \<open>A policy of strings made canonical; \<^const>\<open>None\<close> is the \<^verbatim>\<open>ValueError\<close>.\<close>

definition scope_of_strings ::
    "string list \<Rightarrow> string list \<Rightarrow> string list \<Rightarrow> string list \<Rightarrow> DeskSpec option" where
  "scope_of_strings domains secrets caps mounts =
    (case (map_all kind_of_value caps, canon_seq canonicalize_domain domains, canon_seq canonicalize_mount mounts) of
       (Some kinds, Inr ds, Inr ms) \<Rightarrow>
         Some \<lparr>spec_firewall_domains = ds, spec_secrets = secrets, spec_capabilities = kinds, spec_extra_mounts = ms\<rparr>
     | _ \<Rightarrow> None)"

definition load_parent_policy :: "registry \<Rightarrow> string \<Rightarrow> exn + DeskPolicy" where
  "load_parent_policy r caller =
    (case load_desk_policy r caller of
       None \<Rightarrow> Inl (rpc_err (-32001) ''parent_not_found'' [(''parent_drydock_id'', JStr caller)])
     | Some row \<Rightarrow>
         (case config_mounts (dd_config row) of
            None \<Rightarrow> Inl policy_load_failed
          | Some mounts \<Rightarrow>
              (case scope_of_strings (delegatable_firewall_domains row) (delegatable_secrets row)
                      (capabilities row) mounts of
                 None \<Rightarrow> Inl policy_load_failed
               | Some s \<Rightarrow>
                   Inr \<lparr>pol_firewall_domains = spec_firewall_domains s, pol_secrets = spec_secrets s,
                        pol_capabilities = spec_capabilities s, pol_extra_mounts = spec_extra_mounts s,
                        pol_storage_scopes = [], pol_provision_scopes = [], pol_network_reach = [],
                        pol_network_ports = []\<rparr>)))"

definition build_child_spec :: "desk_spec \<Rightarrow> exn + DeskSpec" where
  "build_child_spec spec =
    (case scope_of_strings (ds_firewall_extra_domains spec) (ds_secret_entitlements spec)
            (ds_capabilities spec) (ds_extra_mounts spec) of
       None \<Rightarrow> Inl (invalid_params (reason []))
     | Some s \<Rightarrow> Inr s)"

section \<open>Targets\<close>

definition validated_target :: "string \<Rightarrow> json \<Rightarrow> exn + string option \<times> string" where
  "validated_target missing params =
    (let bad = Inl (invalid_params [(''missing'', jstrs [missing])]) in
     case as_obj params of
       None \<Rightarrow> bad
     | Some p \<Rightarrow>
         (case (dict_get p ''name'', dict_get p ''drydock_id'') of
            (JStr (c # cs), _) \<Rightarrow> Inr (Some (c # cs), dock_id_of_name (c # cs))
          | (_, JStr (c # cs)) \<Rightarrow> Inr (None, c # cs)
          | _ \<Rightarrow> bad))"

definition lookup_by_name_or_id :: "registry \<Rightarrow> string option \<times> string \<Rightarrow> drydock_row option" where
  "lookup_by_name_or_id r t =
    (case fst t of Some name \<Rightarrow> get_drydock r name | None \<Rightarrow> drydock_by_id r (snd t))"

end
