(* ===== verification/Devcontainer.thy ===== *)
theory Devcontainer
  imports Secrets_Backend
begin

text \<open>
  core/devcontainer.py: the wrapper around the devcontainer and docker command lines. A dry run
  starts no process.
\<close>

text \<open>\<^verbatim>\<open>str.splitlines\<close> on the line ends the commands print.\<close>

definition split_lines :: "string \<Rightarrow> string list" where
  "split_lines s = split_on (CHR 0x0A) s"

fun last_json_line :: "env \<Rightarrow> string list \<Rightarrow> json option" where
  "last_json_line env [] = None"
| "last_json_line env (l # ls) =
    (let l = strip l in
     if l = [] \<or> \<not> prefix ''{'' l then last_json_line env ls
     else (case e_json_loads env l of None \<Rightarrow> last_json_line env ls | Some v \<Rightarrow> Some v))"

definition parse_devcontainer_output :: "env \<Rightarrow> string \<Rightarrow> json option" where
  "parse_devcontainer_output env out =
    (let text = strip out in
     if text = [] then None
     else (case e_json_loads env text of
             Some v \<Rightarrow> Some v
           | None \<Rightarrow> last_json_line env (rev (split_lines text))))"

definition extract_container_id :: "dict \<Rightarrow> json" where
  "extract_container_id parsed =
    (let cid = dict_get parsed ''containerId'' in
     if truthy cid then cid
     else (case dict_get parsed ''outcome'' of
             JObj outcome \<Rightarrow> if truthy (dict_get outcome ''containerId'') then dict_get outcome ''containerId'' else JNull
           | _ \<Rightarrow> JNull))"

definition no_process :: "proc \<Rightarrow> exn" where
  "no_process p =
    (case p of TimedOut \<Rightarrow> PyError ''TimeoutExpired'' [] | NotFound \<Rightarrow> PyError ''FileNotFoundError'' []
     | OsFailure m \<Rightarrow> PyError ''OSError'' m | Completed rc out err \<Rightarrow> PyError ''CalledProcessError'' err)"

definition devc_check_available :: "env \<Rightarrow> unit op" where
  "devc_check_available env =
     bind (subprocess_run env [''devcontainer'', ''--version''] None) (\<lambda>p.
       case p of
         Completed rc out err \<Rightarrow> if rc = 0 then ret () else raise (no_process p)
       | NotFound \<Rightarrow> raise (WsError ''devcontainer CLI not found''
                       (Some ''Install it: npm install -g @devcontainers/cli''))
       | _ \<Rightarrow> raise (no_process p))"

text \<open>
  \<^verbatim>\<open>up\<close>: what its caller uses of the answer is the container id, \<^verbatim>\<open>container_id\<close> or
  \<^verbatim>\<open>containerId\<close>; none in a dry run or when no JSON was printed.
\<close>

definition devc_up :: "env \<Rightarrow> bool \<Rightarrow> string \<Rightarrow> string \<Rightarrow> json op" where
  "devc_up env dry_run workspace_folder override_config =
    (if dry_run then ret JNull
     else
       bind (subprocess_run env ([''devcontainer'', ''up'', ''--workspace-folder'', workspace_folder,
            ''--log-format'', ''json''] @
            (if override_config \<noteq> [] then [''--override-config'', override_config] else [])) None) (\<lambda>p.
         case p of
           Completed rc out err \<Rightarrow>
             (case parse_devcontainer_output env out of
                Some (JObj d) \<Rightarrow>
                  let cid = extract_container_id d in
                  if rc \<noteq> 0 \<and> \<not> truthy cid then
                    raise (WsError (''devcontainer up failed: '' @ strip err)
                      (Some ''Check the project's devcontainer.json and Dockerfile for errors''))
                  else ret cid
              | None \<Rightarrow>
                  if rc \<noteq> 0 then
                    raise (WsError (''devcontainer up failed: '' @ strip err)
                      (Some ''Check the project's devcontainer.json and Dockerfile for errors''))
                  else ret JNull
              | Some _ \<Rightarrow> raise (PyError ''AttributeError'' []))
         | _ \<Rightarrow> raise (no_process p)))"

text \<open>\<^verbatim>\<open>stop\<close> and \<^verbatim>\<open>remove\<close>: a container that is already gone is no failure.\<close>

definition devc_docker :: "env \<Rightarrow> bool \<Rightarrow> string \<Rightarrow> string \<Rightarrow> string \<Rightarrow> unit op" where
  "devc_docker env dry_run verb fix container_id =
    (if container_id = [] \<or> dry_run then ret ()
     else
       bind (subprocess_run env [''docker'', verb, container_id] None) (\<lambda>p.
         case p of
           Completed rc out err \<Rightarrow>
             if rc \<noteq> 0 \<and> \<not> contains ''No such container'' err then
               raise (WsError (''docker '' @ verb @ '' failed: '' @ strip err)
                 (Some (fix @ '' manually: docker '' @ verb @ '' '' @ container_id)))
             else ret ()
         | _ \<Rightarrow> raise (no_process p)))"

definition devc_stop :: "env \<Rightarrow> bool \<Rightarrow> string \<Rightarrow> unit op" where
  "devc_stop env dry_run = devc_docker env dry_run ''stop'' ''Stop''"

definition devc_remove :: "env \<Rightarrow> bool \<Rightarrow> string \<Rightarrow> unit op" where
  "devc_remove env dry_run = devc_docker env dry_run ''rm'' ''Remove''"

section \<open>Facts\<close>

lemma keeps_reg_devc_check [keeps_rules]: "keeps (on_reg P) (devc_check_available env)"
  unfolding devc_check_available_def
  by (intro keeps_bind keeps_reg_run) (auto split: proc.split intro: keeps_rules)

lemma keeps_reg_devc_up [keeps_rules]: "keeps (on_reg P) (devc_up env dry f c)"
  unfolding devc_up_def Let_def
  by (intro keeps_if keeps_ret keeps_bind keeps_reg_run)
    (auto split: proc.split option.split json.split intro: keeps_rules)

lemma keeps_reg_devc_docker: "keeps (on_reg P) (devc_docker env dry v f c)"
  unfolding devc_docker_def
  by (intro keeps_if keeps_ret keeps_bind keeps_reg_run) (auto split: proc.split intro: keeps_rules)

lemma keeps_reg_devc_stop [keeps_rules]: "keeps (on_reg P) (devc_stop env dry c)"
  unfolding devc_stop_def by (rule keeps_reg_devc_docker)

lemma keeps_reg_devc_remove [keeps_rules]: "keeps (on_reg P) (devc_remove env dry c)"
  unfolding devc_remove_def by (rule keeps_reg_devc_docker)

end
