(* ===== verification/Proxy.thy ===== *)
theory Proxy
  imports Prelude
begin

text \<open>
  core/proxy.py: the allowlist document of the egress proxy, made from the network reach of a
  desk. Proved here: the two lists of the document are exactly the stripped plain entries and
  the stripped wildcard entries without their star, sorted and without repetition.
\<close>

section \<open>Allowlist documents\<close>

text \<open>The loop of \<^verbatim>\<open>split_globs\<close>, with the hosts and domains found so far.\<close>

fun glob_entries :: "string list \<Rightarrow> string list \<Rightarrow> string list \<Rightarrow> string list \<times> string list" where
  "glob_entries [] hosts domains = (hosts, domains)"
| "glob_entries (raw # rest) hosts domains =
    (let entry = strip raw in
     if entry = [] \<or> entry = ''*'' then glob_entries rest hosts domains
     else if prefix ''*.'' entry then
       let domain = drop 2 entry in
       glob_entries rest hosts (if domain \<noteq> [] \<and> domain \<notin> set domains then domains @ [domain] else domains)
     else glob_entries rest (if entry \<notin> set hosts then hosts @ [entry] else hosts) domains)"

definition split_globs :: "string list \<Rightarrow> string list \<times> string list" where
  "split_globs network_reach = (let (hosts, domains) = glob_entries network_reach [] [] in (sort hosts, sort domains))"

definition generate_smokescreen_acl :: "string \<Rightarrow> string list \<Rightarrow> dict" where
  "generate_smokescreen_acl drydock_id network_reach =
    (let (hosts, domains) = split_globs network_reach in
     [(''version'', JStr ''v1''), (''services'', JList []),
      (''default'', JObj [(''project'', JStr (''drydock-'' @ drydock_id)), (''action'', JStr ''enforce''),
         (''allow_missing_role'', JBool True), (''allowed_hosts'', jstrs hosts), (''allowed_domains'', jstrs domains)])])"

section \<open>Facts\<close>

text \<open>What one entry adds to the hosts and to the domains.\<close>

definition host_of :: "string \<Rightarrow> string set" where
  "host_of raw = {e. e = strip raw \<and> e \<noteq> [] \<and> e \<noteq> ''*'' \<and> \<not> prefix ''*.'' e}"

definition domain_of :: "string \<Rightarrow> string set" where
  "domain_of raw = {d. d \<noteq> [] \<and> strip raw = ''*.'' @ d}"

lemma glob_entries_sets:
  "set (fst (glob_entries xs hs ds)) = set hs \<union> (\<Union>x\<in>set xs. host_of x) \<and>
   set (snd (glob_entries xs hs ds)) = set ds \<union> (\<Union>x\<in>set xs. domain_of x)"
proof (induction xs hs ds rule: glob_entries.induct)
  case (2 raw rest hs ds)
  then show ?case
    by (cases "prefix ''*.'' (strip raw)")
      (auto simp: Let_def host_of_def domain_of_def prefix_def)
qed simp

lemma glob_entries_distinct:
  "distinct hs \<and> distinct ds \<Longrightarrow>
   distinct (fst (glob_entries xs hs ds)) \<and> distinct (snd (glob_entries xs hs ds))"
  by (induction xs hs ds rule: glob_entries.induct) (auto simp: Let_def)

section \<open>Property\<close>

text \<open>
  The allowlist of a desk says what its network reach says: the hosts are exactly the entries
  that, stripped, are neither empty nor a star nor start with a star and a dot, the domains are
  exactly the non-empty rests of those that do, and both lists are sorted without repetition.
\<close>

theorem split_globs_exact:
  "case split_globs network_reach of (hosts, domains) \<Rightarrow>
     set hosts = {e \<in> strip ` set network_reach. e \<noteq> [] \<and> e \<noteq> ''*'' \<and> \<not> prefix ''*.'' e} \<and>
     set domains = {d. d \<noteq> [] \<and> ''*.'' @ d \<in> strip ` set network_reach} \<and>
     sorted hosts \<and> distinct hosts \<and> sorted domains \<and> distinct domains"
proof -
  obtain hs ds where g: "glob_entries network_reach [] [] = (hs, ds)" by fastforce
  have "set hs = (\<Union>x\<in>set network_reach. host_of x)" "set ds = (\<Union>x\<in>set network_reach. domain_of x)"
    using glob_entries_sets [of network_reach "[]" "[]"] by (simp_all add: g)
  moreover have "distinct hs" "distinct ds"
    using glob_entries_distinct [of "[]" "[]" network_reach] by (simp_all add: g)
  ultimately show ?thesis
    by (auto simp: split_globs_def g host_of_def domain_of_def image_iff intro: sym bexI)
qed

end
