(* ===== verification/Desk_Handlers.thy ===== *)
theory Desk_Handlers
  imports Desk_Spec Devcontainer Proxy
begin

text \<open>
  daemon/handlers.py: creating, resuming and spawning desks. The steps of
  each handler are in the source's order, with every write to the registry and every early
  exit. What other modules do outside the registry (git checkouts, overlay and allowlist
  files, trust seeding, path tests) are the answers of a \<open>desk_env\<close>; \<open>de_sql_text\<close> is how SQLite
  reads a bound value that is no string, \<^const>\<open>None\<close> when it refuses it.
\<close>

record desk_env =
  de_yaml_sha :: "string \<Rightarrow> string"
  de_write_acl :: "nat \<Rightarrow> string \<Rightarrow> dict \<Rightarrow> exn + unit"
  de_checkout :: "nat \<Rightarrow> drydock_row \<Rightarrow> exn + string"
  de_exists :: "nat \<Rightarrow> string \<Rightarrow> bool"
  de_write_overlay :: "nat \<Rightarrow> drydock_row \<Rightarrow> desk_spec \<Rightarrow> string \<Rightarrow> exn + string"
  de_regenerate_overlay :: "nat \<Rightarrow> drydock_row \<Rightarrow> string \<Rightarrow> exn + unit"
  de_seed_trust :: "nat \<Rightarrow> string \<Rightarrow> string \<Rightarrow> exn + unit"
  de_remove_overlay :: "nat \<Rightarrow> string \<Rightarrow> exn + unit"
  de_home :: string
  de_str :: "reject_value \<Rightarrow> string"
  de_inflight_max :: nat
  de_sql_text :: "json \<Rightarrow> string option"

definition ext :: "(nat \<Rightarrow> exn + 'a) \<Rightarrow> 'a op" where
  "ext f = bind tick (\<lambda>n. from_sum (f n))"

definition path_exists :: "desk_env \<Rightarrow> string \<Rightarrow> bool op" where
  "path_exists de p = bind tick (\<lambda>n. ret (de_exists de n p))"

text \<open>
  \<^verbatim>\<open>write_smokescreen_acl\<close> of core/proxy.py: the document goes to a temporary file that is renamed
  at the end, so a failing write leaves the old file, and a file once written is the whole document.
\<close>

definition write_smokescreen_acl :: "desk_env \<Rightarrow> string \<Rightarrow> string list \<Rightarrow> string op" where
  "write_smokescreen_acl de drydock_id network_reach =
    (let acl = generate_smokescreen_acl drydock_id network_reach in
     andthen (ext (\<lambda>n. de_write_acl de n drydock_id acl))
     (andthen (writes (\<lambda>w. w\<lparr>w_acls := w_acls w @ [(drydock_id, acl)]\<rparr>))
       (ret (de_home de @ ''/.drydock/proxy/'' @ drydock_id @ ''.yaml''))))"

section \<open>Registry updates with the clock\<close>

definition update_row :: "env \<Rightarrow> string \<Rightarrow> (drydock_row \<Rightarrow> drydock_row) \<Rightarrow> drydock_row op" where
  "update_row env name f =
     bind (utc_now env) (\<lambda>now.
     bind (update_reg (update_drydock now name (Some f))) (\<lambda>row.
       required row (PyError ''AttributeError'' [])))"

definition set_state :: "env \<Rightarrow> string \<Rightarrow> string \<Rightarrow> unit op" where
  "set_state env name state =
     bind (utc_now env) (\<lambda>now. bind (update_reg (update_state now name state)) (\<lambda>_. ret ()))"

section \<open>Create\<close>

definition drydock_of_spec :: "desk_spec \<Rightarrow> drydock_row" where
  "drydock_of_spec spec =
     \<lparr>dd_id = [], dd_name = ds_name spec, dd_project = ds_project spec, dd_repo_path = ds_repo_path spec,
      dd_worktree_path = [], dd_branch = ds_branch spec, dd_base_ref = ds_base_ref spec,
      dd_state = ''defined'', dd_container_id = [], dd_workspace_subdir = ds_workspace_subdir spec,
      dd_image = ds_image spec, dd_owner = ds_owner spec, dd_created_at = [], dd_updated_at = [],
      dd_config = dict_update [(''devcontainer_subpath'', JStr (ds_devcontainer_subpath spec)),
        (''extra_mounts'', jstrs (ds_extra_mounts spec))] (overlay_config_data spec),
      parent_drydock_id = None, delegatable_firewall_domains = [], delegatable_secrets = [],
      capabilities = [], delegatable_storage_scopes = [], delegatable_provision_scopes = [],
      delegatable_network_reach = [], network_reach_ports = [], resources_hard = [],
      pinned_yaml_sha256 = [], dd_yard_id = None, original_resources_hard = ds_resources_hard spec\<rparr>"

definition delegations_of_spec :: "desk_spec \<Rightarrow> desk_delegations" where
  "delegations_of_spec spec =
     \<lparr>dl_firewall_domains = Some (ds_delegatable_firewall_domains spec),
      dl_secrets = Some (ds_delegatable_secrets spec), dl_capabilities = Some (ds_capabilities spec),
      dl_storage_scopes = Some (ds_delegatable_storage_scopes spec),
      dl_provision_scopes = Some (ds_delegatable_provision_scopes spec),
      dl_network_reach = Some (ds_delegatable_network_reach spec),
      dl_network_ports = Some (ds_network_reach_ports spec),
      dl_resources_hard = Some (ds_resources_hard spec)\<rparr>"

definition storage_mounts_setup :: "env \<Rightarrow> string \<Rightarrow> dict \<Rightarrow> unit op" where
  "storage_mounts_setup env container_id source =
    (if truthy (dict_get source ''storage_mounts'') then
       bind (subprocess_run env [''docker'', ''exec'', ''-u'', ''node'', container_id,
               ''/usr/local/bin/setup-storage-mounts.sh''] None) (\<lambda>_. ret ())
     else ret ())"

text \<open>Bring the container up; a failure of the command line marks the desk and goes on.\<close>

definition up_or_error :: "env \<Rightarrow> bool \<Rightarrow> string \<Rightarrow> string \<Rightarrow> string \<Rightarrow> json op" where
  "up_or_error env dry_run name folder overlay =
     try_except (devc_up env dry_run folder overlay) (\<lambda>e.
       case e of WsError m fx \<Rightarrow> andthen (set_state env name ''error'') (raise e) | _ \<Rightarrow> raise e)"

definition container_of_up :: "env \<Rightarrow> bool \<Rightarrow> json \<Rightarrow> string op" where
  "container_of_up env dry_run cid =
    (case cid of
       JStr (c # cs) \<Rightarrow> ret (c # cs)
     | _ \<Rightarrow> if dry_run then bind (uuid4_hex env) (\<lambda>u. ret (''dry-run-'' @ take 8 u)) else ret [])"

definition desk_result :: "drydock_row \<Rightarrow> dict" where
  "desk_result ws = [(''drydock_id'', JStr (dd_id ws)), (''name'', JStr (dd_name ws)),
     (''project'', JStr (dd_project ws)),
     (''branch'', JStr (if dd_branch ws \<noteq> [] then dd_branch ws else ''ws/'' @ dd_name ws)),
     (''state'', JStr ''running''), (''container_id'', JStr (dd_container_id ws)),
     (''worktree_path'', JStr (dd_worktree_path ws))]"

definition start_container ::
    "env \<Rightarrow> desk_env \<Rightarrow> bool \<Rightarrow> string \<Rightarrow> string \<Rightarrow> string \<Rightarrow> dict \<Rightarrow> drydock_row op" where
  "start_container env de dry_run name folder overlay source =
     andthen (set_state env name ''provisioning'')
     (bind (up_or_error env dry_run name folder overlay) (\<lambda>cid.
      bind (container_of_up env dry_run cid) (\<lambda>container_id.
      bind (update_row env name (\<lambda>d. d\<lparr>dd_container_id := container_id, dd_state := ''running''\<rparr>)) (\<lambda>ws.
      andthen
        (guarded (container_id \<noteq> [] \<and> \<not> dry_run)
          (andthen (ext (\<lambda>n. de_seed_trust de n container_id overlay)) (storage_mounts_setup env container_id source)))
        (ret ws)))))"

definition join_path :: "string \<Rightarrow> string \<Rightarrow> string" where
  "join_path a b = a @ ''/'' @ b"

text \<open>
  The registry part of \<^verbatim>\<open>_perform_create\<close>: the row, its delegations, its parent and its pin.
\<close>

definition register_desk :: "env \<Rightarrow> desk_env \<Rightarrow> desk_spec \<Rightarrow> string option \<Rightarrow> drydock_row op" where
  "register_desk env de spec parent =
     bind (utc_now env) (\<lambda>now.
     bind (call_reg (create_drydock now (drydock_post_init now (drydock_of_spec spec)))) (\<lambda>ws.
     bind (utc_now env) (\<lambda>now2.
     andthen (execute (update_desk_delegations now2 (dd_name ws) (delegations_of_spec spec)))
     (bind (case parent of
              None \<Rightarrow> ret ws
            | Some p \<Rightarrow> update_row env (dd_name ws) (\<lambda>d. d\<lparr>parent_drydock_id := Some p\<rparr>)) (\<lambda>ws.
        if de_yaml_sha de (ds_project spec) \<noteq> []
        then update_row env (dd_name ws) (\<lambda>d. d\<lparr>pinned_yaml_sha256 := de_yaml_sha de (ds_project spec)\<rparr>)
        else ret ws)))))"

definition join_yard :: "env \<Rightarrow> desk_spec \<Rightarrow> drydock_row \<Rightarrow> drydock_row op" where
  "join_yard env spec ws =
    (if ds_yard spec = [] then ret ws
     else
       bind (query (\<lambda>r. get_yard r (ds_yard spec))) (\<lambda>y.
       bind (required y (WsError (''Project declares yard '' @ quoted (ds_yard spec) @ '' but no such Yard is registered'')
               (Some (''Register the Yard first: ws yard create '' @ ds_yard spec)))) (\<lambda>yard.
         update_row env (dd_name ws) (\<lambda>d. d\<lparr>dd_yard_id := Some (yd_id yard)\<rparr>))))"

text \<open>The configuration stored in the row once the overlay is written.\<close>

definition stored_config :: "string \<Rightarrow> desk_spec \<Rightarrow> dict" where
  "stored_config overlay spec = dict_update [(''overlay_path'', JStr overlay),
     (''devcontainer_subpath'', JStr (ds_devcontainer_subpath spec)),
     (''extra_mounts'', jstrs (ds_extra_mounts spec))] (overlay_config_data spec)"

text \<open>The rest of \<^verbatim>\<open>_perform_create\<close>: allowlist, yard, checkout, overlay, token, container.\<close>

definition build_desk ::
    "env \<Rightarrow> desk_env \<Rightarrow> desk_spec \<Rightarrow> bool \<Rightarrow> string option \<Rightarrow> drydock_row \<Rightarrow> json op" where
  "build_desk env de spec dry_run parent ws =
     andthen (guarded (ds_egress_proxy spec = ''enabled'')
        (bind (write_smokescreen_acl de (dd_id ws) (ds_delegatable_network_reach spec)) (\<lambda>_. ret ())))
     (bind (join_yard env spec ws) (\<lambda>ws.
      bind (ext (\<lambda>n. de_checkout de n ws)) (\<lambda>checkout.
      bind (update_row env (dd_name ws) (\<lambda>d. d\<lparr>dd_worktree_path := checkout\<rparr>)) (\<lambda>ws.
      let folder = (if dd_workspace_subdir ws \<noteq> [] then join_path (dd_worktree_path ws) (dd_workspace_subdir ws)
                    else dd_worktree_path ws);
          devcontainer_json = join_path (join_path folder (ds_devcontainer_subpath spec)) ''devcontainer.json''
      in
      bind (path_exists de devcontainer_json) (\<lambda>found.
      andthen (if found then ret ()
               else andthen (set_state env (dd_name ws) ''error'')
                 (raise (WsError (''devcontainer.json not found at '' @ devcontainer_json)
                   (Some (''Create '' @ devcontainer_json @ '', or use a repo that already has one'')))))
      (andthen (os_step env (\<lambda>w. w))
      (andthen (os_step env (\<lambda>w. w))
      (bind (ext (\<lambda>n. de_write_overlay de n ws spec devcontainer_json)) (\<lambda>overlay.
      bind (update_row env (dd_name ws) (\<lambda>d. d\<lparr>dd_config := stored_config overlay spec\<rparr>)) (\<lambda>ws.
      andthen (guarded (\<not> dry_run) (devc_check_available env))
      (bind (issue_token_for_desk env (dd_id ws)) (\<lambda>_.
      andthen (emit_audit env ''token.issued'' (Some (dd_id ws)) JNull
                 (if parent = None then ''CreateDesk'' else ''SpawnChild'') ''ok''
                 [(''drydock_id'', JStr (dd_id ws)), (''rotation_reason'', JNull)])
      (bind (start_container env de dry_run (dd_name ws) folder overlay (ds_overlay spec)) (\<lambda>ws.
      ret (JObj (desk_result ws @
        (case parent of None \<Rightarrow> [] | Some p \<Rightarrow> [(''parent_drydock_id'', JStr p)])))))))))))))))))"

definition perform_create ::
    "env \<Rightarrow> desk_env \<Rightarrow> desk_spec \<Rightarrow> bool \<Rightarrow> string option \<Rightarrow> json op" where
  "perform_create env de spec dry_run parent =
     bind (register_desk env de spec parent) (build_desk env de spec dry_run parent)"

section \<open>Resume\<close>

definition cannot_resume :: "drydock_row \<Rightarrow> string \<Rightarrow> exn" where
  "cannot_resume d why = WsError (''Cannot resume desk '' @ quoted (dd_name d) @ '': '' @ why)
     (Some (''Rebuild from clean state: ws create '' @ dd_project d @ '' '' @ dd_name d @ '' --force''))"

definition fail_resume :: "env \<Rightarrow> drydock_row \<Rightarrow> string \<Rightarrow> 'a op" where
  "fail_resume env d why = andthen (set_state env (dd_name d) ''error'') (raise (cannot_resume d why))"

definition resume_desk :: "env \<Rightarrow> desk_env \<Rightarrow> drydock_row \<Rightarrow> bool \<Rightarrow> json op" where
  "resume_desk env de existing dry_run =
    (case dict_get (dd_config existing) ''overlay_path'' of
       JStr (c # cs) \<Rightarrow>
         let overlay = c # cs; folder = dd_worktree_path existing in
         andthen
           (try_except (ext (\<lambda>n. de_regenerate_overlay de n existing overlay)) (\<lambda>e.
              case e of
                WsError m fx \<Rightarrow> ret ()
              | PyError cls m \<Rightarrow> if cls = ''FileNotFoundError'' \<or> cls = ''OSError'' then ret () else raise e
              | _ \<Rightarrow> raise e))
           (bind (path_exists de overlay) (\<lambda>found.
            andthen (if found then ret () else fail_resume env existing (''overlay missing at '' @ overlay))
            (bind (path_exists de folder) (\<lambda>there.
             andthen (if folder \<noteq> [] \<and> there then ret ()
                      else fail_resume env existing (''worktree missing at '' @
                             (if folder \<noteq> [] then folder else ''(unset)'')))
             (andthen (guarded (\<not> dry_run) (devc_check_available env))
             (bind (start_container env de dry_run (dd_name existing) folder overlay (dd_config existing)) (\<lambda>ws.
                ret (JObj (desk_result ws)))))))))
     | v \<Rightarrow> if truthy v then raise (PyError ''TypeError'' [])
            else fail_resume env existing ''overlay_path missing from registry'')"

section \<open>CreateDesk\<close>

definition already_running :: "string \<Rightarrow> exn" where
  "already_running name = rpc_err (-32001) ''drydock_already_running'' [(''fix'', JStr (''ws create '' @ name @ '' --force''))]"

definition rpc_error_from_ws_error :: "exn \<Rightarrow> exn" where
  "rpc_error_from_ws_error e =
    (case e of
       WsError m fx \<Rightarrow> rpc_err (-32000) ''create_desk_failed'' ((''detail'', JStr m) #
         (case fx of Some (c # cs) \<Rightarrow> [(''fix'', JStr (c # cs))] | _ \<Rightarrow> []))
     | _ \<Rightarrow> e)"

definition result_field :: "json \<Rightarrow> string \<Rightarrow> json" where
  "result_field v k = (case v of JObj d \<Rightarrow> dict_get d k | _ \<Rightarrow> JNull)"

definition create_desk :: "env \<Rightarrow> desk_env \<Rightarrow> bool \<Rightarrow> json \<Rightarrow> json \<Rightarrow> json op" where
  "create_desk env de dry_run params request_id =
     bind (from_sum (validated_spec params)) (\<lambda>spec.
     try_except
       (bind (query (\<lambda>r. get_drydock r (ds_name spec))) (\<lambda>existing.
          case existing of
            Some d \<Rightarrow>
              if dd_state d = ''suspended'' \<or> dd_state d = ''defined'' then
                bind (resume_desk env de d dry_run) (\<lambda>result.
                andthen (emit_audit env ''drydock.resumed'' None request_id ''CreateDesk'' ''ok''
                    [(''drydock_id'', result_field result ''drydock_id''), (''project'', result_field result ''project'')])
                  (ret result))
              else raise (already_running (ds_name spec))
          | None \<Rightarrow>
              bind (perform_create env de spec dry_run None) (\<lambda>result.
              andthen (emit_audit env ''drydock.created'' None request_id ''CreateDesk'' ''ok''
                  [(''drydock_id'', result_field result ''drydock_id''), (''project'', result_field result ''project''),
                   (''parent_drydock_id'', JNull)])
                (ret result))))
       (\<lambda>e. raise (rpc_error_from_ws_error e)))"

section \<open>SpawnChild\<close>

definition count_provisioning_children :: "registry \<Rightarrow> string \<Rightarrow> nat" where
  "count_provisioning_children r parent =
     length (filter (\<lambda>d. parent_drydock_id d = Some parent \<and> dd_state d = ''provisioning'') (drydocks r))"

text \<open>
  The JSON form of a rejection. A verdict on malformed input carries the policy objects
  themselves, which cannot be written as JSON.
\<close>

definition mount_json :: "MountTuple \<Rightarrow> json" where
  "mount_json m = (case m of (s, t, k) \<Rightarrow> jstrs [s, t, k])"

definition serialize_value :: "env \<Rightarrow> reject_value \<Rightarrow> json option" where
  "serialize_value env v =
    (case v of
       VStrs xs \<Rightarrow> Some (JList (sort_key (e_json_dumps env) (map JStr xs)))
     | VKinds ks \<Rightarrow> Some (JList (sort_key (e_json_dumps env) (map (JStr \<circ> kind_value) ks)))
     | VMounts ms \<Rightarrow> Some (JList (sort_key (e_json_dumps env) (map mount_json ms)))
     | VStr s \<Rightarrow> Some (JStr s)
     | VKind k \<Rightarrow> Some (JStr (kind_value k))
     | VMount m \<Rightarrow> Some (mount_json m)
     | _ \<Rightarrow> None)"

definition reject_error :: "env \<Rightarrow> verdict \<Rightarrow> exn" where
  "reject_error env v =
    (case (serialize_value env (parent_value v), serialize_value env (requested_value v),
           serialize_value env (offending_item v)) of
       (Some p, Some q, Some x) \<Rightarrow>
         rpc_err (-32001) ''narrowness_violated'' [(''reject'', JObj [(''rule'', JStr (rule v)),
           (''parent_value'', p), (''requested_value'', q), (''offending_item'', x),
           (''fix_hint'', JStr (fix_hint v))])]
     | _ \<Rightarrow> PyError ''TypeError'' ''Object is not JSON serializable'')"

definition rate_limited :: "desk_env \<Rightarrow> nat \<Rightarrow> exn" where
  "rate_limited de n = rpc_err (-32014) ''rate_limited'' [(''in_flight'', JInt (int n)),
     (''max'', JInt (int (de_inflight_max de))),
     (''fix'', JStr ''wait for in-flight spawns to complete or raise DRYDOCK_SPAWN_CHILD_INFLIGHT_MAX'')]"

definition spawn_failed :: "exn \<Rightarrow> exn" where
  "spawn_failed e =
    (case e of WsError m fx \<Rightarrow> rpc_err (-32000) ''spawn_failed'' [(''detail'', JStr m)] | _ \<Rightarrow> e)"

definition check_narrowness :: "env \<Rightarrow> desk_env \<Rightarrow> string \<Rightarrow> json \<Rightarrow> DeskPolicy \<Rightarrow> DeskSpec \<Rightarrow> unit op" where
  "check_narrowness env de caller request_id parent child =
    (case validate_spawn parent child of
       Allow \<Rightarrow> ret ()
     | v \<Rightarrow>
         andthen (emit_audit env ''drydock.spawn_rejected'' (Some caller) request_id ''SpawnChild'' ''error''
             [(''parent_drydock_id'', JStr caller),
              (''reject'', JObj [(''rule'', JStr (rule v)), (''offending_item'', JStr (de_str de (offending_item v)))])])
           (raise (reject_error env v)))"

definition spawn_child :: "env \<Rightarrow> desk_env \<Rightarrow> bool \<Rightarrow> json \<Rightarrow> json \<Rightarrow> string option \<Rightarrow> json op" where
  "spawn_child env de dry_run params request_id caller =
     bind (required caller (RpcError (-32004) ''unauthenticated'' None)) (\<lambda>c.
     bind (from_sum (validated_spec params)) (\<lambda>spec.
     try_except
       (bind (query (\<lambda>r. get_drydock r (ds_name spec))) (\<lambda>existing.
        andthen (unless (existing = None) (already_running (ds_name spec)))
        (bind (query (\<lambda>r. count_provisioning_children r c)) (\<lambda>in_flight.
         andthen (unless (in_flight < de_inflight_max de) (rate_limited de in_flight))
         (bind (query (\<lambda>r. load_parent_policy r c)) (\<lambda>loaded.
          bind (from_sum loaded) (\<lambda>parent_policy.
          bind (from_sum (build_child_spec spec)) (\<lambda>child_spec.
          andthen (check_narrowness env de c request_id parent_policy child_spec)
          (bind (perform_create env de spec dry_run (Some c)) (\<lambda>result.
           andthen (emit_audit env ''drydock.spawned'' (Some c) request_id ''SpawnChild'' ''ok''
               [(''drydock_id'', result_field result ''drydock_id''), (''parent_drydock_id'', JStr c),
                (''narrowness_check'', JStr ''allow'')])
             (ret result)))))))))))
       (\<lambda>e. raise (spawn_failed e))))"

end
