(* ===== verification/Desk_Teardown.thy ===== *)
theory Desk_Teardown
  imports Desk_Handlers
begin

text \<open>
  daemon/handlers.py, continued: destroying a desk with its children, stopping, inspecting and
  listing. A step of the teardown that fails is recorded and the teardown goes on; the failures are
  those of the containers, the files, the overlay and the audit log, since a statement on the
  registry with no constraint to violate succeeds in the model. The secret directory itself and
  the files of the worktree are outside the model; what their removal answers is not.
\<close>

section \<open>Destroying one desk\<close>

definition failure :: "string \<Rightarrow> string \<Rightarrow> string \<Rightarrow> dict" where
  "failure drydock_id step err = [(''drydock_id'', JStr drydock_id), (''step'', JStr step), (''error'', JStr err)]"

text \<open>\<^verbatim>\<open>try: m except Exception as exc: failures.append(...)\<close>.\<close>

definition attempt :: "string \<Rightarrow> string \<Rightarrow> unit op \<Rightarrow> dict list op" where
  "attempt d step m = try_except (andthen m (ret [])) (\<lambda>e. ret [failure d step (exn_text e)])"

fun attempts :: "dict list op list \<Rightarrow> dict list op" where
  "attempts [] = ret []"
| "attempts (m # ms) = bind m (\<lambda>fs. bind (attempts ms) (\<lambda>gs. ret (fs @ gs)))"

definition lease_released_entry :: "env \<Rightarrow> string \<Rightarrow> CapabilityLease \<Rightarrow> unit op" where
  "lease_released_entry env d l =
     emit_audit env ''lease.released'' (Some d) JNull ''DestroyDesk'' ''ok''
       [(''lease_id'', JStr (lease_id l)), (''reason'', JStr ''desk_destroyed'')]"

definition revoke_desk_leases :: "env \<Rightarrow> string \<Rightarrow> unit op" where
  "revoke_desk_leases env d =
     bind (query (\<lambda>r. list_active_leases_for_desk r d)) (\<lambda>active.
     bind (update_reg (revoke_leases_for_desk d ''desk_destroyed'')) (\<lambda>revoked.
       for_each (lease_released_entry env d) active))"

definition revoke_desk_token :: "env \<Rightarrow> string \<Rightarrow> unit op" where
  "revoke_desk_token env d =
     andthen (execute (delete_token d))
       (emit_audit env ''token.revoked'' (Some d) JNull ''DestroyDesk'' ''ok'' [(''drydock_id'', JStr d)])"

definition remove_worktree :: "desk_env \<Rightarrow> drydock_row \<Rightarrow> dict list op" where
  "remove_worktree de d =
    (if dd_worktree_path d = [] then ret []
     else bind (path_exists de (dd_worktree_path d)) (\<lambda>still.
       ret (if still then [failure (dd_id d) ''worktree_remove'' ''directory still exists''] else [])))"

definition overlay_of :: "desk_env \<Rightarrow> drydock_row \<Rightarrow> string" where
  "overlay_of de d =
    (case dict_get (dd_config d) ''overlay_path'' of
       JStr (c # cs) \<Rightarrow> c # cs
     | _ \<Rightarrow> de_home de @ ''/.drydock/overlays/'' @ dd_id d @ ''.devcontainer.json'')"

definition drop_overlay :: "desk_env \<Rightarrow> drydock_row \<Rightarrow> unit op" where
  "drop_overlay de d =
     try_except (ext (\<lambda>n. de_remove_overlay de n (overlay_of de d))) (\<lambda>e.
       case e of PyError cls m \<Rightarrow> if cls = ''FileNotFoundError'' then ret () else raise e | _ \<Rightarrow> raise e)"

definition delete_row :: "env \<Rightarrow> string \<Rightarrow> unit op" where
  "delete_row env name = bind (utc_now env) (\<lambda>now. execute (delete_drydock now name))"

definition destroy_one :: "env \<Rightarrow> desk_env \<Rightarrow> bool \<Rightarrow> drydock_row \<Rightarrow> dict list op" where
  "destroy_one env de dry_run d =
     attempts
      ((if dd_container_id d = [] then []
        else [attempt (dd_id d) ''container_stop'' (devc_stop env dry_run (dd_container_id d)),
              attempt (dd_id d) ''container_remove'' (devc_remove env dry_run (dd_container_id d))]) @
       [attempt (dd_id d) ''lease_revoke'' (revoke_desk_leases env (dd_id d)),
        attempt (dd_id d) ''token_delete'' (revoke_desk_token env (dd_id d)),
        attempt (dd_id d) ''token_file_remove'' (os_step env (drop_file (dd_id d) ''drydock-token'')),
        attempt (dd_id d) ''secret_dir_handle'' (os_step env (\<lambda>w. w)),
        remove_worktree de d,
        attempt (dd_id d) ''overlay_remove'' (drop_overlay de d),
        attempt (dd_id d) ''drydock_delete'' (delete_row env (dd_name d))])"

section \<open>Destroying a tree\<close>

text \<open>
  \<open>destroy_tree\<close> recurses over the children it reads from the registry at the time; the fuel
  bounds the depth of the recursion. It answers the cascaded ids and the failures.
\<close>

definition destroy_cycle_detected :: "string \<Rightarrow> exn" where
  "destroy_cycle_detected d = rpc_err (-32603) ''destroy_cycle_detected'' [(''drydock_id'', JStr d)]"

fun destroy_tree ::
    "nat \<Rightarrow> env \<Rightarrow> desk_env \<Rightarrow> bool \<Rightarrow> string list \<Rightarrow> drydock_row \<Rightarrow> string list \<Rightarrow> (string list \<times> dict list) op"
  and destroy_children ::
    "nat \<Rightarrow> env \<Rightarrow> desk_env \<Rightarrow> bool \<Rightarrow> string list \<Rightarrow> drydock_row list \<Rightarrow> string list \<Rightarrow> (string list \<times> dict list) op"
where
  "destroy_tree 0 env de dry_run visited d cascaded = raise (PyError ''RecursionError'' [])"
| "destroy_tree (Suc n) env de dry_run visited d cascaded =
    (if dd_id d \<in> set visited then raise (destroy_cycle_detected (dd_id d))
     else
       bind (query (\<lambda>r. get_children r (dd_id d))) (\<lambda>children.
       bind (destroy_children n env de dry_run (dd_id d # visited) children cascaded) (\<lambda>(cascaded, failures).
       bind (destroy_one env de dry_run d) (\<lambda>more. ret (cascaded, failures @ more)))))"
| "destroy_children n env de dry_run visited [] cascaded = ret (cascaded, [])"
| "destroy_children n env de dry_run visited (child # children) cascaded =
     bind (destroy_tree n env de dry_run visited child (cascaded @ [dd_id child])) (\<lambda>(cascaded, failures).
     bind (destroy_children n env de dry_run visited children cascaded) (\<lambda>(cascaded, more).
       ret (cascaded, failures @ more)))"

definition no_such_desk :: "string \<Rightarrow> exn" where
  "no_such_desk i = rpc_err (-32001) ''desk_not_found'' [(''drydock_id'', JStr i)]"

definition destroy_desk :: "env \<Rightarrow> desk_env \<Rightarrow> bool \<Rightarrow> json \<Rightarrow> json \<Rightarrow> string option \<Rightarrow> json op" where
  "destroy_desk env de dry_run params request_id caller =
     bind (from_sum (validated_target ''drydock_id'' params)) (\<lambda>target.
     bind (query (\<lambda>r. lookup_by_name_or_id r target)) (\<lambda>found.
     bind (required found (no_such_desk (snd target))) (\<lambda>d.
     bind (query (\<lambda>r. length (drydocks r))) (\<lambda>depth.
     bind (destroy_tree (Suc depth) env de dry_run [] d []) (\<lambda>(cascaded, failures).
     andthen (emit_audit env ''drydock.destroyed'' caller request_id ''DestroyDesk''
         (if failures \<noteq> [] then ''error'' else ''ok'')
         [(''drydock_id'', JStr (dd_id d)), (''cascaded_children'', jstrs cascaded)])
       (ret (JObj ([(''destroyed'', JBool True), (''drydock_id'', JStr (dd_id d)), (''cascaded'', jstrs cascaded)] @
          (if failures \<noteq> [] then [(''partial_failures'', JList (map JObj failures))] else [])))))))))"

section \<open>Stopping and inspecting\<close>

definition stop_desk :: "env \<Rightarrow> bool \<Rightarrow> json \<Rightarrow> json op" where
  "stop_desk env dry_run params =
     bind (from_sum (validated_target ''name or drydock_id'' params)) (\<lambda>target.
     bind (query (\<lambda>r. lookup_by_name_or_id r target)) (\<lambda>found.
     bind (required found (no_such_desk (snd target))) (\<lambda>d.
     andthen (guarded (\<not> dry_run) (devc_stop env False (dd_container_id d)))
     (andthen (set_state env (dd_name d) ''suspended'')
       (ret (JObj [(''drydock_id'', JStr (dd_id d)), (''name'', JStr (dd_name d)),
          (''state'', JStr ''suspended'')]))))))"

text \<open>\<^verbatim>\<open>Drydock.to_dict\<close>: the fields of the dataclass.\<close>

definition desk_to_dict :: "drydock_row \<Rightarrow> dict" where
  "desk_to_dict d = [(''name'', JStr (dd_name d)), (''project'', JStr (dd_project d)),
     (''repo_path'', JStr (dd_repo_path d)), (''id'', JStr (dd_id d)),
     (''worktree_path'', JStr (dd_worktree_path d)), (''branch'', JStr (dd_branch d)),
     (''base_ref'', JStr (dd_base_ref d)), (''state'', JStr (dd_state d)),
     (''container_id'', JStr (dd_container_id d)), (''workspace_subdir'', JStr (dd_workspace_subdir d)),
     (''image'', JStr (dd_image d)), (''owner'', JStr (dd_owner d)), (''created_at'', JStr (dd_created_at d)),
     (''updated_at'', JStr (dd_updated_at d)), (''config'', JObj (dd_config d)),
     (''pinned_yaml_sha256'', JStr (pinned_yaml_sha256 d)), (''yard_id'', jopt (dd_yard_id d)),
     (''original_resources_hard'', JObj (original_resources_hard d))]"

definition inspect_desk :: "json \<Rightarrow> json op" where
  "inspect_desk params =
     bind (from_sum (validated_target ''name or drydock_id'' params)) (\<lambda>target.
     bind (query (\<lambda>r. lookup_by_name_or_id r target)) (\<lambda>found.
     bind (required found (no_such_desk (snd target))) (\<lambda>d.
       ret (JObj (desk_to_dict d)))))"

text \<open>A filter of a query: none when it is false, else the text SQLite compares with.\<close>

definition sql_filter :: "desk_env \<Rightarrow> json \<Rightarrow> exn + string option" where
  "sql_filter de v =
    (if \<not> truthy v then Inr None
     else (case v of
             JStr s \<Rightarrow> Inr (Some s)
           | _ \<Rightarrow> (case de_sql_text de v of None \<Rightarrow> Inl (PyError ''InterfaceError'' []) | Some s \<Rightarrow> Inr (Some s))))"

definition list_desks :: "desk_env \<Rightarrow> json \<Rightarrow> json op" where
  "list_desks de params =
    (let p = (case params of JObj d \<Rightarrow> d | _ \<Rightarrow> []) in
     bind (from_sum (sql_filter de (dict_get p ''project''))) (\<lambda>project.
     bind (from_sum (sql_filter de (dict_get p ''state''))) (\<lambda>state.
     bind (query (\<lambda>r. list_drydocks r project state)) (\<lambda>ds.
       ret (JObj [(''desks'', JList (map (JObj \<circ> desk_to_dict) ds))])))))"

definition list_children :: "desk_env \<Rightarrow> json \<Rightarrow> string option \<Rightarrow> json op" where
  "list_children de params caller =
     bind (from_sum (sql_filter de (case params of JObj d \<Rightarrow> dict_get d ''parent_id'' | _ \<Rightarrow> JNull))) (\<lambda>given.
     bind (required (case given of Some p \<Rightarrow> Some p | None \<Rightarrow> if caller = Some [] then None else caller)
             (invalid_params [(''missing'', jstrs [''parent_id''])])) (\<lambda>parent.
     bind (query (\<lambda>r. get_children r parent)) (\<lambda>ds.
       ret (JObj [(''children'', JList (map (JObj \<circ> desk_to_dict) ds))]))))"

definition whoami :: "string option \<Rightarrow> json op" where
  "whoami caller = ret (JObj [(''drydock_id'', jopt caller)])"

end
