(* ===== verification/Desk_Facts.thy ===== *)
theory Desk_Facts
  imports Desk_Teardown Registry_Facts
begin

text \<open>
  What creation and teardown of desks promise. The abstract side is the forest of desks: every
  desk's parent was registered before it (\<open>lineage_ok\<close>), and destroying a desk takes its whole
  tree out of the registry and nothing else (\<open>razed\<close>). The handlers are shown to implement it.
\<close>

section \<open>The forest of desks\<close>

fun rooted :: "string list \<Rightarrow> drydock_row list \<Rightarrow> bool" where
  "rooted known [] = True"
| "rooted known (d # ds) =
     ((case parent_drydock_id d of None \<Rightarrow> True | Some p \<Rightarrow> p \<in> set known) \<and> rooted (dd_id d # known) ds)"

definition lineage_ok :: "registry \<Rightarrow> bool" where
  "lineage_ok r \<longleftrightarrow> desk_keys_ok r \<and> rooted [] (drydocks r)"

definition parent_of :: "registry \<Rightarrow> (string \<times> string) set" where
  "parent_of r = {(dd_id d, p) | d p. d \<in> set (drydocks r) \<and> parent_drydock_id d = Some p}"

definition desk_tree :: "registry \<Rightarrow> string \<Rightarrow> string set" where
  "desk_tree r a = {i. (i, a) \<in> (parent_of r)\<^sup>*}"

lemma rooted_append:
  "rooted k (xs @ ys) \<longleftrightarrow> rooted k xs \<and> rooted (rev (map dd_id xs) @ k) ys"
  by (induction xs arbitrary: k) auto

lemma rooted_parent_before:
  "rooted k (xs @ d # ys) \<Longrightarrow> parent_drydock_id d = Some p \<Longrightarrow> p \<in> dd_id ` set xs \<union> set k"
  by (auto simp: rooted_append)

text \<open>Rows without children may go: the others keep their parents.\<close>

lemma rooted_filter:
  assumes "rooted k ds" "\<And>d p. d \<in> set ds \<Longrightarrow> Q d \<Longrightarrow> parent_drydock_id d = Some p \<Longrightarrow> p \<in> set k' \<or> (\<exists>e\<in>set ds. dd_id e = p \<and> Q e)"
    "distinct (map dd_id ds)" "set k \<inter> dd_id ` set ds = {}" "set k' \<subseteq> set k"
  shows "rooted k' (filter Q ds)"
  using assms
proof (induction ds arbitrary: k k')
  case (Cons d ds)
  let ?k' = "if Q d then dd_id d # k' else k'"
  have "rooted ?k' (filter Q ds)"
  proof (rule Cons.IH [of "dd_id d # k"])
    show "rooted (dd_id d # k) ds" using Cons.prems by simp
    fix e p assume "e \<in> set ds" "Q e" "parent_drydock_id e = Some p"
    then have "p \<in> set k' \<or> (\<exists>f\<in>set (d # ds). dd_id f = p \<and> Q f)" by (intro Cons.prems(2)) simp_all
    then show "p \<in> set ?k' \<or> (\<exists>f\<in>set ds. dd_id f = p \<and> Q f)" by auto
  qed (use Cons.prems in auto)
  moreover have "p \<in> set k'" if "Q d" "parent_drydock_id d = Some p" for p
  proof -
    have "p \<in> set k" using Cons.prems(1) that by simp
    then have "\<not> (\<exists>e\<in>set (d # ds). dd_id e = p)" using Cons.prems(4) by (auto simp: disjoint_iff)
    with Cons.prems(2) [of d p] that show ?thesis by auto
  qed
  ultimately show ?case by (auto split: option.splits)
qed simp

lemma lineage_id_inj:
  "lineage_ok r \<Longrightarrow> d \<in> set (drydocks r) \<Longrightarrow> e \<in> set (drydocks r) \<Longrightarrow> dd_id d = dd_id e \<longleftrightarrow> d = e"
  by (auto simp: lineage_ok_def desk_keys_ok_def distinct_map inj_on_def)

lemma lineage_name_inj:
  "lineage_ok r \<Longrightarrow> d \<in> set (drydocks r) \<Longrightarrow> e \<in> set (drydocks r) \<Longrightarrow> dd_name d = dd_name e \<longleftrightarrow> d = e"
  by (auto simp: lineage_ok_def desk_keys_ok_def distinct_map inj_on_def)

lemma parent_of_row:
  "lineage_ok r \<Longrightarrow> d \<in> set (drydocks r) \<Longrightarrow> (dd_id d, p) \<in> parent_of r \<longleftrightarrow> parent_drydock_id d = Some p"
  unfolding parent_of_def using lineage_id_inj by blast

lemma parent_before:
  "lineage_ok r \<Longrightarrow> drydocks r = xs @ d # ys \<Longrightarrow> (dd_id d, p) \<in> parent_of r \<Longrightarrow> p \<in> dd_id ` set xs"
  using parent_of_row [of r d p] rooted_parent_before [of "[]" xs d ys p] by (simp add: lineage_ok_def)

text \<open>A proper ancestor comes earlier in the table.\<close>

lemma ancestor_before:
  assumes "(i, a) \<in> (parent_of r)\<^sup>+" "lineage_ok r" "drydocks r = xs @ d # ys" "i = dd_id d"
  shows "a \<in> dd_id ` set xs"
  using assms
proof (induction arbitrary: xs d ys rule: converse_trancl_induct)
  case (base i)
  then show ?case by (auto intro: parent_before)
next
  case (step i p)
  then have "p \<in> dd_id ` set xs" by (auto intro: parent_before)
  then obtain e where "e \<in> set xs" and e: "p = dd_id e" by auto
  then obtain us vs where "xs = us @ e # vs" using split_list by fast
  moreover from this e have "a \<in> dd_id ` set us"
    using step.prems by (intro step.IH [of us e "vs @ d # ys"]) simp_all
  ultimately show ?case by auto
qed

lemma parent_of_mono: "set (drydocks r') \<subseteq> set (drydocks r) \<Longrightarrow> parent_of r' \<subseteq> parent_of r"
  by (auto simp: parent_of_def)

lemma desk_tree_mono: "set (drydocks r') \<subseteq> set (drydocks r) \<Longrightarrow> desk_tree r' a \<subseteq> desk_tree r a"
  unfolding desk_tree_def using rtrancl_mono [OF parent_of_mono] by blast

lemma desk_tree_refl [simp]: "a \<in> desk_tree r a"
  by (simp add: desk_tree_def)

lemma desk_tree_child:
  "d \<in> set (drydocks r) \<Longrightarrow> parent_drydock_id d = Some a \<Longrightarrow> desk_tree r (dd_id d) \<subseteq> desk_tree r a"
  unfolding desk_tree_def parent_of_def by (auto intro: rtrancl_into_rtrancl)

text \<open>Without the root none of its tree is left in a registry that has no orphans.\<close>

lemma tree_gone:
  assumes "lineage_ok r" "a \<notin> dd_id ` set (drydocks r)" "i \<in> desk_tree r a" "i \<in> dd_id ` set (drydocks r)"
  shows False
proof -
  have "(i, a) \<in> (parent_of r)\<^sup>+" using assms by (auto simp: desk_tree_def rtrancl_eq_or_trancl)
  moreover obtain d where "d \<in> set (drydocks r)" "i = dd_id d" using assms(4) by auto
  moreover from this obtain xs ys where "drydocks r = xs @ d # ys" using split_list by fast
  ultimately show False using ancestor_before [of i a r xs d ys] assms by auto
qed

section \<open>Razing\<close>

definition closed_lease :: "CapabilityLease \<Rightarrow> CapabilityLease" where
  "closed_lease l = l\<lparr>ls_revoked := True, ls_revocation_reason := Some ''desk_destroyed''\<rparr>"

text \<open>
  The desks of \<open>S\<close> are gone, their leases revoked and their tokens deleted; every other row of
  these tables is as before.
\<close>

definition razed :: "string set \<Rightarrow> registry \<Rightarrow> registry \<Rightarrow> bool" where
  "razed S r r' \<longleftrightarrow>
     drydocks r' = filter (\<lambda>d. dd_id d \<notin> S) (drydocks r) \<and>
     leases r' = update_where (\<lambda>l. ls_drydock_id l \<in> S \<and> \<not> ls_revoked l) closed_lease (leases r) \<and>
     tokens r' = filter (\<lambda>t. tk_drydock_id t \<notin> S) (tokens r) \<and>
     task_log r' = task_log r \<and> workload_leases r' = workload_leases r"

lemma razed_empty: "razed {} r r"
  by (simp add: razed_def update_where_def)

lemma razed_compose: "razed S r r1 \<Longrightarrow> razed T r1 r2 \<Longrightarrow> razed (S \<union> T) r r2"
  by (auto simp: razed_def update_where_def closed_lease_def filter_filter conj_commute cong: filter_cong)

lemma razed_rows: "razed S r r' \<Longrightarrow> set (drydocks r') \<subseteq> set (drydocks r)"
  by (auto simp: razed_def)

lemma razed_lineage:
  assumes "razed S r r'" "lineage_ok r"
    "\<And>d p. d \<in> set (drydocks r) \<Longrightarrow> parent_drydock_id d = Some p \<Longrightarrow> p \<in> S \<Longrightarrow> dd_id d \<in> S"
  shows "lineage_ok r'"
proof -
  have "rooted [] (filter (\<lambda>d. dd_id d \<notin> S) (drydocks r))"
  proof (rule rooted_filter [where k = "[]"])
    fix d p assume "d \<in> set (drydocks r)" "dd_id d \<notin> S" "parent_drydock_id d = Some p"
    moreover then obtain xs ys where "drydocks r = xs @ d # ys" by (metis split_list)
    ultimately show "p \<in> set [] \<or> (\<exists>e\<in>set (drydocks r). dd_id e = p \<and> dd_id e \<notin> S)"
      using assms(2,3) rooted_parent_before [of "[]" xs d ys p] by (fastforce simp: lineage_ok_def)
  qed (use assms in \<open>auto simp: lineage_ok_def desk_keys_ok_def\<close>)
  with assms(1,2) show ?thesis by (auto simp: lineage_ok_def desk_keys_ok_def razed_def)
qed

section \<open>One desk\<close>

lemma settled_ext [keeps_rules]: "keeps (settled r f) (ext g)"
  unfolding ext_def by (intro keeps_rules)

lemma settled_path_exists [keeps_rules]: "keeps (settled r f) (path_exists de p)"
  unfolding path_exists_def by (intro keeps_rules)

lemma settled_devc_docker [keeps_rules]: "keeps (settled r f) (devc_docker env dry v fx c)"
  unfolding devc_docker_def
  by (intro keeps_if keeps_ret keeps_bind settled_run) (auto split: proc.split intro: keeps_rules)

lemma settled_drop_overlay [keeps_rules]: "keeps (settled r f) (drop_overlay de d)"
  unfolding drop_overlay_def
  by (intro keeps_try_except settled_ext) (auto split: exn.split intro: keeps_rules)

lemma settled_remove_worktree [keeps_rules]: "keeps (settled r f) (remove_worktree de d)"
  unfolding remove_worktree_def by (intro keeps_rules)

text \<open>The only files that may be missing afterwards are the tokens of the desks of \<open>S\<close>; no file is written.\<close>

definition files_kept :: "string set \<Rightarrow> world \<Rightarrow> world \<Rightarrow> bool" where
  "files_kept S w w' \<longleftrightarrow> (\<forall>k. w_files w' k = w_files w k \<or>
     fst k \<in> S \<and> snd k = ''drydock-token'' \<and> w_files w' k = None)"

lemma files_kept_same: "w_files w' = w_files w \<Longrightarrow> files_kept S w w'"
  by (simp add: files_kept_def)

lemma files_kept_trans: "files_kept S w w1 \<Longrightarrow> files_kept T w1 w2 \<Longrightarrow> files_kept (S \<union> T) w w2"
  unfolding files_kept_def by (metis Un_iff)

lemma files_kept_twice: "files_kept S w w1 \<Longrightarrow> files_kept S w1 w2 \<Longrightarrow> files_kept S w w2"
  using files_kept_trans [of S w w1 S w2] by simp

text \<open>A step on the desk \<open>own\<close> that never raises, with what it does to the registry and the files.\<close>

definition does ::
    "string \<Rightarrow> 'a op \<Rightarrow> (registry \<Rightarrow> registry \<Rightarrow> bool) \<Rightarrow> bool" where
  "does own m R \<longleftrightarrow> (\<forall>w. \<exists>x w'. m w = (Inr x, w') \<and> R (w_reg w) (w_reg w') \<and> files_kept {own} w w')"

lemma does_attempt:
  assumes "\<And>w res w'. m w = (res, w') \<Longrightarrow> R (w_reg w) (w_reg w') \<and> files_kept {own} w w'"
  shows "does own (attempt d step m) R"
  unfolding does_def
proof
  fix w
  obtain res w' where "m w = (res, w')" by fastforce
  with assms [OF this] show "\<exists>x w'. attempt d step m w = (Inr x, w') \<and> R (w_reg w) (w_reg w') \<and> files_kept {own} w w'"
    by (cases res) (auto simp: attempt_def try_except_def andthen_def bind_def ret_def)
qed

lemma does_settled_attempt:
  assumes "\<And>r f. keeps (settled r f) m"
  shows "does own (attempt d step m) (=)"
  by (rule does_attempt) (simp add: settledD [OF assms] files_kept_same)

lemma does_Nil: "does own (attempts []) (=)"
  by (simp add: does_def ret_def files_kept_same)

lemma does_Cons: "does own m R \<Longrightarrow> does own (attempts ms) S \<Longrightarrow> does own (attempts (m # ms)) (R OO S)"
  unfolding does_def attempts.simps bind_def
proof (intro allI)
  fix w
  assume m: "\<forall>w. \<exists>x w'. m w = (Inr x, w') \<and> R (w_reg w) (w_reg w') \<and> files_kept {own} w w'"
    and ms: "\<forall>w. \<exists>x w'. attempts ms w = (Inr x, w') \<and> S (w_reg w) (w_reg w') \<and> files_kept {own} w w'"
  obtain x w1 where 1: "m w = (Inr x, w1)" "R (w_reg w) (w_reg w1)" "files_kept {own} w w1" using m by blast
  obtain y w2 where 2: "attempts ms w1 = (Inr y, w2)" "S (w_reg w1) (w_reg w2)" "files_kept {own} w1 w2" using ms by blast
  from 1 2 files_kept_twice [OF 1(3) 2(3)] show "\<exists>z w'. (case m w of (Inl e, w') \<Rightarrow> (Inl e, w') | (Inr fs, w') \<Rightarrow>
       case attempts ms w' of (Inl e, w') \<Rightarrow> (Inl e, w') | (Inr gs, w') \<Rightarrow> ret (fs @ gs) w') = (Inr z, w') \<and>
     (R OO S) (w_reg w) (w_reg w') \<and> files_kept {own} w w'"
    by (auto simp: ret_def)
qed

lemma does_revoke_leases:
  "does own (attempt d s (revoke_desk_leases env d)) (\<lambda>r r'. r' = snd (revoke_leases_for_desk d ''desk_destroyed'' r))"
proof (rule does_attempt)
  fix w res w' assume a: "revoke_desk_leases env d w = (res, w')"
  let ?w = "w\<lparr>w_reg := snd (revoke_leases_for_desk d ''desk_destroyed'' (w_reg w))\<rparr>"
  have "for_each (lease_released_entry env d) (list_active_leases_for_desk (w_reg w) d) ?w = (res, w')"
    using a by (auto simp: revoke_desk_leases_def bind_def query_def reads_def update_reg_def split: prod.splits)
  moreover have "keeps (settled r f) (for_each (lease_released_entry env d) ls)" for r f ls
    unfolding lease_released_entry_def by (intro keeps_rules)
  ultimately have "w_reg w' = w_reg ?w" "w_files w' = w_files ?w" using settledD by blast+
  then show "w_reg w' = snd (revoke_leases_for_desk d ''desk_destroyed'' (w_reg w)) \<and> files_kept {own} w w'"
    by (simp add: files_kept_same)
qed

lemma does_revoke_token: "does own (attempt d s (revoke_desk_token env i)) (\<lambda>r r'. r' = delete_token i r)"
proof (rule does_attempt)
  fix w res w' assume a: "revoke_desk_token env i w = (res, w')"
  let ?w = "w\<lparr>w_reg := delete_token i (w_reg w)\<rparr>"
  have "emit_audit env ''token.revoked'' (Some i) JNull ''DestroyDesk'' ''ok'' [(''drydock_id'', JStr i)] ?w = (res, w')"
    using a by (simp add: revoke_desk_token_def andthen_def bind_def execute_def writes_def)
  then have "w_reg w' = w_reg ?w" "w_files w' = w_files ?w"
    using settledD [OF settled_emit_audit] by blast+
  then show "w_reg w' = delete_token i (w_reg w) \<and> files_kept {own} w w'"
    by (simp add: files_kept_same)
qed

lemma does_drop_token: "does i (attempt d s (os_step env (drop_file i ''drydock-token''))) (=)"
  by (rule does_attempt)
    (auto simp: os_step_def bind_def tick_def raise_def writes_def drop_file_def files_kept_def split: option.splits)

lemma does_delete_row: "does own (attempt d s (delete_row env n)) (\<lambda>r r'. \<exists>now. r' = delete_drydock now n r)"
  by (rule does_attempt) (auto simp: delete_row_def effect_defs files_kept_def)

lemma does_worktree: "does own (remove_worktree de d) (=)"
  by (auto simp: does_def remove_worktree_def path_exists_def effect_defs files_kept_def)

lemmas does_rules = does_Cons does_Nil does_settled_attempt does_revoke_leases does_revoke_token
  does_drop_token does_delete_row does_worktree

lemma does_mono: "does own m R \<Longrightarrow> (\<And>r r'. R r r' \<Longrightarrow> S r r') \<Longrightarrow> does own m S"
  unfolding does_def by meson

lemma destroy_one_does:
  "does (dd_id d) (destroy_one env de dry d) (\<lambda>r r'. \<exists>now. r' = delete_drydock now (dd_name d)
     (delete_token (dd_id d) (snd (revoke_leases_for_desk (dd_id d) ''desk_destroyed'' r))))"
proof -
  have docker: "does own (attempt i s (devc_stop env dry c)) (=)" "does own (attempt i s (devc_remove env dry c)) (=)" for own i s c
    unfolding devc_stop_def devc_remove_def by (intro does_rules keeps_rules)+
  have idle: "does own (attempt i s (os_step env (\<lambda>w. w))) (=)" "does own (attempt i s (drop_overlay de d)) (=)" for own i s
    by (intro does_rules keeps_rules)+
  have steps: "does own (attempts ms) R \<Longrightarrow> does own (attempts ([attempt i s (devc_stop env dry c),
      attempt i' s' (devc_remove env dry c)] @ ms)) R" for own ms R i s i' s' c
    using does_Cons [OF docker(1) does_Cons [OF docker(2)]] by (simp add: eq_OO)
  have "does (dd_id d) (attempts [attempt (dd_id d) ''lease_revoke'' (revoke_desk_leases env (dd_id d)),
        attempt (dd_id d) ''token_delete'' (revoke_desk_token env (dd_id d)),
        attempt (dd_id d) ''token_file_remove'' (os_step env (drop_file (dd_id d) ''drydock-token'')),
        attempt (dd_id d) ''secret_dir_handle'' (os_step env (\<lambda>w. w)),
        remove_worktree de d,
        attempt (dd_id d) ''overlay_remove'' (drop_overlay de d),
        attempt (dd_id d) ''drydock_delete'' (delete_row env (dd_name d))])
      (\<lambda>r r'. \<exists>now. r' = delete_drydock now (dd_name d)
     (delete_token (dd_id d) (snd (revoke_leases_for_desk (dd_id d) ''desk_destroyed'' r))))" (is "does ?own ?m ?R")
    by (rule does_mono, (rule does_Cons does_Nil idle does_revoke_leases does_revoke_token does_drop_token
      does_delete_row does_worktree)+) (auto simp: OO_def)
  from this steps [OF this] show ?thesis
    unfolding destroy_one_def by (cases "dd_container_id d = []") (simp_all only: append_Nil simp_thms if_True if_False)
qed

lemma destroy_one_razes:
  assumes "lineage_ok r" "d \<in> set (drydocks r)"
  shows "razed {dd_id d} r (delete_drydock now (dd_name d)
     (delete_token (dd_id d) (snd (revoke_leases_for_desk (dd_id d) ''desk_destroyed'' r))))"
proof -
  have "filter (\<lambda>e. dd_name e \<noteq> dd_name d) (drydocks r) = filter (\<lambda>e. dd_id e \<noteq> dd_id d) (drydocks r)"
    using lineage_name_inj [OF assms(1)] lineage_id_inj [OF assms(1)] assms(2) by (intro filter_cong) auto
  then show ?thesis
    by (simp add: razed_def delete_drydock_def delete_token_def revoke_leases_for_desk_def Let_def delete_where_def
        update_where_def closed_lease_def log_event_def get_drydock_def split: option.split)
qed

section \<open>The whole tree\<close>

text \<open>
  What a call of \<open>destroy_tree\<close> on a registered desk does, given fuel for the rows after it and
  ancestors only among the rows before it.
\<close>

definition tree_call :: "registry \<Rightarrow> drydock_row \<Rightarrow> string list \<Rightarrow> nat \<Rightarrow> bool" where
  "tree_call r d visited n \<longleftrightarrow> (\<exists>xs ys. drydocks r = xs @ d # ys \<and> set visited \<subseteq> dd_id ` set xs \<and> length ys < n)"

definition children_call :: "registry \<Rightarrow> string \<Rightarrow> drydock_row list \<Rightarrow> string list \<Rightarrow> nat \<Rightarrow> bool" where
  "children_call r a ds visited n \<longleftrightarrow> (\<exists>xs ys. drydocks r = xs @ ys \<and> set visited \<subseteq> dd_id ` set xs \<and>
     a \<in> dd_id ` set xs \<and> set ds \<subseteq> set ys \<and> length ys \<le> n) \<and>
     (\<forall>d\<in>set ds. parent_drydock_id d = Some a) \<and> distinct ds"

definition razes :: "string set \<Rightarrow> string set \<Rightarrow> 'a op \<Rightarrow> world \<Rightarrow> bool" where
  "razes A B m w \<longleftrightarrow> (\<exists>x w' S. m w = (Inr x, w') \<and> A \<subseteq> S \<and> S \<subseteq> B \<and> razed S (w_reg w) (w_reg w') \<and>
     lineage_ok (w_reg w') \<and> files_kept S w w')"

text \<open>Upwards, a chain of parents never leaves a front part of the table.\<close>

lemma up_closed:
  assumes "(i, c) \<in> (parent_of r)\<^sup>*" "lineage_ok r" "drydocks r = xs @ ys" "i \<in> dd_id ` set xs"
  shows "c \<in> dd_id ` set xs"
proof (cases "i = c")
  case False
  then have "(i, c) \<in> (parent_of r)\<^sup>+" using assms(1) by (simp add: rtrancl_eq_or_trancl)
  moreover obtain d where "d \<in> set xs" and d: "i = dd_id d" using assms(4) by auto
  moreover from this obtain us vs where "xs = us @ d # vs" using split_list by fast
  ultimately have "c \<in> dd_id ` set us"
    using assms(2,3) by (intro ancestor_before [of i c r us d "vs @ ys"]) simp_all
  then show ?thesis using \<open>xs = us @ d # vs\<close> by auto
qed (use assms in simp)

lemma front_not_in_back_tree:
  assumes "lineage_ok r" "drydocks r = xs @ ys" "i \<in> dd_id ` set xs" "d \<in> set ys"
  shows "i \<notin> desk_tree r (dd_id d)"
proof
  assume "i \<in> desk_tree r (dd_id d)"
  then have "dd_id d \<in> dd_id ` set xs" using up_closed assms by (simp add: desk_tree_def)
  then show False using assms by (auto simp: lineage_ok_def desk_keys_ok_def distinct_map inj_on_def)
qed

lemma sibling_not_in_tree:
  assumes "lineage_ok r" "drydocks r = xs @ ys" "a \<in> dd_id ` set xs" "d \<in> set ys" "e \<in> set ys"
    "parent_drydock_id e = Some a" "e \<noteq> d"
  shows "dd_id e \<notin> desk_tree r (dd_id d)"
proof
  assume "dd_id e \<in> desk_tree r (dd_id d)"
  moreover have "dd_id e \<noteq> dd_id d" using assms lineage_id_inj [of r e d] by auto
  ultimately have "(dd_id e, dd_id d) \<in> (parent_of r)\<^sup>+" by (simp add: desk_tree_def rtrancl_eq_or_trancl)
  then obtain p where "(dd_id e, p) \<in> parent_of r" "(p, dd_id d) \<in> (parent_of r)\<^sup>*" by (meson tranclD)
  moreover from this have "p = a" using parent_of_row [of r e p] assms by simp
  ultimately have "a \<in> desk_tree r (dd_id d)" by (simp add: desk_tree_def)
  then show False using front_not_in_back_tree [OF assms(1-4)] by simp
qed

lemma children_after:
  assumes "lineage_ok r" "drydocks r = xs @ d # ys" "e \<in> set (drydocks r)" "parent_drydock_id e = Some (dd_id d)"
  shows "e \<in> set ys"
proof (rule ccontr)
  assume "e \<notin> set ys"
  then have "e \<in> set (xs @ [d])" using assms(2,3) by auto
  from split_list [OF this] obtain us vs where uv: "xs @ [d] = us @ e # vs" by blast
  then have "drydocks r = us @ e # vs @ ys" using assms(2) by (metis append.assoc append_Cons append_Nil)
  moreover have "(dd_id e, dd_id d) \<in> parent_of r" using assms parent_of_row by blast
  ultimately have "dd_id d \<in> dd_id ` set us" using parent_before assms(1) by blast
  moreover have "set us \<subseteq> set xs" using uv by (cases vs rule: rev_cases) auto
  ultimately show False
    using assms(1,2) by (auto simp: lineage_ok_def desk_keys_ok_def)
qed

lemma children_call_rest:
  assumes "lineage_ok r" "children_call r a (c # cs) visited n" "razed S r r'" "S \<subseteq> desk_tree r (dd_id c)"
  shows "children_call r' a cs visited n"
proof -
  obtain xs ys where xy: "drydocks r = xs @ ys" "set visited \<subseteq> dd_id ` set xs" "a \<in> dd_id ` set xs"
    "c \<in> set ys" "set cs \<subseteq> set ys" "length ys \<le> n" "\<forall>d\<in>set cs. parent_drydock_id d = Some a" "c \<notin> set cs" "distinct cs"
    using assms(2) by (auto simp: children_call_def)
  have "dd_id d \<notin> S" if "d \<in> set xs" for d
    using front_not_in_back_tree [OF assms(1) xy(1) _ xy(4)] assms(4) that by blast
  then have "filter (\<lambda>d. dd_id d \<notin> S) xs = xs" by (simp add: filter_id_conv)
  moreover have "dd_id e \<notin> S" if "e \<in> set cs" for e
    using sibling_not_in_tree [OF assms(1) xy(1,3,4), of e] xy that assms(4) by blast
  ultimately show ?thesis
    unfolding children_call_def using xy assms(3)
    by (intro conjI exI [of _ xs] exI [of _ "filter (\<lambda>d. dd_id d \<notin> S) ys"])
      (auto simp: razed_def intro: order_trans [OF length_filter_le])
qed

lemma razes_children:
  assumes tree: "\<And>w d v c. lineage_ok (w_reg w) \<Longrightarrow> tree_call (w_reg w) d v n \<Longrightarrow>
    razes {dd_id d} (desk_tree (w_reg w) (dd_id d)) (destroy_tree n env de dry v d c) w"
  shows "lineage_ok (w_reg w) \<Longrightarrow> children_call (w_reg w) a ds v n \<Longrightarrow>
    razes (dd_id ` set ds) (\<Union>d\<in>set ds. desk_tree (w_reg w) (dd_id d)) (destroy_children n env de dry v ds c) w"
proof (induction ds arbitrary: w c)
  case Nil
  then show ?case
    by (auto simp: razes_def ret_def files_kept_def razed_empty intro!: exI [of _ "{}"])
next
  case (Cons d ds)
  obtain xs ys where "drydocks (w_reg w) = xs @ ys" "set v \<subseteq> dd_id ` set xs" "d \<in> set ys" "length ys \<le> n"
    using Cons.prems(2) by (auto simp: children_call_def)
  moreover from split_list [OF this(3)] obtain as bs where "ys = as @ d # bs" by blast
  ultimately have "tree_call (w_reg w) d v n"
    unfolding tree_call_def by (intro exI [of _ "xs @ as"] exI [of _ bs]) auto
  from tree [OF Cons.prems(1) this, of "c @ [dd_id d]"] obtain x w1 S where
    1: "destroy_tree n env de dry v d (c @ [dd_id d]) w = (Inr x, w1)" "dd_id d \<in> S"
    "S \<subseteq> desk_tree (w_reg w) (dd_id d)" "razed S (w_reg w) (w_reg w1)" "lineage_ok (w_reg w1)" "files_kept S w w1"
    by (auto simp: razes_def)
  note Cons.IH [OF 1(5) children_call_rest [OF Cons.prems 1(4,3)], of "fst x"]
  then obtain y w2 T where
    2: "destroy_children n env de dry v ds (fst x) w1 = (Inr y, w2)" "dd_id ` set ds \<subseteq> T"
    "T \<subseteq> (\<Union>d\<in>set ds. desk_tree (w_reg w1) (dd_id d))" "razed T (w_reg w1) (w_reg w2)"
    "lineage_ok (w_reg w2)" "files_kept T w1 w2"
    by (auto simp: razes_def)
  have "T \<subseteq> (\<Union>d\<in>set ds. desk_tree (w_reg w) (dd_id d))"
    using 2(3) desk_tree_mono [OF razed_rows [OF 1(4)]] by blast
  with 1 2 razed_compose [OF 1(4) 2(4)] files_kept_trans [OF 1(6) 2(6)] show ?case
    unfolding razes_def
    by (intro exI [of _ "(fst y, snd x @ snd y)"] exI [of _ w2] exI [of _ "S \<union> T"])
      (auto simp: bind_def ret_def split: prod.split)
qed

lemma children_of_call:
  assumes "lineage_ok r" "drydocks r = xs @ d # ys" "set v \<subseteq> dd_id ` set xs" "length ys \<le> n"
  shows "children_call r (dd_id d) (get_children r (dd_id d)) (dd_id d # v) n"
proof -
  have "set (get_children r (dd_id d)) \<subseteq> set ys"
    using children_after [OF assms(1,2)] by (auto simp: get_children_def)
  moreover have "distinct (drydocks r)" using assms(1) by (auto simp: lineage_ok_def desk_keys_ok_def distinct_map)
  then have "distinct (get_children r (dd_id d))" by (simp add: get_children_def)
  ultimately show ?thesis
    unfolding children_call_def using assms
    by (intro conjI exI [of _ "xs @ [d]"] exI [of _ ys]) (auto simp: get_children_def)
qed

lemma razes_root:
  assumes "lineage_ok r" "d \<in> set (drydocks r)" "razed S r r1" "lineage_ok r1"
    "dd_id ` set (get_children r (dd_id d)) \<subseteq> S" "dd_id d \<notin> S" "razed {dd_id d} r1 r2"
  shows "lineage_ok r2"
proof (rule razed_lineage [OF assms(7,4)])
  fix e p assume "e \<in> set (drydocks r1)" "parent_drydock_id e = Some p" "p \<in> {dd_id d}"
  moreover from this have "e \<in> set (get_children r (dd_id d))"
    using razed_rows [OF assms(3)] by (auto simp: get_children_def)
  ultimately show "dd_id e \<in> {dd_id d}" using assms(3,5) by (auto simp: razed_def)
qed

lemma razes_tree:
  "lineage_ok (w_reg w) \<Longrightarrow> tree_call (w_reg w) d v n \<Longrightarrow>
    razes {dd_id d} (desk_tree (w_reg w) (dd_id d)) (destroy_tree n env de dry v d c) w"
proof (induction n arbitrary: w d v c)
  case (Suc n)
  let ?r = "w_reg w"
  obtain xs ys where xy: "drydocks ?r = xs @ d # ys" "set v \<subseteq> dd_id ` set xs" "length ys \<le> n"
    using Suc.prems(2) by (auto simp: tree_call_def)
  let ?ds = "get_children ?r (dd_id d)"
  have ds: "set ?ds \<subseteq> set ys" using children_after [OF Suc.prems(1) xy(1)] by (auto simp: get_children_def)
  have fresh: "dd_id d \<notin> set v" using Suc.prems(1) xy by (auto simp: lineage_ok_def desk_keys_ok_def)
  obtain x w1 S where 1: "destroy_children n env de dry (dd_id d # v) ?ds c w = (Inr x, w1)"
    "dd_id ` set ?ds \<subseteq> S" "S \<subseteq> (\<Union>e\<in>set ?ds. desk_tree ?r (dd_id e))" "razed S ?r (w_reg w1)"
    "lineage_ok (w_reg w1)" "files_kept S w w1"
    using razes_children [OF Suc.IH Suc.prems(1) children_of_call [OF Suc.prems(1) xy]] unfolding razes_def by blast
  have "S \<subseteq> desk_tree ?r (dd_id d)"
    using 1(3) desk_tree_child [of _ ?r "dd_id d"] by (auto simp: get_children_def)
  moreover have d: "dd_id d \<notin> S"
  proof -
    have "dd_id d \<notin> desk_tree ?r (dd_id e)" if "e \<in> set ys" for e
      by (rule front_not_in_back_tree [OF Suc.prems(1), of "xs @ [d]" ys]) (use xy that in auto)
    then show ?thesis using 1(3) ds by blast
  qed
  then have "d \<in> set (drydocks (w_reg w1))" using 1(4) xy(1) by (simp add: razed_def)
  note one = destroy_one_razes [OF 1(5) this]
  obtain more w2 now where 2: "destroy_one env de dry d w1 = (Inr more, w2)"
    "w_reg w2 = delete_drydock now (dd_name d) (delete_token (dd_id d)
      (snd (revoke_leases_for_desk (dd_id d) ''desk_destroyed'' (w_reg w1))))" "files_kept {dd_id d} w1 w2"
    using destroy_one_does unfolding does_def by blast
  have "lineage_ok (w_reg w2)"
    using razes_root [OF Suc.prems(1) _ 1(4,5,2) d] one 2(2) xy(1) by simp
  with calculation 1 2 fresh razed_compose [OF 1(4) one] files_kept_trans [OF 1(6) 2(3)] show ?case
    unfolding razes_def
    by (intro exI [of _ "(fst x, snd x @ more)"] exI [of _ w2] exI [of _ "S \<union> {dd_id d}"])
      (auto simp: bind_def ret_def query_def reads_def split: prod.split)
qed (simp add: tree_call_def)

text \<open>What was razed is closed downwards, so it is the whole tree.\<close>

lemma razed_closed:
  assumes "(i, a) \<in> (parent_of r)\<^sup>*" "razed S r r'" "lineage_ok r'" "a \<in> S"
  shows "i \<in> S"
  using assms(1)
proof (induction rule: converse_rtrancl_induct)
  case (step i p)
  then obtain d where d: "d \<in> set (drydocks r)" "i = dd_id d" "parent_drydock_id d = Some p"
    by (auto simp: parent_of_def)
  show ?case
  proof (rule ccontr)
    assume "i \<notin> S"
    then have "d \<in> set (drydocks r')" using d assms(2) by (simp add: razed_def)
    from split_list [OF this] obtain xs ys where "drydocks r' = xs @ d # ys" by blast
    moreover have "(dd_id d, p) \<in> parent_of r'" using \<open>d \<in> set (drydocks r')\<close> d by (auto simp: parent_of_def)
    ultimately have "p \<in> dd_id ` set (drydocks r')" using parent_before [OF assms(3)] by fastforce
    then show False using step.IH assms(2) by (auto simp: razed_def)
  qed
qed (use assms in simp)

lemma destroy_tree_razes:
  assumes "lineage_ok (w_reg w)" "d \<in> set (drydocks (w_reg w))" "length (drydocks (w_reg w)) \<le> n"
  obtains x w' where "destroy_tree n env de dry [] d c w = (Inr x, w')"
    "razed (desk_tree (w_reg w) (dd_id d)) (w_reg w) (w_reg w')" "lineage_ok (w_reg w')" "files_kept (desk_tree (w_reg w) (dd_id d)) w w'"
proof -
  from split_list [OF assms(2)] obtain xs ys where "drydocks (w_reg w) = xs @ d # ys" by blast
  then have "tree_call (w_reg w) d [] n" using assms(3) unfolding tree_call_def by (intro exI [of _ xs] exI [of _ ys]) simp
  from razes_tree [OF assms(1) this, of env de dry c] obtain x w' S where
    1: "destroy_tree n env de dry [] d c w = (Inr x, w')" "dd_id d \<in> S" "S \<subseteq> desk_tree (w_reg w) (dd_id d)"
    "razed S (w_reg w) (w_reg w')" "lineage_ok (w_reg w')" "files_kept S w w'"
    by (auto simp: razes_def)
  moreover have "S = desk_tree (w_reg w) (dd_id d)"
    using razed_closed [OF _ 1(4,5,2)] 1(3) by (auto simp: desk_tree_def)
  ultimately show ?thesis using that by blast
qed

end
