(* ===== verification/Desk_Properties.thy ===== *)
theory Desk_Properties
  imports Desk_Facts Sample
begin

text \<open>
  The properties of the desk handlers: they keep the forest of desks, spawning only admits what
  the narrowness check allows, and destroying a desk takes out exactly its tree.
\<close>

section \<open>Updates that keep a desk's place\<close>

definition keeps_place :: "(drydock_row \<Rightarrow> drydock_row) \<Rightarrow> bool" where
  "keeps_place f \<longleftrightarrow> (\<forall>d. dd_id (f d) = dd_id d \<and> dd_name (f d) = dd_name d \<and> parent_drydock_id (f d) = parent_drydock_id d)"

text \<open>What no step of a create after the registration changes: keys, parent and policy.\<close>

definition desk_core where
  "desk_core d = (dd_id d, dd_name d, parent_drydock_id d, delegatable_firewall_domains d, delegatable_secrets d,
     capabilities d, delegatable_storage_scopes d, delegatable_provision_scopes d, delegatable_network_reach d,
     network_reach_ports d)"

lemma desk_core_touch [simp]: "desk_core (d\<lparr>dd_updated_at := t\<rparr>) = desk_core d"
  by (simp add: desk_core_def)

definition keeps_core :: "(drydock_row \<Rightarrow> drydock_row) \<Rightarrow> bool" where
  "keeps_core f \<longleftrightarrow> (\<forall>d. desk_core (f d) = desk_core d)"

lemma keeps_core_place: "keeps_core f \<Longrightarrow> keeps_place f"
  by (simp add: keeps_core_def keeps_place_def desk_core_def)

lemma rooted_map:
  "(\<And>d. dd_id (f d) = dd_id d) \<Longrightarrow> (\<And>d. parent_drydock_id (f d) = parent_drydock_id d) \<Longrightarrow>
   rooted k (map f ds) = rooted k ds"
  by (induction ds arbitrary: k) simp_all

lemma lineage_update_where:
  assumes "lineage_ok r" "keeps_place f"
  shows "lineage_ok (r\<lparr>drydocks := update_where P f (drydocks r)\<rparr>)"
proof -
  have f: "dd_id (f d) = dd_id d" "dd_name (f d) = dd_name d" "parent_drydock_id (f d) = parent_drydock_id d" for d
    using assms(2) by (simp_all add: keeps_place_def)
  have "rooted k (update_where P f ds) = rooted k ds" for k ds
    unfolding update_where_def by (rule rooted_map) (simp_all add: f)
  with assms(1) show ?thesis
    by (simp add: lineage_ok_def desk_keys_ok_def map_update_where f)
qed

lemma lineage_log_event [simp]: "lineage_ok (log_event now d e dat r) = lineage_ok r"
  by (simp add: lineage_ok_def desk_keys_ok_def log_event_def)

lemma lineage_update_drydock:
  assumes "lineage_ok r" "keeps_place f"
  shows "lineage_ok (snd (update_drydock now n (Some f) r))"
proof -
  have "keeps_place (\<lambda>d. (f d)\<lparr>dd_updated_at := now\<rparr>)" using assms(2) by (simp add: keeps_place_def)
  from lineage_update_where [OF assms(1) this] show ?thesis by (simp add: update_drydock_def Let_def)
qed

lemma lineage_update_state: "lineage_ok r \<Longrightarrow> lineage_ok (snd (update_state now n st r))"
  by (auto simp: update_state_def Let_def keeps_place_def split: option.split intro!: lineage_update_where)

lemma lineage_delegations: "lineage_ok r \<Longrightarrow> lineage_ok (update_desk_delegations now n g r)"
  by (auto simp: update_desk_delegations_def apply_delegations_def keeps_place_def intro: lineage_update_drydock)

lemma lineage_insert_token: "lineage_ok r \<Longrightarrow> lineage_ok (insert_token d sha ts r)"
  by (simp add: insert_token_def lineage_ok_def desk_keys_ok_def)

lemma get_drydock_update_where:
  "(\<And>d. dd_name (f d) = dd_name d) \<Longrightarrow>
   get_drydock (r\<lparr>drydocks := update_where Q f (drydocks r)\<rparr>) n = map_option (\<lambda>d. if Q d then f d else d) (get_drydock r n)"
  by (simp add: get_drydock_def find_update_where)

section \<open>The steps around the registration\<close>

text \<open>
  An invariant of the registry that the create, resume and stop paths cannot break: closed under
  updates of a desk that keep its core, under changes of state and under new tokens.
\<close>

locale desk_frame =
  fixes I :: "registry \<Rightarrow> bool"
  assumes I_update: "keeps_core f \<Longrightarrow> I r \<Longrightarrow> I (snd (update_drydock now n (Some f) r))"
    and I_state: "I r \<Longrightarrow> I (snd (update_state now n st r))"
    and I_token: "I r \<Longrightarrow> I (insert_token d sha ts r)"
begin

lemma row: "keeps_core f \<Longrightarrow> keeps (on_reg I) (update_row env n f)"
  unfolding update_row_def by (intro keeps_rules keeps_update_reg I_update)

lemma state: "keeps (on_reg I) (set_state env n st)"
  unfolding set_state_def by (intro keeps_rules keeps_update_reg I_state)

lemma outside: "keeps (on_reg I) (ext g)" "keeps (on_reg I) (path_exists de p)"
  unfolding ext_def path_exists_def by (intro keeps_rules)+

lemma acl: "keeps (on_reg I) (write_smokescreen_acl de d ds)"
  unfolding write_smokescreen_acl_def Let_def by (intro keeps_rules outside keeps_writes) simp

lemma idle: "keeps (on_reg I) (os_step env (\<lambda>w. w))"
  by (rule keeps_os_step)

lemma up: "keeps (on_reg I) (up_or_error env dry n f ov)"
  unfolding up_or_error_def
  by (intro keeps_try_except keeps_reg_devc_up) (auto split: exn.split intro: keeps_rules state)

lemma container: "keeps (on_reg I) (container_of_up env dry cid)"
  unfolding container_of_up_def
  by (auto split: json.split list.split intro!: keeps_rules)

lemma mounts: "keeps (on_reg I) (storage_mounts_setup env c src)"
  unfolding storage_mounts_setup_def by (intro keeps_rules)

lemma start: "keeps (on_reg I) (start_container env de dry n folder ov src)"
  unfolding start_container_def
  by (intro keeps_rules state up container row outside mounts) (simp add: keeps_core_def desk_core_def)

lemma yard: "keeps (on_reg I) (join_yard env spec ws)"
  unfolding join_yard_def by (intro keeps_rules row) (simp add: keeps_core_def desk_core_def)

lemma token: "keeps (on_reg I) (issue_token_for_desk env d)"
  by (rule keeps_issue_token) (rule I_token)

lemma fail_resume: "keeps (on_reg I) (fail_resume env d why)"
  unfolding fail_resume_def by (intro keeps_rules state)

lemma resume: "keeps (on_reg I) (resume_desk env de d dry)"
proof -
  have regen: "keeps (on_reg I) (case e of WsError m fx \<Rightarrow> ret ()
      | PyError cls m \<Rightarrow> if cls = ''FileNotFoundError'' \<or> cls = ''OSError'' then ret () else raise e
      | _ \<Rightarrow> raise e)" for e
    by (cases e) (auto intro: keeps_rules)
  show ?thesis
    unfolding resume_desk_def Let_def
    by (auto split: json.split list.split intro!: keeps_rules outside fail_resume start regen)
qed

lemma build: "keeps (on_reg I) (build_desk env de spec dry parent ws)"
  unfolding build_desk_def Let_def
  by (intro keeps_rules acl outside idle yard row state token start) (simp_all add: keeps_core_def desk_core_def)

lemma stop: "keeps (on_reg I) (stop_desk env dry params)"
  unfolding stop_desk_def by (intro keeps_rules state)

end

section \<open>The registration\<close>

lemma last_update:
  assumes "lineage_ok r" "drydocks r = xs @ [x]" "dd_name x = n"
  shows "snd (update_drydock now n (Some f) r) = r\<lparr>drydocks := xs @ [(f x)\<lparr>dd_updated_at := now\<rparr>]\<rparr>"
proof -
  have "dd_name x \<notin> dd_name ` set xs" using assms by (auto simp: lineage_ok_def desk_keys_ok_def)
  then have "\<forall>d\<in>set xs. dd_name d \<noteq> n" using assms(3) by (metis imageI)
  then show ?thesis using assms by (simp add: update_drydock_def Let_def update_where_idle)
qed

lemma last_found: "lineage_ok r \<Longrightarrow> drydocks r = xs @ [x] \<Longrightarrow> get_drydock r (dd_name x) = Some x"
  unfolding get_drydock_def by (rule find_distinct_key) (auto simp: lineage_ok_def desk_keys_ok_def)

lemma lineage_last:
  assumes "lineage_ok r" "drydocks r = xs @ [x]" "dd_id y = dd_id x" "dd_name y = dd_name x"
    "\<And>q. parent_drydock_id y = Some q \<Longrightarrow> q \<in> dd_id ` set xs"
  shows "lineage_ok (r\<lparr>drydocks := xs @ [y]\<rparr>)"
  using assms by (simp add: lineage_ok_def desk_keys_ok_def rooted_append split: option.split)

text \<open>
  A desk that comes last, after the rows \<open>xs\<close>, with a parent \<open>q\<close> that is among them and core \<open>v\<close>.
\<close>

definition placed where
  "placed xs n q v r \<longleftrightarrow> lineage_ok r \<and> (\<exists>x. drydocks r = xs @ [x] \<and> dd_name x = n \<and> desk_core x = v \<and>
     (\<forall>p. q = Some p \<longrightarrow> p \<in> dd_id ` set xs))"

lemma placed_update:
  assumes "placed xs n q v r"
    "\<And>x. desk_core x = v \<Longrightarrow> dd_id (f x) = dd_id x \<and> dd_name (f x) = dd_name x \<and>
       (parent_drydock_id (f x) = None \<or> parent_drydock_id (f x) = q) \<and> desk_core (f x) = u"
  shows "placed xs n q u (snd (update_drydock now n (Some f) r))"
proof -
  obtain x where x: "lineage_ok r" "drydocks r = xs @ [x]" "dd_name x = n" "desk_core x = v"
    "\<forall>p. q = Some p \<longrightarrow> p \<in> dd_id ` set xs"
    using assms(1) by (auto simp: placed_def)
  let ?y = "(f x)\<lparr>dd_updated_at := now\<rparr>"
  have "lineage_ok (r\<lparr>drydocks := xs @ [?y]\<rparr>)"
    by (rule lineage_last [OF x(1,2)]) (use assms(2) [OF x(4)] x(5) in auto)
  moreover have "desk_core ?y = u" "dd_name ?y = n" using assms(2) [OF x(4)] x(3) by simp_all
  ultimately show ?thesis
    unfolding placed_def last_update [OF x(1-3)]
    by (intro conjI exI [of _ ?y]) (use x(5) in auto)
qed

lemma placed_create:
  assumes "create_drydock now ws r = (Inr ws', r')" "lineage_ok r" "\<forall>p. q = Some p \<longrightarrow> p \<in> dd_id ` set (drydocks r)"
  shows "placed (drydocks r) (dd_name ws) q (desk_core (inserted_row ws)) r' \<and> ws' = ws"
  using assms
  by (auto simp: create_drydock_def placed_def lineage_ok_def desk_keys_ok_def log_event_def rooted_append
      inserted_row_def get_drydock_def drydock_by_id_def find_None_fresh split: option.splits if_splits)

definition core_of_spec where
  "core_of_spec spec parent = (dock_id_of_name (ds_name spec), ds_name spec, parent,
     ds_delegatable_firewall_domains spec, ds_delegatable_secrets spec, ds_capabilities spec,
     ds_delegatable_storage_scopes spec, ds_delegatable_provision_scopes spec, ds_delegatable_network_reach spec,
     ds_network_reach_ports spec)"

lemma placed_delegations:
  assumes "placed xs n q (i, m, None, c) r"
  shows "placed xs n q (i, m, None, ds_delegatable_firewall_domains spec, ds_delegatable_secrets spec, ds_capabilities spec,
     ds_delegatable_storage_scopes spec, ds_delegatable_provision_scopes spec, ds_delegatable_network_reach spec,
     ds_network_reach_ports spec) (update_desk_delegations now n (delegations_of_spec spec) r)"
proof -
  have "delegations_of_spec spec \<noteq> no_delegations" by (simp add: delegations_of_spec_def no_delegations_def)
  moreover have "placed xs n q (i, m, None, ds_delegatable_firewall_domains spec, ds_delegatable_secrets spec, ds_capabilities spec,
     ds_delegatable_storage_scopes spec, ds_delegatable_provision_scopes spec, ds_delegatable_network_reach spec,
     ds_network_reach_ports spec) (snd (update_drydock now n (Some (apply_delegations (delegations_of_spec spec))) r))"
    by (rule placed_update [OF assms])
      (auto simp: desk_core_def apply_delegations_def delegations_of_spec_def or_keep_def)
  ultimately show ?thesis by (simp add: update_desk_delegations_def)
qed

lemma placed_found: "placed xs n q v r \<Longrightarrow> \<exists>d. get_drydock r n = Some d \<and> dd_name d = n \<and> desk_core d = v"
  using last_found by (auto simp: placed_def)

lemma placed_update_row:
  assumes "update_row env n f w = (res, w')" "placed xs n q v (w_reg w)"
    "\<And>x. desk_core x = v \<Longrightarrow> dd_id (f x) = dd_id x \<and> dd_name (f x) = dd_name x \<and>
       (parent_drydock_id (f x) = None \<or> parent_drydock_id (f x) = q) \<and> desk_core (f x) = u"
  shows "\<exists>d. res = Inr d \<and> dd_name d = n \<and> placed xs n q u (w_reg w')"
proof -
  let ?now = "e_now env (w_ticks w)"
  have "placed xs n q u (snd (update_drydock ?now n (Some f) (w_reg w)))" by (rule placed_update [OF assms(2,3)])
  moreover from placed_found [OF this] obtain d where
    "get_drydock (snd (update_drydock ?now n (Some f) (w_reg w))) n = Some d" "dd_name d = n" by blast
  ultimately show ?thesis
    using assms(1) by (auto simp: update_row_def effect_defs update_drydock_def Let_def)
qed

lemma core_of_spec_parent: "desk_core x = core_of_spec spec q \<Longrightarrow>
   desk_core (x\<lparr>parent_drydock_id := p\<rparr>) = core_of_spec spec p"
  by (simp add: desk_core_def core_of_spec_def)

lemma placed_set_parent:
  assumes "update_row env n (\<lambda>d. d\<lparr>parent_drydock_id := Some p\<rparr>) w = (res, w')"
    "placed xs n (Some p) (core_of_spec spec q) (w_reg w)"
  shows "\<exists>d. res = Inr d \<and> dd_name d = n \<and> placed xs n (Some p) (core_of_spec spec (Some p)) (w_reg w')"
  by (rule placed_update_row [OF assms]) (simp add: core_of_spec_parent)

lemma placed_pin:
  assumes "update_row env n (\<lambda>d. d\<lparr>pinned_yaml_sha256 := s\<rparr>) w = (res, w')"
    "placed xs n q (core_of_spec spec q) (w_reg w)"
  shows "\<exists>d. res = Inr d \<and> dd_name d = n \<and> placed xs n q (core_of_spec spec q) (w_reg w')"
  by (rule placed_update_row [OF assms]) (simp_all add: desk_core_def core_of_spec_def)

lemma register_desk_places:
  assumes "register_desk env de spec parent w = (res, w')" "lineage_ok (w_reg w)"
    "\<forall>p. parent = Some p \<longrightarrow> p \<in> dd_id ` set (drydocks (w_reg w))"
  shows "case res of Inl _ \<Rightarrow> w_reg w' = w_reg w | Inr _ \<Rightarrow> placed (drydocks (w_reg w)) (ds_name spec) parent (core_of_spec spec parent) (w_reg w')"
proof -
  let ?xs = "drydocks (w_reg w)" and ?n = "ds_name spec" and ?now = "e_now env"
  let ?ws = "drydock_post_init (?now (w_ticks w)) (drydock_of_spec spec)"
  have ws: "dd_name ?ws = ?n" "dd_id ?ws = dock_id_of_name ?n"
    by (simp_all add: drydock_post_init_def drydock_of_spec_def Let_def)
  obtain out r1 where c: "create_drydock (?now (w_ticks w)) ?ws (w_reg w) = (out, r1)" by fastforce
  show ?thesis
  proof (cases out)
    case (Inl e)
    with c have "r1 = w_reg w" by (auto simp: create_drydock_def split: option.splits if_splits)
    with assms(1) c Inl show ?thesis
      by (auto simp: register_desk_def utc_now_def effect_defs)
  next
    case (Inr out')
    obtain cc where "desk_core (inserted_row ?ws) = (dock_id_of_name ?n, ?n, None, cc)"
      using ws by (simp add: desk_core_def inserted_row_def)
    then have "placed ?xs ?n parent (dock_id_of_name ?n, ?n, None, cc) r1" "out' = ?ws"
      using placed_create [OF _ assms(2,3)] c Inr ws by force+
    from placed_delegations [OF this(1), where spec = spec] this(2) have
      p2: "placed ?xs ?n parent (core_of_spec spec None)
        (update_desk_delegations now ?n (delegations_of_spec spec) r1)" for now
      by (simp add: core_of_spec_def)
    let ?r2 = "update_desk_delegations (?now (Suc (w_ticks w))) ?n (delegations_of_spec spec) r1"
    let ?w2 = "w\<lparr>w_ticks := Suc (Suc (w_ticks w)), w_reg := ?r2\<rparr>"
    let ?set_parent = "case parent of None \<Rightarrow> ret ?ws
            | Some p \<Rightarrow> update_row env ?n (\<lambda>d. d\<lparr>parent_drydock_id := Some p\<rparr>)"
    let ?pin = "\<lambda>x. if de_yaml_sha de (ds_project spec) \<noteq> []
        then update_row env (dd_name x) (\<lambda>d. d\<lparr>pinned_yaml_sha256 := de_yaml_sha de (ds_project spec)\<rparr>)
        else ret x"
    have run: "bind ?set_parent ?pin ?w2 = (res, w')"
      using assms(1) c Inr \<open>out' = ?ws\<close> ws by (cases parent) (simp_all add: register_desk_def effect_defs)
    obtain x w3 where 3: "?set_parent ?w2 = (Inr x, w3)" "dd_name x = ?n"
      "placed ?xs ?n parent (core_of_spec spec parent) (w_reg w3)"
    proof (cases parent)
      case None
      with that [of ?ws ?w2] p2 [of "?now (Suc (w_ticks w))"] ws show ?thesis
        by (simp add: ret_def)
    next
      case (Some p)
      obtain a b where ab: "update_row env ?n (\<lambda>d. d\<lparr>parent_drydock_id := Some p\<rparr>) ?w2 = (a, b)" by fastforce
      with placed_set_parent [OF this, where spec = spec and q = None] p2 [of "?now (Suc (w_ticks w))"] Some that
      show ?thesis by auto
    qed
    then have "?pin x w3 = (res, w')" using run by (simp add: bind_def)
    with 3(2) have "\<exists>d. res = Inr d \<and> placed ?xs ?n parent (core_of_spec spec parent) (w_reg w')"
      using placed_pin [OF _ 3(3), of env "de_yaml_sha de (ds_project spec)" res w'] 3(3)
      by (auto simp: ret_def split: if_splits)
    then show ?thesis by auto
  qed
qed

section \<open>What creating and spawning leave\<close>

definition core_of where
  "core_of r n = map_option desk_core (get_drydock r n)"

definition created where
  "created n v r \<longleftrightarrow> lineage_ok r \<and> core_of r n = Some v"

lemma core_of_update_where:
  assumes "keeps_core f"
  shows "core_of (r\<lparr>drydocks := update_where Q f (drydocks r)\<rparr>) n = core_of r n"
proof -
  have "dd_name (f d) = dd_name d" "desk_core (f d) = desk_core d" for d
    using assms keeps_core_place [OF assms] by (simp_all add: keeps_core_def keeps_place_def)
  then show ?thesis by (cases "get_drydock r n") (simp_all add: core_of_def get_drydock_update_where)
qed

lemma core_of_log_event [simp]: "core_of (log_event now d e dat r) n = core_of r n"
  by (simp add: core_of_def get_drydock_def log_event_def)

lemma core_of_update:
  assumes "keeps_core f"
  shows "core_of (snd (update_drydock now m (Some f) r)) n = core_of r n"
proof -
  have "keeps_core (\<lambda>d. (f d)\<lparr>dd_updated_at := now\<rparr>)" using assms by (simp add: keeps_core_def)
  then show ?thesis by (simp add: update_drydock_def Let_def core_of_update_where)
qed

lemma core_of_state: "core_of (snd (update_state now m st r)) n = core_of r n"
proof -
  have "keeps_core (\<lambda>d. d\<lparr>dd_state := st, dd_updated_at := now\<rparr>)" by (simp add: keeps_core_def desk_core_def)
  then show ?thesis by (simp add: update_state_def Let_def core_of_update_where split: option.split)
qed

lemma core_of_token: "core_of (insert_token d sha ts r) n = core_of r n"
  by (simp add: core_of_def insert_token_def get_drydock_def)

lemma created_update:
  "created n v r \<Longrightarrow> keeps_core f \<Longrightarrow> created n v (snd (update_drydock now m (Some f) r))"
  by (simp add: created_def core_of_update lineage_update_drydock keeps_core_place)

lemma created_state: "created n v r \<Longrightarrow> created n v (snd (update_state now m st r))"
  by (simp add: created_def core_of_state lineage_update_state)

lemma created_token: "created n v r \<Longrightarrow> created n v (insert_token d sha ts r)"
  by (simp add: created_def core_of_token lineage_insert_token)

lemma placed_created: "placed xs n q v r \<Longrightarrow> created n v r"
  using placed_found [of xs n q v r] by (auto simp: created_def core_of_def placed_def [of xs n q v r])

text \<open>The cores of all desks but one.\<close>

definition others where
  "others n v r \<longleftrightarrow> (\<forall>m. m \<noteq> n \<longrightarrow> core_of r m = v m)"

lemma placed_others: "placed (drydocks r) n q u r' \<Longrightarrow> others n (core_of r) r'"
  by (auto simp: others_def placed_def core_of_def get_drydock_def find_append split: option.split)

interpretation lineage: desk_frame lineage_ok
  by unfold_locales (auto intro: lineage_update_drydock lineage_update_state lineage_insert_token keeps_core_place)

interpretation newborn: desk_frame "created n v" for n v
  by unfold_locales (auto intro: created_update created_state created_token)

interpretation bystanders: desk_frame "others n v" for n v
  by unfold_locales (simp_all add: others_def core_of_update core_of_state core_of_token)

lemma perform_create_lineage:
  assumes "perform_create env de spec dry parent w = (res, w')" "lineage_ok (w_reg w)"
    "\<forall>p. parent = Some p \<longrightarrow> p \<in> dd_id ` set (drydocks (w_reg w))"
  shows "lineage_ok (w_reg w') \<and> (\<not> isl res \<longrightarrow> created (ds_name spec) (core_of_spec spec parent) (w_reg w')) \<and>
    others (ds_name spec) (core_of (w_reg w)) (w_reg w')"
proof -
  obtain a w1 where 1: "register_desk env de spec parent w = (a, w1)" by fastforce
  note p = register_desk_places [OF 1 assms(2,3)]
  show ?thesis
  proof (cases a)
    case (Inr ws)
    then have "build_desk env de spec dry parent ws w1 = (res, w')"
      using assms(1) 1 by (simp add: perform_create_def bind_def)
    moreover have "created (ds_name spec) (core_of_spec spec parent) (w_reg w1)"
      using p Inr placed_created by auto
    moreover have "others (ds_name spec) (core_of (w_reg w)) (w_reg w1)"
      using p Inr placed_others by auto
    ultimately have "created (ds_name spec) (core_of_spec spec parent) (w_reg w')"
      "others (ds_name spec) (core_of (w_reg w)) (w_reg w')"
      by (blast intro: keepsD [OF newborn.build] keepsD [OF bystanders.build])+
    then show ?thesis by (simp add: created_def)
  qed (use assms(1,2) 1 p in \<open>auto simp: perform_create_def bind_def others_def\<close>)
qed

text \<open>The outcomes of SpawnChild: refused with the registry untouched, or past every check.\<close>

lemma check_narrowness_Allow: "validate_spawn a b = Allow \<Longrightarrow> check_narrowness env de c rid a b = ret ()"
  by (simp add: check_narrowness_def)

lemma check_narrowness_Reject:
  "validate_spawn a b \<noteq> Allow \<Longrightarrow>
   \<exists>e w'. check_narrowness env de c rid a b w = (Inl e, w') \<and> w_reg w' = w_reg w"
  by (cases "validate_spawn a b")
    (auto simp: check_narrowness_def andthen_def bind_def raise_def dest!: emit_audit_cases split: prod.splits sum.splits)

lemma spawn_tail:
  assumes "try_except (bind m (\<lambda>result. andthen (emit_audit env ev p i me r (d result)) (ret result)))
     (\<lambda>e. raise (spawn_failed e)) w = (res, w')"
  shows "\<exists>r2 w2. m w = (r2, w2) \<and> w_reg w' = w_reg w2 \<and> (isl r2 \<longrightarrow> isl res)"
proof -
  obtain r2 w2 where m: "m w = (r2, w2)" by fastforce
  have "w_reg w' = w_reg w2 \<and> (isl r2 \<longrightarrow> isl res)"
    using assms m by (cases r2)
      (auto simp: try_except_def andthen_def bind_def raise_def ret_def dest!: emit_audit_cases split: prod.splits sum.splits)
  with m show ?thesis by blast
qed

lemma spawn_child_cases:
  assumes "spawn_child env de dry params rid caller w = (res, w')"
  shows "(w_reg w' = w_reg w \<and> isl res) \<or>
    (\<exists>c spec parent child r2 w2. caller = Some c \<and> validated_spec params = Inr spec \<and>
      get_drydock (w_reg w) (ds_name spec) = None \<and>
      count_provisioning_children (w_reg w) c < de_inflight_max de \<and>
      load_parent_policy (w_reg w) c = Inr parent \<and> build_child_spec spec = Inr child \<and>
      validate_spawn parent child = Allow \<and>
      perform_create env de spec dry (Some c) w = (r2, w2) \<and> w_reg w' = w_reg w2 \<and>
      (isl r2 \<longrightarrow> isl res))"
proof -
  let ?tail = "\<lambda>c spec. bind (perform_create env de spec dry (Some c)) (\<lambda>result.
     andthen (emit_audit env ''drydock.spawned'' (Some c) rid ''SpawnChild'' ''ok''
       [(''drydock_id'', result_field result ''drydock_id''), (''parent_drydock_id'', JStr c),
        (''narrowness_check'', JStr ''allow'')]) (ret result))"
  consider "w_reg w' = w_reg w" "isl res"
    | c spec parent child where "caller = Some c" "validated_spec params = Inr spec"
      "get_drydock (w_reg w) (ds_name spec) = None"
      "count_provisioning_children (w_reg w) c < de_inflight_max de"
      "load_parent_policy (w_reg w) c = Inr parent" "build_child_spec spec = Inr child"
      "try_except (andthen (check_narrowness env de c rid parent child) (?tail c spec)) (\<lambda>e. raise (spawn_failed e)) w = (res, w')"
    using assms unfolding spawn_child_def
    by (auto simp: run_simps try_except_def raise_def split: option.splits sum.splits if_splits)
  then show ?thesis
  proof cases
    case 2
    show ?thesis
    proof (cases "validate_spawn parent child = Allow")
      case True
      with 2(7) have "try_except (?tail c spec) (\<lambda>e. raise (spawn_failed e)) w = (res, w')"
        by (simp add: check_narrowness_Allow run_simps try_except_def)
      from spawn_tail [OF this] 2 True show ?thesis by blast
    next
      case False
      from check_narrowness_Reject [OF this, of env de c rid w] 2(7) show ?thesis
        by (auto simp: try_except_def andthen_def bind_def raise_def)
    qed
  qed simp
qed

lemma parent_policy_row: "load_parent_policy r c = Inr p \<Longrightarrow> c \<in> dd_id ` set (drydocks r)"
  by (auto simp: load_parent_policy_def load_desk_policy_def drydock_by_id_def dest!: find_Some_D split: option.splits)

lemma spawn_child_lineage:
  assumes "spawn_child env de dry params rid caller w = (res, w')" "lineage_ok (w_reg w)"
  shows "lineage_ok (w_reg w')"
  using spawn_child_cases [OF assms(1)]
proof (elim disjE exE conjE)
  fix c spec parent child r2 w2
  assume "load_parent_policy (w_reg w) c = Inr parent" "perform_create env de spec dry (Some c) w = (r2, w2)"
    "w_reg w' = w_reg w2"
  then show ?thesis using perform_create_lineage [OF _ assms(2)] parent_policy_row by fastforce
qed (use assms in simp)

lemma create_desk_lineage: "keeps (on_reg lineage_ok) (create_desk env de dry params rid)"
proof -
  have "keeps (on_reg lineage_ok) (perform_create env de spec dry None)" for spec
    unfolding keeps_def using perform_create_lineage [of env de spec dry None] by (metis option.distinct(1) prod.collapse)
  then show ?thesis
    unfolding create_desk_def by (intro keeps_rules lineage.resume)
qed

section \<open>Destroying through the handler\<close>

lemma lookup_row: "lookup_by_name_or_id r t = Some d \<Longrightarrow> d \<in> set (drydocks r)"
  by (auto simp: lookup_by_name_or_id_def get_drydock_def drydock_by_id_def dest!: find_Some_D split: option.splits)

lemma destroy_desk_run:
  assumes "validated_target ''drydock_id'' params = Inr t" "lookup_by_name_or_id (w_reg w) t = Some d"
    "lineage_ok (w_reg w)" "destroy_desk env de dry params rid caller w = (res, w')"
  shows "razed (desk_tree (w_reg w) (dd_id d)) (w_reg w) (w_reg w') \<and> lineage_ok (w_reg w') \<and>
    files_kept (desk_tree (w_reg w) (dd_id d)) w w' \<and>
    (case res of Inr v \<Rightarrow> result_field v ''drydock_id'' = JStr (dd_id d) | Inl e \<Rightarrow> \<exists>msg. e = PyError ''OSError'' msg)"
proof -
  obtain x w1 where 1: "destroy_tree (Suc (length (drydocks (w_reg w)))) env de dry [] d [] w = (Inr x, w1)"
    "razed (desk_tree (w_reg w) (dd_id d)) (w_reg w) (w_reg w1)" "lineage_ok (w_reg w1)" "files_kept (desk_tree (w_reg w) (dd_id d)) w w1"
    using destroy_tree_razes [OF assms(3) lookup_row [OF assms(2)] le_SucI [OF order_refl], of env de dry "[]"] by metis
  obtain c fs where x: "x = (c, fs)" by fastforce
  obtain a w2 where au: "emit_audit env ''drydock.destroyed'' caller rid ''DestroyDesk''
         (if fs \<noteq> [] then ''error'' else ''ok'')
         [(''drydock_id'', JStr (dd_id d)), (''cascaded_children'', jstrs c)] w1 = (a, w2)" by fastforce
  have "destroy_desk env de dry params rid caller w = (case a of Inl e \<Rightarrow> (Inl e, w2) | Inr _ \<Rightarrow>
      (Inr (JObj ([(''destroyed'', JBool True), (''drydock_id'', JStr (dd_id d)), (''cascaded'', jstrs c)] @
          (if fs \<noteq> [] then [(''partial_failures'', JList (map JObj fs))] else []))), w2))"
    unfolding destroy_desk_def using assms(1,2) 1(1) au
    by (simp add: run_simps bind_ok x andthen_run ret_def del: destroy_tree.simps split: sum.split)
  moreover have "w_reg w2 = w_reg w1" "w_files w2 = w_files w1" using emit_audit_cases [OF au] by auto
  moreover have "\<exists>msg. e = PyError ''OSError'' msg" if "a = Inl e" for e
    using au that by (auto simp: emit_audit_def append_entry_def effect_defs V2_EVENTS_def split: option.splits)
  ultimately show ?thesis
    using assms(4) 1 by (auto simp: files_kept_def result_field_def dict_get_def split: sum.splits)
qed

lemma destroy_desk_lineage: "keeps (on_reg lineage_ok) (destroy_desk env de dry params rid caller)"
  unfolding keeps_def
proof (intro allI impI)
  fix w :: world assume ok: "lineage_ok (w_reg w)"
  obtain res w' where run: "destroy_desk env de dry params rid caller w = (res, w')" by fastforce
  have "lineage_ok (w_reg w')"
  proof (cases "\<exists>t d. validated_target ''drydock_id'' params = Inr t \<and> lookup_by_name_or_id (w_reg w) t = Some d")
    case True
    then show ?thesis using destroy_desk_run [OF _ _ ok run] by blast
  next
    case False
    then show ?thesis
      using run ok by (auto simp: destroy_desk_def run_simps split: sum.splits option.splits)
  qed
  with run show "lineage_ok (w_reg (snd (destroy_desk env de dry params rid caller w)))" by simp
qed

section \<open>A sample family of desks\<close>

definition sample_desk_env :: desk_env where
  "sample_desk_env = \<lparr>de_yaml_sha = (\<lambda>_. []), de_write_acl = (\<lambda>_ _ _. Inr ()), de_checkout = (\<lambda>_ _. Inr ''/wt/c''),
     de_exists = (\<lambda>_ _. True), de_write_overlay = (\<lambda>_ _ _ _. Inr ''/ov''), de_regenerate_overlay = (\<lambda>_ _ _. Inr ()),
     de_seed_trust = (\<lambda>_ _ _. Inr ()), de_remove_overlay = (\<lambda>_ _. Inr ()), de_home = ''/h'', de_str = (\<lambda>_. []),
     de_inflight_max = 5, de_sql_text = (\<lambda>_. None)\<rparr>"

definition sample_family :: world where
  "sample_family = sample_world\<lparr>w_reg := sample_registry\<lparr>drydocks := [sample_desk,
     sample_desk\<lparr>dd_id := ''dock_b'', dd_name := ''b'', parent_drydock_id := Some ''dock_a''\<rparr>,
     sample_desk\<lparr>dd_id := ''dock_z'', dd_name := ''z''\<rparr>]\<rparr>\<rparr>"

definition sample_spawn :: json where
  "sample_spawn = JObj [(''project'', JStr ''p''), (''name'', JStr ''c''),
     (''delegatable_secrets'', JList [JStr ''root_key'']), (''capabilities'', JList [JStr ''request_secret_leases''])]"

lemma sample_family_ok: "lineage_ok (w_reg sample_family)"
  by (simp add: sample_family_def sample_desk_def lineage_ok_def desk_keys_ok_def)

section \<open>Properties\<close>

text \<open>
  (C15) A SpawnChild that succeeds was asked by an authenticated desk with fewer than the allowed
  number of children being provisioned, under a name that was free, and the narrowness check of
  core/policy.py allowed the child's scope against the parent's stored policy; the child is then
  registered under that name with the caller as its parent.
\<close>

theorem spawn_child_checked:
  assumes "spawn_child env de dry params rid caller w = (Inr x, w')" "lineage_ok (w_reg w)"
  shows "\<exists>c spec parent child d. caller = Some c \<and> validated_spec params = Inr spec \<and>
    load_parent_policy (w_reg w) c = Inr parent \<and> build_child_spec spec = Inr child \<and>
    validate_spawn parent child = Allow \<and>
    get_drydock (w_reg w) (ds_name spec) = None \<and>
    count_provisioning_children (w_reg w) c < de_inflight_max de \<and>
    get_drydock (w_reg w') (ds_name spec) = Some d \<and> parent_drydock_id d = Some c \<and>
    dd_id d = dock_id_of_name (ds_name spec)"
proof -
  obtain c spec parent child r2 w2 where s: "caller = Some c" "validated_spec params = Inr spec"
      "get_drydock (w_reg w) (ds_name spec) = None"
      "count_provisioning_children (w_reg w) c < de_inflight_max de"
      "load_parent_policy (w_reg w) c = Inr parent" "build_child_spec spec = Inr child"
      "validate_spawn parent child = Allow" and
      p: "perform_create env de spec dry (Some c) w = (r2, w2)" "w_reg w' = w_reg w2" "\<not> isl r2"
    using spawn_child_cases [OF assms(1)] by (auto simp: isl_def)
  have "created (ds_name spec) (core_of_spec spec (Some c)) (w_reg w')"
    using perform_create_lineage [OF p(1) assms(2)] parent_policy_row [OF s(5)] p(2,3) by simp
  then obtain d where "get_drydock (w_reg w') (ds_name spec) = Some d" "parent_drydock_id d = Some c"
    "dd_id d = dock_id_of_name (ds_name spec)"
    by (auto simp: created_def core_of_def desk_core_def core_of_spec_def)
  with s show ?thesis by blast
qed

theorem spawn_child_checked_witness:
  "\<exists>w' :: world. \<exists>c spec parent child d. Some ''dock_a'' = Some c \<and> validated_spec sample_spawn = Inr spec \<and>
    load_parent_policy (w_reg sample_family) c = Inr parent \<and> build_child_spec spec = Inr child \<and>
    validate_spawn parent child = Allow \<and>
    get_drydock (w_reg sample_family) (ds_name spec) = None \<and>
    count_provisioning_children (w_reg sample_family) c < de_inflight_max sample_desk_env \<and>
    get_drydock (w_reg w') (ds_name spec) = Some d \<and> parent_drydock_id d = Some c \<and>
    dd_id d = dock_id_of_name (ds_name spec)"
proof -
  define p where "p = spawn_child sample_env sample_desk_env True sample_spawn (JInt 1) (Some ''dock_a'') sample_family"
  have "\<not> isl (fst p)" unfolding p_def by code_simp
  then have "spawn_child sample_env sample_desk_env True sample_spawn (JInt 1) (Some ''dock_a'') sample_family =
      (Inr (projr (fst p)), snd p)"
    unfolding p_def [symmetric] by (rule run_ok)
  from spawn_child_checked [OF this sample_family_ok] show ?thesis by (rule exI [of _ "snd p"])
qed

text \<open>
  (C21) The policy of a spawned desk is exactly what its request asks for: a SpawnChild that succeeds
  stores each of the request's delegations (firewall domains, secrets, capabilities, storage and
  provision scopes, network reach and ports) in the child's row as they are, whatever the parent's
  own delegations, and leaves the keys, the parent and the policy of every other desk alone. The
  request may therefore hand the child a secret its parent has no authority over, as the witness
  does.
\<close>

theorem spawned_policy_is_requested:
  assumes "spawn_child env de dry params rid caller w = (Inr x, w')" "lineage_ok (w_reg w)"
  shows "\<exists>c spec d. caller = Some c \<and> validated_spec params = Inr spec \<and>
    get_drydock (w_reg w') (ds_name spec) = Some d \<and> parent_drydock_id d = Some c \<and>
    delegatable_firewall_domains d = ds_delegatable_firewall_domains spec \<and>
    delegatable_secrets d = ds_delegatable_secrets spec \<and> capabilities d = ds_capabilities spec \<and>
    delegatable_storage_scopes d = ds_delegatable_storage_scopes spec \<and>
    delegatable_provision_scopes d = ds_delegatable_provision_scopes spec \<and>
    delegatable_network_reach d = ds_delegatable_network_reach spec \<and>
    network_reach_ports d = ds_network_reach_ports spec \<and>
    (\<forall>n. n \<noteq> ds_name spec \<longrightarrow> core_of (w_reg w') n = core_of (w_reg w) n)"
proof -
  obtain c spec parent r2 w2 where s: "caller = Some c" "validated_spec params = Inr spec"
      "load_parent_policy (w_reg w) c = Inr parent" and
      p: "perform_create env de spec dry (Some c) w = (r2, w2)" "w_reg w' = w_reg w2" "\<not> isl r2"
    using spawn_child_cases [OF assms(1)] by (auto simp: isl_def)
  have "created (ds_name spec) (core_of_spec spec (Some c)) (w_reg w')"
    "others (ds_name spec) (core_of (w_reg w)) (w_reg w')"
    using perform_create_lineage [OF p(1) assms(2)] parent_policy_row [OF s(3)] p(2,3) by simp_all
  then show ?thesis
    using s(1,2) by (auto simp: created_def core_of_def desk_core_def core_of_spec_def others_def)
qed

theorem spawned_policy_is_requested_witness:
  "\<exists>v w' d. spawn_child sample_env sample_desk_env True sample_spawn (JInt 1) (Some ''dock_a'') sample_family = (Inr v, w') \<and>
    delegatable_secrets sample_desk = [''api_key''] \<and>
    get_drydock (w_reg w') ''c'' = Some d \<and> parent_drydock_id d = Some ''dock_a'' \<and>
    delegatable_secrets d = [''root_key'']"
proof -
  define p where "p = spawn_child sample_env sample_desk_env True sample_spawn (JInt 1) (Some ''dock_a'') sample_family"
  have "\<not> isl (fst p)" unfolding p_def by code_simp
  then have r: "p = (Inr (projr (fst p)), snd p)" by (rule run_ok)
  have "case validated_spec sample_spawn of Inr spec \<Rightarrow> ds_name spec = ''c'' \<and> ds_delegatable_secrets spec = [''root_key'']
      | Inl e \<Rightarrow> False" by code_simp
  then have spec: "ds_name spec = ''c'' \<and> ds_delegatable_secrets spec = [''root_key'']"
    if "validated_spec sample_spawn = Inr spec" for spec using that by simp
  from spawned_policy_is_requested [OF r [unfolded p_def] sample_family_ok] spec
  obtain d where "get_drydock (w_reg (snd p)) ''c'' = Some d" "parent_drydock_id d = Some ''dock_a''"
    "delegatable_secrets d = [''root_key'']" unfolding p_def by auto
  moreover have "delegatable_secrets sample_desk = [''api_key'']" by (simp add: sample_desk_def)
  ultimately show ?thesis using r unfolding p_def by blast
qed

text \<open>
  (C14) DestroyDesk refines its specification: on a registry with unique keys in which every parent
  comes before its children, and whatever container, file or audit-log step fails along the way
  (statements on the registry do not fail in the model), exactly the target's tree of descendants
  is gone from the registry, their leases are revoked with reason \<open>desk_destroyed\<close> and their tokens
  deleted, every other desk, lease and token and every task row and workload lease is untouched,
  and no file of the secrets directory is changed except that token files of those desks may be
  removed.
\<close>

theorem destroy_desk_razes:
  assumes "validated_target ''drydock_id'' params = Inr t" "lookup_by_name_or_id (w_reg w) t = Some d"
    "lineage_ok (w_reg w)" "destroy_desk env de dry params rid caller w = (res, w')"
  shows "razed (desk_tree (w_reg w) (dd_id d)) (w_reg w) (w_reg w') \<and>
    files_kept (desk_tree (w_reg w) (dd_id d)) w w'"
  using destroy_desk_run [OF assms] by blast

lemma sample_destroy:
  "validated_target ''drydock_id'' (JObj [(''name'', JStr ''a'')]) = Inr (Some ''a'', ''dock_a'')"
  "lookup_by_name_or_id (w_reg sample_family) (Some ''a'', ''dock_a'') = Some sample_desk"
  by code_simp+

theorem destroy_desk_razes_witness:
  "\<exists>w'. razed (desk_tree (w_reg sample_family) (dd_id sample_desk)) (w_reg sample_family) (w_reg w') \<and>
    files_kept (desk_tree (w_reg sample_family) (dd_id sample_desk)) sample_family w'"
  using destroy_desk_razes [OF sample_destroy sample_family_ok prod.collapse [symmetric]] by blast

text \<open>
  (C17) The teardown of a tree terminates: with as many levels of recursion as there are desks,
  the walk over the children neither runs out nor reports a cycle, it returns with the desk gone.
\<close>

theorem destroy_tree_returns:
  assumes "lineage_ok (w_reg w)" "d \<in> set (drydocks (w_reg w))" "length (drydocks (w_reg w)) \<le> n"
  shows "\<exists>cascaded failures w'. destroy_tree n env de dry [] d [] w = (Inr (cascaded, failures), w') \<and>
    dd_id d \<notin> dd_id ` set (drydocks (w_reg w'))"
proof -
  obtain x w' where "destroy_tree n env de dry [] d [] w = (Inr x, w')"
    "razed (desk_tree (w_reg w) (dd_id d)) (w_reg w) (w_reg w')"
    using destroy_tree_razes [OF assms] by metis
  then show ?thesis by (cases x) (auto simp: razed_def)
qed

theorem destroy_tree_returns_witness:
  "\<exists>cascaded failures w'. destroy_tree 3 sample_env sample_desk_env True [] sample_desk [] sample_family =
    (Inr (cascaded, failures), w') \<and> dd_id sample_desk \<notin> dd_id ` set (drydocks (w_reg w'))"
  by (rule destroy_tree_returns [OF sample_family_ok]) (simp_all add: sample_family_def)

text \<open>
  (C16) The forest of desks is an invariant of the daemon: CreateDesk, SpawnChild, StopDesk and
  DestroyDesk keep the keys unique and every parent registered before its children, whatever
  they are asked and however they end.
\<close>

theorem desk_handlers_keep_lineage:
  "keeps (on_reg lineage_ok) (create_desk env de dry params rid) \<and>
   keeps (on_reg lineage_ok) (spawn_child env de dry params rid caller) \<and>
   keeps (on_reg lineage_ok) (stop_desk env dry params) \<and>
   keeps (on_reg lineage_ok) (destroy_desk env de dry params rid caller)"
proof (intro conjI)
  show "keeps (on_reg lineage_ok) (spawn_child env de dry params rid caller)"
    unfolding keeps_def using spawn_child_lineage by (metis prod.collapse)
qed (rule create_desk_lineage lineage.stop destroy_desk_lineage)+

end
