(* ===== verification/Server.thy ===== *)
theory Server
  imports Auth Sample
begin

text \<open>
  daemon/server.py: the JSON-RPC dispatcher. A request is parsed, its method looked up, its
  caller resolved from the bearer token, and the handler's value or exception turned into a
  response. The handlers are an argument: \<open>h\<close> maps a method's name to its handler.
\<close>

section \<open>Requests and responses\<close>

record rpc_request =
  rq_method :: string
  rq_params :: json
  rq_id :: json
  rq_auth :: "string option"
  rq_notification :: bool

definition invalid_request :: exn where
  "invalid_request = RpcError (-32600) ''Invalid Request'' None"

fun id_allowed :: "json \<Rightarrow> bool" where
  "id_allowed JNull = True"
| "id_allowed (JStr s) = True"
| "id_allowed (JInt n) = True"
| "id_allowed (JBool b) = True"
| "id_allowed _ = False"

fun params_allowed :: "json \<Rightarrow> bool" where
  "params_allowed JNull = True"
| "params_allowed (JObj d) = True"
| "params_allowed (JList xs) = True"
| "params_allowed _ = False"

definition parse_request :: "json \<Rightarrow> exn + rpc_request" where
  "parse_request payload =
    (case as_obj payload of
       None \<Rightarrow> Inl invalid_request
     | Some p \<Rightarrow>
         let i = dict_get p ''id''; m = dict_get p ''method''; params = dict_get p ''params'';
             auth = dict_get p ''auth'' in
         if \<not> id_allowed i then Inl invalid_request
         else if dict_get p ''jsonrpc'' \<noteq> JStr ''2.0'' \<or> as_str m = None \<or> as_str m = Some []
           then Inl invalid_request
         else if \<not> params_allowed params then Inl invalid_request
         else if auth \<noteq> JNull \<and> as_str auth = None then Inl invalid_request
         else Inr \<lparr>rq_method = the (as_str m), rq_params = params, rq_id = i,
                rq_auth = as_str auth, rq_notification = (map_of p ''id'' = None)\<rparr>)"

definition error_response :: "json \<Rightarrow> int \<Rightarrow> string \<Rightarrow> json option \<Rightarrow> json" where
  "error_response i c m data =
     JObj [(''jsonrpc'', JStr ''2.0''), (''id'', i),
           (''error'', JObj ([(''code'', JInt c), (''message'', JStr m)] @
              (case data of None \<Rightarrow> [] | Some d \<Rightarrow> [(''data'', d)])))]"

definition success_response :: "json \<Rightarrow> json \<Rightarrow> json" where
  "success_response i result = JObj [(''jsonrpc'', JStr ''2.0''), (''id'', i), (''result'', result)]"

text \<open>What the dispatcher answers for an exception; one that is no \<^verbatim>\<open>_RpcError\<close> is hidden.\<close>

definition exception_response :: "json \<Rightarrow> exn \<Rightarrow> json" where
  "exception_response i e =
    (case e of
       RpcError c m data \<Rightarrow> error_response i c m data
     | _ \<Rightarrow> error_response i (-32603) ''Internal error'' None)"

section \<open>Methods\<close>

text \<open>The names of \<^verbatim>\<open>_METHODS\<close>, with \<^verbatim>\<open>requires_auth\<close>.\<close>

definition METHODS :: "(string \<times> bool) list" where
  "METHODS = [(''CreateDesk'', False), (''DestroyDesk'', False), (''SpawnChild'', True),
     (''RequestCapability'', True), (''ReleaseCapability'', True), (''StopDesk'', False),
     (''ListDesks'', False), (''ListChildren'', True), (''InspectDesk'', False), (''GetAudit'', False),
     (''daemon.health'', False), (''daemon.whoami'', True), (''RegisterWorkload'', True),
     (''ReleaseWorkload'', True), (''AuditorAction'', True), (''RegisterClarification'', True),
     (''UpdateProxyAllowlist'', True)]"

section \<open>Dispatch\<close>

definition no_token :: exn where
  "no_token = RpcError (-32004) ''unauthenticated'' (Some (JObj [(''reason'', JStr ''no_token'')]))"

definition invalid_token :: exn where
  "invalid_token = RpcError (-32004) ''unauthenticated'' (Some (JObj [(''reason'', JStr ''invalid_token'')]))"

definition resolve_caller :: "env \<Rightarrow> bool \<Rightarrow> string option \<Rightarrow> string option op" where
  "resolve_caller env requires_auth auth =
    (case auth of
       None \<Rightarrow> if requires_auth then raise no_token else ret None
     | Some token \<Rightarrow>
         bind (query (validate_token env (Some token))) (\<lambda>caller.
           if caller = None \<and> requires_auth then raise invalid_token else ret caller))"

type_synonym handler = "json \<Rightarrow> json \<Rightarrow> string option \<Rightarrow> json op"

definition dispatch :: "env \<Rightarrow> (string \<Rightarrow> handler) \<Rightarrow> json \<Rightarrow> world \<Rightarrow> json option \<times> world" where
  "dispatch env h payload w =
    (case parse_request payload of
       Inl e \<Rightarrow> (Some (exception_response JNull e), w)
     | Inr rq \<Rightarrow>
         if rq_notification rq then (None, w)
         else
           (case map_of METHODS (rq_method rq) of
              None \<Rightarrow> (Some (error_response (rq_id rq) (-32601) (''Method not found: '' @ rq_method rq) None), w)
            | Some requires_auth \<Rightarrow>
                (case bind (resolve_caller env requires_auth (rq_auth rq))
                        (h (rq_method rq) (rq_params rq) (rq_id rq)) w of
                   (Inl e, w') \<Rightarrow> (Some (exception_response (rq_id rq) e), w')
                 | (Inr result, w') \<Rightarrow> (Some (success_response (rq_id rq) result), w'))))"

section \<open>Facts\<close>

lemma exception_not_success: "exception_response i e \<noteq> success_response j v"
  by (cases e) (auto simp: exception_response_def error_response_def success_response_def)

lemma success_inject: "success_response i v = success_response j u \<longleftrightarrow> i = j \<and> v = u"
  by (auto simp: success_response_def)

lemma resolve_caller_eq:
  "resolve_caller env req auth w =
    (if req \<and> validate_token env auth (w_reg w) = None then Inl (if auth = None then no_token else invalid_token)
     else Inr (validate_token env auth (w_reg w)), w)"
  by (cases auth) (auto simp: resolve_caller_def effect_defs validate_token_def split: if_splits)

lemma dispatch_known:
  assumes "parse_request payload = Inr rq" "\<not> rq_notification rq"
    "map_of METHODS (rq_method rq) = Some req"
  shows "dispatch env h payload w =
    (if req \<and> validate_token env (rq_auth rq) (w_reg w) = None
     then (Some (exception_response (rq_id rq) (if rq_auth rq = None then no_token else invalid_token)), w)
     else (case h (rq_method rq) (rq_params rq) (rq_id rq) (validate_token env (rq_auth rq) (w_reg w)) w of
             (Inl e, w') \<Rightarrow> (Some (exception_response (rq_id rq) e), w')
           | (Inr result, w') \<Rightarrow> (Some (success_response (rq_id rq) result), w')))"
  using assms by (simp add: dispatch_def bind_def resolve_caller_eq)

section \<open>Properties\<close>

text \<open>
  (C19) Authentication comes first: a method that requires it is answered with a result only when
  the request carries a token whose digest is registered, the handler ran with the desk of that
  token as the caller, and no other field of the request decides who the caller is.
\<close>

theorem dispatch_authenticates:
  assumes "parse_request payload = Inr rq" "map_of METHODS (rq_method rq) = Some True"
    "dispatch env h payload w = (Some (success_response i v), w')"
  shows "\<exists>token d. rq_auth rq = Some token \<and> validate_token env (Some token) (w_reg w) = Some d \<and>
    h (rq_method rq) (rq_params rq) (rq_id rq) (Some d) w = (Inr v, w') \<and> i = rq_id rq"
proof -
  have "\<not> rq_notification rq" using assms by (auto simp: dispatch_def)
  note d = dispatch_known [OF assms(1) this assms(2), of env h w]
  obtain c where c: "validate_token env (rq_auth rq) (w_reg w) = Some c"
    using assms(3) d exception_not_success by (auto split: if_splits)
  then obtain token where "rq_auth rq = Some token" by (auto simp: validate_token_def split: option.splits)
  then show ?thesis
    using assms(3) d c exception_not_success
    by (auto simp: success_inject split: prod.splits sum.splits)
qed

definition sample_whoami :: "string \<Rightarrow> handler" where
  "sample_whoami m params i caller = ret (jopt caller)"

definition sample_payload :: "json \<Rightarrow> json" where
  "sample_payload auth = JObj [(''jsonrpc'', JStr ''2.0''), (''id'', JInt 7), (''method'', JStr ''daemon.whoami''),
     (''auth'', auth)]"

theorem dispatch_authenticates_witness:
  "\<exists>token d. Some ''secret'' = Some token \<and> validate_token sample_env (Some token) (w_reg sample_world) = Some d \<and>
    sample_whoami ''daemon.whoami'' JNull (JInt 7) (Some d) sample_world = (Inr (JStr ''dock_a''), sample_world) \<and>
    JInt 7 = JInt 7"
proof -
  let ?rq = "\<lparr>rq_method = ''daemon.whoami'', rq_params = JNull, rq_id = JInt 7, rq_auth = Some ''secret'',
    rq_notification = False\<rparr>"
  have "parse_request (sample_payload (JStr ''secret'')) = Inr ?rq" by code_simp
  moreover have "map_of METHODS (rq_method ?rq) = Some True" by code_simp
  moreover have "validate_token sample_env (Some ''secret'') (w_reg sample_world) = Some ''dock_a''" by code_simp
  then have "dispatch sample_env sample_whoami (sample_payload (JStr ''secret'')) sample_world =
      (Some (success_response (JInt 7) (JStr ''dock_a'')), sample_world)"
    by (simp add: dispatch_known [OF calculation(1) _ calculation(2)] sample_whoami_def ret_def)
  ultimately show ?thesis
    using dispatch_authenticates [of "sample_payload (JStr ''secret'')" ?rq sample_env sample_whoami sample_world
        "JInt 7" "JStr ''dock_a''"] by simp
qed

text \<open>
  (C20) A request without a valid token for such a method is answered \<open>unauthenticated\<close> under its own
  id, and nothing at all changes.
\<close>

theorem dispatch_rejects_unauthenticated:
  assumes "parse_request payload = Inr rq" "\<not> rq_notification rq" "map_of METHODS (rq_method rq) = Some True"
    "validate_token env (rq_auth rq) (w_reg w) = None"
  shows "\<exists>data. dispatch env h payload w = (Some (error_response (rq_id rq) (-32004) ''unauthenticated'' (Some data)), w)"
  using assms by (auto simp: dispatch_known exception_response_def no_token_def invalid_token_def)

theorem dispatch_rejects_unauthenticated_witness:
  "\<exists>data. dispatch sample_env sample_whoami (sample_payload (JStr ''wrong'')) sample_world =
     (Some (error_response (JInt 7) (-32004) ''unauthenticated'' (Some data)), sample_world)"
proof -
  let ?rq = "\<lparr>rq_method = ''daemon.whoami'', rq_params = JNull, rq_id = JInt 7, rq_auth = Some ''wrong'',
    rq_notification = False\<rparr>"
  have "parse_request (sample_payload (JStr ''wrong'')) = Inr ?rq" "map_of METHODS (rq_method ?rq) = Some True"
    "validate_token sample_env (rq_auth ?rq) (w_reg sample_world) = None" by code_simp+
  then show ?thesis using dispatch_rejects_unauthenticated [of _ ?rq] by simp
qed

end
