(* ===== verification/Workload.thy ===== *)
theory Workload
  imports Resource_Ceilings Rpc_Common Sample
begin

text \<open>
  core/cgroup.py, core/workload.py and daemon/workload_handlers.py: leases that lift the hard
  ceilings of a running container for a while. A lease is a list of actions applied in order,
  undone in reverse when a later one fails, when the desk releases the lease and when the
  sweeper finds it expired. How Python prints a float and adds seconds to a time stamp are
  fields of a \<open>wl_env\<close>; an exception is its class and text.
\<close>

record wl_env =
  float_repr :: "pyfloat \<Rightarrow> string"
  plus_seconds :: "string \<Rightarrow> int \<Rightarrow> string"

section \<open>Live ceilings\<close>

definition flags_for :: "wl_env \<Rightarrow> HardCeilings \<Rightarrow> string list" where
  "flags_for wl h =
     (case cpu_max h of None \<Rightarrow> [] | Some f \<Rightarrow> [''--cpus='' @ float_repr wl f]) @
     (case memory_max h of None \<Rightarrow> [] | Some m \<Rightarrow> [''--memory='' @ m, ''--memory-swap='' @ m]) @
     (case pids_max h of None \<Rightarrow> [] | Some n \<Rightarrow> [''--pids-limit='' @ show_int n])"

definition revert_flags_for :: "wl_env \<Rightarrow> HardCeilings \<Rightarrow> string list" where
  "revert_flags_for wl h =
     (case memory_max h of None \<Rightarrow> [] | Some m \<Rightarrow> [''--memory='' @ m, ''--memory-swap='' @ m]) @
     (case cpu_max h of None \<Rightarrow> [] | Some f \<Rightarrow> [''--cpus='' @ float_repr wl f]) @
     (case pids_max h of None \<Rightarrow> [] | Some n \<Rightarrow> [''--pids-limit='' @ show_int n])"

abbreviation CgroupUpdateError :: "string \<Rightarrow> exn" where
  "CgroupUpdateError \<equiv> PyError ''CgroupUpdateError''"

text \<open>\<^verbatim>\<open>docker update\<close>; an error of the system other than a missing binary is not translated.\<close>

definition docker_update :: "env \<Rightarrow> string list \<Rightarrow> string \<Rightarrow> unit op" where
  "docker_update env flags container_id =
     bind (subprocess_run env ([''docker'', ''update''] @ flags @ [container_id]) None) (\<lambda>p.
       case p of
         Completed rc out err \<Rightarrow>
           if rc \<noteq> 0 then raise (CgroupUpdateError (''docker update failed (exit '' @ show_int rc @ ''): '' @ strip err))
           else ret ()
       | NotFound \<Rightarrow> raise (CgroupUpdateError ''docker binary not found: '')
       | TimedOut \<Rightarrow> raise (CgroupUpdateError ''docker update timed out after 15s'')
       | OsFailure m \<Rightarrow> raise (PyError ''OSError'' m))"

definition apply_cgroup_limits :: "env \<Rightarrow> wl_env \<Rightarrow> string \<Rightarrow> HardCeilings \<Rightarrow> string list op" where
  "apply_cgroup_limits env wl container_id limits =
    (if container_id = [] then raise (CgroupUpdateError ''container_id is required'')
     else
       let flags = flags_for wl limits in
       if flags = [] then ret [] else andthen (docker_update env flags container_id) (ret flags))"

definition revert_cgroup_limits :: "env \<Rightarrow> wl_env \<Rightarrow> string \<Rightarrow> HardCeilings \<Rightarrow> string list op" where
  "revert_cgroup_limits env wl container_id original =
    (let flags = revert_flags_for wl original in
     if flags = [] then ret [] else andthen (docker_update env flags container_id) (ret flags))"

section \<open>Actions\<close>

datatype action = CgroupLiftAction (container_id: string) (original: HardCeilings) (lifted: HardCeilings)

fun action_kind :: "action \<Rightarrow> string" where
  "action_kind (CgroupLiftAction c h l) = ''cgroup_lift''"

text \<open>The fields that are lifted without an original value to go back to.\<close>

definition unsafe_fields :: "HardCeilings \<Rightarrow> HardCeilings \<Rightarrow> string list" where
  "unsafe_fields h l =
     (if memory_max l \<noteq> None \<and> memory_max h = None then [''memory_max''] else []) @
     (if cpu_max l \<noteq> None \<and> cpu_max h = None then [''cpu_max''] else []) @
     (if pids_max l \<noteq> None \<and> pids_max h = None then [''pids_max''] else [])"

fun apply_action :: "env \<Rightarrow> wl_env \<Rightarrow> action \<Rightarrow> dict op" where
  "apply_action env wl (CgroupLiftAction c h l) =
    (if unsafe_fields h l \<noteq> []
     then raise (CgroupUpdateError (''refusing to lift cgroup field(s) ['' @ join '', '' (map quoted (unsafe_fields h l)) @
            ''] on a drydock with no original cap''))
     else
       bind (apply_cgroup_limits env wl c l) (\<lambda>flags.
         ret [(''container_id'', JStr c), (''applied_flags'', jstrs flags),
              (''original'', JObj (to_dict h)), (''lifted'', JObj (to_dict l))]))"

fun serialize :: "action \<Rightarrow> dict" where
  "serialize (CgroupLiftAction c h l) =
     [(''kind'', JStr ''cgroup_lift''), (''container_id'', JStr c),
      (''original'', JObj (to_dict h)), (''lifted'', JObj (to_dict l))]"

definition ceiling_exn :: "ceiling_error \<Rightarrow> exn" where
  "ceiling_exn e = (case e of CpuOverflow \<Rightarrow> PyError ''OverflowError'' [] | _ \<Rightarrow> PyError ''ResourceCeilingError'' [])"

definition ceilings_in :: "dict \<Rightarrow> string \<Rightarrow> exn + HardCeilings" where
  "ceilings_in d k =
    (case from_dict (if truthy (dict_get d k) then dict_get d k else JObj []) of
       Inl e \<Rightarrow> Inl (ceiling_exn e) | Inr h \<Rightarrow> Inr h)"

text \<open>A persisted container id that is no string only fails once a command is built with it.\<close>

definition revert_persisted :: "env \<Rightarrow> wl_env \<Rightarrow> dict \<Rightarrow> unit op" where
  "revert_persisted env wl persisted =
     bind (from_sum (ceilings_in persisted ''original'')) (\<lambda>h.
     bind (from_sum (ceilings_in persisted ''lifted'')) (\<lambda>l.
     bind (required (map_of persisted ''container_id'') (PyError ''KeyError'' ''container_id'')) (\<lambda>cid.
       case cid of
         JStr c \<Rightarrow> bind (revert_cgroup_limits env wl c h) (\<lambda>_. ret ())
       | _ \<Rightarrow> if revert_flags_for wl h = [] then ret () else raise (PyError ''TypeError'' []))))"

text \<open>
  \<^verbatim>\<open>deserialize_action\<close>: what its caller needs is that it succeeds; the revert works on the
  persisted record.
\<close>

definition deserialize_action :: "dict \<Rightarrow> exn + action" where
  "deserialize_action payload =
    (if dict_get payload ''kind'' = JStr ''cgroup_lift'' then
       (case map_of payload ''container_id'' of
          None \<Rightarrow> Inl (PyError ''KeyError'' ''container_id'')
        | Some cid \<Rightarrow>
            (case ceilings_in payload ''original'' of Inl e \<Rightarrow> Inl e | Inr h \<Rightarrow>
            (case ceilings_in payload ''lifted'' of Inl e \<Rightarrow> Inl e | Inr l \<Rightarrow>
               Inr (CgroupLiftAction (case cid of JStr c \<Rightarrow> c | _ \<Rightarrow> []) h l))))
     else Inl (PyError ''WorkloadValidationError'' ''unknown action kind''))"

section \<open>Specifications\<close>

record WorkloadSpec =
  ws_kind :: string
  ws_description :: string
  ws_expected :: dict
  ws_duration :: int

definition VALID_KINDS :: "string list" where
  "VALID_KINDS = [''training'', ''crawl'', ''batch'', ''experiment'', ''interactive'']"

definition MAX_DURATION_SECONDS :: int where
  "MAX_DURATION_SECONDS = 12 * 3600"

definition cgroup_part :: "dict \<Rightarrow> dict" where
  "cgroup_part d = filter (\<lambda>(k, v). k \<in> set ceiling_keys) d"

definition validate_spec :: "WorkloadSpec \<Rightarrow> exn + unit" where
  "validate_spec spec =
    (if ws_kind spec \<notin> set VALID_KINDS then Inl (PyError ''WorkloadValidationError'' ''unknown workload kind'')
     else if \<not> (1 \<le> ws_duration spec \<and> ws_duration spec \<le> MAX_DURATION_SECONDS)
       then Inl (PyError ''WorkloadValidationError'' ''duration_max_seconds out of range'')
     else if cgroup_part (ws_expected spec) = [] then Inr ()
     else (case from_dict (JObj (cgroup_part (ws_expected spec))) of
             Inr _ \<Rightarrow> Inr ()
           | Inl CpuOverflow \<Rightarrow> Inl (PyError ''OverflowError'' [])
           | Inl _ \<Rightarrow> Inl (PyError ''WorkloadValidationError'' ''invalid cgroup ceilings in expected'')))"

text \<open>
  Equality of the values of two floats; a NaN equals only the very same object, which the two
  ceilings share when the request does not name the field.
\<close>

fun float_eq :: "pyfloat \<Rightarrow> pyfloat \<Rightarrow> bool" where
  "float_eq (Finite m e) (Finite m' e') =
    (let k = min e e' in m * 2 ^ nat (e - k) = m' * 2 ^ nat (e' - k))"
| "float_eq (Infinity a) (Infinity b) = (a = b)"
| "float_eq _ _ = False"

definition ceilings_equal :: "bool \<Rightarrow> HardCeilings \<Rightarrow> HardCeilings \<Rightarrow> bool" where
  "ceilings_equal shared a b =
    ((case (cpu_max a, cpu_max b) of
        (None, None) \<Rightarrow> True
      | (Some x, Some y) \<Rightarrow> float_eq x y \<or> (shared \<and> x = y)
      | _ \<Rightarrow> False) \<and> memory_max a = memory_max b \<and> pids_max a = pids_max b)"

definition build_actions_for_spec :: "WorkloadSpec \<Rightarrow> string \<Rightarrow> dict \<Rightarrow> exn + action list" where
  "build_actions_for_spec spec cid standing =
    (let request = cgroup_part (ws_expected spec) in
     if request = [] then Inr []
     else (case from_dict (JObj standing) of Inl e \<Rightarrow> Inl (ceiling_exn e) | Inr h \<Rightarrow>
          (case from_dict (JObj (dict_update standing request)) of Inl e \<Rightarrow> Inl (ceiling_exn e) | Inr l \<Rightarrow>
             Inr (if ceilings_equal (map_of request ''cpu_max'' = None) h l then []
                  else [CgroupLiftAction cid h l]))))"

section \<open>Applying and reverting\<close>

definition roll_back :: "env \<Rightarrow> wl_env \<Rightarrow> (action \<times> dict) list \<Rightarrow> unit op" where
  "roll_back env wl applied =
     for_each (\<lambda>(a, persisted). bind (outcome_of (revert_persisted env wl persisted)) (\<lambda>_. ret ())) (rev applied)"

text \<open>
  \<^verbatim>\<open>apply_actions_atomically\<close>: the stored entries of all actions, or the index of the one that
  failed with its cause, after the earlier ones are rolled back.
\<close>

fun apply_from :: "env \<Rightarrow> wl_env \<Rightarrow> (action \<times> dict) list \<Rightarrow> action list \<Rightarrow> ((nat \<times> exn) + (action \<times> dict) list) op" where
  "apply_from env wl applied [] = ret (Inr applied)"
| "apply_from env wl applied (a # as) =
     bind (outcome_of (apply_action env wl a)) (\<lambda>res.
       case res of
         Inl e \<Rightarrow> andthen (roll_back env wl applied) (ret (Inl (length applied, e)))
       | Inr persisted \<Rightarrow> apply_from env wl (applied @ [(a, persisted)]) as)"

definition action_entry :: "action \<times> dict \<Rightarrow> json" where
  "action_entry x = (case x of (a, persisted) \<Rightarrow> JObj (serialize a @ [(''persisted'', JObj persisted)]))"

definition apply_actions_atomically :: "env \<Rightarrow> wl_env \<Rightarrow> action list \<Rightarrow> ((nat \<times> exn) + json list) op" where
  "apply_actions_atomically env wl as =
     bind (apply_from env wl [] as) (\<lambda>res.
       ret (case res of Inl e \<Rightarrow> Inl e | Inr applied \<Rightarrow> Inr (map action_entry applied)))"

definition revert_entry :: "env \<Rightarrow> wl_env \<Rightarrow> dict \<Rightarrow> unit op" where
  "revert_entry env wl entry =
     bind (from_sum (deserialize_action entry)) (\<lambda>_.
       case dict_get entry ''persisted'' of
         JObj (x # xs) \<Rightarrow> revert_persisted env wl (x # xs)
       | v \<Rightarrow> if truthy v then raise (PyError ''AttributeError'' []) else revert_persisted env wl entry)"

definition revert_result :: "dict \<Rightarrow> exn + unit \<Rightarrow> json" where
  "revert_result entry res =
    (case res of
       Inr _ \<Rightarrow> JObj [(''kind'', dict_get entry ''kind''), (''ok'', JBool True)]
     | Inl e \<Rightarrow> JObj [(''kind'', dict_get entry ''kind''), (''ok'', JBool False), (''error'', JStr (exn_text e))])"

text \<open>An entry that is no object escapes the handler of the loop, as \<^verbatim>\<open>entry.get\<close> fails there.\<close>

fun revert_each :: "env \<Rightarrow> wl_env \<Rightarrow> json list \<Rightarrow> json list op" where
  "revert_each env wl [] = ret []"
| "revert_each env wl (x # xs) =
    (case x of
       JObj entry \<Rightarrow>
         bind (outcome_of (revert_entry env wl entry)) (\<lambda>res.
         bind (revert_each env wl xs) (\<lambda>rs. ret (revert_result entry res # rs)))
     | _ \<Rightarrow> raise (PyError ''AttributeError'' []))"

definition revert_lease_actions :: "env \<Rightarrow> wl_env \<Rightarrow> json list \<Rightarrow> json list op" where
  "revert_lease_actions env wl entries = bind (revert_each env wl (rev entries)) (\<lambda>rs. ret (rev rs))"

definition revert_ok :: "json \<Rightarrow> bool" where
  "revert_ok r = (case r of JObj d \<Rightarrow> truthy (dict_get d ''ok'') | _ \<Rightarrow> False)"

section \<open>Leases\<close>

definition spec_json :: "WorkloadSpec \<Rightarrow> json" where
  "spec_json s = JObj [(''kind'', JStr (ws_kind s)), (''description'', JStr (ws_description s)),
     (''expected'', JObj (ws_expected s)), (''duration_max_seconds'', JInt (ws_duration s))]"

definition assemble_lease :: "env \<Rightarrow> wl_env \<Rightarrow> string \<Rightarrow> WorkloadSpec \<Rightarrow> json list \<Rightarrow> workload_lease_row op" where
  "assemble_lease env wl drydock_id spec applied =
     bind (utc_now env) (\<lambda>granted.
     bind (uuid4_hex env) (\<lambda>u.
       ret \<lparr>wl_id = ''wl_'' @ u, wl_drydock_id = drydock_id, wl_spec = spec_json spec, wl_applied_actions = applied,
            wl_granted_at = granted, wl_expires_at = plus_seconds wl granted (ws_duration spec),
            wl_status = ''active'', wl_revoked_at = None, wl_revoke_results = None\<rparr>))"

definition mark_revoked :: "env \<Rightarrow> string \<Rightarrow> json list \<Rightarrow> string \<Rightarrow> unit op" where
  "mark_revoked env i results status =
     bind (utc_now env) (\<lambda>now. insert_reg (mark_workload_lease_revoked now i (JList results) status))"

text \<open>Revert a lease's actions and close it; the status tells whether every revert succeeded.\<close>

definition close_lease :: "env \<Rightarrow> wl_env \<Rightarrow> string \<Rightarrow> workload_lease_row \<Rightarrow> (string \<times> json list) op" where
  "close_lease env wl clean l =
     bind (revert_lease_actions env wl (wl_applied_actions l)) (\<lambda>results.
     let status = (if list_all revert_ok results then clean else ''partial-revoked'') in
     andthen (mark_revoked env (wl_id l) results status) (ret (status, results)))"

section \<open>RegisterWorkload and ReleaseWorkload\<close>

definition wl_invalid :: "string \<Rightarrow> string \<Rightarrow> exn" where
  "wl_invalid field why = rpc_err (-32602) ''invalid_params'' [(''field'', JStr field), (''reason'', JStr why)]"

definition validated_register_params :: "json \<Rightarrow> exn + WorkloadSpec" where
  "validated_register_params params =
    (case params of
       JObj p \<Rightarrow>
         (case dict_get p ''kind'' of
            JStr kind \<Rightarrow>
              (case (if truthy (dict_get p ''description'') then dict_get p ''description'' else JStr []) of
                 JStr description \<Rightarrow>
                   (case (if truthy (dict_get p ''expected'') then dict_get p ''expected'' else JObj []) of
                      JObj expected \<Rightarrow>
                        (case dict_get_default p ''duration_max_seconds'' (JInt 3600) of
                           JInt n \<Rightarrow> Inr \<lparr>ws_kind = kind, ws_description = description,
                                       ws_expected = expected, ws_duration = n\<rparr>
                         | _ \<Rightarrow> Inl (wl_invalid ''duration_max_seconds'' ''must be an integer''))
                    | _ \<Rightarrow> Inl (wl_invalid ''expected'' ''must be an object''))
               | _ \<Rightarrow> Inl (wl_invalid ''description'' ''must be a string''))
          | _ \<Rightarrow> Inl (wl_invalid ''kind'' ''must be a string''))
     | _ \<Rightarrow> Inl (rpc_err (-32602) ''invalid_params'' [(''reason'', JStr ''expected object'')]))"

definition workload_unauthenticated :: exn where
  "workload_unauthenticated = RpcError (-32004) ''unauthenticated'' None"

definition invalid_workload_spec :: "exn \<Rightarrow> exn" where
  "invalid_workload_spec e =
    (case e of
       PyError cls m \<Rightarrow> if cls = ''WorkloadValidationError''
         then rpc_err (-32602) ''invalid_workload_spec'' [(''reason'', JStr m)] else e
     | _ \<Rightarrow> e)"

definition action_kinds :: "json list \<Rightarrow> json list" where
  "action_kinds applied = map (\<lambda>x. case x of JObj d \<Rightarrow> dict_get d ''kind'' | _ \<Rightarrow> JNull) applied"

definition grant_workload :: "env \<Rightarrow> wl_env \<Rightarrow> json \<Rightarrow> string \<Rightarrow> WorkloadSpec \<Rightarrow> json list \<Rightarrow> json op" where
  "grant_workload env wl request_id c spec applied =
     bind (assemble_lease env wl c spec applied) (\<lambda>l.
     andthen (insert_reg (insert_workload_lease l))
     (andthen (emit_audit env ''workload.lease_granted'' (Some c) request_id ''RegisterWorkload'' ''ok''
         [(''lease_id'', JStr (wl_id l)), (''kind'', JStr (ws_kind spec)),
          (''duration_max_seconds'', JInt (ws_duration spec)), (''actions'', JList (action_kinds applied)),
          (''expires_at'', JStr (wl_expires_at l))])
       (ret (JObj [(''lease_id'', JStr (wl_id l)), (''drydock_id'', JStr (wl_drydock_id l)),
          (''kind'', JStr (ws_kind spec)), (''granted_at'', JStr (wl_granted_at l)),
          (''expires_at'', JStr (wl_expires_at l)),
          (''applied_actions'', JList (map (\<lambda>k. JObj [(''kind'', k)]) (action_kinds applied))),
          (''status'', JStr (wl_status l))]))))"

definition workload_apply_failed :: "env \<Rightarrow> json \<Rightarrow> string \<Rightarrow> WorkloadSpec \<Rightarrow> nat \<Rightarrow> exn \<Rightarrow> json op" where
  "workload_apply_failed env request_id c spec failed_at e =
     andthen (emit_audit env ''workload.lease_apply_failed'' (Some c) request_id ''RegisterWorkload'' ''error''
         [(''kind'', JStr (ws_kind spec)), (''failed_at'', JInt (int failed_at)), (''cause'', JStr (exn_text e))])
       (raise (rpc_err (-32019) ''workload_apply_failed''
         [(''failed_at'', JInt (int failed_at)), (''cause'', JStr (exn_text e))]))"

definition workload_lease_exists :: "workload_lease_row list \<Rightarrow> exn" where
  "workload_lease_exists ls = rpc_err (-32017) ''workload_lease_exists''
     [(''lease_id'', JStr (case ls of [] \<Rightarrow> [] | l # _ \<Rightarrow> wl_id l)),
      (''fix'', JStr ''ReleaseWorkload the existing lease before registering another.'')]"

definition register_workload :: "env \<Rightarrow> wl_env \<Rightarrow> json \<Rightarrow> json \<Rightarrow> string option \<Rightarrow> json op" where
  "register_workload env wl params request_id caller =
     bind (required caller workload_unauthenticated) (\<lambda>c.
     bind (from_sum (validated_register_params params)) (\<lambda>spec.
     andthen (try_except (from_sum (validate_spec spec)) (\<lambda>e. raise (invalid_workload_spec e)))
     (bind (query (\<lambda>r. drydock_by_id r c)) (\<lambda>found.
      bind (required found (rpc_err (-32603) ''caller_drydock_not_found'' [(''drydock_id'', JStr c)])) (\<lambda>d.
      andthen (unless (dd_container_id d \<noteq> []) (rpc_err (-32018) ''drydock_not_running''
         [(''fix'', JStr ''Start the drydock first; cgroup lift requires a live container.'')]))
      (bind (query (\<lambda>r. list_active_workload_leases r (Some c))) (\<lambda>existing.
       andthen (unless (existing = []) (workload_lease_exists existing))
       (bind (from_sum (build_actions_for_spec spec (dd_container_id d) (original_resources_hard d))) (\<lambda>actions.
        bind (apply_actions_atomically env wl actions) (\<lambda>res.
          case res of
            Inl (failed_at, e) \<Rightarrow> workload_apply_failed env request_id c spec failed_at e
          | Inr applied \<Rightarrow> grant_workload env wl request_id c spec applied))))))))))"

definition release_response :: "workload_lease_row \<Rightarrow> json list option \<Rightarrow> json" where
  "release_response l results =
     JObj ([(''lease_id'', JStr (wl_id l)), (''drydock_id'', JStr (wl_drydock_id l)),
            (''status'', JStr (wl_status l)), (''revoked_at'', jopt (wl_revoked_at l))] @
           (case results of None \<Rightarrow> [] | Some rs \<Rightarrow> [(''results'', JList rs)]))"

definition release_target :: "json \<Rightarrow> exn + string" where
  "release_target params =
    (case params of
       JObj p \<Rightarrow> (case dict_get p ''lease_id'' of
                   JStr (c # cs) \<Rightarrow> Inr (c # cs)
                 | _ \<Rightarrow> Inl (wl_invalid ''lease_id'' ''must be a non-empty string''))
     | _ \<Rightarrow> Inl (rpc_err (-32602) ''invalid_params'' [(''reason'', JStr ''expected object with lease_id'')]))"

definition release_workload :: "env \<Rightarrow> wl_env \<Rightarrow> json \<Rightarrow> json \<Rightarrow> string option \<Rightarrow> json op" where
  "release_workload env wl params request_id caller =
     bind (required caller workload_unauthenticated) (\<lambda>c.
     bind (from_sum (release_target params)) (\<lambda>i.
     bind (query (\<lambda>r. get_workload_lease r i)) (\<lambda>found.
     bind (required found (rpc_err (-32601) ''lease_not_found'' [(''lease_id'', JStr i)])) (\<lambda>l.
     andthen (unless (wl_drydock_id l = c)
        (rpc_err (-32004) ''forbidden'' [(''reason'', JStr ''lease_belongs_to_other_drydock'')]))
     (if wl_status l \<noteq> ''active'' then ret (release_response l None)
      else
        bind (close_lease env wl ''released'' l) (\<lambda>(status, results).
        andthen (emit_audit env ''workload.lease_released'' (Some c) request_id ''ReleaseWorkload''
            (if status = ''partial-revoked'' then ''error'' else ''ok'')
            [(''lease_id'', JStr i), (''terminal_status'', JStr status), (''results'', JList results)])
        (bind (query (\<lambda>r. get_workload_lease r i)) (\<lambda>again.
         bind (required again (PyError ''TypeError'' [])) (\<lambda>l'.
           ret (release_response l' (Some results)))))))))))"

section \<open>The sweeper\<close>

definition expired_leases :: "string \<Rightarrow> registry \<Rightarrow> workload_lease_row list" where
  "expired_leases cutoff r =
     sort_key wl_expires_at (filter (\<lambda>l. wl_status l = ''active'' \<and> wl_expires_at l < cutoff) (workload_leases r))"

fun sweep_each :: "env \<Rightarrow> wl_env \<Rightarrow> workload_lease_row list \<Rightarrow> dict list op" where
  "sweep_each env wl [] = ret []"
| "sweep_each env wl (l # ls) =
     bind (close_lease env wl ''expired'' l) (\<lambda>(status, results).
     bind (sweep_each env wl ls) (\<lambda>rest.
       ret ([(''lease_id'', JStr (wl_id l)), (''drydock_id'', JStr (wl_drydock_id l)),
             (''terminal_status'', JStr status), (''results'', JList results)] # rest)))"

definition sweep_expired_leases :: "env \<Rightarrow> wl_env \<Rightarrow> dict list op" where
  "sweep_expired_leases env wl =
     bind (utc_now env) (\<lambda>cutoff.
     bind (query (expired_leases cutoff)) (\<lambda>ls. sweep_each env wl ls))"

text \<open>One turn of the background thread: a failed sweep or audit entry is only logged.\<close>

definition audit_summary :: "env \<Rightarrow> dict \<Rightarrow> unit op" where
  "audit_summary env s =
    (let expired = (dict_get s ''terminal_status'' = JStr ''expired'') in
     bind (outcome_of (emit_audit env
         (if expired then ''workload.lease_expired'' else ''workload.lease_partial_revoked'')
         (case dict_get s ''drydock_id'' of JStr d \<Rightarrow> Some d | _ \<Rightarrow> None) JNull ''WorkloadSweeper''
         (if expired then ''ok'' else ''error'') s)) (\<lambda>_. ret ()))"

definition sweep_turn :: "env \<Rightarrow> wl_env \<Rightarrow> unit op" where
  "sweep_turn env wl =
     bind (outcome_of (sweep_expired_leases env wl)) (\<lambda>res.
       case res of Inl e \<Rightarrow> ret () | Inr summaries \<Rightarrow> for_each (audit_summary env) summaries)"

end
