(* ===== verification/Workload_Facts.thy ===== *)
theory Workload_Facts
  imports Workload
begin

text \<open>
  What workload leases promise: a lift that was granted can be undone, from the stored record
  alone; a desk holds at most one active lease; the sweeper closes every expired lease.
\<close>

section \<open>Lifts can be undone\<close>

text \<open>The limit a docker flag sets: its text up to the equals sign.\<close>

definition flag_name :: "string \<Rightarrow> string" where
  "flag_name s = takeWhile (\<lambda>c. c \<noteq> CHR ''='') s"

definition resets :: "string list \<Rightarrow> string list \<Rightarrow> bool" where
  "resets back fwd \<longleftrightarrow> flag_name ` set fwd \<subseteq> flag_name ` set back"

lemma flag_name_simps [simp]:
  "flag_name (''--cpus='' @ x) = ''--cpus''" "flag_name (''--memory='' @ x) = ''--memory''"
  "flag_name (''--memory-swap='' @ x) = ''--memory-swap''" "flag_name (''--pids-limit='' @ x) = ''--pids-limit''"
  by (simp_all add: flag_name_def)

lemma safe_resets:
  assumes "unsafe_fields h l = []"
  shows "resets (revert_flags_for wl h) (flags_for wl l)"
proof -
  have "cpu_max l \<noteq> None \<Longrightarrow> cpu_max h \<noteq> None" "memory_max l \<noteq> None \<Longrightarrow> memory_max h \<noteq> None"
    "pids_max l \<noteq> None \<Longrightarrow> pids_max h \<noteq> None"
    using assms by (auto simp: unsafe_fields_def split: if_splits)
  then show ?thesis
    unfolding resets_def revert_flags_for_def flags_for_def
    by (cases "cpu_max l"; cases "memory_max l"; cases "pids_max l"; cases "cpu_max h"; cases "memory_max h";
        cases "pids_max h") (auto simp del: append.simps)
qed

lemma ceilings_in_to_dict:
  "wf_ceilings h \<Longrightarrow> dict_get d k = JObj (to_dict h) \<Longrightarrow> ceilings_in d k = Inr h"
  using to_dict_parses [of h] by (cases "to_dict h") (auto simp: ceilings_in_def)

definition lift_record :: "wl_env \<Rightarrow> action \<Rightarrow> dict" where
  "lift_record wl a = (case a of CgroupLiftAction c h l \<Rightarrow>
     [(''container_id'', JStr c), (''applied_flags'', jstrs (flags_for wl l)),
      (''original'', JObj (to_dict h)), (''lifted'', JObj (to_dict l))])"

definition wf_action :: "action \<Rightarrow> bool" where
  "wf_action a \<longleftrightarrow> wf_ceilings (original a) \<and> wf_ceilings (lifted a)"

lemma docker_update_call:
  "docker_update env flags c w = (res, w') \<Longrightarrow> w_calls w' = w_calls w @ [([''docker'', ''update''] @ flags @ [c], None)]"
  by (auto simp: docker_update_def effect_defs split: proc.splits if_splits)

lemma apply_action_run:
  assumes "apply_action env wl (CgroupLiftAction c h l) w = (Inr p, w')"
  shows "unsafe_fields h l = [] \<and> p = lift_record wl (CgroupLiftAction c h l) \<and>
    w_calls w' = w_calls w @ (if flags_for wl l = [] then [] else [([''docker'', ''update''] @ flags_for wl l @ [c], None)])"
  using assms
  by (auto simp: apply_cgroup_limits_def lift_record_def Let_def effect_simps dest!: docker_update_call
      split: if_splits)

lemma revert_record_run:
  assumes "wf_action (CgroupLiftAction c h l)"
  shows "revert_entry env wl (serialize (CgroupLiftAction c h l) @ [(''persisted'', JObj (lift_record wl (CgroupLiftAction c h l)))]) =
    bind (revert_cgroup_limits env wl c h) (\<lambda>_. ret ())"
proof -
  have "ceilings_in (serialize (CgroupLiftAction c h l) @ x) ''original'' = Inr h"
    "ceilings_in (serialize (CgroupLiftAction c h l) @ x) ''lifted'' = Inr l" for x
    using assms by (auto intro!: ceilings_in_to_dict simp: wf_action_def dict_get_def)
  moreover have "ceilings_in (lift_record wl (CgroupLiftAction c h l)) ''original'' = Inr h"
    "ceilings_in (lift_record wl (CgroupLiftAction c h l)) ''lifted'' = Inr l"
    using assms by (auto intro!: ceilings_in_to_dict simp: wf_action_def dict_get_def lift_record_def)
  ultimately show ?thesis
    by (simp add: revert_entry_def deserialize_action_def revert_persisted_def dict_get_def lift_record_def
        required_def fun_eq_iff bind_ret)
qed

lemma build_actions_wf: "build_actions_for_spec spec c st = Inr as \<Longrightarrow> a \<in> set as \<Longrightarrow> wf_action a"
  by (auto simp: build_actions_for_spec_def Let_def wf_action_def dest: from_dict_sound split: if_splits sum.splits)

section \<open>Actions leave the registry alone\<close>

lemma settled_docker_update [keeps_rules]: "keeps (settled r f) (docker_update env flags c)"
  unfolding docker_update_def
  by (intro keeps_bind settled_run) (auto split: proc.split intro: keeps_rules)

lemma settled_apply_cgroup [keeps_rules]: "keeps (settled r f) (apply_cgroup_limits env wl c h)"
  unfolding apply_cgroup_limits_def Let_def by (intro keeps_rules)

lemma settled_revert_cgroup [keeps_rules]: "keeps (settled r f) (revert_cgroup_limits env wl c h)"
  unfolding revert_cgroup_limits_def Let_def by (intro keeps_rules)

lemma settled_apply_action [keeps_rules]: "keeps (settled r f) (apply_action env wl a)"
  by (cases a) (auto intro!: keeps_rules)

lemma settled_revert_persisted [keeps_rules]: "keeps (settled r f) (revert_persisted env wl d)"
  unfolding revert_persisted_def by (intro keeps_rules)

lemma settled_roll_back [keeps_rules]: "keeps (settled r f) (roll_back env wl xs)"
  unfolding roll_back_def by (intro keeps_for_each) (auto intro!: keeps_rules)

lemma settled_apply_from [keeps_rules]: "keeps (settled r f) (apply_from env wl xs as)"
  by (induction as arbitrary: xs) (auto intro!: keeps_rules)

lemma settled_apply_all [keeps_rules]: "keeps (settled r f) (apply_actions_atomically env wl as)"
  unfolding apply_actions_atomically_def by (intro keeps_rules)

lemma settled_revert_entry [keeps_rules]: "keeps (settled r f) (revert_entry env wl d)"
proof -
  have "keeps (settled r f) (case v of JObj (x # xs) \<Rightarrow> revert_persisted env wl (x # xs)
       | v \<Rightarrow> if truthy v then raise (PyError ''AttributeError'' []) else revert_persisted env wl d)" for v
    by (cases v) (auto split: list.split intro!: keeps_rules)
  then show ?thesis unfolding revert_entry_def by (intro keeps_bind keeps_from_sum)
qed

lemma settled_revert_each [keeps_rules]: "keeps (settled r f) (revert_each env wl xs)"
  by (induction xs) (auto split: json.split intro!: keeps_rules)

lemma settled_revert_all [keeps_rules]: "keeps (settled r f) (revert_lease_actions env wl xs)"
  unfolding revert_lease_actions_def by (intro keeps_rules)

section \<open>How actions end\<close>

definition is_obj :: "json \<Rightarrow> bool" where
  "is_obj v \<longleftrightarrow> (\<exists>d. v = JObj d)"

lemma apply_all_entries:
  "apply_actions_atomically env wl as w = (Inr (Inr es), w') \<Longrightarrow> \<forall>e\<in>set es. is_obj e"
proof -
  assume "apply_actions_atomically env wl as w = (Inr (Inr es), w')"
  then obtain x :: "(nat \<times> exn) + (action \<times> dict) list" where
    "(case x of Inl e \<Rightarrow> Inl e | Inr applied \<Rightarrow> Inr (map action_entry applied)) = Inr es"
    by (auto simp: apply_actions_atomically_def effect_simps dest: sym)
  then show ?thesis by (cases x) (auto simp: is_obj_def action_entry_def)
qed

text \<open>Neither applying nor reverting well-shaped entries raises.\<close>

lemma roll_back_returns: "\<exists>w'. roll_back env wl xs w = (Inr (), w')"
proof -
  have "\<exists>w'. for_each (\<lambda>(a, p). bind (outcome_of (revert_persisted env wl p)) (\<lambda>_. ret ())) ys w = (Inr (), w')" for ys
    by (induction ys arbitrary: w) (auto simp: andthen_def bind_def outcome_of_def ret_def)
  then show ?thesis by (simp add: roll_back_def)
qed

lemma apply_from_returns: "\<exists>x w'. apply_from env wl xs as w = (Inr x, w')"
proof (induction as arbitrary: xs w)
  case (Cons a as)
  obtain res w1 where 1: "apply_action env wl a w = (res, w1)" by fastforce
  show ?case
  proof (cases res)
    case (Inl e)
    with 1 roll_back_returns [of env wl xs w1] show ?thesis
      by (auto simp: andthen_def bind_def outcome_of_def ret_def)
  next
    case (Inr p)
    with 1 Cons.IH [of "xs @ [(a, p)]" w1] show ?thesis by (simp add: bind_def outcome_of_def)
  qed
qed (simp add: ret_def)

lemma apply_all_returns: "\<exists>x w'. apply_actions_atomically env wl as w = (Inr x, w')"
  using apply_from_returns [of env wl "[]" as w] by (auto simp: apply_actions_atomically_def bind_def ret_def)

lemma revert_each_returns: "\<forall>x\<in>set xs. is_obj x \<Longrightarrow> \<exists>rs w'. revert_each env wl xs w = (Inr rs, w')"
proof (induction xs arbitrary: w)
  case (Cons x xs)
  then obtain d where "x = JObj d" by (auto simp: is_obj_def)
  moreover obtain rs w' where "revert_each env wl xs (snd (revert_entry env wl d w)) = (Inr rs, w')"
    using Cons by fastforce
  ultimately show ?case by (simp add: bind_def outcome_of_def ret_def)
qed (simp add: ret_def)

lemma revert_all_returns:
  "\<forall>x\<in>set xs. is_obj x \<Longrightarrow> \<exists>rs w'. revert_lease_actions env wl xs w = (Inr rs, w')"
  using revert_each_returns [of "rev xs" env wl w] by (auto simp: revert_lease_actions_def bind_def ret_def)

section \<open>The invariant of the lease table\<close>

definition active_for :: "registry \<Rightarrow> string \<Rightarrow> workload_lease_row list" where
  "active_for r d = filter (\<lambda>l. wl_status l = ''active'' \<and> wl_drydock_id l = d) (workload_leases r)"

definition wl_ok :: "registry \<Rightarrow> bool" where
  "wl_ok r \<longleftrightarrow> distinct (map wl_id (workload_leases r)) \<and> (\<forall>d. length (active_for r d) \<le> 1) \<and>
     (\<forall>l\<in>set (workload_leases r). \<forall>e\<in>set (wl_applied_actions l). is_obj e)"

definition wl_statuses_ok :: "registry \<Rightarrow> bool" where
  "wl_statuses_ok r \<longleftrightarrow> (\<forall>l\<in>set (workload_leases r).
     wl_status l \<in> {''active'', ''released'', ''expired'', ''partial-revoked''})"

lemma list_active_none: "list_active_workload_leases r (Some d) = [] \<longleftrightarrow> active_for r d = []"
  using set_empty [of "list_active_workload_leases r (Some d)"]
  by (simp add: list_active_workload_leases_def active_for_def flip: set_empty)

definition closed :: "string \<Rightarrow> json \<Rightarrow> string \<Rightarrow> workload_lease_row \<Rightarrow> workload_lease_row" where
  "closed now results st l = l\<lparr>wl_status := st, wl_revoked_at := Some now, wl_revoke_results := Some results\<rparr>"

lemma wl_ok_close:
  assumes "wl_ok r" "st \<noteq> ''active''"
  shows "wl_ok (r\<lparr>workload_leases := update_where (\<lambda>l. wl_id l = i) (closed now results st) (workload_leases r)\<rparr>)"
proof -
  have "length (filter P (update_where (\<lambda>l. wl_id l = i) (closed now results st) ls)) \<le> length (filter P ls)"
    if "\<And>l. \<not> P (closed now results st l)" for ls P
    using that by (induction ls) auto
  then have "length (active_for (r\<lparr>workload_leases := update_where (\<lambda>l. wl_id l = i) (closed now results st) (workload_leases r)\<rparr>) d)
      \<le> length (active_for r d)" for d
    using assms(2) by (simp add: active_for_def closed_def)
  then show ?thesis
    using assms(1) by (auto simp: wl_ok_def map_update_where set_update_where closed_def intro: order_trans)
qed

lemma wl_ok_insert:
  assumes "wl_ok r" "insert_workload_lease l r = Inr r'" "active_for r (wl_drydock_id l) = []" "\<forall>e\<in>set (wl_applied_actions l). is_obj e"
  shows "wl_ok r'"
  using assms
  by (auto simp: wl_ok_def insert_workload_lease_def get_workload_lease_def active_for_def find_None_fresh split: if_splits)

lemma wl_ok_same: "workload_leases r' = workload_leases r \<Longrightarrow> wl_ok r' = wl_ok r"
  by (simp add: wl_ok_def active_for_def)

section \<open>Closing a lease\<close>

lemma mark_revoked_run:
  assumes "st \<in> set workload_statuses"
  shows "mark_revoked env i results st w = (Inr (), w\<lparr>w_ticks := Suc (w_ticks w), w_reg := (w_reg w)\<lparr>workload_leases :=
     update_where (\<lambda>l. wl_id l = i) (closed (e_now env (w_ticks w)) (JList results) st) (workload_leases (w_reg w))\<rparr>\<rparr>)"
  using assms by (simp add: mark_revoked_def mark_workload_lease_revoked_def effect_defs closed_def [abs_def])

lemma close_lease_run:
  assumes "\<forall>e\<in>set (wl_applied_actions l). is_obj e" "clean \<in> set workload_statuses" "clean \<noteq> ''active''"
  obtains st results now w' where "close_lease env wl clean l w = (Inr (st, results), w')"
    "st = clean \<or> st = ''partial-revoked''" "st \<in> set workload_statuses" "st \<noteq> ''active''"
    "w_reg w' = (w_reg w)\<lparr>workload_leases := update_where (\<lambda>x. wl_id x = wl_id l)
       (closed now (JList results) st) (workload_leases (w_reg w))\<rparr>" "w_files w' = w_files w"
proof -
  obtain rs w1 where 1: "revert_lease_actions env wl (wl_applied_actions l) w = (Inr rs, w1)"
    using revert_all_returns [OF assms(1)] by blast
  note settledD [OF settled_revert_all 1]
  moreover define st where "st = (if list_all revert_ok rs then clean else ''partial-revoked'')"
  have st: "st \<in> set workload_statuses" "st \<noteq> ''active''" "st = clean \<or> st = ''partial-revoked''"
    using assms(2,3) by (auto simp: st_def workload_statuses_def)
  moreover have "close_lease env wl clean l w = (Inr (st, rs), snd (mark_revoked env (wl_id l) rs st w1))"
    using 1 by (simp add: close_lease_def bind_def andthen_def ret_def Let_def mark_revoked_run [OF st(1)] flip: st_def)
  ultimately show ?thesis using that mark_revoked_run [OF st(1), of env "wl_id l" rs w1] by simp
qed

lemma close_lease_wl_ok:
  assumes "close_lease env wl clean l w = (res, w')" "wl_ok (w_reg w)" "clean \<in> set workload_statuses" "clean \<noteq> ''active''"
  shows "wl_ok (w_reg w')"
proof -
  obtain out w1 where 1: "revert_lease_actions env wl (wl_applied_actions l) w = (out, w1)" by fastforce
  note r = settledD [OF settled_revert_all 1]
  show ?thesis
  proof (cases out)
    case (Inr rs)
    define st where "st = (if list_all revert_ok rs then clean else ''partial-revoked'')"
    have st: "st \<in> set workload_statuses" "st \<noteq> ''active''" using assms(3,4) by (auto simp: st_def workload_statuses_def)
    then have "w' = snd (mark_revoked env (wl_id l) rs st w1)"
      using assms(1) 1 Inr by (simp add: close_lease_def bind_def andthen_def ret_def Let_def mark_revoked_run flip: st_def)
    then show ?thesis using wl_ok_close [OF assms(2) st(2)] r by (simp add: mark_revoked_run [OF st(1)])
  qed (use assms(1,2) 1 r in \<open>simp add: close_lease_def bind_def\<close>)
qed

lemma close_lease_statuses: "keeps (on_reg wl_statuses_ok) (close_lease env wl clean l)"
proof -
  have "keeps (on_reg wl_statuses_ok) (revert_lease_actions env wl es)" for es
    by (rule settled_on_reg) (rule settled_revert_all)
  moreover have "keeps (on_reg wl_statuses_ok) (mark_revoked env i rs st)" for i rs st
    unfolding mark_revoked_def
    by (intro keeps_rules keeps_insert_reg)
      (auto simp: wl_statuses_ok_def mark_workload_lease_revoked_def workload_statuses_def set_update_where
        get_workload_lease_def find_None_iff split: if_splits)
  ultimately show ?thesis unfolding close_lease_def Let_def by (intro keeps_rules)
qed

lemma insert_statuses: "insert_workload_lease l r = Inr r' \<Longrightarrow> wl_statuses_ok r \<Longrightarrow> wl_statuses_ok r'"
  by (auto simp: insert_workload_lease_def wl_statuses_ok_def workload_statuses_def split: if_splits)

section \<open>Granting\<close>

text \<open>The outcomes of RegisterWorkload: no change of the lease table, or one new lease.\<close>

definition grants_lease :: "wl_env \<Rightarrow> json \<Rightarrow> string option \<Rightarrow> registry \<Rightarrow> workload_lease_row \<Rightarrow> bool" where
  "grants_lease wl params caller r l \<longleftrightarrow> (\<exists>c spec. caller = Some c \<and> validated_register_params params = Inr spec \<and>
     validate_spec spec = Inr () \<and> active_for r c = [] \<and> wl_drydock_id l = c \<and> wl_status l = ''active'' \<and>
     wl_spec l = spec_json spec \<and> wl_expires_at l = plus_seconds wl (wl_granted_at l) (ws_duration spec) \<and>
     (\<forall>e\<in>set (wl_applied_actions l). is_obj e))"

lemma grant_workload_cases:
  assumes "grant_workload env wl rid c spec applied w = (res, w')"
  shows "w_reg w' = w_reg w \<and> isl res \<or>
    (\<exists>l. insert_workload_lease l (w_reg w) = Inr (w_reg w') \<and> wl_drydock_id l = c \<and> wl_status l = ''active'' \<and>
       wl_spec l = spec_json spec \<and> wl_applied_actions l = applied \<and>
       wl_expires_at l = plus_seconds wl (wl_granted_at l) (ws_duration spec) \<and> wl_revoked_at l = None \<and> wl_revoke_results l = None)"
proof -
  let ?g = "e_now env (w_ticks w)"
  define l where "l = \<lparr>wl_id = ''wl_'' @ e_uuid env (Suc (w_ticks w)), wl_drydock_id = c, wl_spec = spec_json spec,
     wl_applied_actions = applied, wl_granted_at = ?g, wl_expires_at = plus_seconds wl ?g (ws_duration spec),
     wl_status = ''active'', wl_revoked_at = None, wl_revoke_results = None\<rparr>"
  define w1 where "w1 = w\<lparr>w_ticks := Suc (Suc (w_ticks w))\<rparr>"
  have a: "assemble_lease env wl c spec applied w = (Inr l, w1)"
    by (simp add: assemble_lease_def effect_defs l_def w1_def)
  obtain d v where g: "andthen (insert_reg (insert_workload_lease l))
      (andthen (emit_audit env ''workload.lease_granted'' (Some c) rid ''RegisterWorkload'' ''ok'' d) (ret v)) w1 = (res, w')"
    using assms unfolding grant_workload_def bind_ok [of "assemble_lease env wl c spec applied", OF a] by blast
  show ?thesis
  proof (cases "insert_workload_lease l (w_reg w1)")
    case (Inl e)
    then show ?thesis using g by (auto simp: andthen_def bind_def insert_reg_def w1_def)
  next
    case (Inr r')
    have "w_reg w' = r'"
      using g Inr by (auto simp: andthen_def bind_def insert_reg_def ret_def
          dest!: emit_audit_cases split: prod.splits sum.splits)
    then show ?thesis using Inr by (auto simp: l_def w1_def)
  qed
qed

lemma validate_spec_step:
  "andthen (try_except (from_sum (validate_spec spec)) (\<lambda>e. raise (invalid_workload_spec e))) m w =
    (case validate_spec spec of Inl e \<Rightarrow> (Inl (invalid_workload_spec e), w) | Inr _ \<Rightarrow> m w)"
  by (simp add: andthen_def bind_def try_except_def from_sum_def raise_def ret_def split: sum.split)

lemma register_workload_cases:
  assumes "register_workload env wl params rid caller w = (res, w')"
  shows "w_reg w' = w_reg w \<and> isl res \<or>
    (\<exists>l. insert_workload_lease l (w_reg w) = Inr (w_reg w') \<and> grants_lease wl params caller (w_reg w) l \<and>
       wl_revoked_at l = None \<and> wl_revoke_results l = None)"
proof -
  consider "w_reg w' = w_reg w" "isl res"
    | c spec actions where "caller = Some c" "validated_register_params params = Inr spec" "validate_spec spec = Inr ()"
      "active_for (w_reg w) c = []"
      "bind (apply_actions_atomically env wl actions) (\<lambda>res.
          case res of Inl (failed_at, e) \<Rightarrow> workload_apply_failed env rid c spec failed_at e
          | Inr applied \<Rightarrow> grant_workload env wl rid c spec applied) w = (res, w')"
    using assms unfolding register_workload_def
    by (auto simp: run_simps validate_spec_step list_active_none split: option.splits sum.splits if_splits)
  then show ?thesis
  proof cases
    case 2
    obtain out w1 where 1: "apply_actions_atomically env wl actions w = (Inr out, w1)"
      using apply_all_returns by blast
    note r = settledD(1) [OF settled_apply_all 1]
    show ?thesis
    proof (cases out)
      case (Inl x)
      obtain i e where "out = Inl (i, e)" using Inl by (cases x) auto
      then have "workload_apply_failed env rid c spec i e w1 = (res, w')" using 2(5) 1 by (simp add: bind_def)
      then show ?thesis
        using r by (auto simp: workload_apply_failed_def andthen_def bind_def raise_def dest!: emit_audit_cases
            split: prod.splits sum.splits)
    next
      case (Inr es)
      then have "grant_workload env wl rid c spec es w1 = (res, w')" using 2(5) 1 by (simp add: bind_def)
      moreover have "\<forall>e\<in>set es. is_obj e" using apply_all_entries 1 Inr by blast
      ultimately show ?thesis
        using grant_workload_cases [of env wl rid c spec es w1 res w'] 2(1-4) r by (auto simp: grants_lease_def)
    qed
  qed simp
qed

section \<open>Sweeping\<close>

text \<open>The leases with ids in \<open>I\<close> are closed, the others are as before.\<close>

definition swept_row :: "string set \<Rightarrow> workload_lease_row \<Rightarrow> workload_lease_row \<Rightarrow> bool" where
  "swept_row I l l' \<longleftrightarrow> wl_id l' = wl_id l \<and>
     (if wl_id l \<in> I then wl_status l' = ''expired'' \<or> wl_status l' = ''partial-revoked'' else l' = l)"

definition swept :: "string set \<Rightarrow> workload_lease_row list \<Rightarrow> workload_lease_row list \<Rightarrow> bool" where
  "swept I = list_all2 (swept_row I)"

lemma swept_refl: "swept {} ls ls"
  by (simp add: swept_def swept_row_def list_all2_refl)

lemma swept_trans: "swept I a b \<Longrightarrow> swept J b c \<Longrightarrow> swept (I \<union> J) a c"
  unfolding swept_def
  by (rule list_all2_trans [where ?P1.0 = "swept_row I" and ?P2.0 = "swept_row J"])
    (auto simp: swept_row_def split: if_splits)

lemma swept_close:
  "st = ''expired'' \<or> st = ''partial-revoked'' \<Longrightarrow> swept {i} ls (update_where (\<lambda>x. wl_id x = i) (closed now rs st) ls)"
  unfolding swept_def by (induction ls) (auto simp: swept_row_def closed_def)

lemma sweep_each_run:
  assumes "\<forall>l\<in>set ls. \<forall>e\<in>set (wl_applied_actions l). is_obj e"
  shows "\<exists>sums w'. sweep_each env wl ls w = (Inr sums, w') \<and>
    swept (wl_id ` set ls) (workload_leases (w_reg w)) (workload_leases (w_reg w')) \<and>
    (wl_ok (w_reg w) \<longrightarrow> wl_ok (w_reg w'))"
  using assms
proof (induction ls arbitrary: w)
  case (Cons l ls)
  obtain st rs now w1 where 1: "close_lease env wl ''expired'' l w = (Inr (st, rs), w1)"
    "st = ''expired'' \<or> st = ''partial-revoked''" "st \<noteq> ''active''"
    "w_reg w1 = (w_reg w)\<lparr>workload_leases := update_where (\<lambda>x. wl_id x = wl_id l)
       (closed now (JList rs) st) (workload_leases (w_reg w))\<rparr>"
    by (rule close_lease_run [of l "''expired''" env wl w]) (use Cons.prems in \<open>auto simp: workload_statuses_def\<close>)
  have s1: "swept {wl_id l} (workload_leases (w_reg w)) (workload_leases (w_reg w1))" using swept_close [OF 1(2)] 1(4) by simp
  have ok: "wl_ok (w_reg w) \<Longrightarrow> wl_ok (w_reg w1)" using wl_ok_close 1(3,4) by simp
  obtain sums w2 where 2: "sweep_each env wl ls w1 = (Inr sums, w2)"
    "swept (wl_id ` set ls) (workload_leases (w_reg w1)) (workload_leases (w_reg w2))"
    "wl_ok (w_reg w1) \<longrightarrow> wl_ok (w_reg w2)"
    using Cons.IH [of w1] Cons.prems by auto
  then have "sweep_each env wl (l # ls) w = (Inr ([(''lease_id'', JStr (wl_id l)), (''drydock_id'', JStr (wl_drydock_id l)),
             (''terminal_status'', JStr st), (''results'', JList rs)] # sums), w2)"
    using 1(1) by (simp add: bind_def ret_def)
  moreover have "swept (wl_id ` set (l # ls)) (workload_leases (w_reg w)) (workload_leases (w_reg w2))"
    using swept_trans [OF s1 2(2)] by simp
  ultimately show ?case using 2(3) ok by blast
qed (simp add: ret_def swept_refl)

lemma swept_member: "swept I ls ls' \<Longrightarrow> l' \<in> set ls' \<Longrightarrow> \<exists>l\<in>set ls. swept_row I l l'"
  unfolding swept_def by (metis in_set_conv_nth list_all2_conv_all_nth)

lemma sweep_expired_run:
  assumes "wl_ok (w_reg w)"
  obtains sums w' where "sweep_expired_leases env wl w = (Inr sums, w')"
    "swept (wl_id ` set (expired_leases (e_now env (w_ticks w)) (w_reg w))) (workload_leases (w_reg w)) (workload_leases (w_reg w'))"
    "wl_ok (w_reg w')"
proof -
  let ?w = "w\<lparr>w_ticks := Suc (w_ticks w)\<rparr>" and ?ls = "expired_leases (e_now env (w_ticks w)) (w_reg w)"
  have "\<forall>l\<in>set ?ls. \<forall>e\<in>set (wl_applied_actions l). is_obj e"
    using assms by (auto simp: expired_leases_def wl_ok_def)
  from sweep_each_run [OF this, of env wl ?w] assms that show ?thesis
    by (auto simp: sweep_expired_leases_def utc_now_def bind_def tick_def ret_def query_def reads_def)
qed

section \<open>What the calls keep\<close>

lemma register_workload_keeps:
  "keeps (on_reg wl_ok) (register_workload env wl params rid caller)"
  "keeps (on_reg wl_statuses_ok) (register_workload env wl params rid caller)"
proof -
  have "(wl_ok (w_reg w) \<longrightarrow> wl_ok (w_reg w')) \<and> (wl_statuses_ok (w_reg w) \<longrightarrow> wl_statuses_ok (w_reg w'))"
    if "register_workload env wl params rid caller w = (res, w')" for w res w'
    using register_workload_cases [OF that] wl_ok_insert insert_statuses by (auto simp: grants_lease_def)
  then show "keeps (on_reg wl_ok) (register_workload env wl params rid caller)"
    "keeps (on_reg wl_statuses_ok) (register_workload env wl params rid caller)"
    unfolding keeps_def by (metis prod.collapse)+
qed

lemma release_workload_keeps:
  "keeps (on_reg wl_ok) (release_workload env wl params rid caller)"
  "keeps (on_reg wl_statuses_ok) (release_workload env wl params rid caller)"
proof -
  have "keeps (on_reg wl_ok) (close_lease env wl ''released'' l)" for l
    unfolding keeps_def using close_lease_wl_ok [OF prod.collapse [symmetric]]
    by (simp add: workload_statuses_def)
  then show "keeps (on_reg wl_ok) (release_workload env wl params rid caller)"
    unfolding release_workload_def by (intro keeps_rules)
  show "keeps (on_reg wl_statuses_ok) (release_workload env wl params rid caller)"
    unfolding release_workload_def by (intro keeps_rules close_lease_statuses)
qed

lemma sweep_turn_keeps:
  "keeps (on_reg wl_ok) (sweep_turn env wl)" "keeps (on_reg wl_statuses_ok) (sweep_turn env wl)"
proof -
  have audit: "keeps (on_reg P) (audit_summary env s)" for P s
    unfolding audit_summary_def Let_def by (intro keeps_rules)
  have "keeps (on_reg wl_ok) (sweep_expired_leases env wl)"
    unfolding keeps_def by (metis snd_conv sweep_expired_run)
  then show "keeps (on_reg wl_ok) (sweep_turn env wl)"
    unfolding sweep_turn_def by (intro keeps_rules audit)
  have "keeps (on_reg wl_statuses_ok) (sweep_each env wl ls)" for ls
    by (induction ls) (simp_all add: keeps_ret keeps_bind keeps_prod close_lease_statuses)
  then show "keeps (on_reg wl_statuses_ok) (sweep_turn env wl)"
    unfolding sweep_turn_def sweep_expired_leases_def by (intro keeps_rules audit)
qed

lemma register_params_fields:
  assumes "validated_register_params params = Inr spec"
  obtains p where "params = JObj p" "dict_get p ''kind'' = JStr (ws_kind spec)"
    "dict_get_default p ''duration_max_seconds'' (JInt 3600) = JInt (ws_duration spec)"
proof -
  obtain p where p: "params = JObj p" using assms by (cases params) (simp_all add: validated_register_params_def)
  with assms have "dict_get p ''kind'' = JStr (ws_kind spec)"
    "dict_get_default p ''duration_max_seconds'' (JInt 3600) = JInt (ws_duration spec)"
    unfolding validated_register_params_def by (auto split: json.splits)
  with p that show thesis by blast
qed

section \<open>Properties\<close>

text \<open>
  (C22) A lift that was applied can be undone from the lease's stored record alone: it issued one
  \<^verbatim>\<open>docker update\<close> with the lifted limits, reverting the stored entry issues one with the original
  ceilings of the desk, and that one sets again every limit the lift had set.
\<close>

theorem lift_is_reversible:
  assumes "build_actions_for_spec spec cid standing = Inr [a]" "flags_for wl (lifted a) \<noteq> []"
    "apply_action env wl a w = (Inr persisted, w1)"
    "revert_entry env' wl (serialize a @ [(''persisted'', JObj persisted)]) w2 = (res, w3)"
  shows "w_calls w1 = w_calls w @ [([''docker'', ''update''] @ flags_for wl (lifted a) @ [container_id a], None)] \<and>
    w_calls w3 = w_calls w2 @ [([''docker'', ''update''] @ revert_flags_for wl (original a) @ [container_id a], None)] \<and>
    resets (revert_flags_for wl (original a)) (flags_for wl (lifted a))"
proof -
  obtain c h l where a: "a = CgroupLiftAction c h l" by (cases a)
  note ap = apply_action_run [OF assms(3) [unfolded a]]
  have r: "resets (revert_flags_for wl h) (flags_for wl l)" using safe_resets ap by blast
  then have ne: "revert_flags_for wl h \<noteq> []" using assms(2) a by (auto simp: resets_def)
  have "bind (revert_cgroup_limits env' wl c h) (\<lambda>_. ret ()) w2 = (res, w3)"
    using assms(4) ap build_actions_wf [OF assms(1)] revert_record_run by (simp add: a)
  then have "w_calls w3 = w_calls w2 @ [([''docker'', ''update''] @ revert_flags_for wl h @ [c], None)]"
    using ne by (auto simp: revert_cgroup_limits_def Let_def bind_def andthen_def ret_def dest!: docker_update_call
        split: prod.splits sum.splits)
  with ap r assms(2) show ?thesis by (simp add: a)
qed

definition sample_wl :: wl_env where
  "sample_wl = \<lparr>float_repr = (\<lambda>_. ''1.5''), plus_seconds = (\<lambda>t s. t @ ''+'' @ show_int s)\<rparr>"

definition sample_spec :: WorkloadSpec where
  "sample_spec = \<lparr>ws_kind = ''training'', ws_description = [], ws_expected = [(''memory_max'', JStr ''8g'')],
     ws_duration = 600\<rparr>"

definition sample_lift :: action where
  "sample_lift = CgroupLiftAction ''c1'' \<lparr>cpu_max = None, memory_max = Some ''4g'', pids_max = None\<rparr>
     \<lparr>cpu_max = None, memory_max = Some ''8g'', pids_max = None\<rparr>"

theorem lift_is_reversible_witness:
  "\<exists>w1 w3 :: world. w_calls (w1 :: world) = w_calls sample_world @
      [([''docker'', ''update''] @ flags_for sample_wl (lifted sample_lift) @ [container_id sample_lift], None)] \<and>
    w_calls w3 = w_calls w1 @
      [([''docker'', ''update''] @ revert_flags_for sample_wl (original sample_lift) @ [container_id sample_lift], None)] \<and>
    resets (revert_flags_for sample_wl (original sample_lift)) (flags_for sample_wl (lifted sample_lift))"
proof -
  define p where "p = apply_action sample_env sample_wl sample_lift sample_world"
  have "build_actions_for_spec sample_spec ''c1'' [(''memory_max'', JStr ''4g'')] = Inr [sample_lift]" by code_simp
  moreover have "flags_for sample_wl (lifted sample_lift) \<noteq> []" by code_simp
  moreover have "\<not> isl (fst p)" unfolding p_def by code_simp
  then have "apply_action sample_env sample_wl sample_lift sample_world = (Inr (projr (fst p)), snd p)"
    unfolding p_def [symmetric] by (rule run_ok)
  ultimately show ?thesis
    using lift_is_reversible [OF _ _ _ prod.collapse [symmetric]] by blast
qed

text \<open>
  (C23) The lease table of workloads keeps its invariants: ids are unique, a desk holds at most one
  active lease and every stored action is an object that can be read back; and every status is one
  of active, released, expired and partial-revoked. RegisterWorkload, ReleaseWorkload and the
  sweeper keep each of them, whatever they are asked and however they end.
\<close>

theorem workload_leases_invariant:
  "keeps (on_reg wl_ok) (register_workload env wl params rid caller) \<and>
   keeps (on_reg wl_ok) (release_workload env wl params rid caller) \<and>
   keeps (on_reg wl_ok) (sweep_turn env wl) \<and>
   keeps (on_reg wl_statuses_ok) (register_workload env wl params rid caller) \<and>
   keeps (on_reg wl_statuses_ok) (release_workload env wl params rid caller) \<and>
   keeps (on_reg wl_statuses_ok) (sweep_turn env wl)"
  by (intro conjI register_workload_keeps release_workload_keeps sweep_turn_keeps)

text \<open>
  (C24) The sweeper gets its work done: from a table in order a sweep always returns, and then no
  active lease is past the time it started at; each expired lease is closed as \<open>expired\<close> or
  \<open>partial-revoked\<close>, and every other lease is exactly as before.
\<close>

theorem sweep_closes_expired:
  assumes "wl_ok (w_reg w)"
  shows "\<exists>sums w'. sweep_expired_leases env wl w = (Inr sums, w') \<and>
    expired_leases (e_now env (w_ticks w)) (w_reg w') = [] \<and>
    swept (wl_id ` set (expired_leases (e_now env (w_ticks w)) (w_reg w))) (workload_leases (w_reg w)) (workload_leases (w_reg w'))"
proof -
  let ?now = "e_now env (w_ticks w)"
  let ?I = "wl_id ` set (expired_leases ?now (w_reg w))"
  obtain sums w' where run: "sweep_expired_leases env wl w = (Inr sums, w')"
    and sw: "swept ?I (workload_leases (w_reg w)) (workload_leases (w_reg w'))"
    by (rule sweep_expired_run [OF assms])
  have "\<not> (wl_status l' = ''active'' \<and> wl_expires_at l' < ?now)" if l': "l' \<in> set (workload_leases (w_reg w'))" for l'
  proof -
    obtain l where "l \<in> set (workload_leases (w_reg w))" "swept_row ?I l l'" using swept_member [OF sw l'] by blast
    then show ?thesis by (auto simp: swept_row_def expired_leases_def split: if_splits)
  qed
  then have "set (expired_leases ?now (w_reg w')) = {}" by (auto simp: expired_leases_def)
  with run sw show ?thesis by auto
qed

definition sample_wl_lease :: workload_lease_row where
  "sample_wl_lease = \<lparr>wl_id = ''wl_1'', wl_drydock_id = ''dock_a'', wl_spec = spec_json sample_spec,
     wl_applied_actions = [action_entry (sample_lift, lift_record sample_wl sample_lift)], wl_granted_at = ''2025'',
     wl_expires_at = ''2025'', wl_status = ''active'', wl_revoked_at = None, wl_revoke_results = None\<rparr>"

definition sample_wl_world :: world where
  "sample_wl_world = sample_world\<lparr>w_reg := sample_registry\<lparr>workload_leases := [sample_wl_lease]\<rparr>\<rparr>"

theorem sweep_closes_expired_witness:
  "\<exists>sums w'. sweep_expired_leases sample_env sample_wl sample_wl_world = (Inr sums, w') \<and>
    expired_leases (e_now sample_env (w_ticks sample_wl_world)) (w_reg w') = [] \<and>
    swept (wl_id ` set (expired_leases (e_now sample_env (w_ticks sample_wl_world)) (w_reg sample_wl_world)))
      (workload_leases (w_reg sample_wl_world)) (workload_leases (w_reg w'))"
  by (rule sweep_closes_expired)
    (simp add: wl_ok_def sample_wl_world_def sample_wl_lease_def active_for_def is_obj_def action_entry_def)

text \<open>
  (C25) A lease is bounded: when RegisterWorkload answers with a result, the caller had no active
  lease and one new active lease of the caller is stored. It holds the request's specification: the
  kind is the requested one and one of the five known kinds, and the lease ends the requested
  number of seconds after its start (an hour when the request names none), at least one second
  and at most twelve hours.
\<close>

theorem registered_workload_is_bounded:
  assumes "register_workload env wl params rid caller w = (Inr v, w')"
  shows "\<exists>c p spec l. caller = Some c \<and> params = JObj p \<and>
    workload_leases (w_reg w') = workload_leases (w_reg w) @ [l] \<and>
    wl_drydock_id l = c \<and> wl_status l = ''active'' \<and> active_for (w_reg w) c = [] \<and>
    wl_spec l = spec_json spec \<and> dict_get p ''kind'' = JStr (ws_kind spec) \<and>
    ws_kind spec \<in> {''training'', ''crawl'', ''batch'', ''experiment'', ''interactive''} \<and>
    dict_get_default p ''duration_max_seconds'' (JInt 3600) = JInt (ws_duration spec) \<and>
    wl_expires_at l = plus_seconds wl (wl_granted_at l) (ws_duration spec) \<and>
    1 \<le> ws_duration spec \<and> ws_duration spec \<le> 12 * 3600"
proof -
  obtain l where l: "insert_workload_lease l (w_reg w) = Inr (w_reg w')" "grants_lease wl params caller (w_reg w) l"
    "wl_revoked_at l = None" "wl_revoke_results l = None"
    using register_workload_cases [OF assms] by auto
  then obtain c spec where cs: "caller = Some c" "validated_register_params params = Inr spec" "validate_spec spec = Inr ()"
    "active_for (w_reg w) c = []" "wl_drydock_id l = c" "wl_status l = ''active''" "wl_spec l = spec_json spec"
    "wl_expires_at l = plus_seconds wl (wl_granted_at l) (ws_duration spec)"
    by (auto simp: grants_lease_def)
  obtain p where p: "params = JObj p" "dict_get p ''kind'' = JStr (ws_kind spec)"
    "dict_get_default p ''duration_max_seconds'' (JInt 3600) = JInt (ws_duration spec)"
    by (rule register_params_fields [OF cs(2)])
  have "ws_kind spec \<in> set VALID_KINDS \<and> 1 \<le> ws_duration spec \<and> ws_duration spec \<le> 12 * 3600"
    using cs(3) by (auto simp: validate_spec_def MAX_DURATION_SECONDS_def split: if_splits)
  then have k: "ws_kind spec \<in> {''training'', ''crawl'', ''batch'', ''experiment'', ''interactive''}"
    "1 \<le> ws_duration spec" "ws_duration spec \<le> 12 * 3600" by (simp_all add: VALID_KINDS_def)
  have "w_reg w' = (w_reg w)\<lparr>workload_leases := workload_leases (w_reg w) @
      [l\<lparr>wl_revoked_at := None, wl_revoke_results := None\<rparr>]\<rparr>"
    using l(1) by (auto simp: insert_workload_lease_def split: if_splits)
  then have "workload_leases (w_reg w') = workload_leases (w_reg w) @ [l]" using l(3,4) by simp
  with cs p k show ?thesis by blast
qed

theorem registered_workload_is_bounded_witness:
  "\<exists>(w' :: world) l. workload_leases (w_reg w') = [l] \<and> wl_drydock_id l = ''dock_a'' \<and> wl_status l = ''active'' \<and>
    wl_expires_at l = plus_seconds sample_wl (wl_granted_at l) 3600"
proof -
  define p where "p = register_workload sample_env sample_wl (JObj [(''kind'', JStr ''crawl'')]) (JInt 1) (Some ''dock_a'') sample_world"
  have "\<not> isl (fst p)" unfolding p_def by code_simp
  then have "register_workload sample_env sample_wl (JObj [(''kind'', JStr ''crawl'')]) (JInt 1) (Some ''dock_a'') sample_world =
      (Inr (projr (fst p)), snd p)"
    unfolding p_def [symmetric] by (rule run_ok)
  moreover have "workload_leases (w_reg sample_world) = []"
    by (simp add: sample_world_def sample_registry_def empty_registry_def)
  ultimately show ?thesis
    using registered_workload_is_bounded by (fastforce simp: dict_get_default_def)
qed

end
