(* ===== verification/Auditor.thy ===== *)
theory Auditor
  imports Desk_Teardown Capability
begin

text \<open>
  daemon/proxy_handlers.py and daemon/auditor_handlers.py: the updates of a desk's egress allowlist
  and the actions of the auditor. The allowlist file is written by
  \<open>write_smokescreen_acl\<close>. \<open>str_of\<close> is Python's text of a JSON value that is no
  string. A dash in the texts of the answers is written as a hyphen.
\<close>

section \<open>Reloading the proxy\<close>

text \<open>Every way the signal can fail is caught and answered with \<^const>\<open>False\<close>.\<close>

definition signal_reload :: "env \<Rightarrow> string \<Rightarrow> bool op" where
  "signal_reload env container_id =
    (if container_id = [] then ret False
     else bind (subprocess_run env [''docker'', ''exec'', ''-u'', ''root'', container_id, ''pkill'', ''-HUP'', ''dockwarden''] None)
       (\<lambda>p. ret (case p of Completed rc out err \<Rightarrow> rc = 0 | _ \<Rightarrow> False)))"

section \<open>UpdateProxyAllowlist\<close>

definition py_text :: "(json \<Rightarrow> string) \<Rightarrow> json \<Rightarrow> string" where
  "py_text str_of v = (case v of JStr s \<Rightarrow> s | _ \<Rightarrow> str_of v)"

definition field_error :: "string \<Rightarrow> string \<Rightarrow> exn" where
  "field_error f why = invalid_params [(''field'', JStr f), (''reason'', JStr why)]"

definition token_required :: "string \<Rightarrow> exn" where
  "token_required why = rpc_err (-32004) ''unauthenticated'' (reason why)"

definition requested_target :: "dict \<Rightarrow> string \<Rightarrow> exn + string" where
  "requested_target p caller =
    (let v = dict_get p ''target_drydock_id'' in
     if \<not> truthy v then Inr caller
     else (case v of JStr s \<Rightarrow> Inr s | _ \<Rightarrow> Inl (field_error ''target_drydock_id'' ''must be a string'')))"

definition requested_domains :: "(json \<Rightarrow> string) \<Rightarrow> dict \<Rightarrow> exn + string list" where
  "requested_domains str_of p =
    (case map_of p ''domains'' of
       None \<Rightarrow> Inr []
     | Some (JList xs) \<Rightarrow> Inr (map (py_text str_of) (filter truthy xs))
     | Some _ \<Rightarrow> Inl (field_error ''domains'' ''must be a list''))"

definition get_caller_scope :: "string \<Rightarrow> registry \<Rightarrow> exn + string" where
  "get_caller_scope caller r =
    (case get_token_info r caller of
       None \<Rightarrow> Inl (token_required (''no token row for caller '' @ caller))
     | Some t \<Rightarrow> Inr (if tk_scope t = [] then ''dock'' else tk_scope t))"

definition scope_required :: "string \<Rightarrow> exn" where
  "scope_required scope = rpc_err (-32020) ''auditor_scope_required''
     [(''reason'', JStr ''cross-desk allowlist updates require auditor scope''), (''caller_scope'', JStr scope)]"

definition too_wide :: "string list \<Rightarrow> exn" where
  "too_wide disallowed = rpc_err (-32006) ''narrowness_violated''
     [(''field'', JStr ''domains''),
      (''reason'', JStr (''domains exceed delegatable_network_reach; edit project YAML + drydock project reload '' @
         ''to widen the policy'')),
      (''disallowed'', jstrs (sort disallowed))]"

text \<open>The narrowness gate of a caller that is not the auditor; a missing desk allows nothing.\<close>

definition check_domains :: "registry \<Rightarrow> string \<Rightarrow> string list \<Rightarrow> exn + unit" where
  "check_domains r target domains =
    (let allowed = (case load_desk_policy r target of None \<Rightarrow> [] | Some d \<Rightarrow> delegatable_network_reach d);
         disallowed = filter (\<lambda>d. d \<notin> set allowed) domains
     in if disallowed \<noteq> [] then Inl (too_wide disallowed) else Inr ())"

definition no_drydock_with_id :: "string \<Rightarrow> exn" where
  "no_drydock_with_id i = field_error ''target_drydock_id'' (''no drydock with id '' @ i)"

definition is_wildcard :: "string \<Rightarrow> bool" where
  "is_wildcard d = prefix ''*'' d"

text \<open>What follows the write: the signal, the audit entry and the answer.\<close>

definition report_update ::
    "env \<Rightarrow> string \<Rightarrow> string \<Rightarrow> string \<Rightarrow> string \<Rightarrow> string list \<Rightarrow> string \<Rightarrow> string \<Rightarrow> json op" where
  "report_update env caller scope target_id container_id domains why written =
     bind (signal_reload env container_id) (\<lambda>sent.
     let hosts = JInt (int (length (filter (\<lambda>d. \<not> is_wildcard d) domains)));
         wildcards = JInt (int (length (filter is_wildcard domains)))
     in
     andthen (emit_audit env ''egress.allowlist_updated'' (Some caller) JNull ''UpdateProxyAllowlist'' ''ok''
         [(''caller_drydock_id'', JStr caller), (''caller_scope'', JStr scope), (''target_drydock_id'', JStr target_id),
          (''domain_count'', JInt (int (length domains))), (''host_count'', hosts), (''wildcard_count'', wildcards),
          (''reason'', JStr why), (''sighup_sent'', JBool sent)])
       (ret (JObj [(''drydock_id'', JStr target_id), (''written_path'', JStr written), (''sighup_sent'', JBool sent),
          (''host_count'', hosts), (''domain_count'', wildcards)])))"

definition update_proxy_allowlist ::
    "env \<Rightarrow> desk_env \<Rightarrow> (json \<Rightarrow> string) \<Rightarrow> json \<Rightarrow> string option \<Rightarrow> json op" where
  "update_proxy_allowlist env de str_of params caller =
     bind (required caller (token_required ''UpdateProxyAllowlist requires bearer token'')) (\<lambda>c.
     bind (required (as_obj params) (invalid_params (reason ''params must be an object''))) (\<lambda>p.
     bind (from_sum (requested_target p c)) (\<lambda>target_id.
     bind (from_sum (requested_domains str_of p)) (\<lambda>domains.
     bind (query (get_caller_scope c)) (\<lambda>found_scope.
     bind (from_sum found_scope) (\<lambda>scope.
     andthen (unless (target_id = c \<or> scope = ''auditor'') (scope_required scope))
     (bind (query (\<lambda>r. if scope = ''auditor'' then Inr () else check_domains r target_id domains)) (\<lambda>checked.
     andthen (from_sum checked)
     (bind (query (\<lambda>r. drydock_by_id r target_id)) (\<lambda>found.
     bind (required found (no_drydock_with_id target_id)) (\<lambda>target.
     bind (write_smokescreen_acl de target_id domains) (\<lambda>written.
     report_update env c scope target_id (dd_container_id target) domains
       (if truthy (dict_get p ''reason'') then py_text str_of (dict_get p ''reason'') else []) written))))))))))))"

section \<open>AuditorAction\<close>

definition VALID_ACTION_KINDS :: "string list" where
  "VALID_ACTION_KINDS = [''stop_dock'', ''revoke_lease'', ''throttle_egress'', ''freeze_storage'']"

record action_spec =
  ac_kind :: string
  ac_target :: json
  ac_lease :: json
  ac_reason :: string
  ac_evidence :: dict
  ac_action :: "string option"

definition text_given :: "json \<Rightarrow> bool" where
  "text_given v = (case v of JStr (c # cs) \<Rightarrow> True | _ \<Rightarrow> False)"

definition validate_action :: "json \<Rightarrow> exn + action_spec" where
  "validate_action params =
    (case as_obj params of
       None \<Rightarrow> Inl (invalid_params (reason ''expected object''))
     | Some p \<Rightarrow>
         (case dict_get p ''kind'' of
            JStr kind \<Rightarrow>
              if kind \<notin> set VALID_ACTION_KINDS
              then Inl (invalid_params [(''field'', JStr ''kind''), (''expected_one_of'', jstrs VALID_ACTION_KINDS)])
              else (case dict_get p ''reason'' of
                 JStr why \<Rightarrow>
                   let target = dict_get p ''target_drydock_id''; lease = dict_get p ''lease_id'';
                       act = dict_get p ''action'';
                       evidence = (if truthy (dict_get p ''evidence'') then dict_get p ''evidence'' else JObj [])
                   in
                   if strip why = [] then Inl (field_error ''reason'' ''must be a non-empty string'')
                   else if kind \<in> {''stop_dock'', ''throttle_egress'', ''freeze_storage''} \<and> \<not> text_given target
                   then Inl (field_error ''target_drydock_id'' (''required for kind='' @ kind))
                   else if kind = ''revoke_lease'' \<and> \<not> text_given lease
                   then Inl (field_error ''lease_id'' ''required for kind=revoke_lease'')
                   else (case evidence of
                      JObj ev \<Rightarrow>
                        if act \<noteq> JNull \<and> (case act of JStr a \<Rightarrow> lower a \<notin> {''freeze'', ''unfreeze''} | _ \<Rightarrow> True)
                        then Inl (field_error ''action'' (''must be '' @ quoted ''freeze'' @ '' or '' @ quoted ''unfreeze''))
                        else Inr \<lparr>ac_kind = kind, ac_target = target, ac_lease = lease, ac_reason = why,
                               ac_evidence = ev, ac_action = map_option lower (as_str act)\<rparr>
                    | _ \<Rightarrow> Inl (field_error ''evidence'' ''must be an object''))
               | _ \<Rightarrow> Inl (field_error ''reason'' ''must be a non-empty string''))
          | _ \<Rightarrow> Inl (invalid_params [(''field'', JStr ''kind''), (''expected_one_of'', jstrs VALID_ACTION_KINDS)])))"

text \<open>The text a validated specification holds for its target.\<close>

definition target_text :: "action_spec \<Rightarrow> string" where
  "target_text spec = (case ac_target spec of JStr s \<Rightarrow> s | _ \<Rightarrow> [])"

definition live_stop_dock :: "env \<Rightarrow> action_spec \<Rightarrow> dict op" where
  "live_stop_dock env spec =
     bind (query (\<lambda>r. drydock_by_id r (target_text spec))) (\<lambda>row.
     bind (required row (rpc_err (-32601) ''drydock_not_found'' [(''target_drydock_id'', ac_target spec)])) (\<lambda>d.
     bind (stop_desk env False (JObj [(''name'', JStr (dd_name d))])) (\<lambda>result.
       ret [(''primitive'', JStr ''stop_desk''), (''primitive_result'', result)])))"

definition live_revoke_lease :: "env \<Rightarrow> action_spec \<Rightarrow> dict op" where
  "live_revoke_lease env spec =
     bind (release_capability env (JObj [(''lease_id'', ac_lease spec)]) JNull None) (\<lambda>result.
       ret [(''primitive'', JStr ''release_capability''), (''primitive_result'', result)])"

definition live_throttle_egress :: "env \<Rightarrow> desk_env \<Rightarrow> action_spec \<Rightarrow> dict op" where
  "live_throttle_egress env de spec =
    (let target_id = target_text spec;
         act = (case ac_action spec of Some (c # cs) \<Rightarrow> c # cs | _ \<Rightarrow> ''freeze'')
     in
     bind (query (\<lambda>r. drydock_by_id r target_id)) (\<lambda>row.
     bind (required row (no_drydock_with_id target_id)) (\<lambda>d.
     let domains = (if act = ''freeze'' then [] else delegatable_network_reach d) in
     bind (write_smokescreen_acl de target_id domains) (\<lambda>written.
     bind (signal_reload env (dd_container_id d)) (\<lambda>sent.
       ret [(''primitive'', JStr ''throttle_egress''), (''action'', JStr act), (''target_drydock_id'', JStr target_id),
         (''target_drydock_name'', JStr (dd_name d)), (''written_path'', JStr written), (''sighup_sent'', JBool sent),
         (''domain_count_after'', JInt (int (length domains)))])))))"

definition execute_live :: "env \<Rightarrow> desk_env \<Rightarrow> action_spec \<Rightarrow> dict op" where
  "execute_live env de spec =
    (if ac_kind spec = ''stop_dock'' then live_stop_dock env spec
     else if ac_kind spec = ''revoke_lease'' then live_revoke_lease env spec
     else if ac_kind spec = ''throttle_egress'' then live_throttle_egress env de spec
     else if ac_kind spec = ''freeze_storage'' then
       raise (rpc_err (-32021) ''auditor_action_unsupported'' [(''kind'', JStr (ac_kind spec)),
         (''fix'', JStr (''freeze_storage primitive not built yet - only '' @ ''stop_dock, revoke_lease, throttle_egress are live.''))])
     else raise (field_error ''kind'' (''unhandled kind '' @ quoted (ac_kind spec))))"

definition not_auditor :: exn where
  "not_auditor = rpc_err (-32020) ''auditor_scope_required''
     [(''fix'', JStr (''This RPC requires an auditor-scoped bearer token. Run `drydock auditor designate <name>` '' @
        ''to grant the scope to a drydock.''))]"

definition action_outcome :: "action_spec \<Rightarrow> bool \<Rightarrow> dict" where
  "action_outcome spec dry_run =
     [(''kind'', JStr (ac_kind spec)), (''target_drydock_id'', ac_target spec), (''lease_id'', ac_lease spec),
      (''reason'', JStr (ac_reason spec)), (''evidence'', JObj (ac_evidence spec)),
      (''execution_mode'', JStr (if dry_run then ''dry_run'' else ''live''))]"

definition auditor_action :: "env \<Rightarrow> desk_env \<Rightarrow> bool \<Rightarrow> json \<Rightarrow> json \<Rightarrow> string option \<Rightarrow> json op" where
  "auditor_action env de dry_run params request_id caller =
     bind (required caller (RpcError (-32004) ''unauthenticated'' None)) (\<lambda>c.
     bind (query get_auditor_drydock_id) (\<lambda>auditor_id.
       if auditor_id \<noteq> Some c then
         andthen (emit_audit env ''auditor.action_refused'' (Some c) request_id ''AuditorAction'' ''error''
             [(''reason'', JStr ''caller_not_auditor''), (''caller_drydock_id'', JStr c),
              (''designated_auditor_id'', jopt auditor_id)])
           (raise not_auditor)
       else
         bind (from_sum (validate_action params)) (\<lambda>spec.
           let outcome = action_outcome spec dry_run in
           if dry_run then
             andthen (emit_audit env ''auditor.action_dry_run'' (Some c) request_id ''AuditorAction'' ''ok'' outcome)
               (ret (JObj (outcome @ [(''executed'', JBool False),
                  (''note'', JStr (''AUDITOR_LIVE_ACTIONS not set - call audited, primitive not invoked. '' @
                     ''Set the env var to enable live execution.''))])))
           else
             bind (execute_live env de spec) (\<lambda>live_result.
             let full = dict_update outcome live_result in
             andthen (emit_audit env ''auditor.action_executed'' (Some c) request_id ''AuditorAction'' ''ok'' full)
               (ret (JObj (dict_update full [(''executed'', JBool True)])))))))"

end
