(* ===== verification/Auditor_Facts.thy ===== *)
theory Auditor_Facts
  imports Auditor Desk_Facts Sample
begin

text \<open>
  What the auditor and the desks can do through their two calls: a desk narrows its own allowlist
  only, an action of the auditor reaches the target desk only, and a lease it never reaches.
\<close>

section \<open>Steps that leave the registry alone\<close>

lemma settled_signal [keeps_rules]: "keeps (settled r f) (signal_reload env c)"
  unfolding signal_reload_def by (intro keeps_rules)

lemma settled_write_acl [keeps_rules]: "keeps (settled r f) (write_smokescreen_acl de i ds)"
  unfolding write_smokescreen_acl_def Let_def by (intro keeps_rules keeps_writes) (simp add: settled_def)

lemma settled_devc_stop [keeps_rules]: "keeps (settled r f) (devc_stop env dry c)"
  unfolding devc_stop_def by (intro keeps_rules)

lemma settled_throttle [keeps_rules]: "keeps (settled r f) (live_throttle_egress env de spec)"
  unfolding live_throttle_egress_def Let_def by (intro keeps_rules)

text \<open>The calls of the operating system as well.\<close>

definition untouched_by :: "world \<Rightarrow> world \<Rightarrow> bool" where
  "untouched_by w w' \<longleftrightarrow> w_reg w' = w_reg w \<and> w_files w' = w_files w \<and> w_calls w' = w_calls w \<and> w_acls w' = w_acls w"

lemma untouched_audit_entry: "emit_audit env ev p i m res d w = (r, w') \<Longrightarrow> untouched_by w w'"
  by (auto simp: emit_audit_def append_entry_def effect_defs untouched_by_def split: if_splits option.splits)

section \<open>One desk\<close>

text \<open>Only the row of desk \<open>i\<close> and the event log differ.\<close>

definition only_desk :: "string \<Rightarrow> registry \<Rightarrow> registry \<Rightarrow> bool" where
  "only_desk i r r' \<longleftrightarrow> filter (\<lambda>d. dd_id d \<noteq> i) (drydocks r') = filter (\<lambda>d. dd_id d \<noteq> i) (drydocks r) \<and>
     r'\<lparr>drydocks := [], events := []\<rparr> = r\<lparr>drydocks := [], events := []\<rparr>"

lemma only_desk_refl: "only_desk i r r"
  by (simp add: only_desk_def)

lemma filter_untouched:
  "(\<And>x. x \<in> set xs \<Longrightarrow> P x \<Longrightarrow> \<not> Q x \<and> \<not> Q (f x)) \<Longrightarrow> filter Q (update_where P f xs) = filter Q xs"
  by (induction xs) auto

lemma only_desk_state:
  assumes "desk_keys_ok r" "drydock_by_id r i = Some d"
  shows "only_desk i r (snd (update_state now (dd_name d) st r))"
proof -
  have d: "d \<in> set (drydocks r)" "dd_id d = i" using assms(2) by (auto simp: drydock_by_id_def dest: find_Some_D)
  have "dd_id x = i" if "x \<in> set (drydocks r)" "dd_name x = dd_name d" for x
    using assms(1) d that by (auto simp: desk_keys_ok_def distinct_map inj_on_def)
  then have "filter (\<lambda>x. dd_id x \<noteq> i) (update_where (\<lambda>x. dd_name x = dd_name d)
      (\<lambda>x. x\<lparr>dd_state := st, dd_updated_at := now\<rparr>) (drydocks r)) = filter (\<lambda>x. dd_id x \<noteq> i) (drydocks r)"
    by (intro filter_untouched) simp
  then show ?thesis
    by (simp add: only_desk_def update_state_def log_event_def Let_def split: option.split)
qed

lemma stop_desk_only:
  assumes "desk_keys_ok (w_reg w)" "drydock_by_id (w_reg w) i = Some d"
    and "stop_desk env dry (JObj [(''name'', JStr (dd_name d))]) w = (res, w')"
  shows "only_desk i (w_reg w) (w_reg w') \<and> w_files w' = w_files w"
proof (cases "dd_name d")
  case Nil
  then show ?thesis
    using assms(3) by (auto simp: stop_desk_def validated_target_def dict_get_def effect_defs only_desk_refl)
next
  case (Cons c cs)
  have d: "d \<in> set (drydocks (w_reg w))" using assms(2) by (auto simp: drydock_by_id_def dest: find_Some_D)
  have g: "get_drydock (w_reg w) (dd_name d) = Some d"
    using assms(1) d unfolding get_drydock_def desk_keys_ok_def by (simp add: find_distinct_key)
  obtain r w1 where s: "guarded (\<not> dry) (devc_stop env False (dd_container_id d)) w = (r, w1)" by fastforce
  have "keeps (settled r f) (guarded (\<not> dry) (devc_stop env False (dd_container_id d)))" for r f
    by (intro keeps_rules)
  note same = settledD [OF this s]
  show ?thesis
  proof (cases r)
    case (Inl e)
    then show ?thesis
      using assms(3) s g same Cons
      by (auto simp: stop_desk_def validated_target_def lookup_by_name_or_id_def dict_get_def andthen_def bind_def
          query_def reads_def from_sum_def required_def ret_def only_desk_refl)
  next
    case (Inr u)
    then have "w_reg w' = snd (update_state (e_now env (w_ticks w1)) (dd_name d) ''suspended'' (w_reg w))" "w_files w' = w_files w"
      using assms(3) s g same Cons
      by (auto simp: stop_desk_def validated_target_def lookup_by_name_or_id_def dict_get_def andthen_def bind_def
          query_def reads_def from_sum_def required_def ret_def set_state_def utc_now_def update_reg_def tick_def split: prod.splits)
    then show ?thesis using only_desk_state [OF assms(1,2)] by simp
  qed
qed

section \<open>Actions of the auditor\<close>

lemma release_without_caller: "release_capability env params rid None w = (Inl unauthenticated, w)"
  by (simp add: release_capability_def effect_defs)

lemma execute_live_only:
  assumes "execute_live env de spec w = (res, w')" "desk_keys_ok (w_reg w)"
  shows "(untouched_by w w' \<or> ac_kind spec \<in> {''stop_dock'', ''throttle_egress''}) \<and>
    only_desk (target_text spec) (w_reg w) (w_reg w') \<and> w_files w' = w_files w"
proof (cases "ac_kind spec = ''stop_dock''")
  case True
  show ?thesis
  proof (cases "drydock_by_id (w_reg w) (target_text spec)")
    case None
    then show ?thesis
      using assms(1) True by (auto simp: execute_live_def live_stop_dock_def effect_defs only_desk_refl)
  next
    case (Some d)
    obtain r w1 where s: "stop_desk env False (JObj [(''name'', JStr (dd_name d))]) w = (r, w1)" by fastforce
    then have "w' = w1"
      using assms(1) True Some by (auto simp: execute_live_def live_stop_dock_def effect_defs split: sum.splits)
    then show ?thesis using stop_desk_only [OF assms(2) Some s] True by simp
  qed
next
  case False
  show ?thesis
  proof (cases "ac_kind spec = ''throttle_egress''")
    case True
    then have "live_throttle_egress env de spec w = (res, w')" using assms(1) by (simp add: execute_live_def)
    then show ?thesis using settledD [OF settled_throttle] True by (simp add: only_desk_refl)
  next
    case no_throttle: False
    have "w' = w"
      using assms(1) False no_throttle release_without_caller
      by (auto simp: execute_live_def live_revoke_lease_def effect_defs split: if_splits)
    then show ?thesis by (simp add: untouched_by_def only_desk_refl)
  qed
qed

text \<open>
  (C30) An action of the auditor is contained: unless the designated auditor itself asks, with live
  actions enabled, for a stop or a throttle, the registry, the secret files and the containers are
  left alone, whatever the request says. Otherwise only the row of the target desk and the
  event log may differ; leases, tokens and secret files do not.
\<close>

theorem auditor_action_contained:
  assumes "auditor_action env de dry_run params rid caller w = (res, w')" "desk_keys_ok (w_reg w)"
  shows "untouched_by w w' \<or>
    (\<not> dry_run \<and> (\<exists>c spec. caller = Some c \<and> get_auditor_drydock_id (w_reg w) = Some c \<and>
       validate_action params = Inr spec \<and> ac_kind spec \<in> {''stop_dock'', ''throttle_egress''} \<and>
       only_desk (target_text spec) (w_reg w) (w_reg w') \<and> w_files w' = w_files w))"
proof (cases caller)
  case None
  then show ?thesis using assms(1) by (auto simp: auditor_action_def effect_defs untouched_by_def)
next
  case (Some c)
  show ?thesis
  proof (cases "get_auditor_drydock_id (w_reg w) = Some c")
    case False
    then obtain r where "emit_audit env ''auditor.action_refused'' (Some c) rid ''AuditorAction'' ''error''
        [(''reason'', JStr ''caller_not_auditor''), (''caller_drydock_id'', JStr c),
         (''designated_auditor_id'', jopt (get_auditor_drydock_id (w_reg w)))] w = (r, w')"
      using assms(1) Some
      by (auto simp: auditor_action_def andthen_def bind_def required_def ret_def raise_def query_def reads_def split: prod.splits sum.splits)
    then show ?thesis using untouched_audit_entry by blast
  next
    case auditor: True
    show ?thesis
    proof (cases "validate_action params")
      case (Inl e)
      then show ?thesis using assms(1) Some auditor by (auto simp: auditor_action_def effect_defs untouched_by_def)
    next
      case (Inr spec)
      show ?thesis
      proof (cases dry_run)
        case True
        then obtain d r where "emit_audit env ''auditor.action_dry_run'' (Some c) rid ''AuditorAction'' ''ok'' d w = (r, w')"
          using assms(1) Some auditor Inr
          by (auto simp: auditor_action_def andthen_def bind_def required_def ret_def raise_def query_def reads_def from_sum_def Let_def
              split: prod.splits sum.splits)
        then show ?thesis using untouched_audit_entry by blast
      next
        case False
        obtain r w1 where l: "execute_live env de spec w = (r, w1)" by fastforce
        have "untouched_by w1 w'"
          using assms(1) Some auditor Inr False l untouched_audit_entry
          by (auto simp: auditor_action_def andthen_def bind_def required_def ret_def raise_def query_def reads_def from_sum_def Let_def
              untouched_by_def split: prod.splits sum.splits)
        then show ?thesis
          using execute_live_only [OF l assms(2)] Some auditor Inr False by (auto simp: untouched_by_def)
      qed
    qed
  qed
qed


text \<open>
  (C32) The auditor cannot revoke a lease: the live action calls \<^verbatim>\<open>release_capability\<close> without a
  caller, which that handler refuses, so every such request of the designated auditor ends as
  unauthenticated and nothing changes.
\<close>

theorem auditor_cannot_revoke:
  assumes "get_auditor_drydock_id (w_reg w) = Some c" "validate_action params = Inr spec" "ac_kind spec = ''revoke_lease''"
  shows "auditor_action env de False params rid (Some c) w = (Inl unauthenticated, w)"
  using assms release_without_caller
  by (simp add: auditor_action_def execute_live_def live_revoke_lease_def effect_defs Let_def)

definition sample_auditor_world :: world where
  "sample_auditor_world = sample_world\<lparr>w_reg := sample_registry\<lparr>tokens := [\<lparr>tk_drydock_id = ''dock_x'', tk_sha256 = ''s'',
     tk_issued_at = ''t0'', tk_rotated_at = None, tk_scope = ''auditor''\<rparr>]\<rparr>\<rparr>"

definition sample_revoke :: json where
  "sample_revoke = JObj [(''kind'', JStr ''revoke_lease''), (''reason'', JStr ''idle''), (''lease_id'', JStr ''ls_1'')]"

definition sample_proxy_env :: desk_env where
  "sample_proxy_env = \<lparr>de_yaml_sha = (\<lambda>_. []), de_write_acl = (\<lambda>_ _ _. Inr ()), de_checkout = (\<lambda>_ _. Inr []),
     de_exists = (\<lambda>_ _. True), de_write_overlay = (\<lambda>_ _ _ _. Inr []), de_regenerate_overlay = (\<lambda>_ _ _. Inr ()),
     de_seed_trust = (\<lambda>_ _ _. Inr ()), de_remove_overlay = (\<lambda>_ _. Inr ()), de_home = ''/h'', de_str = (\<lambda>_. []),
     de_inflight_max = 5, de_sql_text = (\<lambda>_. None)\<rparr>"

theorem auditor_cannot_revoke_witness:
  "auditor_action sample_env sample_proxy_env False sample_revoke (JInt 1) (Some ''dock_x'') sample_auditor_world =
     (Inl unauthenticated, sample_auditor_world)"
proof -
  have "case validate_action sample_revoke of Inr spec \<Rightarrow> ac_kind spec = ''revoke_lease'' | Inl e \<Rightarrow> False" by code_simp
  then have "\<exists>spec. validate_action sample_revoke = Inr spec \<and> ac_kind spec = ''revoke_lease''"
    by (simp split: sum.splits)
  moreover have "get_auditor_drydock_id (w_reg sample_auditor_world) = Some ''dock_x''"
    by (simp add: sample_auditor_world_def get_auditor_drydock_id_def)
  ultimately show ?thesis using auditor_cannot_revoke by blast
qed

theorem auditor_action_contained_witness:
  "untouched_by sample_auditor_world (snd (auditor_action sample_env sample_proxy_env True sample_revoke (JInt 1) (Some ''dock_x'') sample_auditor_world))"
proof -
  have "desk_keys_ok (w_reg sample_auditor_world)"
    by (simp add: sample_auditor_world_def sample_registry_def desk_keys_ok_def)
  from auditor_action_contained [OF prod.collapse [symmetric] this] show ?thesis by blast
qed

section \<open>Allowlists\<close>

lemma andthen_from_sum [run_simps]:
  "andthen (from_sum v) m w = (case v of Inl e \<Rightarrow> (Inl e, w) | Inr _ \<Rightarrow> m w)"
  by (simp add: andthen_def bind_from_sum)

text \<open>The allowlist files written so far.\<close>

definition acls_are :: "(string \<times> dict) list \<Rightarrow> world \<Rightarrow> bool" where
  "acls_are as w \<longleftrightarrow> w_acls w = as"

lemma acls_tick [keeps_rules]: "keeps (acls_are as) tick"
  by (simp add: keeps_def tick_def acls_are_def)

lemma acls_run [keeps_rules]: "keeps (acls_are as) (subprocess_run env argv inp)"
  unfolding subprocess_run_def by (intro keeps_rules keeps_writes) (simp add: acls_are_def)

lemma acls_signal [keeps_rules]: "keeps (acls_are as) (signal_reload env c)"
  unfolding signal_reload_def by (intro keeps_rules)

lemma acls_audit [keeps_rules]: "keeps (acls_are as) (emit_audit env ev p i m res d)"
  unfolding keeps_def acls_are_def using untouched_audit_entry [of env ev p i m res d]
  by (metis prod.collapse untouched_by_def)

lemma acls_report: "keeps (acls_are as) (report_update env c scope i k ds why written)"
  unfolding report_update_def Let_def by (intro keeps_rules)

lemma settled_report [keeps_rules]: "keeps (settled r f) (report_update env c scope i k ds why written)"
  unfolding report_update_def Let_def by (intro keeps_rules)

lemma write_acl_run:
  "write_smokescreen_acl de i ds w = (res, w') \<Longrightarrow>
   (isl res \<longrightarrow> w_acls w' = w_acls w) \<and>
   (\<not> isl res \<longrightarrow> w_acls w' = w_acls w @ [(i, generate_smokescreen_acl i ds)])"
  by (auto simp: write_smokescreen_acl_def Let_def ext_def effect_defs split: sum.splits)

text \<open>The gates of UpdateProxyAllowlist, and what follows them.\<close>

definition may_set_acl :: "registry \<Rightarrow> string \<Rightarrow> string \<Rightarrow> string list \<Rightarrow> bool" where
  "may_set_acl r c target domains \<longleftrightarrow> (\<exists>t d. get_token_info r c = Some t \<and> drydock_by_id r target = Some d \<and>
     (tk_scope t = ''auditor'' \<or> target = c \<and> set domains \<subseteq> set (delegatable_network_reach d)))"

lemma allowlist_gates:
  assumes "update_proxy_allowlist env de str_of params caller w = (res, w')"
  shows "(w' = w \<and> isl res) \<or>
    (\<exists>c p target domains rest. caller = Some c \<and> params = JObj p \<and> requested_target p c = Inr target \<and>
       requested_domains str_of p = Inr domains \<and> may_set_acl (w_reg w) c target domains \<and>
       (\<forall>as x. keeps (acls_are as) (rest x)) \<and> bind (write_smokescreen_acl de target domains) rest w = (res, w'))"
proof -
  note run = update_proxy_allowlist_def run_simps
  consider "w' = w" "isl res"
    | c p target domains scope d where "caller = Some c" "params = JObj p" "requested_target p c = Inr target"
      "requested_domains str_of p = Inr domains" "get_caller_scope c (w_reg w) = Inr scope"
      "target = c \<or> scope = ''auditor''" "scope \<noteq> ''auditor'' \<longrightarrow> check_domains (w_reg w) target domains = Inr ()"
      "drydock_by_id (w_reg w) target = Some d"
    using assms by (cases params) (auto simp: run split: option.splits sum.splits if_splits)
  then show ?thesis
  proof cases
    case 2
    then obtain t where t: "get_token_info (w_reg w) c = Some t" "scope = ''auditor'' \<longleftrightarrow> tk_scope t = ''auditor''"
      by (auto simp: get_caller_scope_def split: option.splits if_splits)
    have "set domains \<subseteq> set (delegatable_network_reach d)" if "scope \<noteq> ''auditor''"
      using 2(7,8) that by (auto simp: check_domains_def load_desk_policy_def filter_empty_conv Let_def split: if_splits)
    then have "may_set_acl (w_reg w) c target domains" using 2 t by (auto simp: may_set_acl_def)
    moreover let ?rest = "report_update env c scope target (dd_container_id d) domains
        (if truthy (dict_get p ''reason'') then py_text str_of (dict_get p ''reason'') else [])"
    have "bind (write_smokescreen_acl de target domains) ?rest w = (res, w')"
      using assms 2 by (cases "scope = ''auditor''") (simp_all add: run)
    moreover have "\<forall>as x. keeps (acls_are as) (?rest x)" by (simp add: acls_report)
    ultimately show ?thesis using 2(1-4) by (intro disjI2 exI [of _ ?rest] exI conjI)
  qed simp
qed

text \<open>
  (C31) A desk that is not the auditor can only narrow its own allowlist. However UpdateProxyAllowlist
  ends, the registry and the secret files are as before, and either no allowlist file was written
  and the call failed, or exactly one was: that of the requested target, with the document of the
  requested domains, the caller's token being registered, the target a registered desk, and the
  scope of the token that of the auditor unless the target is the caller itself and every domain is
  one of its delegated network reach.
\<close>

theorem allowlist_update_is_narrow:
  assumes "update_proxy_allowlist env de str_of params caller w = (res, w')"
  shows "w_reg w' = w_reg w \<and> w_files w' = w_files w \<and>
    (w_acls w' = w_acls w \<and> isl res \<or>
     (\<exists>c p t target domains d. caller = Some c \<and> params = JObj p \<and> get_token_info (w_reg w) c = Some t \<and>
        requested_target p c = Inr target \<and> requested_domains str_of p = Inr domains \<and>
        drydock_by_id (w_reg w) target = Some d \<and>
        (tk_scope t = ''auditor'' \<or> target = c \<and> set domains \<subseteq> set (delegatable_network_reach d)) \<and>
        w_acls w' = w_acls w @ [(target, generate_smokescreen_acl target domains)]))"
proof -
  have "keeps (settled r f) (update_proxy_allowlist env de str_of params caller)" for r f
    unfolding update_proxy_allowlist_def Let_def by (intro keeps_rules)
  note same = settledD [OF this assms]
  from allowlist_gates [OF assms] show ?thesis
  proof (elim disjE exE conjE)
    fix c p target domains rest
    assume g: "caller = Some c" "params = JObj p" "requested_target p c = Inr target"
      "requested_domains str_of p = Inr domains" "may_set_acl (w_reg w) c target domains"
      and rest: "\<forall>as x. keeps (acls_are as) (rest x)"
      and tail: "bind (write_smokescreen_acl de target domains) rest w = (res, w')"
    obtain r1 w1 where wr: "write_smokescreen_acl de target domains w = (r1, w1)" by fastforce
    have "w_acls w' = w_acls w \<and> isl res \<or> w_acls w' = w_acls w @ [(target, generate_smokescreen_acl target domains)]"
    proof (cases r1)
      case (Inr x)
      then have "rest x w1 = (res, w')" using tail wr by (simp add: bind_def)
      with rest have "w_acls w' = w_acls w1" using keepsD [of "acls_are (w_acls w1)" "rest x"] by (simp add: acls_are_def)
      then show ?thesis using write_acl_run [OF wr] Inr by simp
    qed (use tail wr write_acl_run [OF wr] in \<open>auto simp: bind_def\<close>)
    then show ?thesis using g same unfolding may_set_acl_def by blast
  qed (use same in simp)
qed

definition sample_update :: json where
  "sample_update = JObj [(''domains'', JList [JStr ''*.example.com''])]"

theorem allowlist_update_is_narrow_witness:
  "w_acls (snd (update_proxy_allowlist sample_env sample_proxy_env (\<lambda>v. []) sample_update (Some ''dock_a'') sample_world)) =
     [(''dock_a'', generate_smokescreen_acl ''dock_a'' [''*.example.com''])]"
proof -
  define run where "run = update_proxy_allowlist sample_env sample_proxy_env (\<lambda>v. []) sample_update (Some ''dock_a'') sample_world"
  have ok: "\<not> isl (fst run)" unfolding run_def by code_simp
  have "requested_target [(''domains'', JList [JStr ''*.example.com''])] ''dock_a'' = Inr ''dock_a''"
    "requested_domains (\<lambda>v. []) [(''domains'', JList [JStr ''*.example.com''])] = Inr [''*.example.com'']" by code_simp+
  with allowlist_update_is_narrow [OF prod.collapse [symmetric], of sample_env sample_proxy_env "\<lambda>v. []" sample_update
      "Some ''dock_a''" sample_world] ok
  show ?thesis unfolding run_def by (auto simp: sample_update_def sample_world_def)
qed

end
