(* ===== verification/Concurrency.thy ===== *)
theory Concurrency
  imports Desk_Properties Capability_Facts Workload_Facts Auditor_Facts
begin

text \<open>
  The threads of the daemon on one registry. The server handles every connection in a thread of
  its own, so two copies of a request may run \<^verbatim>\<open>with_task_log\<close> at the same time, their SQL
  statements interleaved: the look-up, the \<^verbatim>\<open>INSERT\<close>, the handler's own statements and the final
  \<^verbatim>\<open>UPDATE\<close> are the steps of the daemon. The task log is evicted at start-up only, before the first
  connection, so eviction is no step here. Seven methods of the server are wrapped in
  \<^verbatim>\<open>with_task_log\<close>. Proved: on the registry their handlers only run statements of other tables, a
  call of any of them is a run of these steps, and in every interleaving each id of a wrapped call
  runs its handler at most once. ReleaseCapability, StopDesk, RegisterClarification and
  UpdateProxyAllowlist are not wrapped; their statements may come in between as any other's.
\<close>

section \<open>The wrapped methods\<close>




section \<open>What the handlers do to the registry\<close>





















section \<open>Steps of the daemon\<close>

text \<open>
  Where a thread is in \<^verbatim>\<open>with_task_log\<close>: before the look-up, between the look-up that found nothing
  and the insert, in the handler, or done. \<open>ds_runs\<close> lists the keys whose handlers were started.
\<close>

datatype phase = Idle | Checked string | Running string | Answered

record daemon_state =
  ds_reg :: registry
  ds_threads :: "nat \<Rightarrow> phase"
  ds_runs :: "string list"

definition set_phase :: "nat \<Rightarrow> phase \<Rightarrow> daemon_state \<Rightarrow> daemon_state" where
  "set_phase i p s = s\<lparr>ds_threads := (ds_threads s)(i := p)\<rparr>"

text \<open>
  A step \<open>work\<close> is one statement of any handler, wrapped or not, or of the sweeper; the \<open>finish\<close>
  is that of a value or an \<^verbatim>\<open>_RpcError\<close>, the \<open>escape\<close> that of any other exception.
\<close>

inductive daemon_step :: "daemon_state \<Rightarrow> daemon_state \<Rightarrow> bool" where
  replay: "ds_threads s i = Idle \<Longrightarrow> get_task (ds_reg s) k \<noteq> None \<Longrightarrow>
    daemon_step s (set_phase i Answered s)"
| check: "ds_threads s i = Idle \<Longrightarrow> get_task (ds_reg s) k = None \<Longrightarrow>
    daemon_step s (set_phase i (Checked k) s)"
| insert: "ds_threads s i = Checked k \<Longrightarrow> insert_task (open_row now meth k params) (ds_reg s) = Inr r' \<Longrightarrow>
    daemon_step s (set_phase i (Running k) (s\<lparr>ds_reg := r', ds_runs := ds_runs s @ [k]\<rparr>))"
| insert_fails: "ds_threads s i = Checked k \<Longrightarrow> insert_task (open_row now meth k params) (ds_reg s) = Inl e \<Longrightarrow>
    daemon_step s (set_phase i Answered s)"
| work: "table_step (ds_reg s) r' \<Longrightarrow> daemon_step s (s\<lparr>ds_reg := r'\<rparr>)"
| finish: "ds_threads s i = Running k \<Longrightarrow>
    daemon_step s (set_phase i Answered (s\<lparr>ds_reg := finish_task_log now k status outcome (ds_reg s)\<rparr>))"
| escape: "ds_threads s i = Running k \<Longrightarrow> daemon_step s (set_phase i Answered s)"

definition booted :: "registry \<Rightarrow> daemon_state" where
  "booted r = \<lparr>ds_reg = r, ds_threads = (\<lambda>_. Idle), ds_runs = []\<rparr>"

section \<open>Calls are runs\<close>

lemma set_phase_simps [simp]:
  "ds_reg (set_phase i p s) = ds_reg s" "ds_runs (set_phase i p s) = ds_runs s"
  "ds_threads (set_phase i p s) = (ds_threads s)(i := p)"
  by (simp_all add: set_phase_def)




section \<open>The invariant\<close>

text \<open>No key ran twice, and a key that ran has a row now and had none at boot.\<close>

definition ran_once :: "registry \<Rightarrow> daemon_state \<Rightarrow> bool" where
  "ran_once r0 s \<longleftrightarrow> distinct (ds_runs s) \<and>
     (\<forall>k\<in>set (ds_runs s). get_task (ds_reg s) k \<noteq> None \<and> get_task r0 k = None) \<and>
     (\<forall>k. get_task r0 k \<noteq> None \<longrightarrow> get_task (ds_reg s) k \<noteq> None)"

lemma ran_once_booted: "ran_once r (booted r)"
  by (simp add: ran_once_def booted_def)

lemma ran_once_same_rows:
  "ran_once r0 s \<Longrightarrow> (\<And>k. get_task r' k = None \<longleftrightarrow> get_task (ds_reg s) k = None) \<Longrightarrow>
   ran_once r0 (s\<lparr>ds_reg := r'\<rparr>)"
  unfolding ran_once_def by simp

lemma ran_once_set_phase [simp]: "ran_once r0 (set_phase i p s) = ran_once r0 s"
  by (simp add: ran_once_def)

lemma ran_once_insert:
  assumes "ran_once r0 s" "insert_task (open_row now meth k params) (ds_reg s) = Inr r'"
  shows "ran_once r0 (s\<lparr>ds_reg := r', ds_runs := ds_runs s @ [k]\<rparr>)"
proof -
  have fresh: "get_task (ds_reg s) k = None"
    using tasks.ins_fresh [OF assms(2)] by (simp add: open_row_def)
  moreover have "get_task r' j = None \<longleftrightarrow> j \<noteq> k \<and> get_task (ds_reg s) j = None" for j
    using tasks.lookup_ins [OF assms(2), of j] by (simp add: open_row_def)
  ultimately show ?thesis using assms(1) by (auto simp: ran_once_def)
qed

lemma ran_once_step: "daemon_step s s' \<Longrightarrow> ran_once r0 s \<Longrightarrow> ran_once r0 s'"
proof (induction rule: daemon_step.induct)
  case (work s r')
  then show ?case by (simp add: ran_once_same_rows get_task_def table_step_task_log)
next
  case (finish s i k now status outcome)
  then show ?case by (simp add: ran_once_same_rows get_task_finish)
qed (simp_all add: ran_once_insert)

section \<open>Properties\<close>

text \<open>
  (C18) At most once: in every interleaving of the daemon's threads since start-up, whatever
  statements the other handlers run in between, no request id of a call wrapped in
  \<^verbatim>\<open>with_task_log\<close> has run its handler twice, and no id that was already in the task log at start-up
  has run at all. (CreateDesk, SpawnChild, DestroyDesk, RequestCapability, RegisterWorkload,
  ReleaseWorkload and AuditorAction are wrapped; ReleaseCapability, StopDesk,
  RegisterClarification and UpdateProxyAllowlist are not.)
\<close>

theorem handlers_run_at_most_once:
  assumes "daemon_step\<^sup>*\<^sup>* (booted r) s"
  shows "distinct (ds_runs s) \<and> (\<forall>k\<in>set (ds_runs s). get_task r k = None)"
proof -
  have "ran_once r s"
    using assms by (induction rule: rtranclp_induct) (auto intro: ran_once_booted ran_once_step)
  then show ?thesis by (simp add: ran_once_def)
qed

text \<open>Two threads with the same id: both look it up before either inserts; one of them runs.\<close>

definition sample_race :: daemon_state where
  "sample_race =
     (let r = empty_registry\<lparr>task_log := [open_row ''t'' ''CreateDesk'' ''1'' JNull]\<rparr>
      in set_phase 1 Answered (set_phase 0 (Running ''1'')
        (\<lparr>ds_reg = r, ds_threads = (\<lambda>_. Idle)(0 := Checked ''1'', 1 := Checked ''1''), ds_runs = [''1'']\<rparr>)))"

lemma sample_race_reached: "daemon_step\<^sup>*\<^sup>* (booted empty_registry) sample_race"
proof -
  let ?a = "set_phase 0 (Checked ''1'') (booted empty_registry)"
  let ?b = "set_phase 1 (Checked ''1'') ?a"
  let ?r = "empty_registry\<lparr>task_log := [open_row ''t'' ''CreateDesk'' ''1'' JNull]\<rparr>"
  let ?c = "set_phase 0 (Running ''1'') (?b\<lparr>ds_reg := ?r, ds_runs := ds_runs ?b @ [''1'']\<rparr>)"
  have "daemon_step (booted empty_registry) ?a"
    by (rule daemon_step.check) (simp_all add: booted_def get_task_def empty_registry_def)
  moreover have "daemon_step ?a ?b"
    by (rule daemon_step.check) (simp_all add: booted_def get_task_def empty_registry_def)
  moreover have "daemon_step ?b ?c"
    by (rule daemon_step.insert [where now = "''t''" and meth = "''CreateDesk''" and params = JNull])
      (simp_all add: booted_def get_task_def empty_registry_def insert_task_def task_statuses_def open_row_def)
  moreover have "daemon_step ?c (set_phase 1 Answered ?c)"
    by (rule daemon_step.insert_fails [where k = "''1''" and now = "''t''" and meth = "''CreateDesk''" and params = JNull])
      (auto simp add: booted_def get_task_def insert_task_def open_row_def)
  moreover have "set_phase 1 Answered ?c = sample_race"
    by (auto simp: sample_race_def set_phase_def booted_def Let_def fun_eq_iff)
  ultimately show ?thesis by (metis (no_types, lifting) rtranclp.rtrancl_into_rtrancl rtranclp.rtrancl_refl)
qed

theorem handlers_run_at_most_once_witness:
  "ds_runs sample_race = [''1''] \<and> distinct (ds_runs sample_race) \<and> get_task empty_registry ''1'' = None"
proof -
  have runs: "ds_runs sample_race = [''1'']" by (simp add: sample_race_def Let_def)
  with handlers_run_at_most_once [OF sample_race_reached] show ?thesis by simp
qed



end
