(* ===== verification/Project_Config.thy ===== *)
theory Project_Config
  imports Prelude
begin

text \<open>
  core/project_config.py: project files. The loader checks the keys and the role and leaves the
  other values as the YAML file has them, so the fields of a configuration are JSON values.
  The YAML parser and the file are parameters, and so is how Python prints a value that is
  no string.
\<close>

record project_env =
  pe_file :: "string \<Rightarrow> (exn + string) option"
  pe_yaml :: "string \<Rightarrow> string + json"
  pe_str :: "json \<Rightarrow> string"
  pe_type_name :: "json \<Rightarrow> string"

definition KNOWN_KEYS :: "string list" where
  "KNOWN_KEYS = [''repo_path'', ''image'', ''workspace_subdir'', ''devcontainer_subpath'',
     ''tailscale_hostname'', ''tailscale_serve_port'', ''tailscale_authkey_env_var'',
     ''remote_control_name'', ''firewall_extra_domains'', ''firewall_ipv6_hosts'',
     ''firewall_aws_ip_ranges'', ''forward_ports'', ''extra_mounts'', ''extra_env'',
     ''claude_profile'', ''capabilities'', ''secret_entitlements'', ''delegatable_secrets'',
     ''delegatable_firewall_domains'', ''delegatable_storage_scopes'',
     ''delegatable_provision_scopes'', ''delegatable_network_reach'', ''network_reach_ports'',
     ''resources_hard'', ''storage_mounts'', ''deskwatch'', ''yard'', ''egress_proxy'', ''role'']"

definition KNOWN_ROLES :: "string list" where
  "KNOWN_ROLES = [''worker'', ''auditor'']"

record ProjectConfig =
  pc_repo_path :: json
  pc_image :: json
  pc_workspace_subdir :: json
  pc_devcontainer_subpath :: json
  pc_tailscale_hostname :: json
  pc_tailscale_serve_port :: json
  pc_tailscale_authkey_env_var :: json
  pc_remote_control_name :: json
  pc_firewall_extra_domains :: json
  pc_firewall_ipv6_hosts :: json
  pc_firewall_aws_ip_ranges :: json
  pc_forward_ports :: json
  pc_extra_mounts :: json
  pc_extra_env :: json
  pc_claude_profile :: json
  pc_capabilities :: json
  pc_secret_entitlements :: json
  pc_delegatable_secrets :: json
  pc_delegatable_firewall_domains :: json
  pc_delegatable_storage_scopes :: json
  pc_delegatable_provision_scopes :: json
  pc_delegatable_network_reach :: json
  pc_network_reach_ports :: json
  pc_resources_hard :: json
  pc_yard :: json
  pc_storage_mounts :: json
  pc_deskwatch :: json
  pc_egress_proxy :: string
  pc_role :: string

text \<open>\<^verbatim>\<open>raw.get(key) or default\<close>.\<close>

definition get_or :: "dict \<Rightarrow> string \<Rightarrow> json \<Rightarrow> json" where
  "get_or d k v = (if truthy (dict_get d k) then dict_get d k else v)"

text \<open>\<^verbatim>\<open>str(value).lower()\<close>.\<close>

definition lower_text :: "project_env \<Rightarrow> json \<Rightarrow> string" where
  "lower_text pe v = lower (case v of JStr s \<Rightarrow> s | _ \<Rightarrow> pe_str pe v)"

definition config_of_dict :: "project_env \<Rightarrow> dict \<Rightarrow> ProjectConfig" where
  "config_of_dict pe raw =
    (let get = dict_get raw; lst = (\<lambda>k. dict_get_default raw k (JList [])) in
     \<lparr>pc_repo_path = get ''repo_path'', pc_image = get ''image'',
      pc_workspace_subdir = get ''workspace_subdir'', pc_devcontainer_subpath = get ''devcontainer_subpath'',
      pc_tailscale_hostname = get ''tailscale_hostname'', pc_tailscale_serve_port = get ''tailscale_serve_port'',
      pc_tailscale_authkey_env_var = get ''tailscale_authkey_env_var'',
      pc_remote_control_name = get ''remote_control_name'',
      pc_firewall_extra_domains = lst ''firewall_extra_domains'',
      pc_firewall_ipv6_hosts = lst ''firewall_ipv6_hosts'',
      pc_firewall_aws_ip_ranges = lst ''firewall_aws_ip_ranges'',
      pc_forward_ports = lst ''forward_ports'', pc_extra_mounts = lst ''extra_mounts'',
      pc_extra_env = get_or raw ''extra_env'' (JObj []), pc_claude_profile = get ''claude_profile'',
      pc_capabilities = lst ''capabilities'', pc_secret_entitlements = lst ''secret_entitlements'',
      pc_delegatable_secrets = lst ''delegatable_secrets'',
      pc_delegatable_firewall_domains = lst ''delegatable_firewall_domains'',
      pc_delegatable_storage_scopes = lst ''delegatable_storage_scopes'',
      pc_delegatable_provision_scopes = lst ''delegatable_provision_scopes'',
      pc_delegatable_network_reach = lst ''delegatable_network_reach'',
      pc_network_reach_ports = lst ''network_reach_ports'',
      pc_resources_hard = get_or raw ''resources_hard'' (JObj []), pc_yard = get_or raw ''yard'' JNull,
      pc_storage_mounts = lst ''storage_mounts'', pc_deskwatch = get_or raw ''deskwatch'' (JObj []),
      pc_egress_proxy = lower_text pe (get_or raw ''egress_proxy'' (JStr ''enabled'')),
      pc_role = lower_text pe (get_or raw ''role'' (JStr ''worker''))\<rparr>)"

section \<open>Storage mounts\<close>

definition append_new :: "json \<Rightarrow> json list \<Rightarrow> json list" where
  "append_new x xs = (if x \<in> set xs then xs else xs @ [x])"

definition bad_mount :: "string \<Rightarrow> string \<Rightarrow> exn" where
  "bad_mount m fx = WsError m (Some fx)"

text \<open>The scope text and the address range one declared mount implies.\<close>

definition mount_wiring :: "project_env \<Rightarrow> json \<Rightarrow> exn + string \<times> string" where
  "mount_wiring pe entry =
    (case entry of
       JObj d \<Rightarrow>
         (case dict_get_default d ''source'' (JStr []) of
            JStr source \<Rightarrow>
              if \<not> prefix ''s3://'' source
              then Inl (bad_mount (''storage_mounts[].source must be an s3:// URL, got '' @ quoted source)
                     (''Example: '' @ quoted ''source: s3://my-bucket/my-prefix''))
              else
                (case get_or d ''mode'' (JStr ''ro'') of
                   JStr m \<Rightarrow>
                     let mode = lower m in
                     if mode \<noteq> ''ro'' \<and> mode \<noteq> ''rw''
                     then Inl (bad_mount (''storage_mounts[].mode must be '' @ quoted ''ro'' @ '' or '' @ quoted ''rw'')
                            (''Use '' @ quoted ''ro'' @ '' for read-only (default) or '' @ quoted ''rw'' @ '' for read-write.''))
                     else
                       (case dict_get_default d ''target'' (JStr []) of
                          JStr target \<Rightarrow>
                            if \<not> prefix ''/'' target
                            then Inl (bad_mount (''storage_mounts[].target must be an absolute container path, got '' @ quoted target)
                                   (''Example: '' @ quoted ''target: /mnt/data''))
                            else
                              let region = (case get_or d ''region'' (JStr ''us-west-2'') of JStr r \<Rightarrow> r | v \<Rightarrow> pe_str pe v);
                                  body = rstrip_by (\<lambda>c. c = CHR ''/'') (drop 5 source);
                                  scope = (if body \<noteq> [] then ''s3://'' @ body @ ''/*'' else source)
                              in Inr (if mode = ''rw'' then ''rw:'' @ scope else scope, region @ '':AMAZON'')
                        | v \<Rightarrow> Inl (bad_mount (''storage_mounts[].target must be an absolute container path, got '' @ pe_str pe v)
                                 (''Example: '' @ quoted ''target: /mnt/data'')))
                 | _ \<Rightarrow> Inl (PyError ''AttributeError'' ''lower''))
          | v \<Rightarrow> Inl (bad_mount (''storage_mounts[].source must be an s3:// URL, got '' @ pe_str pe v)
                   (''Example: '' @ quoted ''source: s3://my-bucket/my-prefix'')))
     | v \<Rightarrow> Inl (bad_mount (''storage_mounts entries must be mappings, got '' @ pe_type_name pe v)
              (''Each entry needs at least '' @ quoted ''source'' @ '' and '' @ quoted ''target'' @ '' keys.'')))"

fun wire_mounts :: "project_env \<Rightarrow> json list \<Rightarrow> json list \<Rightarrow> json list \<Rightarrow> exn + json list \<times> json list" where
  "wire_mounts pe [] scopes fw = Inr (scopes, fw)"
| "wire_mounts pe (entry # entries) scopes fw =
    (case mount_wiring pe entry of
       Inl e \<Rightarrow> Inl e
     | Inr (scope, addresses) \<Rightarrow>
         wire_mounts pe entries (append_new (JStr scope) scopes) (append_new (JStr addresses) fw))"

definition expand_storage_mounts :: "project_env \<Rightarrow> ProjectConfig \<Rightarrow> exn + ProjectConfig" where
  "expand_storage_mounts pe cfg =
    (if \<not> truthy (pc_storage_mounts cfg) then Inr cfg
     else
       (case py_list (pc_capabilities cfg) of Inl e \<Rightarrow> Inl e | Inr caps \<Rightarrow>
       (case py_list (pc_delegatable_storage_scopes cfg) of Inl e \<Rightarrow> Inl e | Inr scopes \<Rightarrow>
       (case py_list (pc_firewall_aws_ip_ranges cfg) of Inl e \<Rightarrow> Inl e | Inr fw \<Rightarrow>
       (case py_list (pc_storage_mounts cfg) of Inl e \<Rightarrow> Inl e | Inr entries \<Rightarrow>
       (case wire_mounts pe entries scopes fw of Inl e \<Rightarrow> Inl e | Inr (scopes', fw') \<Rightarrow>
          Inr (cfg\<lparr>pc_capabilities := JList (append_new (JStr ''request_storage_leases'') caps),
                   pc_delegatable_storage_scopes := JList scopes',
                   pc_firewall_aws_ip_ranges := JList fw'\<rparr>)))))))"

section \<open>The loader\<close>

definition load_project_config :: "project_env \<Rightarrow> string \<Rightarrow> string \<Rightarrow> exn + ProjectConfig option" where
  "load_project_config pe base_dir project =
    (let path = base_dir @ ''/'' @ project @ ''.yaml'' in
     case pe_file pe path of
       None \<Rightarrow> Inr None
     | Some (Inl e) \<Rightarrow> Inl e
     | Some (Inr text) \<Rightarrow>
         (case pe_yaml pe text of
            Inl m \<Rightarrow> Inl (WsError (''Invalid YAML in '' @ path @ '': '' @ m)
                      (Some (''Check '' @ path @ '' for syntax errors'')))
          | Inr JNull \<Rightarrow> Inr (Some (config_of_dict pe []))
          | Inr (JObj raw) \<Rightarrow>
              let unknown = sort (remdups (filter (\<lambda>k. k \<notin> set KNOWN_KEYS) (map fst raw))) in
              if unknown \<noteq> []
              then Inl (WsError (''Unknown keys in '' @ path @ '': '' @ join '', '' unknown)
                     (Some (''Valid keys: '' @ join '', '' (sort KNOWN_KEYS))))
              else
                let cfg = config_of_dict pe raw in
                if pc_role cfg \<notin> set KNOWN_ROLES
                then Inl (WsError (''Unknown role '' @ quoted (pc_role cfg) @ '' in '' @ path)
                       (Some (''Valid roles: '' @ join '', '' (sort KNOWN_ROLES))))
                else (case expand_storage_mounts pe cfg of Inl e \<Rightarrow> Inl e | Inr cfg' \<Rightarrow> Inr (Some cfg'))
          | Inr v \<Rightarrow> Inl (WsError (''Project config '' @ path @ '' must be a YAML mapping, got '' @ pe_type_name pe v)
                       (Some (''Rewrite '' @ path @ '' as key-value pairs (e.g. '' @ quoted ''repo_path: /srv/code/myproject'' @ '').'')))))"

end
