(* ===== verification/Snapshot.thy ===== *)
theory Snapshot
  imports Desk_Handlers Project_Config
begin

text \<open>
  core/snapshot.py: capturing the portable state of a desk and restoring it. Every step that
  touches the disk may be refused by the operating system; removing or copying a directory may
  then have handled some of its files already, which \<open>me_partial\<close> selects. The overlay file, the
  size of the archive and the project files are parameters of a \<open>mig_env\<close>; the working
  directory of a git call is not recorded.
\<close>

record mig_env =
  me_project :: project_env
  me_projects_dir :: string
  me_secrets_root :: string
  me_overlays_root :: string
  me_migrations_root :: string
  me_drain_ttl :: int
  me_overlay :: "nat \<Rightarrow> string \<Rightarrow> string option"
  me_archive_size :: "nat \<Rightarrow> tarball \<Rightarrow> int"
  me_partial :: "nat \<Rightarrow> string \<Rightarrow> bool"

abbreviation SnapshotError :: "string \<Rightarrow> exn" where
  "SnapshotError \<equiv> PyError ''SnapshotError''"

abbreviation SnapshotDirtyWorktreeError :: "string \<Rightarrow> exn" where
  "SnapshotDirtyWorktreeError \<equiv> PyError ''SnapshotDirtyWorktreeError''"

definition SNAPSHOT_VERSION :: int where
  "SNAPSHOT_VERSION = 1"

section \<open>The worktree\<close>

definition git :: "env \<Rightarrow> string list \<Rightarrow> string option op" where
  "git env args =
     bind (subprocess_run env (''git'' # args) None) (\<lambda>p.
       case p of
         Completed rc out err \<Rightarrow> ret (if rc \<noteq> 0 then None else Some (strip out))
       | OsFailure m \<Rightarrow> raise (PyError ''OSError'' m)
       | _ \<Rightarrow> ret None)"

definition or_text :: "string option \<Rightarrow> string \<Rightarrow> string" where
  "or_text v dflt = (case v of Some (c # cs) \<Rightarrow> c # cs | _ \<Rightarrow> dflt)"

definition capture_worktree :: "env \<Rightarrow> desk_env \<Rightarrow> drydock_row \<Rightarrow> WorktreeState option op" where
  "capture_worktree env de d =
    (if dd_worktree_path d = [] then ret None
     else
       bind (path_exists de (dd_worktree_path d)) (\<lambda>is_dir.
       if \<not> is_dir then ret None
       else
         bind (path_exists de (join_path (dd_worktree_path d) ''.git'')) (\<lambda>marked.
         if \<not> marked then ret None
         else
           bind (git env [''rev-parse'', ''--abbrev-ref'', ''HEAD'']) (\<lambda>branch.
           bind (git env [''rev-parse'', ''HEAD'']) (\<lambda>commit.
           bind (git env [''status'', ''--porcelain'']) (\<lambda>status.
           let dirty = filter (\<lambda>l. l \<noteq> []) (map strip (split_lines (or_text status [])))
           in ret (Some \<lparr>wt_branch = or_text branch (dd_branch d), wt_commit_sha = or_text commit [],
                 wt_repo_path = dd_worktree_path d, wt_is_dirty = (dirty \<noteq> []), wt_dirty_files = dirty\<rparr>)))))))"

section \<open>Capture\<close>

definition the_dir :: "snapshot_dir option \<Rightarrow> snapshot_dir" where
  "the_dir s = (case s of None \<Rightarrow> \<lparr>sd_tarball = None, sd_manifest = None\<rparr> | Some d \<Rightarrow> d)"

definition edit_dir :: "string \<Rightarrow> (snapshot_dir \<Rightarrow> snapshot_dir) \<Rightarrow> world \<Rightarrow> world" where
  "edit_dir p f w = w\<lparr>w_snapshots := (w_snapshots w)(p := Some (f (the_dir (w_snapshots w p))))\<rparr>"

definition secret_dir_of :: "string \<Rightarrow> world \<Rightarrow> secret_dir" where
  "secret_dir_of i w = (\<lambda>n. w_files w (i, n))"

text \<open>
  \<^verbatim>\<open>is_dir\<close>, then \<^verbatim>\<open>shutil.copytree\<close> into the staging directory. Whether the copy fails is an answer
  of the surroundings, not a matter of the nodes it copies.
\<close>

definition stage_secrets :: "env \<Rightarrow> desk_env \<Rightarrow> mig_env \<Rightarrow> string \<Rightarrow> secret_dir option op" where
  "stage_secrets env de me i =
     bind (path_exists de (join_path (me_secrets_root me) i)) (\<lambda>is_dir.
       if is_dir then
         andthen (os_step env (\<lambda>w. w)) (bind (reads (secret_dir_of i)) (\<lambda>tree. ret (Some tree)))
       else ret None)"

definition overlay_file :: "mig_env \<Rightarrow> string \<Rightarrow> string" where
  "overlay_file me i = join_path (me_overlays_root me) (i @ ''.devcontainer.json'')"

definition stage_overlay :: "env \<Rightarrow> mig_env \<Rightarrow> string \<Rightarrow> string option op" where
  "stage_overlay env me i =
     bind tick (\<lambda>n.
       case me_overlay me n (overlay_file me i) of
         None \<Rightarrow> ret None
       | Some text \<Rightarrow> andthen (os_step env (\<lambda>w. w)) (ret (Some text)))"

definition refuse_dirty :: "WorktreeState option \<Rightarrow> unit op" where
  "refuse_dirty worktree =
    (case worktree of
       None \<Rightarrow> ret ()
     | Some t \<Rightarrow> unless (\<not> wt_is_dirty t)
         (SnapshotDirtyWorktreeError (''worktree at '' @ wt_repo_path t @ '' has '' @
           show_nat (length (wt_dirty_files t)) @ '' uncommitted change(s); commit, stash, or pass --force-dirty'')))"

definition manifest_of ::
    "mig_env \<Rightarrow> nat \<Rightarrow> drydock_row \<Rightarrow> string \<Rightarrow> string \<Rightarrow> registry_dump \<Rightarrow> WorktreeState option \<Rightarrow> tarball \<Rightarrow> SnapshotManifest" where
  "manifest_of me n d migration_id now row worktree tgz =
     \<lparr>mf_version = SNAPSHOT_VERSION, mf_migration_id = migration_id,
      mf_drydock_id = dd_id d, mf_drydock_name = dd_name d, mf_captured_at = now, mf_registry_row = row,
      mf_overlay_path = map_option (\<lambda>_. ''overlay.devcontainer.json'') (tb_overlay tgz),
      mf_secrets_path = map_option (\<lambda>_. ''secrets/'' @ dd_id d) (tb_secrets tgz),
      mf_worktree = worktree, mf_bytes_total = me_archive_size me n tgz\<rparr>"

text \<open>Step 5: the archive, then the manifest, each written aside and moved into place.\<close>

definition roll_up ::
    "env \<Rightarrow> mig_env \<Rightarrow> drydock_row \<Rightarrow> string \<Rightarrow> registry_dump \<Rightarrow> WorktreeState option \<Rightarrow> tarball \<Rightarrow> (string \<times> SnapshotManifest) op" where
  "roll_up env me d migration_id row worktree tgz =
    (let target = join_path (me_migrations_root me) migration_id in
     andthen (os_step env (\<lambda>w. w))
     (andthen (os_step env (edit_dir target (\<lambda>s. s\<lparr>sd_tarball := Some tgz\<rparr>)))
     (bind (utc_now env) (\<lambda>now.
      andthen (os_step env (\<lambda>w. w))
      (bind tick (\<lambda>n.
       let manifest = manifest_of me n d migration_id now row worktree tgz in
       andthen (os_step env (\<lambda>w. w))
       (andthen (os_step env (edit_dir target (\<lambda>s. s\<lparr>sd_manifest := Some manifest\<rparr>)))
         (ret (target, manifest)))))))))"

definition snapshot_drydock ::
    "env \<Rightarrow> desk_env \<Rightarrow> mig_env \<Rightarrow> drydock_row \<Rightarrow> string \<Rightarrow> (string \<times> SnapshotManifest) op" where
  "snapshot_drydock env de me d migration_id =
     andthen (os_step env (edit_dir (join_path (me_migrations_root me) migration_id) (\<lambda>s. s)))
     (andthen (os_step env (\<lambda>w. w))
     (bind (query (\<lambda>r. capture_registry_row r (dd_id d))) (\<lambda>captured.
      bind (required captured (SnapshotError (''drydock '' @ quoted (dd_id d) @ '' not found in registry''))) (\<lambda>row.
      bind (capture_worktree env de d) (\<lambda>worktree.
      andthen (refuse_dirty worktree)
      (bind (stage_secrets env de me (dd_id d)) (\<lambda>secrets.
       bind (stage_overlay env me (dd_id d)) (\<lambda>overlay.
         roll_up env me d migration_id row worktree \<lparr>tb_secrets = secrets, tb_overlay = overlay\<rparr>))))))))"

section \<open>Restore\<close>

text \<open>\<^verbatim>\<open>shutil.rmtree\<close> and \<^verbatim>\<open>shutil.copytree\<close> on a secret directory: what is there afterwards.\<close>

definition set_files :: "string \<Rightarrow> (string \<Rightarrow> bool) \<Rightarrow> secret_dir \<Rightarrow> world \<Rightarrow> world" where
  "set_files i which tree w =
     w\<lparr>w_files := (\<lambda>x. if fst x = i \<and> which (snd x) then tree (snd x) else w_files w x)\<rparr>"

definition tree_step :: "env \<Rightarrow> mig_env \<Rightarrow> string \<Rightarrow> secret_dir \<Rightarrow> unit op" where
  "tree_step env me i tree =
     bind tick (\<lambda>n.
       case e_os_error env n of
         None \<Rightarrow> writes (set_files i (\<lambda>_. True) tree)
       | Some m \<Rightarrow> andthen (writes (set_files i (me_partial me n) tree)) (raise (PyError ''OSError'' m)))"

definition load_manifest :: "env \<Rightarrow> string \<Rightarrow> SnapshotManifest op" where
  "load_manifest env p =
     bind (reads (\<lambda>w. sd_manifest (the_dir (w_snapshots w p)))) (\<lambda>m.
     bind (required m (PyError ''FileNotFoundError'' (join_path p ''manifest.json''))) (\<lambda>manifest.
       andthen (os_step env (\<lambda>w. w)) (ret manifest)))"

definition open_tarball :: "env \<Rightarrow> string \<Rightarrow> tarball op" where
  "open_tarball env p =
     bind (reads (\<lambda>w. sd_tarball (the_dir (w_snapshots w p)))) (\<lambda>t.
     bind (required t (PyError ''FileNotFoundError'' (join_path p ''snapshot.tgz''))) (\<lambda>tgz.
       andthen (os_step env (\<lambda>w. w)) (ret tgz)))"

definition restore_secrets :: "env \<Rightarrow> desk_env \<Rightarrow> mig_env \<Rightarrow> SnapshotManifest \<Rightarrow> tarball \<Rightarrow> unit op" where
  "restore_secrets env de me manifest tgz =
    (case (mf_secrets_path manifest, tb_secrets tgz) of
       (Some p, Some tree) \<Rightarrow>
         bind (path_exists de (join_path (me_secrets_root me) (mf_drydock_id manifest))) (\<lambda>there.
         andthen (guarded there (tree_step env me (mf_drydock_id manifest) (\<lambda>n. None)))
           (tree_step env me (mf_drydock_id manifest) tree))
     | _ \<Rightarrow> ret ())"

definition restore_overlay :: "env \<Rightarrow> SnapshotManifest \<Rightarrow> tarball \<Rightarrow> unit op" where
  "restore_overlay env manifest tgz =
    (case mf_overlay_path manifest of
       None \<Rightarrow> ret ()
     | Some p \<Rightarrow>
         andthen (os_step env (\<lambda>w. w))
           (andthen (unless (tb_overlay tgz \<noteq> None) (PyError ''FileNotFoundError'' p)) (os_step env (\<lambda>w. w))))"

definition restore_drydock :: "env \<Rightarrow> desk_env \<Rightarrow> mig_env \<Rightarrow> string \<Rightarrow> SnapshotManifest op" where
  "restore_drydock env de me p =
     bind (load_manifest env p) (\<lambda>manifest.
     andthen (os_step env (\<lambda>w. w))
     (bind (open_tarball env p) (\<lambda>tgz.
      andthen (restore_secrets env de me manifest tgz)
        (andthen (restore_overlay env manifest tgz) (ret manifest)))))"

text \<open>\<^verbatim>\<open>cleanup_snapshot\<close>.\<close>

definition cleanup_snapshot :: "env \<Rightarrow> string \<Rightarrow> unit op" where
  "cleanup_snapshot env p =
     bind (reads (\<lambda>w. w_snapshots w p)) (\<lambda>d.
       if d = None then ret () else os_step env (\<lambda>w. w\<lparr>w_snapshots := (w_snapshots w)(p := None)\<rparr>))"

end
