(* ===== verification/Migration.thy ===== *)
theory Migration
  imports Snapshot Workload
begin

text \<open>
  core/migration.py and core/migration_executor.py: planning a structural change of a desk and
  walking it through its stages, with the way back from the snapshot when a stage fails. A stage
  ends with its detail, with a \<^verbatim>\<open>StageFailure\<close> of its own or with another exception; the last two
  are kept apart because only the other exceptions are audited. The arrow the planner writes
  between two versions is written \<open>->\<close> here.
\<close>

section \<open>Plans\<close>

datatype MigrationTarget =
    ImageBumpTarget (new_image: string)
  | ProjectReloadTarget
  | SchemaMigrationTarget (target_schema_version: int)

fun target_kind :: "MigrationTarget \<Rightarrow> string" where
  "target_kind (ImageBumpTarget i) = ''image_bump''"
| "target_kind ProjectReloadTarget = ''project_reload''"
| "target_kind (SchemaMigrationTarget v) = ''schema_migration''"

fun serialize_target :: "MigrationTarget \<Rightarrow> dict" where
  "serialize_target (ImageBumpTarget i) = [(''new_image'', JStr i), (''kind'', JStr ''image_bump'')]"
| "serialize_target ProjectReloadTarget = [(''kind'', JStr ''project_reload'')]"
| "serialize_target (SchemaMigrationTarget v) = [(''target_schema_version'', JInt v), (''kind'', JStr ''schema_migration'')]"

record MigrationPlan =
  mp_migration_id :: string
  mp_drydock_id :: string
  mp_drydock_name :: string
  mp_source_harbor :: string
  mp_target_harbor :: string
  mp_target_kind :: string
  mp_target_summary :: dict
  mp_changes :: dict
  mp_estimated_downtime_seconds :: int
  mp_in_flight_lease_warnings :: "string list"
  mp_rollback_strategy :: string
  mp_created_at :: string

definition plan_to_dict :: "MigrationPlan \<Rightarrow> dict" where
  "plan_to_dict p = [(''migration_id'', JStr (mp_migration_id p)), (''drydock_id'', JStr (mp_drydock_id p)),
     (''drydock_name'', JStr (mp_drydock_name p)), (''source_harbor'', JStr (mp_source_harbor p)),
     (''target_harbor'', JStr (mp_target_harbor p)), (''target_kind'', JStr (mp_target_kind p)),
     (''target_summary'', JObj (mp_target_summary p)), (''changes'', JObj (mp_changes p)),
     (''estimated_downtime_seconds'', JInt (mp_estimated_downtime_seconds p)),
     (''in_flight_lease_warnings'', jstrs (mp_in_flight_lease_warnings p)),
     (''rollback_strategy'', JStr (mp_rollback_strategy p)), (''created_at'', JStr (mp_created_at p))]"

text \<open>The changes a target makes and the expected downtime; a bump to the same image is refused.\<close>

definition planned_changes :: "drydock_row \<Rightarrow> MigrationTarget \<Rightarrow> exn + dict \<times> int" where
  "planned_changes d target =
    (case target of
       ImageBumpTarget img \<Rightarrow>
         let current = (if dd_image d \<noteq> [] then dd_image d else ''(none)'') in
         if current = img
         then Inl (PyError ''MigrationPlanError'' (''image bump no-op: drydock '' @ quoted (dd_name d) @
                '' already on '' @ quoted img @ ''; nothing to do''))
         else Inr ([(''image'', JStr (current @ '' -> '' @ img)), (''overlay'', JStr ''regenerate (image change)'')], 30)
     | ProjectReloadTarget \<Rightarrow>
         Inr ([(''overlay'', JStr ''regenerate from current project YAML''), (''registry_config'', JStr ''re-pin policy'')], 30)
     | SchemaMigrationTarget v \<Rightarrow> Inr ([(''registry_schema'', JStr (''-> V'' @ show_int v))], 120))"

definition lease_warnings :: "workload_lease_row list \<Rightarrow> string list" where
  "lease_warnings ls = map (\<lambda>l. ''active WorkloadLease '' @ wl_id l @ '' (expires '' @ wl_expires_at l @ '')'')
     (filter (\<lambda>l. wl_expires_at l \<noteq> []) ls)"

definition plan_migration ::
    "env \<Rightarrow> drydock_row \<Rightarrow> MigrationTarget \<Rightarrow> string \<Rightarrow> string option \<Rightarrow> workload_lease_row list \<Rightarrow> MigrationPlan op" where
  "plan_migration env d target source_harbor target_harbor in_flight =
     bind (from_sum (planned_changes d target)) (\<lambda>(changes, downtime).
     bind (uuid4_hex env) (\<lambda>u.
     bind (utc_now env) (\<lambda>now.
       ret \<lparr>mp_migration_id = ''mig_'' @ take 16 u, mp_drydock_id = dd_id d, mp_drydock_name = dd_name d,
            mp_source_harbor = source_harbor, mp_target_harbor = or_text target_harbor source_harbor,
            mp_target_kind = target_kind target, mp_target_summary = serialize_target target,
            mp_changes = changes, mp_estimated_downtime_seconds = downtime,
            mp_in_flight_lease_warnings = lease_warnings in_flight,
            mp_rollback_strategy = ''snapshot-and-restore'', mp_created_at = now\<rparr>)))"

record PreCheckResult =
  pr_refusals :: "string list"
  pr_warnings :: "string list"

definition precheck_ok :: "PreCheckResult \<Rightarrow> bool" where
  "precheck_ok p \<longleftrightarrow> pr_refusals p = []"

definition isinstance_image_bump :: "string \<Rightarrow> bool" where
  "isinstance_image_bump k \<longleftrightarrow> k = ''image_bump''"

definition precheck_migration ::
    "drydock_row \<Rightarrow> MigrationPlan \<Rightarrow> int option \<Rightarrow> bool \<Rightarrow> bool option \<Rightarrow> PreCheckResult" where
  "precheck_migration d plan disk_free daemon_healthy image_present =
     \<lparr>pr_refusals =
        (if daemon_healthy then [] else [''daemon health check failed on target Harbor'']) @
        (if dd_state d = ''migrating''
         then [''drydock '' @ quoted (dd_name d) @ '' has state='' @ quoted ''migrating'' @
               '' - finish or rollback the prior migration before starting another''] else []) @
        (if isinstance_image_bump (mp_target_kind plan) \<and> image_present = Some False
         then [''target image not present locally ('' @ quoted (py_str (dict_get (mp_target_summary plan) ''new_image'')) @
               ''); docker pull it first or unpin to fetch on demand''] else []),
      pr_warnings =
        (case disk_free of
           Some n \<Rightarrow> if n < 1000000000 then [''low disk free ('' @ show_int (n div 1000000) @ '' MB); snapshot may not fit''] else []
         | None \<Rightarrow> []) @ mp_in_flight_lease_warnings plan\<rparr>"

definition probe_target_image_present :: "env \<Rightarrow> string \<Rightarrow> bool option op" where
  "probe_target_image_present env img =
     bind (subprocess_run env [''docker'', ''image'', ''inspect'', img] None) (\<lambda>p.
       case p of
         Completed rc out err \<Rightarrow> ret (Some (rc = 0))
       | OsFailure m \<Rightarrow> raise (PyError ''OSError'' m)
       | _ \<Rightarrow> ret None)"

section \<open>Running a stage\<close>

record StageOutcome =
  so_stage :: string
  so_status :: string
  so_detail :: dict

record MigrationOutcome =
  mo_migration_id :: string
  mo_drydock_id :: string
  mo_terminal_status :: string
  mo_stages :: "StageOutcome list"
  mo_snapshot_path :: "string option"
  mo_error :: "dict option"

definition add_stage :: "string \<Rightarrow> string \<Rightarrow> dict \<Rightarrow> MigrationOutcome \<Rightarrow> MigrationOutcome" where
  "add_stage s status detail o0 =
     o0\<lparr>mo_stages := mo_stages o0 @ [\<lparr>so_stage = s, so_status = status, so_detail = detail\<rparr>]\<rparr>"

datatype stage_result = Done dict | StageFailure dict

definition no_update :: migration_update where
  "no_update = \<lparr>mu_status = None, mu_current_stage = None, mu_snapshot_path = None, mu_error = None,
     mu_completed_at = None\<rparr>"

definition update_mig :: "string \<Rightarrow> migration_update \<Rightarrow> unit op" where
  "update_mig i u = insert_reg (update_migration i u)"

definition exn_class :: "exn \<Rightarrow> string" where
  "exn_class e = (case e of RpcError c m d \<Rightarrow> ''_RpcError'' | WsError m fx \<Rightarrow> ''WsError'' | PyError cls m \<Rightarrow> cls)"

definition audit_stage :: "env \<Rightarrow> MigrationOutcome \<Rightarrow> string \<Rightarrow> string \<Rightarrow> string \<Rightarrow> dict \<Rightarrow> unit op" where
  "audit_stage env o0 s result status detail =
     emit_audit env ''drydock.migration_stage'' (Some (mo_drydock_id o0)) (JStr (mo_migration_id o0))
       ''MigrationExecutor'' result (dict_update [(''stage'', JStr s), (''outcome'', JStr status)] detail)"

text \<open>\<^verbatim>\<open>_stage\<close>: the outcome so far with the detail of the stage, or that of its failure.\<close>

definition run_stage ::
    "env \<Rightarrow> string \<Rightarrow> stage_result op \<Rightarrow> MigrationOutcome \<Rightarrow> (MigrationOutcome \<times> (dict + dict)) op" where
  "run_stage env s fn o0 =
     andthen (update_mig (mo_migration_id o0) (no_update\<lparr>mu_current_stage := Some s\<rparr>))
     (bind (outcome_of fn) (\<lambda>res.
        case res of
          Inr (StageFailure detail) \<Rightarrow> ret (o0, Inl detail)
        | Inr (Done detail) \<Rightarrow>
            andthen (audit_stage env o0 s ''ok'' ''ok'' detail) (ret (add_stage s ''ok'' detail o0, Inr detail))
        | Inl e \<Rightarrow>
            let detail = [(''error'', JStr (exn_text e)), (''error_type'', JStr (exn_class e))] in
            andthen (audit_stage env o0 s ''error'' ''failed'' detail)
              (ret (add_stage s ''failed'' detail o0, Inl detail))))"

section \<open>The stages\<close>

definition do_precheck :: "drydock_row \<Rightarrow> stage_result op" where
  "do_precheck d = ret
    (if dd_state d = ''migrating'' then StageFailure [(''reason'', JStr ''drydock_state=migrating'')]
     else Done [(''drydock_state'', JStr (dd_state d))])"

definition do_drain :: "mig_env \<Rightarrow> stage_result op" where
  "do_drain me = ret (Done [(''drain_version'', JStr ''v0''), (''ttl_seconds'', JInt (me_drain_ttl me))])"

definition snapshot_detail :: "string \<Rightarrow> SnapshotManifest \<Rightarrow> dict" where
  "snapshot_detail dir m =
     [(''snapshot_dir'', JStr dir), (''bytes_total'', JInt (mf_bytes_total m)),
      (''manifest_summary'', JObj [(''drydock_id'', JStr (mf_drydock_id m)),
        (''captured_at'', JStr (mf_captured_at m)),
        (''secrets_present'', JBool (mf_secrets_path m \<noteq> None)),
        (''overlay_present'', JBool (mf_overlay_path m \<noteq> None)),
        (''worktree_dirty'', JBool (case mf_worktree m of None \<Rightarrow> False | Some t \<Rightarrow> wt_is_dirty t))])]"

definition do_snapshot :: "env \<Rightarrow> desk_env \<Rightarrow> mig_env \<Rightarrow> drydock_row \<Rightarrow> string \<Rightarrow> stage_result op" where
  "do_snapshot env de me d migration_id =
     try_except
       (bind (snapshot_drydock env de me d migration_id) (\<lambda>(dir, m). ret (Done (snapshot_detail dir m))))
       (\<lambda>e. if exn_class e \<in> {''SnapshotError'', ''SnapshotDirtyWorktreeError''}
            then ret (StageFailure [(''reason'', JStr ''snapshot_failed''), (''error'', JStr (exn_text e))])
            else raise e)"

definition do_stop :: "env \<Rightarrow> mig_env \<Rightarrow> drydock_row \<Rightarrow> stage_result op" where
  "do_stop env me d =
    (if dd_container_id d = [] then ret (Done [(''skipped'', JBool True), (''reason'', JStr ''no_container_id'')])
     else
       bind (completed_run env [''docker'', ''stop'', ''-t'', show_int (me_drain_ttl me), dd_container_id d] None)
         (\<lambda>(rc, out, err).
           ret (if rc \<noteq> 0 then
                  if contains ''No such container'' err
                  then Done [(''skipped'', JBool True), (''reason'', JStr ''container_already_gone'')]
                  else StageFailure [(''reason'', JStr ''docker_stop_failed''), (''exit_code'', JInt rc),
                         (''stderr'', JStr (take 500 (strip err)))]
                else Done [(''container_id'', JStr (dd_container_id d)), (''stopped'', JBool True)])))"

text \<open>What SQLite stores for a bound value.\<close>

definition bound_text :: "desk_env \<Rightarrow> json \<Rightarrow> exn + string" where
  "bound_text de v =
    (case v of
       JStr s \<Rightarrow> Inr s
     | _ \<Rightarrow> (case de_sql_text de v of None \<Rightarrow> Inl (PyError ''InterfaceError'' []) | Some s \<Rightarrow> Inr s))"

text \<open>\<^verbatim>\<open>registry.update_drydock(name, image=...)\<close>; the row it returns is not used.\<close>

definition set_image :: "env \<Rightarrow> string \<Rightarrow> string \<Rightarrow> unit op" where
  "set_image env name img =
     bind (utc_now env) (\<lambda>now.
     bind (update_reg (update_drydock now name (Some (\<lambda>x. x\<lparr>dd_image := img\<rparr>)))) (\<lambda>_. ret ()))"

definition mutate_image_bump :: "env \<Rightarrow> desk_env \<Rightarrow> drydock_row \<Rightarrow> dict \<Rightarrow> stage_result op" where
  "mutate_image_bump env de d summary =
    (let img = dict_get summary ''new_image'' in
     if \<not> truthy img then ret (StageFailure [(''reason'', JStr ''image_bump_missing_new_image'')])
     else
       bind (from_sum (bound_text de img)) (\<lambda>text.
       andthen (set_image env (dd_name d) text)
         (ret (Done [(''image_old'', JStr (dd_image d)), (''image_new'', img)]))))"

text \<open>
  \<^verbatim>\<open>if proj.x: kwargs["x"] = list(proj.x)\<close>. The registry model holds lists of strings; a
  project file with another element in such a list is outside it and ends the stage here.
\<close>

definition reloaded :: "json \<Rightarrow> exn + string list option" where
  "reloaded v =
    (if \<not> truthy v then Inr None
     else (case py_list v of
             Inl e \<Rightarrow> Inl e
           | Inr xs \<Rightarrow> (case map_all as_str xs of
                          None \<Rightarrow> Inl (PyError ''TypeError'' ''delegations are lists of strings'')
                        | Some ss \<Rightarrow> Inr (Some ss))))"

definition reload_delegations :: "ProjectConfig \<Rightarrow> exn + desk_delegations" where
  "reload_delegations proj =
     sbind (reloaded (pc_capabilities proj)) (\<lambda>caps.
     sbind (reloaded (pc_delegatable_secrets proj)) (\<lambda>secrets.
     sbind (reloaded (pc_delegatable_firewall_domains proj)) (\<lambda>domains.
     sbind (reloaded (pc_delegatable_storage_scopes proj)) (\<lambda>storage.
     sbind (reloaded (pc_delegatable_provision_scopes proj)) (\<lambda>provision.
       Inr (no_delegations\<lparr>dl_capabilities := caps, dl_secrets := secrets, dl_firewall_domains := domains,
              dl_storage_scopes := storage, dl_provision_scopes := provision\<rparr>))))))"

definition updated_keys :: "desk_delegations \<Rightarrow> string list" where
  "updated_keys dl =
     (if dl_capabilities dl \<noteq> None then [''capabilities''] else []) @
     (if dl_secrets dl \<noteq> None then [''delegatable_secrets''] else []) @
     (if dl_firewall_domains dl \<noteq> None then [''delegatable_firewall_domains''] else []) @
     (if dl_storage_scopes dl \<noteq> None then [''delegatable_storage_scopes''] else []) @
     (if dl_provision_scopes dl \<noteq> None then [''delegatable_provision_scopes''] else [])"

definition mutate_project_reload :: "env \<Rightarrow> mig_env \<Rightarrow> drydock_row \<Rightarrow> stage_result op" where
  "mutate_project_reload env me d =
     bind (from_sum (load_project_config (me_project me) (me_projects_dir me) (dd_project d))) (\<lambda>loaded.
       case loaded of
         None \<Rightarrow> ret (StageFailure [(''reason'', JStr ''project_yaml_missing''), (''project'', JStr (dd_project d))])
       | Some proj \<Rightarrow>
           bind (from_sum (reload_delegations proj)) (\<lambda>dl.
           andthen (guarded (updated_keys dl \<noteq> [])
              (bind (utc_now env) (\<lambda>now. execute (update_desk_delegations now (dd_name d) dl))))
             (ret (Done [(''project'', JStr (dd_project d)), (''delegations_updated'', jstrs (updated_keys dl))]))))"

definition do_mutate :: "env \<Rightarrow> desk_env \<Rightarrow> mig_env \<Rightarrow> drydock_row \<Rightarrow> dict \<Rightarrow> stage_result op" where
  "do_mutate env de me d plan =
    (let kind = dict_get plan ''target_kind'' in
     if kind = JStr ''image_bump'' then
       (case dict_get plan ''target_summary'' of
          JObj summary \<Rightarrow> mutate_image_bump env de d summary
        | v \<Rightarrow> if truthy v then raise (PyError ''AttributeError'' ''get'') else mutate_image_bump env de d [])
     else if kind = JStr ''project_reload'' then mutate_project_reload env me d
     else if kind = JStr ''schema_migration'' then
       ret (StageFailure [(''reason'', JStr ''schema_migration_not_implemented''),
         (''fix'', JStr ''Schema migrations need multi-drydock orchestration; M2.'')])
     else ret (StageFailure [(''reason'', JStr ''unknown_target_kind''), (''target_kind'', kind)]))"

definition do_start :: "env \<Rightarrow> desk_env \<Rightarrow> drydock_row \<Rightarrow> stage_result op" where
  "do_start env de d =
    (if dd_worktree_path d = [] then ret (Done [(''skipped'', JBool True), (''reason'', JStr ''no_worktree_path'')])
     else
       bind (query (\<lambda>r. get_drydock r (dd_name d))) (\<lambda>fresh.
         case fresh of
           None \<Rightarrow> ret (StageFailure [(''reason'', JStr ''drydock_disappeared_after_mutate'')])
         | Some f \<Rightarrow>
             bind (outcome_of (resume_desk env de f False)) (\<lambda>res.
               ret (case res of
                      Inl e \<Rightarrow> StageFailure [(''reason'', JStr ''resume_failed''), (''error'', JStr (exn_text e))]
                    | Inr result \<Rightarrow> Done [(''started'', JBool True),
                        (''container_id'', result_field result ''container_id''),
                        (''state'', result_field result ''state'')]))))"

definition do_verify :: "drydock_row \<Rightarrow> bool \<Rightarrow> stage_result op" where
  "do_verify d start_skipped =
    (if start_skipped
     then ret (Done [(''verified'', JBool False), (''skipped'', JBool True), (''reason'', JStr ''start_skipped'')])
     else
       bind (query (\<lambda>r. get_drydock r (dd_name d))) (\<lambda>fresh.
         ret (case fresh of
                None \<Rightarrow> StageFailure [(''reason'', JStr ''drydock_disappeared_after_start'')]
              | Some f \<Rightarrow>
                  if dd_state f \<noteq> ''running''
                  then StageFailure [(''reason'', JStr ''not_running_after_start''), (''state'', JStr (dd_state f))]
                  else Done [(''verified'', JBool True), (''drydock_state'', JStr (dd_state f)),
                    (''container_id'', JStr (dd_container_id f))])))"

definition do_cleanup :: "string option \<Rightarrow> stage_result op" where
  "do_cleanup dir = ret (Done [(''snapshot_retained'', JBool (dir \<noteq> None)), (''snapshot_dir'', jopt dir)])"

section \<open>The walk\<close>

text \<open>A walk ends after its last stage, or at the stage that failed with the snapshot taken so far.\<close>

datatype walk =
    Finished MigrationOutcome
  | Halted MigrationOutcome string dict "string option"

definition proceed ::
    "string option \<Rightarrow> string \<Rightarrow> (MigrationOutcome \<times> (dict + dict)) op \<Rightarrow> (MigrationOutcome \<Rightarrow> dict \<Rightarrow> walk op) \<Rightarrow> walk op" where
  "proceed snap s m k =
     bind m (\<lambda>(o1, res). case res of Inl detail \<Rightarrow> ret (Halted o1 s detail snap) | Inr detail \<Rightarrow> k o1 detail)"

definition walk_after_snapshot ::
    "env \<Rightarrow> desk_env \<Rightarrow> mig_env \<Rightarrow> drydock_row \<Rightarrow> dict \<Rightarrow> string option \<Rightarrow> MigrationOutcome \<Rightarrow> walk op" where
  "walk_after_snapshot env de me d plan dir o3 =
     proceed dir ''stop'' (run_stage env ''stop'' (do_stop env me d) o3) (\<lambda>o4 _.
     proceed dir ''mutate'' (run_stage env ''mutate'' (do_mutate env de me d plan) o4) (\<lambda>o5 _.
     proceed dir ''start'' (run_stage env ''start'' (do_start env de d) o5) (\<lambda>o6 started.
     proceed dir ''verify'' (run_stage env ''verify'' (do_verify d (truthy (dict_get started ''skipped''))) o6) (\<lambda>o7 _.
     proceed dir ''cleanup'' (run_stage env ''cleanup'' (do_cleanup dir) o7) (\<lambda>o8 _.
       ret (Finished o8))))))"

definition walk_stages ::
    "env \<Rightarrow> desk_env \<Rightarrow> mig_env \<Rightarrow> drydock_row \<Rightarrow> dict \<Rightarrow> MigrationOutcome \<Rightarrow> walk op" where
  "walk_stages env de me d plan o0 =
     proceed None ''precheck'' (run_stage env ''precheck'' (do_precheck d) o0) (\<lambda>o1 _.
     proceed None ''drain'' (run_stage env ''drain'' (do_drain me) o1) (\<lambda>o2 _.
     proceed None ''snapshot'' (run_stage env ''snapshot'' (do_snapshot env de me d (mo_migration_id o0)) o2) (\<lambda>o3 snap.
     let dir = (case dict_get snap ''snapshot_dir'' of JStr (c # cs) \<Rightarrow> Some (c # cs) | _ \<Rightarrow> None) in
     andthen
       (case dir of None \<Rightarrow> ret () | Some p \<Rightarrow> update_mig (mo_migration_id o0) (no_update\<lparr>mu_snapshot_path := Some p\<rparr>))
       (walk_after_snapshot env de me d plan dir (o3\<lparr>mo_snapshot_path := dir\<rparr>)))))"

section \<open>Ending a migration\<close>

text \<open>Write the terminal status, then audit it.\<close>

definition close_migration ::
    "env \<Rightarrow> MigrationOutcome \<Rightarrow> string option \<Rightarrow> string \<Rightarrow> string \<Rightarrow> dict \<Rightarrow> unit op" where
  "close_migration env o1 stage event result details =
     bind (utc_now env) (\<lambda>now.
     andthen (update_mig (mo_migration_id o1) \<lparr>mu_status = Some (mo_terminal_status o1), mu_current_stage = stage,
        mu_snapshot_path = None, mu_error = map_option JObj (mo_error o1), mu_completed_at = Some now\<rparr>)
       (emit_audit env event (Some (mo_drydock_id o1)) (JStr (mo_migration_id o1)) ''MigrationExecutor'' result details))"

definition restore_desk :: "env \<Rightarrow> desk_env \<Rightarrow> mig_env \<Rightarrow> drydock_row \<Rightarrow> string \<Rightarrow> unit op" where
  "restore_desk env de me d dir =
     bind (restore_drydock env de me dir) (\<lambda>m.
       set_image env (dd_name d) (dd_image (rd_drydocks (mf_registry_row m))))"

definition rollback :: "env \<Rightarrow> desk_env \<Rightarrow> mig_env \<Rightarrow> drydock_row \<Rightarrow> dict \<Rightarrow> string \<Rightarrow> MigrationOutcome \<Rightarrow> MigrationOutcome op" where
  "rollback env de me d error dir o1 =
     andthen (update_mig (mo_migration_id o1) (no_update\<lparr>mu_current_stage := Some ''rollback''\<rparr>))
     (bind (outcome_of (restore_desk env de me d dir)) (\<lambda>res.
        case res of
          Inl e \<Rightarrow>
            let err = dict_update error [(''rollback_error'', JStr (exn_text e)), (''rollback_error_type'', JStr (exn_class e))];
                o2 = o1\<lparr>mo_terminal_status := ''failed'', mo_error := Some err\<rparr>
            in andthen (close_migration env o2 None ''drydock.migration_failed'' ''error'' err)
                 (ret (add_stage ''rollback'' ''failed'' [(''error'', JStr (exn_text e))] o2))
        | Inr _ \<Rightarrow>
            let o2 = (add_stage ''rollback'' ''ok'' [] o1)\<lparr>mo_terminal_status := ''rolled_back'', mo_error := Some error\<rparr>
            in andthen (close_migration env o2 None ''drydock.migration_rolled_back'' ''ok''
                   [(''failed_stage'', dict_get error ''failed_stage'')])
                 (ret o2)))"

definition end_walk :: "env \<Rightarrow> desk_env \<Rightarrow> mig_env \<Rightarrow> drydock_row \<Rightarrow> walk \<Rightarrow> MigrationOutcome op" where
  "end_walk env de me d wk =
    (case wk of
       Finished o8 \<Rightarrow>
         let o9 = o8\<lparr>mo_terminal_status := ''completed''\<rparr> in
         andthen (close_migration env o9 (Some ''cleanup'') ''drydock.migrated'' ''ok''
             [(''stages'', jstrs (map so_stage (mo_stages o9)))])
           (ret o9)
     | Halted o1 s detail dir \<Rightarrow>
         let error = dict_update [(''failed_stage'', JStr s)] detail in
         (case dir of
            None \<Rightarrow>
              let o2 = o1\<lparr>mo_error := Some error, mo_terminal_status := ''failed''\<rparr> in
              andthen (close_migration env o2 None ''drydock.migration_failed'' ''error'' error) (ret o2)
          | Some p \<Rightarrow> rollback env de me d error p (o1\<lparr>mo_error := Some error\<rparr>)))"

section \<open>Executing a migration\<close>

definition planned_migration :: "desk_env \<Rightarrow> registry \<Rightarrow> string \<Rightarrow> exn + dict \<times> string \<times> drydock_row" where
  "planned_migration de r i =
    (case get_migration r i of
       None \<Rightarrow> Inl (PyError ''ValueError'' (''migration '' @ quoted i @ '' not found''))
     | Some m \<Rightarrow>
         if mg_status m \<noteq> ''planned''
         then Inl (PyError ''ValueError'' (''migration '' @ quoted i @ '' has status '' @ quoted (mg_status m) @
                ''; executor expects '' @ quoted ''planned''))
         else (case mg_plan m of
                 JObj plan \<Rightarrow>
                   (case map_of plan ''drydock_id'' of
                      None \<Rightarrow> Inl (PyError ''KeyError'' ''drydock_id'')
                    | Some v \<Rightarrow>
                        sbind (bound_text de v) (\<lambda>drydock_id.
                          case drydock_by_id r drydock_id of
                            None \<Rightarrow> Inl (PyError ''ValueError'' (''plan references missing drydock '' @ quoted drydock_id))
                          | Some d \<Rightarrow> Inr (plan, drydock_id, d)))
               | _ \<Rightarrow> Inl (PyError ''TypeError'' [])))"

definition execute_migration :: "env \<Rightarrow> desk_env \<Rightarrow> mig_env \<Rightarrow> string \<Rightarrow> MigrationOutcome op" where
  "execute_migration env de me i =
     bind (query (\<lambda>r. planned_migration de r i)) (\<lambda>checked.
     bind (from_sum checked) (\<lambda>(plan, drydock_id, d).
     andthen (update_mig i (no_update\<lparr>mu_status := Some ''in_progress'', mu_current_stage := Some ''precheck''\<rparr>))
     (andthen (emit_audit env ''drydock.migration_started'' (Some drydock_id) (JStr i) ''MigrationExecutor'' ''ok''
         [(''plan'', JObj plan)])
     (bind (walk_stages env de me d plan \<lparr>mo_migration_id = i, mo_drydock_id = drydock_id,
              mo_terminal_status = ''in_progress'', mo_stages = [], mo_snapshot_path = None, mo_error = None\<rparr>)
       (end_walk env de me d)))))"

end
