(* ===== verification/Recovery.thy ===== *)
theory Recovery
  imports Migration Desk_Teardown
begin

text \<open>
  daemon/recovery.py and the start of \<^verbatim>\<open>serve\<close> in daemon/server.py: what the daemon does with the
  requests and the migrations that were in progress when it died. The answer of a file system
  call that only removes files outside the model is read and dropped, as the code drops it.
\<close>

section \<open>The expected desk\<close>

definition load_spec :: "json \<Rightarrow> dict" where
  "load_spec v = (case v of JObj d \<Rightarrow> d | _ \<Rightarrow> [])"

text \<open>A value of the specification that is a non-empty text, or the empty text.\<close>

definition spec_text :: "dict \<Rightarrow> string \<Rightarrow> string" where
  "spec_text spec k = (case dict_get spec k of JStr s \<Rightarrow> s | _ \<Rightarrow> [])"

definition expected_drydock_name :: "dict \<Rightarrow> string" where
  "expected_drydock_name spec =
    (if spec_text spec ''name'' \<noteq> [] then spec_text spec ''name'' else spec_text spec ''project'')"

definition expected_destroy_desk_id :: "dict \<Rightarrow> string" where
  "expected_destroy_desk_id spec =
    (if spec_text spec ''name'' \<noteq> [] then dock_id_of_name (spec_text spec ''name'')
     else spec_text spec ''drydock_id'')"

definition expected_destroy_drydock :: "registry \<Rightarrow> dict \<Rightarrow> drydock_row option" where
  "expected_destroy_drydock r spec =
    (if spec_text spec ''name'' \<noteq> [] then get_drydock r (spec_text spec ''name'')
     else if spec_text spec ''drydock_id'' = [] then None
     else drydock_by_id r (spec_text spec ''drydock_id''))"

definition drydock_parent_desk_id :: "registry \<Rightarrow> string \<Rightarrow> string option" where
  "drydock_parent_desk_id r name =
    (case get_drydock r name of
       None \<Rightarrow> None
     | Some d \<Rightarrow> (case parent_drydock_id d of Some (c # cs) \<Rightarrow> Some (c # cs) | _ \<Rightarrow> None))"

definition desk_ref :: "registry \<Rightarrow> drydock_row \<Rightarrow> dict \<Rightarrow> dict" where
  "desk_ref r d spec =
     [(''drydock_id'', JStr (dd_id d)), (''name'', JStr (dd_name d)),
      (''project'', JStr (if spec_text spec ''project'' \<noteq> [] then spec_text spec ''project'' else dd_project d)),
      (''branch'', JStr (if dd_branch d \<noteq> [] then dd_branch d else ''ws/'' @ dd_name d)),
      (''state'', JStr ''running''), (''container_id'', JStr (dd_container_id d)),
      (''worktree_path'', JStr (dd_worktree_path d))] @
     (case drydock_parent_desk_id r (dd_name d) of None \<Rightarrow> [] | Some p \<Rightarrow> [(''parent_drydock_id'', JStr p)])"

section \<open>Undoing a create\<close>

definition remove_worktree_best_effort :: "desk_env \<Rightarrow> string \<Rightarrow> unit op" where
  "remove_worktree_best_effort de p =
     bind (path_exists de p) (\<lambda>there.
       guarded there (bind (path_exists de p) (\<lambda>still_there. ret ())))"

definition remove_overlay_best_effort :: "desk_env \<Rightarrow> string \<Rightarrow> unit op" where
  "remove_overlay_best_effort de p =
     bind (path_exists de p) (\<lambda>there.
       guarded there (try_except (ext (\<lambda>n. de_remove_overlay de n p)) (\<lambda>e. ret ())))"

definition rollback_partial_create :: "env \<Rightarrow> desk_env \<Rightarrow> string \<Rightarrow> drydock_row option \<Rightarrow> string op" where
  "rollback_partial_create env de name desk =
    (case desk of
       None \<Rightarrow>
         andthen (guarded (name \<noteq> [])
           (andthen (remove_worktree_best_effort de (de_home de @ ''/.drydock/worktrees/'' @ dock_id_of_name name))
             (remove_overlay_best_effort de
               (de_home de @ ''/.drydock/overlays/'' @ dock_id_of_name name @ ''.devcontainer.json''))))
           (ret ''drydock_missing'')
     | Some d \<Rightarrow>
         andthen (guarded (dd_worktree_path d \<noteq> []) (remove_worktree_best_effort de (dd_worktree_path d)))
         (andthen (remove_overlay_best_effort de (overlay_of de d))
         (andthen (delete_row env (dd_name d))
           (ret (''drydock_partial_state:'' @ (if dd_state d \<noteq> [] then dd_state d else ''unknown''))))))"

section \<open>Requests\<close>

datatype recovered = Completed_request | Rolled_back_request | Unknown_method

definition finish_request :: "env \<Rightarrow> string \<Rightarrow> string \<Rightarrow> dict \<Rightarrow> unit op" where
  "finish_request env request_id status outcome =
     bind (utc_now env) (\<lambda>now. execute (finish_task_log now request_id status (JObj outcome)))"

definition failed_outcome :: "string \<Rightarrow> dict \<Rightarrow> dict" where
  "failed_outcome msg data = [(''code'', JInt (-32000)), (''message'', JStr msg), (''data'', JObj data)]"

definition recover_destroy :: "env \<Rightarrow> desk_env \<Rightarrow> string \<Rightarrow> dict \<Rightarrow> recovered op" where
  "recover_destroy env de request_id spec =
     bind (query (\<lambda>r. expected_destroy_drydock r spec)) (\<lambda>desk.
       case desk of
         None \<Rightarrow>
           andthen (finish_request env request_id ''completed''
             [(''destroyed'', JBool True), (''drydock_id'', JStr (expected_destroy_desk_id spec)), (''recovered'', JBool True)])
             (ret Completed_request)
       | Some d \<Rightarrow>
           bind (query (\<lambda>r. length (drydocks r))) (\<lambda>depth.
           bind (destroy_tree (Suc depth) env de False [] d []) (\<lambda>(cascaded, failures).
           andthen (finish_request env request_id (if failures \<noteq> [] then ''failed'' else ''completed'')
              ([(''destroyed'', JBool True), (''drydock_id'', JStr (dd_id d)), (''cascaded'', jstrs cascaded),
                (''recovered'', JBool True)] @
               (if failures \<noteq> [] then [(''partial_failures'', JList (map JObj failures))] else [])))
             (ret (if failures \<noteq> [] then Rolled_back_request else Completed_request)))))"

definition recover_create :: "env \<Rightarrow> desk_env \<Rightarrow> string \<Rightarrow> dict \<Rightarrow> recovered op" where
  "recover_create env de request_id spec =
    (let name = expected_drydock_name spec in
     bind (query (\<lambda>r. if name \<noteq> [] then get_drydock r name else None)) (\<lambda>desk.
     bind (query (\<lambda>r. r)) (\<lambda>r.
       case desk of
         Some d \<Rightarrow>
           if dd_state d = ''running'' \<and> dd_container_id d \<noteq> [] then
             andthen (finish_request env request_id ''completed'' (desk_ref r d spec)) (ret Completed_request)
           else
             bind (rollback_partial_create env de name desk) (\<lambda>reason.
             andthen (finish_request env request_id ''failed'' (failed_outcome ''crashed_during_create'' [(''reason'', JStr reason)]))
               (ret Rolled_back_request))
       | None \<Rightarrow>
           bind (rollback_partial_create env de name desk) (\<lambda>reason.
           andthen (finish_request env request_id ''failed'' (failed_outcome ''crashed_during_create'' [(''reason'', JStr reason)]))
             (ret Rolled_back_request)))))"

definition recover_request :: "env \<Rightarrow> desk_env \<Rightarrow> task_row \<Rightarrow> recovered op" where
  "recover_request env de t =
    (if tl_method t \<notin> {''CreateDesk'', ''DestroyDesk'', ''SpawnChild''} then
       andthen (finish_request env (tl_request_id t) ''failed''
         (failed_outcome ''unknown_method_during_recovery'' [(''method'', JStr (tl_method t))]))
         (ret Unknown_method)
     else if tl_method t = ''DestroyDesk'' then recover_destroy env de (tl_request_id t) (load_spec (tl_spec t))
     else recover_create env de (tl_request_id t) (load_spec (tl_spec t)))"

record RecoveryReport =
  rr_completed :: nat
  rr_rolled_back :: nat
  rr_unknown_method :: nat

definition count_recovered :: "recovered \<Rightarrow> RecoveryReport \<Rightarrow> RecoveryReport" where
  "count_recovered x rep =
    (case x of
       Completed_request \<Rightarrow> rep\<lparr>rr_completed := rr_completed rep + 1\<rparr>
     | Rolled_back_request \<Rightarrow> rep\<lparr>rr_rolled_back := rr_rolled_back rep + 1\<rparr>
     | Unknown_method \<Rightarrow> rep\<lparr>rr_unknown_method := rr_unknown_method rep + 1\<rparr>)"

fun recover_rows :: "env \<Rightarrow> desk_env \<Rightarrow> task_row list \<Rightarrow> RecoveryReport \<Rightarrow> RecoveryReport op" where
  "recover_rows env de [] rep = ret rep"
| "recover_rows env de (t # ts) rep =
     bind (recover_request env de t) (\<lambda>x. recover_rows env de ts (count_recovered x rep))"

definition rows_in_progress :: "registry \<Rightarrow> task_row list" where
  "rows_in_progress r = sort_key tl_created_at (filter (\<lambda>t. tl_status t = ''in_progress'') (task_log r))"

definition recover_in_progress :: "env \<Rightarrow> desk_env \<Rightarrow> string \<Rightarrow> RecoveryReport op" where
  "recover_in_progress env de registry_path =
     bind (path_exists de registry_path) (\<lambda>found.
     andthen (unless found (PyError ''FileNotFoundError'' (''Registry does not exist: '' @ registry_path)))
     (bind (query rows_in_progress) (\<lambda>rows.
       recover_rows env de rows \<lparr>rr_completed = 0, rr_rolled_back = 0, rr_unknown_method = 0\<rparr>)))"

section \<open>Migrations\<close>

definition rollback_migration_from_snapshot :: "env \<Rightarrow> desk_env \<Rightarrow> mig_env \<Rightarrow> string \<Rightarrow> string \<Rightarrow> unit op" where
  "rollback_migration_from_snapshot env de me drydock_id p =
     bind (restore_drydock env de
        (me\<lparr>me_secrets_root := de_home de @ ''/.drydock/secrets'', me_overlays_root := de_home de @ ''/.drydock/overlays''\<rparr>) p) (\<lambda>m.
     bind (query (\<lambda>r. drydock_by_id r drydock_id)) (\<lambda>row.
       case row of
         None \<Rightarrow> ret ()
       | Some d \<Rightarrow> set_image env (dd_name d) (dd_image (rd_drydocks (mf_registry_row m)))))"

definition conclude :: "env \<Rightarrow> string \<Rightarrow> string \<Rightarrow> dict \<Rightarrow> unit op" where
  "conclude env i status payload =
     bind (utc_now env) (\<lambda>now.
       update_mig i \<lparr>mu_status = Some status, mu_current_stage = None, mu_snapshot_path = None,
         mu_error = Some (JObj payload), mu_completed_at = Some now\<rparr>)"

text \<open>\<^verbatim>\<open>snapshot_path and Path(snapshot_path).exists()\<close>: the directory to restore from.\<close>

definition snapshot_at :: "string option \<Rightarrow> world \<Rightarrow> string option" where
  "snapshot_at p w = (case p of Some (c # cs) \<Rightarrow> if w_snapshots w (c # cs) = None then None else p | _ \<Rightarrow> None)"

text \<open>Whether the migration was rolled back; if not it is failed.\<close>

definition recover_migration :: "env \<Rightarrow> desk_env \<Rightarrow> mig_env \<Rightarrow> migration_row \<Rightarrow> bool op" where
  "recover_migration env de me m =
    (let payload = [(''reason'', JStr ''daemon_restart_recovery''), (''current_stage'', jopt (mg_current_stage m))];
         fail = (\<lambda>payload. andthen (conclude env (mg_id m) ''failed'' payload) (ret False))
     in
     bind (reads (snapshot_at (mg_snapshot_path m))) (\<lambda>dir.
       case dir of
         None \<Rightarrow> fail payload
       | Some p \<Rightarrow>
           bind (outcome_of (andthen (rollback_migration_from_snapshot env de me (mg_drydock_id m) p)
                  (conclude env (mg_id m) ''rolled_back'' payload))) (\<lambda>res.
             case res of
               Inr _ \<Rightarrow> ret True
             | Inl e \<Rightarrow> fail (payload @ [(''rollback_error'', JStr (exn_text e))]))))"

fun recover_migrations :: "env \<Rightarrow> desk_env \<Rightarrow> mig_env \<Rightarrow> migration_row list \<Rightarrow> nat \<Rightarrow> nat \<Rightarrow> (nat \<times> nat) op" where
  "recover_migrations env de me [] rolled_back failed = ret (rolled_back, failed)"
| "recover_migrations env de me (m # ms) rolled_back failed =
     bind (recover_migration env de me m) (\<lambda>restored.
       if restored then recover_migrations env de me ms (rolled_back + 1) failed
       else recover_migrations env de me ms rolled_back (failed + 1))"

definition recover_in_progress_migrations :: "env \<Rightarrow> desk_env \<Rightarrow> mig_env \<Rightarrow> (nat \<times> nat) op" where
  "recover_in_progress_migrations env de me =
     bind (query (\<lambda>r. sort_key mg_created_at (filter (\<lambda>m. mg_status m = ''in_progress'') (migrations r)))) (\<lambda>rows.
       recover_migrations env de me rows 0 0)"

section \<open>Start-up\<close>

text \<open>\<open>day_before\<close> is the ISO form of the time a day earlier.\<close>

definition start_up ::
    "env \<Rightarrow> desk_env \<Rightarrow> mig_env \<Rightarrow> (string \<Rightarrow> string) \<Rightarrow> string \<Rightarrow> (RecoveryReport \<times> (nat \<times> nat) \<times> nat) op" where
  "start_up env de me day_before registry_path =
     bind (recover_in_progress env de registry_path) (\<lambda>report.
     bind (recover_in_progress_migrations env de me) (\<lambda>counts.
     bind (utc_now env) (\<lambda>now.
     bind (update_reg (evict_old_task_log (day_before now))) (\<lambda>evicted.
       ret (report, counts, evicted)))))"

end
