(* ===== verification/Migration_Facts.thy ===== *)
theory Migration_Facts
  imports Migration Desk_Properties
begin

text \<open>
  What executing a migration promises: a run that returns leaves a terminal status in its row and
  every other migration alone, and a rolled back one has the image and the secret files it
  started with.
\<close>

section \<open>Operations that leave the state alone\<close>

text \<open>The registry, the secret files and the snapshots; the audit log and the calls may grow.\<close>

definition still :: "registry \<Rightarrow> (string \<times> string \<Rightarrow> file_node option) \<Rightarrow> (string \<Rightarrow> snapshot_dir option) \<Rightarrow> world \<Rightarrow> bool" where
  "still r f s w \<longleftrightarrow> w_reg w = r \<and> w_files w = f \<and> w_snapshots w = s"

lemma stillD:
  assumes "\<And>r f s. keeps (still r f s) m" "m w = (res, w')"
  shows "w_reg w' = w_reg w" "w_files w' = w_files w" "w_snapshots w' = w_snapshots w"
  using keepsD [OF assms, of "w_reg w" "w_files w" "w_snapshots w"] by (simp_all add: still_def)

lemma still_tick [keeps_rules]: "keeps (still r f s) tick"
  by (simp add: keeps_def tick_def still_def)

lemma still_utc_now [keeps_rules]: "keeps (still r f s) (utc_now env)"
  unfolding utc_now_def by (intro keeps_rules)

lemma still_run [keeps_rules]: "keeps (still r f s) (subprocess_run env argv inp)"
  unfolding subprocess_run_def by (intro keeps_rules keeps_writes) (simp add: still_def)

lemma still_idle [keeps_rules]: "keeps (still r f s) (os_step env (\<lambda>w. w))"
  unfolding os_step_def by (intro keeps_rules keeps_writes)

lemma still_audit [keeps_rules]: "keeps (still r f s) (emit_audit env ev p i m res d)"
  unfolding emit_audit_def append_entry_def os_step_def
  by (intro keeps_rules keeps_writes) (simp add: still_def)

lemma still_path_exists [keeps_rules]: "keeps (still r f s) (path_exists de p)"
  unfolding path_exists_def by (intro keeps_rules)

lemma still_git [keeps_rules]: "keeps (still r f s) (git env args)"
  unfolding git_def by (intro keeps_bind still_run) (auto split: proc.split intro: keeps_rules)

lemma still_capture_worktree [keeps_rules]: "keeps (still r f s) (capture_worktree env de d)"
  unfolding capture_worktree_def Let_def by (intro keeps_rules)

lemma still_refuse_dirty [keeps_rules]: "keeps (still r f s) (refuse_dirty t)"
  unfolding refuse_dirty_def by (intro keeps_rules)

lemma still_stage_secrets [keeps_rules]: "keeps (still r f s) (stage_secrets env de me i)"
  unfolding stage_secrets_def by (intro keeps_rules)

lemma still_stage_overlay [keeps_rules]: "keeps (still r f s) (stage_overlay env me i)"
  unfolding stage_overlay_def by (intro keeps_rules)

lemma still_completed_run [keeps_rules]: "keeps (still r f s) (completed_run env argv inp)"
  unfolding completed_run_def by (intro keeps_bind still_run) (auto split: proc.split intro: keeps_rules)

section \<open>Operations that leave the files alone\<close>

text \<open>Any predicate of the secret files and the snapshots.\<close>

abbreviation on_disk ::
    "((string \<times> string \<Rightarrow> file_node option) \<Rightarrow> (string \<Rightarrow> snapshot_dir option) \<Rightarrow> bool) \<Rightarrow> world \<Rightarrow> bool" where
  "on_disk Q \<equiv> (\<lambda>w. Q (w_files w) (w_snapshots w))"

lemma disk_still:
  assumes "\<And>r f s. keeps (still r f s) m"
  shows "keeps (on_disk Q) m"
  unfolding keeps_def
proof (intro allI impI)
  fix w assume "on_disk Q w"
  then show "on_disk Q (snd (m w))"
    using stillD [of m, OF assms prod.collapse [symmetric]] by simp
qed

lemma disk_execute [keeps_rules]: "keeps (on_disk Q) (execute f)"
  by (simp add: keeps_def execute_def writes_def)

lemma disk_update_reg [keeps_rules]: "keeps (on_disk Q) (update_reg f)"
  by (simp add: keeps_def update_reg_def split: prod.split)

lemma disk_insert_reg [keeps_rules]: "keeps (on_disk Q) (insert_reg f)"
  by (simp add: keeps_def insert_reg_def split: sum.split)

lemma disk_utc_now [keeps_rules]: "keeps (on_disk Q) (utc_now env)"
  by (intro disk_still keeps_rules)

lemma disk_tick [keeps_rules]: "keeps (on_disk Q) tick"
  by (intro disk_still keeps_rules)

lemma disk_run [keeps_rules]: "keeps (on_disk Q) (subprocess_run env argv inp)"
  by (intro disk_still keeps_rules)

lemma disk_audit [keeps_rules]: "keeps (on_disk Q) (emit_audit env ev p i m res d)"
  by (intro disk_still keeps_rules)

lemma disk_path_exists [keeps_rules]: "keeps (on_disk Q) (path_exists de p)"
  by (intro disk_still keeps_rules)

lemma disk_ext [keeps_rules]: "keeps (on_disk Q) (ext g)"
  unfolding ext_def by (intro keeps_rules)

lemma disk_update_row [keeps_rules]: "keeps (on_disk Q) (update_row env n f)"
  unfolding update_row_def by (intro keeps_rules)

lemma disk_set_image [keeps_rules]: "keeps (on_disk Q) (set_image env n t)"
  unfolding set_image_def by (intro keeps_rules)

lemma disk_set_state [keeps_rules]: "keeps (on_disk Q) (set_state env n st)"
  unfolding set_state_def by (intro keeps_rules)

lemma disk_devc_check [keeps_rules]: "keeps (on_disk Q) (devc_check_available env)"
  unfolding devc_check_available_def
  by (intro keeps_bind disk_run) (auto split: proc.split intro: keeps_rules)

lemma disk_devc_up [keeps_rules]: "keeps (on_disk Q) (devc_up env dry f c)"
  unfolding devc_up_def Let_def
  by (intro keeps_if keeps_ret keeps_bind disk_run)
    (auto split: proc.split option.split json.split intro: keeps_rules)

lemma disk_up_or_error [keeps_rules]: "keeps (on_disk Q) (up_or_error env dry n f ov)"
  unfolding up_or_error_def
  by (intro keeps_try_except disk_devc_up) (auto split: exn.split intro: keeps_rules)

lemma disk_container [keeps_rules]: "keeps (on_disk Q) (container_of_up env dry cid)"
  unfolding container_of_up_def uuid4_hex_def
  by (auto split: json.split list.split intro!: keeps_rules)

lemma disk_mounts [keeps_rules]: "keeps (on_disk Q) (storage_mounts_setup env c src)"
  unfolding storage_mounts_setup_def by (intro keeps_rules)

lemma disk_start [keeps_rules]: "keeps (on_disk Q) (start_container env de dry n folder ov src)"
  unfolding start_container_def by (intro keeps_rules)

lemma disk_fail_resume [keeps_rules]: "keeps (on_disk Q) (fail_resume env d why)"
  unfolding fail_resume_def by (intro keeps_rules)

lemma disk_resume [keeps_rules]: "keeps (on_disk Q) (resume_desk env de d dry)"
proof -
  have regen: "keeps (on_disk Q) (case e of WsError m fx \<Rightarrow> ret ()
      | PyError cls m \<Rightarrow> if cls = ''FileNotFoundError'' \<or> cls = ''OSError'' then ret () else raise e
      | _ \<Rightarrow> raise e)" for e
    by (cases e) (auto intro: keeps_rules)
  show ?thesis
    unfolding resume_desk_def Let_def
    by (auto split: json.split list.split intro!: keeps_rules regen)
qed

section \<open>The frame of a walk\<close>

definition same_migration :: "MigrationOutcome \<Rightarrow> MigrationOutcome \<times> 'a \<Rightarrow> bool" where
  "same_migration o0 x \<longleftrightarrow> mo_migration_id (fst x) = mo_migration_id o0"

lemma stage_ends: "ends (run_stage env s fn o0) (\<lambda>x w. same_migration o0 x)"
proof -
  have "ends (case res of Inr (StageFailure detail) \<Rightarrow> ret (o0, Inl detail)
        | Inr (Done detail) \<Rightarrow>
            andthen (audit_stage env o0 s ''ok'' ''ok'' detail) (ret (add_stage s ''ok'' detail o0, Inr detail))
        | Inl e \<Rightarrow>
            let detail = [(''error'', JStr (exn_text e)), (''error_type'', JStr (exn_class e))] in
            andthen (audit_stage env o0 s ''error'' ''failed'' detail)
              (ret (add_stage s ''failed'' detail o0, Inl detail))) (\<lambda>x w. same_migration o0 x)"
    for res :: "exn + stage_result"
    by (cases res; (cases "projr res")?)
      (simp_all add: ends_def effect_simps same_migration_def add_stage_def Let_def)
  then show ?thesis unfolding run_stage_def by (intro ends_andthen ends_bind)
qed

lemma stage_id: "yields P (run_stage env s fn o0) (same_migration o0)"
  using stage_ends unfolding yields_def ends_def by blast

text \<open>
  A predicate that the steps of a walk after the snapshot cannot break, for the migration \<open>i\<close>.
\<close>

locale walk_frame =
  fixes I :: "world \<Rightarrow> bool" and i :: string
  assumes audit: "keeps I (emit_audit env ev p j m res details)"
    and mig: "keeps I (update_mig i u)"
    and run: "keeps I (completed_run env argv inp)"
    and now: "keeps I (utc_now env)"
    and row: "keeps I (set_image env n t)"
    and delegations: "keeps I (execute (update_desk_delegations ts n dl))"
    and resume: "keeps I (resume_desk env de d dry)"
begin

lemma stage:
  assumes "mo_migration_id o0 = i" "keeps I fn"
  shows "keeps I (run_stage env s fn o0)"
proof -
  have "keeps I (update_mig (mo_migration_id o0) u)" for u using mig by (simp add: assms(1))
  then show ?thesis
    using assms(2) unfolding run_stage_def audit_stage_def Let_def
    by (intro keeps_andthen keeps_bind keeps_outcome_of)
      (auto split: sum.split stage_result.split intro: keeps_rules audit)
qed

lemma proceed_stage:
  assumes "mo_migration_id o0 = i" "keeps I fn" "\<And>o1 detail. mo_migration_id o1 = i \<Longrightarrow> keeps I (k o1 detail)"
  shows "keeps I (proceed snap s' (run_stage env s fn o0) k)"
  unfolding proceed_def
proof (rule keeps_bind_val [OF stage_id stage [OF assms(1,2)]])
  fix x :: "MigrationOutcome \<times> (dict + dict)"
  assume "same_migration o0 x"
  then show "keeps I (case x of (o1, res) \<Rightarrow> case res of Inl detail \<Rightarrow> ret (Halted o1 s' detail snap) | Inr detail \<Rightarrow> k o1 detail)"
    using assms(1) by (auto simp: same_migration_def split: prod.split sum.split intro: keeps_ret assms(3))
qed

lemma stop: "keeps I (do_stop env me d)"
  unfolding do_stop_def by (intro keeps_rules run)

lemma mutate_image: "keeps I (mutate_image_bump env de d summary)"
  unfolding mutate_image_bump_def Let_def by (intro keeps_rules row)

lemma mutate_reload: "keeps I (mutate_project_reload env me d)"
  unfolding mutate_project_reload_def by (intro keeps_rules now delegations)

lemma mutate: "keeps I (do_mutate env de me d plan)"
  unfolding do_mutate_def Let_def by (intro keeps_rules mutate_image mutate_reload)

lemma start: "keeps I (do_start env de d)"
  unfolding do_start_def by (intro keeps_rules resume)

lemma verify: "keeps I (do_verify d skipped)"
  unfolding do_verify_def by (intro keeps_rules)

lemma light: "keeps I (do_precheck d)" "keeps I (do_drain me)" "keeps I (do_cleanup dir)"
  unfolding do_precheck_def do_drain_def do_cleanup_def by (intro keeps_rules)+

lemma after_snapshot: "mo_migration_id o3 = i \<Longrightarrow> keeps I (walk_after_snapshot env de me d plan dir o3)"
  unfolding walk_after_snapshot_def
  by (intro proceed_stage keeps_ret stop mutate start verify light) assumption+

lemma close: "mo_migration_id o1 = i \<Longrightarrow> keeps I (close_migration env o1 st ev res det)"
  unfolding close_migration_def by (intro keeps_rules now audit) (simp add: mig)

end

interpretation disk: walk_frame "on_disk Q" i for Q i
  by unfold_locales
    (auto simp: update_mig_def intro: keeps_rules disk_still)

section \<open>The migrations table\<close>

text \<open>The ids of all migrations and the rows of the others than \<open>i\<close>.\<close>

definition mig_frame :: "string \<Rightarrow> string list \<Rightarrow> migration_row list \<Rightarrow> registry \<Rightarrow> bool" where
  "mig_frame i ids ms r \<longleftrightarrow> map mg_id (migrations r) = ids \<and> filter (\<lambda>m. mg_id m \<noteq> i) (migrations r) = ms"

lemma filter_update_where:
  "(\<And>m. P m \<Longrightarrow> \<not> Q m) \<Longrightarrow> (\<And>m. P m \<Longrightarrow> \<not> Q (f m)) \<Longrightarrow> filter Q (update_where P f xs) = filter Q xs"
  by (induction xs) auto

lemma mig_frame_update:
  "mig_frame i ids ms r \<Longrightarrow> update_migration i u r = Inr r' \<Longrightarrow> mig_frame i ids ms r'"
  by (auto simp: mig_frame_def update_migration_def map_update_where filter_update_where split: if_splits)

lemma migrations_update_drydock [simp]: "migrations (snd (update_drydock now n f r)) = migrations r"
  by (simp add: update_drydock_def Let_def split: option.split)

lemma migrations_update_state [simp]: "migrations (snd (update_state now n st r)) = migrations r"
  by (simp add: update_state_def log_event_def Let_def split: option.split)

lemma migrations_delegations [simp]: "migrations (update_desk_delegations now n dl r) = migrations r"
  by (simp add: update_desk_delegations_def)

lemma migrations_insert_token [simp]: "migrations (insert_token d sha ts r) = migrations r"
  by (simp add: insert_token_def)

interpretation mig_rows: desk_frame "mig_frame i ids ms" for i ids ms
  by unfold_locales (simp_all add: mig_frame_def)

interpretation table: walk_frame "on_reg (mig_frame i ids ms)" i for i ids ms
proof unfold_locales
  show "keeps (on_reg (mig_frame i ids ms)) (update_mig i u)" for u
    unfolding update_mig_def by (rule keeps_insert_reg) (rule mig_frame_update)
  show "keeps (on_reg (mig_frame i ids ms)) (completed_run env argv inp)" for env argv inp
    unfolding completed_run_def by (intro keeps_bind keeps_reg_run) (auto split: proc.split intro: keeps_rules)
  show "keeps (on_reg (mig_frame i ids ms)) (set_image env n t)" for env n t
    unfolding set_image_def by (intro keeps_rules keeps_update_reg) (simp add: mig_frame_def)
  show "keeps (on_reg (mig_frame i ids ms)) (execute (update_desk_delegations ts n dl))" for ts n dl
    by (rule keeps_execute) (simp add: mig_frame_def)
qed (intro keeps_rules mig_rows.resume)+

section \<open>The whole walk on the migrations table\<close>

lemma reg_still:
  assumes "\<And>r f s. keeps (still r f s) m"
  shows "keeps (on_reg P) m"
  unfolding keeps_def
proof (intro allI impI)
  fix w assume "on_reg P w"
  then show "on_reg P (snd (m w))"
    using stillD [of m, OF assms prod.collapse [symmetric]] by simp
qed

lemma reg_edit_dir [keeps_rules]: "keeps (on_reg P) (os_step env (edit_dir p f))"
  by (rule keeps_os_step) (simp add: edit_dir_def)

lemma reg_snapshot [keeps_rules]: "keeps (on_reg P) (snapshot_drydock env de me d i)"
  unfolding snapshot_drydock_def roll_up_def Let_def
  by (intro keeps_andthen keeps_bind reg_edit_dir keeps_query keeps_required keeps_ret; intro reg_still keeps_rules)

lemma reg_do_snapshot [keeps_rules]: "keeps (on_reg P) (do_snapshot env de me d i)"
  unfolding do_snapshot_def by (intro keeps_rules)

lemma reg_tree_step [keeps_rules]: "keeps (on_reg P) (tree_step env me i tree)"
  unfolding tree_step_def by (intro keeps_rules keeps_writes) (simp_all add: set_files_def)

lemma still_load_manifest [keeps_rules]: "keeps (still r f s) (load_manifest env p)"
  unfolding load_manifest_def by (intro keeps_rules)

lemma still_open_tarball [keeps_rules]: "keeps (still r f s) (open_tarball env p)"
  unfolding open_tarball_def by (intro keeps_rules)

lemma still_restore_overlay [keeps_rules]: "keeps (still r f s) (restore_overlay env m t)"
  unfolding restore_overlay_def by (intro keeps_rules)

lemma reg_restore_secrets: "keeps (on_reg P) (restore_secrets env de me m t)"
  unfolding restore_secrets_def
  by (auto split: option.split intro!: keeps_rules) (intro reg_still keeps_rules)

lemma reg_restore [keeps_rules]: "keeps (on_reg P) (restore_drydock env de me p)"
  unfolding restore_drydock_def
  by (intro keeps_andthen keeps_bind keeps_ret reg_restore_secrets; intro reg_still keeps_rules)

lemma walk_stages_reg:
  assumes "walk_frame (on_reg P) i" "mo_migration_id o0 = i"
  shows "keeps (on_reg P) (walk_stages env de me d plan o0)"
  unfolding walk_stages_def Let_def
  by (intro walk_frame.proceed_stage [OF assms(1)] walk_frame.light [OF assms(1)] reg_do_snapshot keeps_andthen
      keeps_option keeps_ret walk_frame.after_snapshot [OF assms(1)])
    (simp_all add: assms(2) walk_frame.mig [OF assms(1)])

lemmas walk_stages_table = walk_stages_reg [OF table.walk_frame_axioms]

fun walk_id :: "walk \<Rightarrow> string" where
  "walk_id (Finished o1) = mo_migration_id o1"
| "walk_id (Halted o1 s detail dir) = mo_migration_id o1"

lemma ends_proceed:
  assumes "mo_migration_id o0 = i" "\<And>o1 detail. mo_migration_id o1 = i \<Longrightarrow> ends (k o1 detail) Q"
    and "\<And>o1 detail w. mo_migration_id o1 = i \<Longrightarrow> Q (Halted o1 s' detail snap) w"
  shows "ends (proceed snap s' (run_stage env s fn o0) k) Q"
proof -
  have "ends (case x of (o1, res) \<Rightarrow> case res of Inl detail \<Rightarrow> ret (Halted o1 s' detail snap) | Inr detail \<Rightarrow> k o1 detail) Q"
    if "same_migration o0 x" for x :: "MigrationOutcome \<times> (dict + dict)"
  proof (cases x)
    case (Pair o1 res)
    then have "mo_migration_id o1 = i" using that assms(1) by (simp add: same_migration_def)
    then show ?thesis
      using assms(2,3) by (cases res) (auto simp: Pair ends_def ret_eq)
  qed
  then show ?thesis unfolding proceed_def by (rule ends_bind_val [OF stage_ends])
qed

lemma walk_stages_id: "ends (walk_stages env de me d plan o0) (\<lambda>wk w. walk_id wk = mo_migration_id o0)"
proof -
  have after: "ends (walk_after_snapshot env de me d plan dir o3) (\<lambda>wk w. walk_id wk = i)"
    if "mo_migration_id o3 = i" for dir o3 i
    unfolding walk_after_snapshot_def
    by (intro ends_proceed) (simp_all add: that ends_def effect_simps)
  show ?thesis
    unfolding walk_stages_def Let_def
    by (intro ends_proceed refl ends_andthen after) simp_all
qed

section \<open>The terminal status\<close>

lemma frame_found: "mig_frame i ids ms r \<Longrightarrow> i \<in> set ids \<Longrightarrow> \<exists>m. get_migration r i = Some m"
  unfolding mig_frame_def get_migration_def
  by (cases "find (\<lambda>m. mg_id m = i) (migrations r)") (auto simp: find_None_iff)

definition concluded :: "string \<Rightarrow> string list \<Rightarrow> migration_row list \<Rightarrow> string \<Rightarrow> registry \<Rightarrow> bool" where
  "concluded i ids ms st r \<longleftrightarrow> mig_frame i ids ms r \<and>
     (\<exists>m. get_migration r i = Some m \<and> mg_status m = st \<and> mg_completed_at m \<noteq> None)"

lemma update_mig_run:
  assumes "update_mig i u w = (Inr x, w')" "get_migration (w_reg w) i = Some m"
  shows "get_migration (w_reg w') i = Some (m\<lparr>mg_status := or_keep (mu_status u) (mg_status m),
     mg_current_stage := keep_some (mu_current_stage u) (mg_current_stage m),
     mg_snapshot_path := keep_some (mu_snapshot_path u) (mg_snapshot_path m),
     mg_error := keep_some (mu_error u) (mg_error m),
     mg_completed_at := keep_some (mu_completed_at u) (mg_completed_at m)\<rparr>)"
  using assms
  by (auto simp: update_mig_def insert_reg_def update_migration_def get_migration_def find_update_where
      dest: find_Some_D split: if_splits)

lemma close_run:
  assumes "close_migration env o1 st ev res det w = (Inr u, w')" "mo_migration_id o1 = i"
    and "mig_frame i ids ms (w_reg w)" "i \<in> set ids"
  shows "concluded i ids ms (mo_terminal_status o1) (w_reg w')"
proof -
  have frame: "mig_frame i ids ms (w_reg w')"
    by (rule keepsD [OF table.close [OF assms(2)] assms(1,3)])
  obtain m where "get_migration (w_reg w) i = Some m" using frame_found [OF assms(3,4)] by blast
  moreover obtain now w2 where
    2: "update_mig i \<lparr>mu_status = Some (mo_terminal_status o1), mu_current_stage = st,
        mu_snapshot_path = None, mu_error = map_option JObj (mo_error o1), mu_completed_at = Some now\<rparr>
        (w\<lparr>w_ticks := Suc (w_ticks w)\<rparr>) = (Inr (), w2)"
    and 3: "emit_audit env ev (Some (mo_drydock_id o1)) (JStr i) ''MigrationExecutor'' res det w2 = (Inr u, w')"
    using assms(1) by (auto simp: close_migration_def utc_now_def effect_simps assms(2))
  moreover have "w_reg w' = w_reg w2" using emit_audit_cases [OF 3] by simp
  ultimately show ?thesis
    using frame update_mig_run [OF 2, of m] by (simp add: concluded_def or_keep_def keep_some_def)
qed

lemma restore_desk_table: "keeps (on_reg (mig_frame i ids ms)) (restore_desk env de me d dir)"
  unfolding restore_desk_def by (intro keeps_rules table.row)

lemma rollback_run:
  assumes "rollback env de me d err dir o1 w = (Inr out, w')" "mo_migration_id o1 = i"
    and "mig_frame i ids ms (w_reg w)" "i \<in> set ids"
  shows "concluded i ids ms (mo_terminal_status out) (w_reg w') \<and>
    ((mo_terminal_status out = ''rolled_back'' \<and>
      (\<exists>w1 w2. update_mig i (no_update\<lparr>mu_current_stage := Some ''rollback''\<rparr>) w = (Inr (), w1) \<and>
         restore_desk env de me d dir w1 = (Inr (), w2) \<and>
         (\<exists>o2 ev res det. mo_migration_id o2 = i \<and> close_migration env o2 None ev res det w2 = (Inr (), w')))) \<or>
     mo_terminal_status out = ''failed'')"
proof -
  let ?u = "no_update\<lparr>mu_current_stage := Some ''rollback''\<rparr>"
  obtain w1 res w2 where 1: "update_mig i ?u w = (Inr (), w1)" "restore_desk env de me d dir w1 = (res, w2)"
    using assms(1,2) by (auto simp: rollback_def effect_simps) (metis surj_pair)
  have f2: "mig_frame i ids ms (w_reg w2)"
    using keepsD [OF table.mig 1(1) assms(3)] keepsD [OF restore_desk_table 1(2)] by simp
  show ?thesis
  proof (cases res)
    case (Inl e)
    with assms(1,2) 1 obtain o2 ev r det where c: "close_migration env o2 None ev r det w2 = (Inr (), w')"
      "mo_terminal_status o2 = ''failed''" "mo_migration_id o2 = i" "mo_terminal_status out = ''failed''"
      by (auto simp: rollback_def effect_simps outcome_of_def Let_def add_stage_def)
    then show ?thesis using close_run [OF c(1,3) f2 assms(4)] by simp
  next
    case (Inr u)
    with assms(1,2) 1 obtain o2 ev r det where c: "close_migration env o2 None ev r det w2 = (Inr (), w')"
      "mo_terminal_status o2 = ''rolled_back''" "mo_migration_id o2 = i" "mo_terminal_status out = ''rolled_back''"
      by (auto simp: rollback_def effect_simps outcome_of_def Let_def add_stage_def)
    then show ?thesis using close_run [OF c(1,3) f2 assms(4)] 1 Inr by auto
  qed
qed

text \<open>How a run that returns came about.\<close>

lemma execute_migration_run:
  assumes "execute_migration env de me i w = (Inr out, w')"
  obtains plan did d w1 w2 wk w3 where "planned_migration de (w_reg w) i = Inr (plan, did, d)"
    "update_mig i (no_update\<lparr>mu_status := Some ''in_progress'', mu_current_stage := Some ''precheck''\<rparr>) w = (Inr (), w1)"
    "emit_audit env ''drydock.migration_started'' (Some did) (JStr i) ''MigrationExecutor'' ''ok'' [(''plan'', JObj plan)] w1 = (Inr (), w2)"
    "walk_stages env de me d plan \<lparr>mo_migration_id = i, mo_drydock_id = did, mo_terminal_status = ''in_progress'',
       mo_stages = [], mo_snapshot_path = None, mo_error = None\<rparr> w2 = (Inr wk, w3)"
    "end_walk env de me d wk w3 = (Inr out, w')" "walk_id wk = i"
    "\<And>ids ms. mig_frame i ids ms (w_reg w) \<Longrightarrow> mig_frame i ids ms (w_reg w3)"
proof -
  from assms obtain plan did d w1 w2 wk w3 where
    1: "planned_migration de (w_reg w) i = Inr (plan, did, d)"
    and 2: "update_mig i (no_update\<lparr>mu_status := Some ''in_progress'', mu_current_stage := Some ''precheck''\<rparr>) w = (Inr (), w1)"
    and 3: "emit_audit env ''drydock.migration_started'' (Some did) (JStr i) ''MigrationExecutor'' ''ok'' [(''plan'', JObj plan)] w1 = (Inr (), w2)"
    and 4: "walk_stages env de me d plan \<lparr>mo_migration_id = i, mo_drydock_id = did, mo_terminal_status = ''in_progress'',
       mo_stages = [], mo_snapshot_path = None, mo_error = None\<rparr> w2 = (Inr wk, w3)"
    and 5: "end_walk env de me d wk w3 = (Inr out, w')"
    by (auto simp: execute_migration_def bind_query bind_from_sum effect_simps split: sum.splits)
  moreover have "walk_id wk = i" using endsD [OF walk_stages_id 4] by simp
  moreover have "mig_frame i ids ms (w_reg w3)" if "mig_frame i ids ms (w_reg w)" for ids ms
    using keepsD [OF table.mig 2 that] emit_audit_cases [OF 3] keepsD [OF walk_stages_table 4, of i ids ms] by simp
  ultimately show ?thesis using that by blast
qed

lemma end_walk_run:
  assumes "end_walk env de me d wk w = (Inr out, w')" "walk_id wk = i"
    and "mig_frame i ids ms (w_reg w)" "i \<in> set ids"
  shows "concluded i ids ms (mo_terminal_status out) (w_reg w') \<and>
    mo_terminal_status out \<in> {''completed'', ''rolled_back'', ''failed''}"
proof (cases wk)
  case (Finished o1)
  then obtain det where "out = o1\<lparr>mo_terminal_status := ''completed''\<rparr>"
      "close_migration env (o1\<lparr>mo_terminal_status := ''completed''\<rparr>) (Some ''cleanup'') ''drydock.migrated'' ''ok'' det w = (Inr (), w')"
    using assms(1) by (auto simp: end_walk_def Let_def effect_simps)
  from close_run [OF this(2) _ assms(3,4)] this(1) show ?thesis using assms(2) Finished by simp
next
  case (Halted o1 s detail dir)
  show ?thesis
  proof (cases dir)
    case None
    then obtain det where "out = o1\<lparr>mo_error := Some det, mo_terminal_status := ''failed''\<rparr>"
        "close_migration env (o1\<lparr>mo_error := Some det, mo_terminal_status := ''failed''\<rparr>) None
           ''drydock.migration_failed'' ''error'' det w = (Inr (), w')"
      using assms(1) Halted by (auto simp: end_walk_def Let_def effect_simps)
    from close_run [OF this(2) _ assms(3,4)] this(1) show ?thesis using assms(2) Halted by simp
  next
    case (Some p)
    then have "rollback env de me d (dict_update [(''failed_stage'', JStr s)] detail) p
        (o1\<lparr>mo_error := Some (dict_update [(''failed_stage'', JStr s)] detail)\<rparr>) w = (Inr out, w')"
      using assms(1) Halted by (simp add: end_walk_def Let_def)
    from rollback_run [OF this _ assms(3,4)] show ?thesis using assms(2) Halted by auto
  qed
qed

text \<open>
  (C26) A migration that was run has ended: only a planned one is started, and when the executor
  returns, its row holds the reported status, one of the three terminal ones, with a time of
  completion. The rows of all other migrations are unchanged.
\<close>

theorem executed_migration_is_terminal:
  assumes "execute_migration env de me i w = (Inr out, w')"
  shows "\<exists>m m'. get_migration (w_reg w) i = Some m \<and> mg_status m = ''planned'' \<and>
    get_migration (w_reg w') i = Some m' \<and> mg_status m' = mo_terminal_status out \<and> mg_completed_at m' \<noteq> None \<and>
    mo_terminal_status out \<in> {''completed'', ''rolled_back'', ''failed''} \<and>
    filter (\<lambda>x. mg_id x \<noteq> i) (migrations (w_reg w')) = filter (\<lambda>x. mg_id x \<noteq> i) (migrations (w_reg w))"
proof -
  let ?ids = "map mg_id (migrations (w_reg w))" and ?ms = "filter (\<lambda>x. mg_id x \<noteq> i) (migrations (w_reg w))"
  obtain plan did d wk w3 where p: "planned_migration de (w_reg w) i = Inr (plan, did, d)"
    and e: "end_walk env de me d wk w3 = (Inr out, w')" "walk_id wk = i"
    and f: "mig_frame i ?ids ?ms (w_reg w) \<Longrightarrow> mig_frame i ?ids ?ms (w_reg w3)"
    using execute_migration_run [OF assms] by metis
  obtain m where m: "get_migration (w_reg w) i = Some m" "mg_status m = ''planned''"
    using p by (auto simp: planned_migration_def split: option.splits if_splits)
  then have "m \<in> set (migrations (w_reg w))" "mg_id m = i" by (auto simp: get_migration_def dest: find_Some_D)
  then have "i \<in> set ?ids" by force
  from end_walk_run [OF e f this] m show ?thesis
    by (auto simp: concluded_def mig_frame_def)
qed

section \<open>What a snapshot holds\<close>

definition captured ::
    "drydock_row \<Rightarrow> (string \<times> string \<Rightarrow> file_node option) \<Rightarrow> string \<Rightarrow>
     (string \<times> string \<Rightarrow> file_node option) \<Rightarrow> (string \<Rightarrow> snapshot_dir option) \<Rightarrow> bool" where
  "captured d f p f' s \<longleftrightarrow> f' = f \<and> (\<exists>m t. sd_manifest (the_dir (s p)) = Some m \<and> sd_tarball (the_dir (s p)) = Some t \<and>
     mf_drydock_id m = dd_id d \<and> rd_drydocks (mf_registry_row m) = d \<and>
     (\<forall>tree. tb_secrets t = Some tree \<longrightarrow> tree = (\<lambda>n. f (dd_id d, n))))"

text \<open>Any predicate of the registry, the secret files and the snapshots.\<close>

abbreviation on_state ::
    "(registry \<Rightarrow> (string \<times> string \<Rightarrow> file_node option) \<Rightarrow> (string \<Rightarrow> snapshot_dir option) \<Rightarrow> bool) \<Rightarrow> world \<Rightarrow> bool" where
  "on_state Q \<equiv> (\<lambda>w. Q (w_reg w) (w_files w) (w_snapshots w))"

lemma state_still:
  assumes "\<And>r f s. keeps (still r f s) m"
  shows "keeps (on_state Q) m"
  unfolding keeps_def
proof (intro allI impI)
  fix w assume "on_state Q w"
  then show "on_state Q (snd (m w))"
    using stillD [of m, OF assms prod.collapse [symmetric]] by simp
qed

lemma stage_secrets_ensures:
  "ensures (on_state (\<lambda>r g s. Q r s \<and> g = f)) (stage_secrets env de me i)
     (\<lambda>x. on_state (\<lambda>r g s. (Q r s \<and> g = f) \<and> (\<forall>tree. x = Some tree \<longrightarrow> tree = (\<lambda>n. f (i, n)))))"
  unfolding stage_secrets_def
proof (rule ensures_pass)
  show "keeps (on_state (\<lambda>r g s. Q r s \<and> g = f)) (path_exists de (join_path (me_secrets_root me) i))"
    by (intro state_still keeps_rules)
next
  fix is_dir
  have "ensures (on_state (\<lambda>r g s. Q r s \<and> g = f))
      (andthen (os_step env (\<lambda>w. w)) (bind (reads (secret_dir_of i)) (\<lambda>tree. ret (Some tree))))
      (\<lambda>x. on_state (\<lambda>r g s. (Q r s \<and> g = f) \<and> (\<forall>tree. x = Some tree \<longrightarrow> tree = (\<lambda>n. f (i, n)))))"
    by (rule ensures_os_step [where R = "on_state (\<lambda>r g s. Q r s \<and> g = f)"])
      (auto simp: ensures_def effect_simps secret_dir_of_def)
  then show "ensures (on_state (\<lambda>r g s. Q r s \<and> g = f))
      (if is_dir then andthen (os_step env (\<lambda>w. w)) (bind (reads (secret_dir_of i)) (\<lambda>tree. ret (Some tree))) else ret None)
      (\<lambda>x. on_state (\<lambda>r g s. (Q r s \<and> g = f) \<and> (\<forall>tree. x = Some tree \<longrightarrow> tree = (\<lambda>n. f (i, n)))))"
    by (simp add: ensures_ret)
qed

lemma join_path_neq_Nil [simp]: "join_path a b \<noteq> []"
  by (simp add: join_path_def)

lemma roll_up_captures:
  assumes "rd_drydocks row = d" "\<And>tree. tb_secrets tgz = Some tree \<Longrightarrow> tree = (\<lambda>n. f (dd_id d, n))"
  shows "ensures (on_state (\<lambda>r g s. g = f)) (roll_up env me d i row worktree tgz)
     (\<lambda>(dir, m). on_state (\<lambda>r g s. dir = join_path (me_migrations_root me) i \<and> captured d f dir g s))"
proof -
  let ?t = "join_path (me_migrations_root me) i"
  let ?T = "on_state (\<lambda>r g s. g = f \<and> sd_tarball (the_dir (s ?t)) = Some tgz)"
  have last: "ensures ?T (andthen (os_step env (edit_dir ?t (\<lambda>s. s\<lparr>sd_manifest := Some (manifest_of me n d i now row worktree tgz)\<rparr>)))
         (ret (?t, manifest_of me n d i now row worktree tgz)))
      (\<lambda>(dir, m). on_state (\<lambda>r g s. dir = ?t \<and> captured d f dir g s))" for n now
    by (rule ensures_os_step [where R = "on_state (\<lambda>r. captured d f ?t)"])
      (auto simp: ensures_def ret_eq edit_dir_def the_dir_def captured_def manifest_of_def assms split: option.splits)
  have "ensures ?T (bind (utc_now env) (\<lambda>now. andthen (os_step env (\<lambda>w. w)) (bind tick (\<lambda>n.
       andthen (os_step env (\<lambda>w. w))
       (andthen (os_step env (edit_dir ?t (\<lambda>s. s\<lparr>sd_manifest := Some (manifest_of me n d i now row worktree tgz)\<rparr>)))
         (ret (?t, manifest_of me n d i now row worktree tgz)))))))
      (\<lambda>(dir, m). on_state (\<lambda>r g s. dir = ?t \<and> captured d f dir g s))"
    by (rule ensures_pass [OF _ ensures_skip [OF _ ensures_pass [OF _ ensures_skip [OF _ last]]]])
      (intro state_still keeps_rules)+
  then show ?thesis
    unfolding roll_up_def Let_def
    by (intro ensures_skip ensures_os_step [where R = ?T] state_still keeps_rules)
      (auto simp: edit_dir_def the_dir_def)
qed

lemma snapshot_captures:
  "ensures (on_state (\<lambda>r g s. drydock_by_id r (dd_id d) = Some d \<and> g = f)) (snapshot_drydock env de me d i)
     (\<lambda>(dir, m). on_state (\<lambda>r g s. dir = join_path (me_migrations_root me) i \<and> captured d f dir g s))"
  (is "ensures ?A _ ?Q")
proof -
  have mid: "ensures (on_state (\<lambda>r g s. (True \<and> g = f) \<and> (\<forall>tree. secrets = Some tree \<longrightarrow> tree = (\<lambda>n. f (dd_id d, n)))))
      (bind (stage_overlay env me (dd_id d)) (\<lambda>overlay.
         roll_up env me d i row worktree \<lparr>tb_secrets = secrets, tb_overlay = overlay\<rparr>)) ?Q"
    if "rd_drydocks row = d" for secrets row worktree
  proof (cases "\<forall>tree. secrets = Some tree \<longrightarrow> tree = (\<lambda>n. f (dd_id d, n))")
    case True
    then have "ensures (on_state (\<lambda>r g s. g = f))
      (bind (stage_overlay env me (dd_id d)) (\<lambda>overlay.
         roll_up env me d i row worktree \<lparr>tb_secrets = secrets, tb_overlay = overlay\<rparr>)) ?Q"
      by (intro ensures_pass state_still keeps_rules roll_up_captures) (simp_all add: that)
    then show ?thesis by (rule ensures_weaken) simp
  qed (rule ensures_vacuous, blast)
  have tail: "ensures (on_state (\<lambda>r g s. True \<and> g = f)) (bind (capture_worktree env de d) (\<lambda>worktree.
      andthen (refuse_dirty worktree) (bind (stage_secrets env de me (dd_id d)) (\<lambda>secrets.
       bind (stage_overlay env me (dd_id d)) (\<lambda>overlay.
         roll_up env me d i row worktree \<lparr>tb_secrets = secrets, tb_overlay = overlay\<rparr>))))) ?Q"
    if "rd_drydocks row = d" for row
  proof (rule ensures_pass)
    fix worktree
    show "ensures (on_state (\<lambda>r g s. True \<and> g = f)) (andthen (refuse_dirty worktree)
       (bind (stage_secrets env de me (dd_id d)) (\<lambda>secrets.
       bind (stage_overlay env me (dd_id d)) (\<lambda>overlay.
         roll_up env me d i row worktree \<lparr>tb_secrets = secrets, tb_overlay = overlay\<rparr>)))) ?Q"
      by (rule ensures_skip [OF _ ensures_bind [OF stage_secrets_ensures mid [OF that]]])
        (intro state_still keeps_rules)
  qed (intro state_still keeps_rules)
  have "ensures (\<lambda>w. ?A w \<and> cap = capture_registry_row (w_reg w) (dd_id d))
      (bind (required cap (SnapshotError (''drydock '' @ quoted (dd_id d) @ '' not found in registry''))) (\<lambda>row.
      bind (capture_worktree env de d) (\<lambda>worktree.
      andthen (refuse_dirty worktree) (bind (stage_secrets env de me (dd_id d)) (\<lambda>secrets.
       bind (stage_overlay env me (dd_id d)) (\<lambda>overlay.
         roll_up env me d i row worktree \<lparr>tb_secrets = secrets, tb_overlay = overlay\<rparr>)))))) ?Q" for cap
  proof (rule ensures_required)
    fix row assume "cap = Some row"
    show "ensures (\<lambda>w. ?A w \<and> cap = capture_registry_row (w_reg w) (dd_id d))
      (bind (capture_worktree env de d) (\<lambda>worktree.
      andthen (refuse_dirty worktree) (bind (stage_secrets env de me (dd_id d)) (\<lambda>secrets.
       bind (stage_overlay env me (dd_id d)) (\<lambda>overlay.
         roll_up env me d i row worktree \<lparr>tb_secrets = secrets, tb_overlay = overlay\<rparr>))))) ?Q"
    proof (cases "rd_drydocks row = d")
      case True
      then show ?thesis by (rule ensures_weaken [OF tail]) simp
    next
      case False
      then show ?thesis using \<open>cap = Some row\<close> by (auto simp: ensures_def capture_registry_row_def)
    qed
  qed
  then show ?thesis
    unfolding snapshot_drydock_def
    by (intro ensures_os_step [where R = ?A] ensures_skip ensures_query state_still keeps_rules)
      (auto simp: edit_dir_def)
qed

section \<open>The desk stays registered\<close>

definition listed :: "string \<Rightarrow> registry \<Rightarrow> bool" where
  "listed n r \<longleftrightarrow> n \<in> dd_name ` set (drydocks r)"

lemma listed_map: "map dd_name (drydocks r') = map dd_name (drydocks r) \<Longrightarrow> listed n r' = listed n r"
  unfolding listed_def by (metis list.set_map)

lemma names_update_drydock:
  "(\<And>d. dd_name (f d) = dd_name d) \<Longrightarrow> map dd_name (drydocks (snd (update_drydock now n (Some f) r))) = map dd_name (drydocks r)"
  by (simp add: update_drydock_def Let_def map_update_where)

lemma names_update_state: "map dd_name (drydocks (snd (update_state now n st r))) = map dd_name (drydocks r)"
  by (simp add: update_state_def log_event_def Let_def map_update_where split: option.split)

lemma names_delegations: "map dd_name (drydocks (update_desk_delegations now n dl r)) = map dd_name (drydocks r)"
  by (auto simp: update_desk_delegations_def intro!: names_update_drydock) (simp add: apply_delegations_def)

interpretation listed_rows: desk_frame "listed n" for n
proof unfold_locales
  show "listed n (snd (update_drydock now m (Some f) r))" if "keeps_core f" "listed n r" for f r now m
    using that listed_map [OF names_update_drydock] by (simp add: keeps_core_def desk_core_def)
  show "listed n (snd (update_state now m st r))" if "listed n r" for r now m st
    using that listed_map [OF names_update_state] by simp
  show "listed n (insert_token d sha ts r)" if "listed n r" for d sha ts r
    using that by (simp add: listed_def insert_token_def)
qed

interpretation listing: walk_frame "on_reg (listed n)" i for n i
proof unfold_locales
  show "keeps (on_reg (listed n)) (update_mig i u)" for u
    unfolding update_mig_def by (rule keeps_insert_reg) (auto simp: update_migration_def listed_def split: if_splits)
  show "keeps (on_reg (listed n)) (completed_run env argv inp)" for env argv inp
    unfolding completed_run_def by (intro keeps_bind keeps_reg_run) (auto split: proc.split intro: keeps_rules)
  show "keeps (on_reg (listed n)) (set_image env m t)" for env m t
    unfolding set_image_def
    by (intro keeps_rules keeps_update_reg) (simp add: listed_map [OF names_update_drydock])
  show "keeps (on_reg (listed n)) (execute (update_desk_delegations ts m dl))" for ts m dl
    by (rule keeps_execute) (simp add: listed_map [OF names_delegations])
qed (intro keeps_rules listed_rows.resume)+

lemmas walk_stages_listing = walk_stages_reg [OF listing.walk_frame_axioms]

section \<open>What a rollback restores\<close>

lemma do_snapshot_done:
  assumes "do_snapshot env de me d i w = (Inr (Done detail), w')" "drydock_by_id (w_reg w) (dd_id d) = Some d"
  shows "\<exists>c cs. dict_get detail ''snapshot_dir'' = JStr (c # cs) \<and>
    captured d (w_files w) (c # cs) (w_files w') (w_snapshots w')"
proof -
  obtain dir m where s: "snapshot_drydock env de me d i w = (Inr (dir, m), w')" "detail = snapshot_detail dir m"
    using assms(1)
    by (auto simp: do_snapshot_def try_except_def bind_def ret_def raise_def split: prod.splits sum.splits if_splits)
  from ensuresD [OF snapshot_captures s(1)] assms(2)
  have "dir = join_path (me_migrations_root me) i" "captured d (w_files w) dir (w_files w') (w_snapshots w')" by auto
  moreover obtain c cs where "join_path (me_migrations_root me) i = c # cs" by (meson join_path_neq_Nil neq_Nil_conv)
  ultimately show ?thesis by (simp add: s(2) snapshot_detail_def dict_get_def)
qed

text \<open>Before the snapshot neither the desks nor the files change.\<close>

abbreviation untouched :: "drydock_row \<Rightarrow> (string \<times> string \<Rightarrow> file_node option) \<Rightarrow> world \<Rightarrow> bool" where
  "untouched d f \<equiv> (\<lambda>w. drydock_by_id (w_reg w) (dd_id d) = Some d \<and> w_files w = f)"

lemma untouched_mig: "keeps (untouched d f) (update_mig i u)"
  by (auto simp: keeps_def update_mig_def insert_reg_def update_migration_def drydock_by_id_def)

lemma untouched_audit: "keeps (untouched d f) (emit_audit env ev p j m res det)"
  unfolding keeps_def by (metis emit_audit_cases prod.collapse)

lemma run_stage_done:
  assumes "run_stage env s fn o0 w = (Inr (o1, Inr detail), w')"
  obtains w1 w2 where "update_mig (mo_migration_id o0) (no_update\<lparr>mu_current_stage := Some s\<rparr>) w = (Inr (), w1)"
    "fn w1 = (Inr (Done detail), w2)" "audit_stage env o0 s ''ok'' ''ok'' detail w2 = (Inr (), w')"
proof -
  obtain w1 where 1: "update_mig (mo_migration_id o0) (no_update\<lparr>mu_current_stage := Some s\<rparr>) w = (Inr (), w1)"
    using assms by (auto simp: run_stage_def effect_simps)
  obtain res w2 where 2: "fn w1 = (res, w2)" by fastforce
  have "res = Inr (Done detail)" "audit_stage env o0 s ''ok'' ''ok'' detail w2 = (Inr (), w')"
    using assms 1 2
    by (auto simp: run_stage_def andthen_def bind_def outcome_of_def Let_def ret_def
        split: sum.splits stage_result.splits prod.splits)
  with 1 2 show ?thesis using that by blast
qed

lemma untouched_stage:
  assumes "run_stage env s fn o0 w = (Inr (o1, Inr detail), w')" "untouched d f w" "keeps (untouched d f) fn"
  shows "untouched d f w'"
  using assms(1)
proof (cases rule: run_stage_done)
  case (1 w1 w2)
  then show ?thesis
    using keepsD [OF untouched_mig 1(1) assms(2)] keepsD [OF assms(3) 1(2)]
      keepsD [OF untouched_audit 1(3) [unfolded audit_stage_def]] by blast
qed

lemma after_snapshot_dir:
  "ends (walk_after_snapshot env de me d plan dir o3) (\<lambda>wk w. \<forall>o1 s detail p. wk = Halted o1 s detail p \<longrightarrow> p = dir)"
proof -
  let ?Q = "\<lambda>wk (w :: world). \<forall>o1 s detail p. wk = Halted o1 s detail p \<longrightarrow> p = dir"
  have step: "ends (proceed dir s m k) ?Q" if "\<And>o1 detail. ends (k o1 detail) ?Q" for s m k
    unfolding proceed_def
    by (rule ends_bind) (use that in \<open>auto simp: ends_def ret_eq split: prod.splits sum.splits\<close>)
  show ?thesis
    unfolding walk_after_snapshot_def by (intro step) (simp add: ends_def ret_eq)
qed

lemma proceed_run:
  assumes "proceed snap s m k w = (Inr wk, w')" "\<And>o1 detail. wk \<noteq> Halted o1 s detail snap"
  obtains o1 detail w1 where "m w = (Inr (o1, Inr detail), w1)" "k o1 detail w1 = (Inr wk, w')"
proof -
  obtain o1 res w1 where 1: "m w = (Inr (o1, res), w1)"
    "(case res of Inl detail \<Rightarrow> ret (Halted o1 s detail snap) | Inr detail \<Rightarrow> k o1 detail) w1 = (Inr wk, w')"
    using assms(1) by (auto simp: proceed_def bind_Inr)
  then show ?thesis using assms(2) that by (cases res) (auto simp: ret_eq)
qed

lemma walk_captured:
  assumes "walk_stages env de me d plan o0 w = (Inr (Halted o1 s detail (Some p)), w')"
    and "drydock_by_id (w_reg w) (dd_id d) = Some d"
  shows "captured d (w_files w) p (w_files w') (w_snapshots w')"
proof -
  obtain oa wa ob wb oc snap wc det1 det2 where
    a: "run_stage env ''precheck'' (do_precheck d) o0 w = (Inr (oa, Inr det1), wa)"
    and b: "run_stage env ''drain'' (do_drain me) oa wa = (Inr (ob, Inr det2), wb)"
    and c: "run_stage env ''snapshot'' (do_snapshot env de me d (mo_migration_id o0)) ob wb = (Inr (oc, Inr snap), wc)"
    and rest: "(let dir = (case dict_get snap ''snapshot_dir'' of JStr (c # cs) \<Rightarrow> Some (c # cs) | _ \<Rightarrow> None) in
     andthen
       (case dir of None \<Rightarrow> ret () | Some p \<Rightarrow> update_mig (mo_migration_id o0) (no_update\<lparr>mu_snapshot_path := Some p\<rparr>))
       (walk_after_snapshot env de me d plan dir (oc\<lparr>mo_snapshot_path := dir\<rparr>))) wc = (Inr (Halted o1 s detail (Some p)), w')"
    using assms(1) unfolding walk_stages_def by (elim proceed_run) simp_all
  let ?f = "w_files w"
  have u: "untouched d ?f wb"
    using untouched_stage [OF a _, of d ?f] untouched_stage [OF b _, of d ?f] assms(2)
    by (simp add: do_precheck_def do_drain_def keeps_ret)
  from c obtain c' cs where snap: "dict_get snap ''snapshot_dir'' = JStr (c' # cs)"
    and cap: "captured d ?f (c' # cs) (w_files wc) (w_snapshots wc)"
  proof (cases rule: run_stage_done)
    case (1 w1 w2)
    from keepsD [OF untouched_mig 1(1) u]
    have "\<exists>c cs. dict_get snap ''snapshot_dir'' = JStr (c # cs) \<and> captured d ?f (c # cs) (w_files w2) (w_snapshots w2)"
      using do_snapshot_done [OF 1(2)] by simp
    then show ?thesis
      using that stillD [OF still_audit 1(3) [unfolded audit_stage_def]] by auto
  qed
  let ?dir = "Some (c' # cs)"
  obtain wd where "update_mig (mo_migration_id o0) (no_update\<lparr>mu_snapshot_path := ?dir\<rparr>) wc = (Inr (), wd)"
    and e: "walk_after_snapshot env de me d plan ?dir (oc\<lparr>mo_snapshot_path := ?dir\<rparr>) wd = (Inr (Halted o1 s detail (Some p)), w')"
    using rest by (auto simp: snap Let_def andthen_Inr)
  from keepsD [OF disk.mig this(1), of "captured d ?f (c' # cs)"] cap
  have "captured d ?f (c' # cs) (w_files wd) (w_snapshots wd)" by simp
  from keepsD [OF disk.after_snapshot [OF refl] e, of "captured d ?f (c' # cs)"] this
  have "captured d ?f (c' # cs) (w_files w') (w_snapshots w')" by simp
  moreover have "p = c' # cs" using endsD [OF after_snapshot_dir e] by simp
  ultimately show ?thesis by simp
qed

lemma tree_step_ok:
  "tree_step env me i tree w = (Inr u, w') \<Longrightarrow>
     w_files w' = (\<lambda>x. if fst x = i then tree (snd x) else w_files w x) \<and> w_snapshots w' = w_snapshots w"
  by (auto simp: tree_step_def effect_defs set_files_def split: option.splits)

lemma restore_secrets_ok:
  assumes "restore_secrets env de me m t w = (Inr u, w')" "w_files w = f"
    and "\<And>tree. tb_secrets t = Some tree \<Longrightarrow> tree = (\<lambda>n. f (mf_drydock_id m, n))"
  shows "w_files w' = f"
proof (cases "mf_secrets_path m = None \<or> tb_secrets t = None")
  case True
  then show ?thesis using assms(1,2) by (auto simp: restore_secrets_def ret_eq split: option.splits)
next
  case False
  then obtain p tree where p: "mf_secrets_path m = Some p" "tb_secrets t = Some tree" by auto
  let ?i = "mf_drydock_id m"
  from assms(1) obtain there w1 w2 where
    1: "path_exists de (join_path (me_secrets_root me) ?i) w = (Inr there, w1)"
    and 2: "guarded there (tree_step env me ?i (\<lambda>n. None)) w1 = (Inr (), w2)"
    and 3: "tree_step env me ?i tree w2 = (Inr u, w')"
    by (auto simp: restore_secrets_def p bind_Inr andthen_Inr)
  have "w_files w1 = f" using stillD [OF still_path_exists 1] assms(2) by simp
  then have "w_files w2 x = f x" if "fst x \<noteq> ?i" for x
    using 2 that tree_step_ok [of env me ?i "\<lambda>n. None" w1 "()" w2] by (auto simp: guarded_def ret_eq split: if_splits)
  then show ?thesis
    using tree_step_ok [OF 3] assms(3) [OF p(2)] by auto
qed

lemma set_image_ok:
  assumes "set_image env n img w = (Inr u, w')" "listed n (w_reg w)"
  shows "\<exists>x. get_drydock (w_reg w') n = Some x \<and> dd_image x = img"
proof -
  obtain now where d: "drydocks (w_reg w') =
      update_where (\<lambda>d. dd_name d = n) (\<lambda>d. d\<lparr>dd_image := img, dd_updated_at := now\<rparr>) (drydocks (w_reg w))"
    using assms(1) by (auto simp: set_image_def utc_now_def update_reg_def update_drydock_def Let_def effect_simps)
  then have "listed n (w_reg w')" using assms(2) listed_map [of "w_reg w'" "w_reg w"] by (simp add: map_update_where)
  then obtain x where x: "get_drydock (w_reg w') n = Some x"
    by (cases "get_drydock (w_reg w') n") (auto simp: listed_def get_drydock_def find_None_iff)
  then have n: "x \<in> set (drydocks (w_reg w'))" "dd_name x = n" by (auto simp: get_drydock_def dest: find_Some_D)
  from n(1) obtain y where "x = (if dd_name y = n then y\<lparr>dd_image := img, dd_updated_at := now\<rparr> else y)"
    unfolding d set_update_where by (elim imageE)
  then have "dd_image x = img" using n(2) by (cases "dd_name y = n") simp_all
  with x show ?thesis by blast
qed

lemma restore_desk_ok:
  assumes "restore_desk env de me d p w = (Inr u, w')" "captured d f p (w_files w) (w_snapshots w)"
    and "listed (dd_name d) (w_reg w)"
  shows "w_files w' = f \<and> (\<exists>x. get_drydock (w_reg w') (dd_name d) = Some x \<and> dd_image x = dd_image d)"
proof -
  from assms(2) obtain m t where c: "w_files w = f" "sd_manifest (the_dir (w_snapshots w p)) = Some m"
    "sd_tarball (the_dir (w_snapshots w p)) = Some t" "mf_drydock_id m = dd_id d" "rd_drydocks (mf_registry_row m) = d"
    "\<And>tree. tb_secrets t = Some tree \<Longrightarrow> tree = (\<lambda>n. f (dd_id d, n))"
    by (auto simp: captured_def)
  from assms(1) obtain m' w1 w2 t' w3 w4 w5 where
    r: "restore_drydock env de me p w = (Inr m', w5)"
    and 1: "load_manifest env p w = (Inr m', w1)" and 2: "os_step env (\<lambda>w. w) w1 = (Inr (), w2)"
    and 3: "open_tarball env p w2 = (Inr t', w3)" and 4: "restore_secrets env de me m' t' w3 = (Inr (), w4)"
    and 5: "restore_overlay env m' t' w4 = (Inr (), w5)"
    and 6: "set_image env (dd_name d) (dd_image (rd_drydocks (mf_registry_row m'))) w5 = (Inr u, w')"
    by (auto simp: restore_desk_def restore_drydock_def bind_Inr andthen_Inr ret_eq)
  note s1 = stillD [OF still_load_manifest 1] and s2 = stillD [OF still_idle 2]
    and s3 = stillD [OF still_open_tarball 3] and s5 = stillD [OF still_restore_overlay 5]
  have m: "m' = m" using 1 c(2) by (auto simp: load_manifest_def effect_simps)
  have t: "t' = t" using 3 c(3) s1 s2 by (auto simp: open_tarball_def effect_simps)
  have "w_files w4 = f"
    by (rule restore_secrets_ok [OF 4]) (use c s1 s2 s3 m t in auto)
  then have "w_files w5 = f" using s5 by simp
  with keepsD [OF disk_set_image 6, of "\<lambda>g s. g = f"] have "w_files w' = f" by simp
  moreover have "listed (dd_name d) (w_reg w5)" using keepsD [OF reg_restore r, of "listed (dd_name d)"] assms(3) by simp
  ultimately show ?thesis using set_image_ok [OF 6] by (simp add: m c(5))
qed

lemma close_drydocks: "keeps (on_reg (\<lambda>r. Q (drydocks r))) (close_migration env o1 st ev res det)"
  unfolding close_migration_def update_mig_def
  by (intro keeps_rules keeps_insert_reg) (auto simp: update_migration_def split: if_splits)

lemma planned_desk: "planned_migration de r i = Inr (plan, did, d) \<Longrightarrow> drydock_by_id r (dd_id d) = Some d"
  by (auto simp: planned_migration_def drydock_by_id_def dest: find_Some_D split: option.splits if_splits json.splits)

text \<open>
  (C27) A rollback restores: when the executor reports a migration as rolled back, every secret
  file is as it was before the run and the desk has its former image again.
\<close>

theorem rollback_restores_desk:
  assumes "execute_migration env de me i w = (Inr out, w')" "mo_terminal_status out = ''rolled_back''"
  shows "\<exists>plan did d x. planned_migration de (w_reg w) i = Inr (plan, did, d) \<and>
    get_drydock (w_reg w') (dd_name d) = Some x \<and> dd_image x = dd_image d \<and> w_files w' = w_files w"
proof -
  let ?ids = "map mg_id (migrations (w_reg w))" and ?ms = "filter (\<lambda>x. mg_id x \<noteq> i) (migrations (w_reg w))"
  obtain plan did d w1 w2 wk w3 where p: "planned_migration de (w_reg w) i = Inr (plan, did, d)"
    and u: "update_mig i (no_update\<lparr>mu_status := Some ''in_progress'', mu_current_stage := Some ''precheck''\<rparr>) w = (Inr (), w1)"
    and a: "emit_audit env ''drydock.migration_started'' (Some did) (JStr i) ''MigrationExecutor'' ''ok'' [(''plan'', JObj plan)] w1 = (Inr (), w2)"
    and wk: "walk_stages env de me d plan \<lparr>mo_migration_id = i, mo_drydock_id = did, mo_terminal_status = ''in_progress'',
       mo_stages = [], mo_snapshot_path = None, mo_error = None\<rparr> w2 = (Inr wk, w3)"
    and e: "end_walk env de me d wk w3 = (Inr out, w')" "walk_id wk = i"
    and f: "mig_frame i ?ids ?ms (w_reg w) \<Longrightarrow> mig_frame i ?ids ?ms (w_reg w3)"
    using execute_migration_run [OF assms(1)] by metis
  have u2: "untouched d (w_files w) w2"
    using keepsD [OF untouched_mig u, of d "w_files w"] keepsD [OF untouched_audit a, of d "w_files w"] planned_desk [OF p]
    by simp
  obtain o1 s detail dir where h: "wk = Halted o1 s detail (Some dir)"
    using e(1) assms(2) by (cases wk) (auto simp: end_walk_def Let_def effect_simps split: option.splits)
  let ?err = "dict_update [(''failed_stage'', JStr s)] detail"
  have r: "rollback env de me d ?err dir (o1\<lparr>mo_error := Some ?err\<rparr>) w3 = (Inr out, w')"
    using e(1) h by (simp add: end_walk_def Let_def)
  have "i \<in> set ?ids" "mig_frame i ?ids ?ms (w_reg w3)"
    using p f by (auto simp: planned_migration_def get_migration_def mig_frame_def dest!: find_Some_D split: option.splits)
  with rollback_run [OF r _, of i ?ids ?ms] e(2) h assms(2) obtain w4 w5 o2 ev res det where
    b: "update_mig i (no_update\<lparr>mu_current_stage := Some ''rollback''\<rparr>) w3 = (Inr (), w4)"
    "restore_desk env de me d dir w4 = (Inr (), w5)" "close_migration env o2 None ev res det w5 = (Inr (), w')"
    by auto
  have "listed (dd_name d) (w_reg w2)" using u2 by (auto simp: listed_def drydock_by_id_def dest: find_Some_D)
  then have "listed (dd_name d) (w_reg w4)"
    using keepsD [OF walk_stages_listing wk, of i "dd_name d"] keepsD [OF listing.mig b(1), of "dd_name d"] by simp
  moreover have "captured d (w_files w) dir (w_files w3) (w_snapshots w3)"
    using walk_captured [OF wk [unfolded h]] u2 by simp
  ultimately obtain x where
    x: "w_files w5 = w_files w" "get_drydock (w_reg w5) (dd_name d) = Some x" "dd_image x = dd_image d"
    using keepsD [OF disk.mig b(1), of "captured d (w_files w) dir"] restore_desk_ok [OF b(2), of "w_files w"] by blast
  have "w_files w' = w_files w" using keepsD [OF disk.close [OF refl] b(3), of "\<lambda>g s. g = w_files w"] x(1) by simp
  moreover have "get_drydock (w_reg w') (dd_name d) = Some x"
    using keepsD [OF close_drydocks b(3), of "\<lambda>ds. find (\<lambda>y. dd_name y = dd_name d) ds = Some x"] x(2)
    by (simp add: get_drydock_def)
  ultimately show ?thesis using p x(3) by blast
qed

end
