(* ===== verification/Migration_Run.thy ===== *)
theory Migration_Run
  imports Migration_Facts
begin

text \<open>
  A concrete migration that is rolled back: the row of the sample desk names no overlay, so the
  start stage fails after the image was changed. Every step of the surroundings succeeds.
\<close>

section \<open>The sample\<close>

definition sample_mig_env :: mig_env where
  "sample_mig_env = \<lparr>me_project = \<lparr>pe_file = (\<lambda>p. None), pe_yaml = (\<lambda>t. Inr JNull), pe_str = (\<lambda>v. []), pe_type_name = (\<lambda>v. [])\<rparr>,
     me_projects_dir = [], me_secrets_root = [], me_overlays_root = [], me_migrations_root = [], me_drain_ttl = 0,
     me_overlay = (\<lambda>n p. None), me_archive_size = (\<lambda>n t. 0), me_partial = (\<lambda>n f. False)\<rparr>"

definition sample_harbor_env :: desk_env where
  "sample_harbor_env = \<lparr>de_yaml_sha = (\<lambda>_. []), de_write_acl = (\<lambda>_ _ _. Inr ()), de_checkout = (\<lambda>_ _. Inr []),
     de_exists = (\<lambda>_ p. p = ''/a''), de_write_overlay = (\<lambda>_ _ _ _. Inr []), de_regenerate_overlay = (\<lambda>_ _ _. Inr ()),
     de_seed_trust = (\<lambda>_ _ _. Inr ()), de_remove_overlay = (\<lambda>_ _. Inr ()), de_home = [], de_str = (\<lambda>_. []),
     de_inflight_max = 0, de_sql_text = (\<lambda>_. None)\<rparr>"

definition sample_quiet_env :: env where
  "sample_quiet_env = \<lparr>e_now = (\<lambda>n. []), e_uuid = (\<lambda>n. []), e_token = (\<lambda>n. []), e_sha256 = (\<lambda>s. s),
     e_run = (\<lambda>n argv inp. Completed 0 [] []), e_os_error = (\<lambda>n. None), e_json_loads = (\<lambda>s. None),
     e_json_dumps = (\<lambda>v. []), e_fromisoformat = Some\<rparr>"

definition sample_small_desk :: drydock_row where
  "sample_small_desk = \<lparr>dd_id = ''a'', dd_name = ''a'', dd_project = [], dd_repo_path = [],
     dd_worktree_path = ''w'', dd_branch = [], dd_base_ref = [], dd_state = [],
     dd_container_id = [], dd_workspace_subdir = [], dd_image = ''i'', dd_owner = [],
     dd_created_at = [], dd_updated_at = [], dd_config = [], parent_drydock_id = None,
     delegatable_firewall_domains = [], delegatable_secrets = [], capabilities = [],
     delegatable_storage_scopes = [], delegatable_provision_scopes = [],
     delegatable_network_reach = [], network_reach_ports = [],
     resources_hard = [], pinned_yaml_sha256 = [], dd_yard_id = None, original_resources_hard = []\<rparr>"

definition sample_plan :: dict where
  "sample_plan = [(''drydock_id'', JStr ''a''), (''target_kind'', JStr ''image_bump''),
       (''target_summary'', JObj [(''new_image'', JStr ''j'')])]"

definition sample_migration :: migration_row where
  "sample_migration = \<lparr>mg_id = ''m'', mg_drydock_id = ''a'',
     mg_plan = JObj sample_plan,
     mg_status = ''planned'', mg_current_stage = None, mg_snapshot_path = None, mg_created_at = [],
     mg_completed_at = None, mg_error = None\<rparr>"

definition sample_mig_world :: world where
  "sample_mig_world = \<lparr>w_reg = empty_registry\<lparr>drydocks := [sample_small_desk], migrations := [sample_migration]\<rparr>,
     w_files = (\<lambda>x. if x = (''a'', ''k'') then Some (Bytes ''v'') else None), w_audit = [], w_calls = [],
     w_snapshots = (\<lambda>p. None), w_acls = [], w_ticks = 0\<rparr>"

text \<open>The surroundings stay folded while the run is simplified.\<close>

lemma quiet_answers:
  "e_now sample_quiet_env n = []" "e_os_error sample_quiet_env n = None"
  "de_exists sample_harbor_env n p = (p = ''/a'')" "me_overlay sample_mig_env n p = None"
  "me_migrations_root sample_mig_env = []" "me_secrets_root sample_mig_env = []"
  by (simp_all add: sample_quiet_env_def sample_harbor_env_def sample_mig_env_def)

lemma quiet_os_step: "os_step sample_quiet_env f w = (Inr (), f (w\<lparr>w_ticks := Suc (w_ticks w)\<rparr>))"
  by (simp add: effect_defs quiet_answers)

lemma quiet_audit:
  "ev \<in> set V2_EVENTS \<Longrightarrow> emit_audit sample_quiet_env ev p i m res d w =
     (Inr (), w\<lparr>w_ticks := Suc (Suc (w_ticks w)), w_audit := w_audit w @ [audit_entry [] ev p i m res d]\<rparr>)"
  by (simp add: emit_audit_def append_entry_def effect_defs quiet_answers)

lemma migration_events:
  "''drydock.migration_started'' \<in> set V2_EVENTS" "''drydock.migration_stage'' \<in> set V2_EVENTS"
  "''drydock.migration_rolled_back'' \<in> set V2_EVENTS"
  by (simp_all add: V2_EVENTS_def)

lemma small_desk_fields:
  "dd_id sample_small_desk = ''a''" "dd_name sample_small_desk = ''a''" "dd_worktree_path sample_small_desk = ''w''"
  "dd_state sample_small_desk = []" "dd_container_id sample_small_desk = []" "dd_image sample_small_desk = ''i''"
  "dd_config sample_small_desk = []"
  by (simp_all add: sample_small_desk_def)

text \<open>Under these congruences an operation is opened only when it is run.\<close>

lemma run_bind_cong: "w = v \<Longrightarrow> bind m f w = bind m f v" by simp

lemma run_andthen_cong: "w = v \<Longrightarrow> andthen m n w = andthen m n v" by simp

lemma run_proceed_cong: "w = v \<Longrightarrow> proceed p s m f w = proceed p s m f v" by simp

lemma run_try_cong: "w = v \<Longrightarrow> try_except m h w = try_except m h v" by simp

lemma run_outcome_cong: "w = v \<Longrightarrow> outcome_of m w = outcome_of m v" by simp

lemmas run_congs = run_bind_cong run_andthen_cong run_proceed_cong run_try_cong run_outcome_cong

lemma run_andthen: "andthen m n w = bind m (\<lambda>_. n) w" by (simp add: andthen_def)

lemma run_proceed: "proceed p s m k w =
    bind m (\<lambda>x. case snd x of Inl detail \<Rightarrow> ret (Halted (fst x) s detail p) | Inr detail \<Rightarrow> k (fst x) detail) w"
  by (simp add: proceed_def split_def)

lemmas run_defs = bind_def run_andthen run_proceed quiet_answers quiet_os_step query_def reads_def required_def ret_def Let_def tick_def
  utc_now_def insert_reg_def from_sum_def update_reg_def writes_def guarded_def outcome_of_code try_except_def raise_def
  quiet_audit migration_events join_path_def dict_get_def small_desk_fields

lemmas snapshot_defs = snapshot_drydock_def capture_registry_row_def drydock_by_id_def edit_dir_def capture_worktree_def
  refuse_dirty_def stage_secrets_def stage_overlay_def path_exists_def roll_up_def snapshot_detail_def
  restore_desk_def restore_drydock_def load_manifest_def open_tarball_def restore_secrets_def restore_overlay_def
  tree_step_def manifest_of_def the_dir_def

lemmas stage_defs = execute_migration_def planned_migration_def walk_stages_def walk_after_snapshot_def end_walk_def
  rollback_def close_migration_def run_stage_def audit_stage_def update_mig_def update_migration_def
  do_precheck_def do_drain_def do_snapshot_def do_stop_def do_mutate_def mutate_image_bump_def do_start_def
  resume_desk_def fail_resume_def set_image_def set_state_def update_drydock_def update_state_def add_stage_def
  no_update_def migration_statuses_def get_migration_def get_drydock_def bound_text_def sbind_def


section \<open>Steps in quiet surroundings\<close>

lemma quiet_restore:
  assumes "sd_manifest (the_dir (w_snapshots w p)) = Some m" "sd_tarball (the_dir (w_snapshots w p)) = Some t"
    "mf_overlay_path m = None" "get_drydock (w_reg w) (dd_name d) = Some x"
  shows "\<exists>w'. restore_desk sample_quiet_env de me d p w = (Inr (), w')"
proof -
  have "get_drydock (w_reg w\<lparr>drydocks := update_where (\<lambda>y. dd_name y = dd_name d) (\<lambda>y. y\<lparr>dd_image := j, dd_updated_at := n\<rparr>)
      (drydocks (w_reg w))\<rparr>) (dd_name d) = Some (x\<lparr>dd_image := j, dd_updated_at := n\<rparr>)" for j n
    using assms(4) by (auto simp: get_drydock_def find_update_where dest: find_Some_D)
  then show ?thesis
    using assms by (auto simp: run_defs restore_desk_def restore_drydock_def load_manifest_def open_tarball_def restore_secrets_def
     restore_overlay_def tree_step_def set_files_def path_exists_def set_image_def update_drydock_def cong: run_congs split: option.splits)
qed

lemma quiet_close:
  assumes "ev \<in> set V2_EVENTS" "mo_terminal_status o1 \<in> set migration_statuses"
  shows "\<exists>w'. close_migration sample_quiet_env o1 st ev res det w = (Inr (), w')"
  using assms by (simp add: close_migration_def update_mig_def update_migration_def run_defs cong: run_congs)

lemma mo_rolled_back: "mo_terminal_status (o1\<lparr>mo_terminal_status := ''rolled_back'', mo_error := e\<rparr>) \<in> set migration_statuses"
  by (simp add: migration_statuses_def)

lemma quiet_rollback:
  assumes "sd_manifest (the_dir (w_snapshots w p)) = Some m" "sd_tarball (the_dir (w_snapshots w p)) = Some t"
    "mf_overlay_path m = None" "get_drydock (w_reg w) (dd_name d) = Some x"
  shows "\<exists>out w'. rollback sample_quiet_env de me d err p o1 w = (Inr out, w') \<and> mo_terminal_status out = ''rolled_back''"
proof -
  obtain v where v: "update_mig (mo_migration_id o1) (no_update\<lparr>mu_current_stage := Some ''rollback''\<rparr>) w = (Inr (), v)"
    "w_snapshots v = w_snapshots w" "drydocks (w_reg v) = drydocks (w_reg w)"
    by (simp add: update_mig_def update_migration_def no_update_def insert_reg_def)
  then obtain u where "restore_desk sample_quiet_env de me d p v = (Inr (), u)"
    using quiet_restore [of v p m t d x de me] assms by (auto simp: get_drydock_def)
  moreover obtain w' where "close_migration sample_quiet_env ((add_stage ''rollback'' ''ok'' [] o1)\<lparr>mo_terminal_status := ''rolled_back'', mo_error := Some err\<rparr>)
     None ''drydock.migration_rolled_back'' ''ok'' [(''failed_stage'', dict_get err ''failed_stage'')] u = (Inr (), w')"
    using quiet_close [OF migration_events(3)] by (metis mo_rolled_back)
  ultimately show ?thesis
    using v by (simp add: rollback_def run_andthen bind_def outcome_of_code ret_def Let_def cong: run_congs)
qed

section \<open>The run\<close>

definition sample_outcome :: MigrationOutcome where
  "sample_outcome = \<lparr>mo_migration_id = ''m'', mo_drydock_id = ''a'', mo_terminal_status = ''in_progress'',
     mo_stages = [], mo_snapshot_path = None, mo_error = None\<rparr>"

lemma sample_outcome_fields:
  "mo_migration_id sample_outcome = ''m''" "mo_drydock_id sample_outcome = ''a''" "mo_stages sample_outcome = []"
  by (simp_all add: sample_outcome_def)

lemma sample_walk:
  assumes "mg_id row = ''m''"
  shows "case walk_stages sample_quiet_env sample_harbor_env sample_mig_env sample_small_desk sample_plan sample_outcome
     \<lparr>w_reg = empty_registry\<lparr>drydocks := [sample_small_desk], migrations := [row]\<rparr>, w_files = f, w_audit = a, w_calls = c,
      w_snapshots = s, w_acls = l, w_ticks = n\<rparr> of
     (Inr (Halted o1 s det (Some p)), w) \<Rightarrow>
       (case (sd_manifest (the_dir (w_snapshots w p)), sd_tarball (the_dir (w_snapshots w p))) of
          (Some m, Some t) \<Rightarrow> mf_overlay_path m = None | _ \<Rightarrow> False) \<and> get_drydock (w_reg w) ''a'' \<noteq> None
   | _ \<Rightarrow> False"
  using assms by (simp add: run_defs snapshot_defs stage_defs sample_outcome_fields sample_plan_def
       log_event_def cong: run_congs)

lemma sample_halts:
  assumes "mg_id row = ''m''"
  obtains o1 s det p w m t x where "walk_stages sample_quiet_env sample_harbor_env sample_mig_env sample_small_desk sample_plan sample_outcome
     \<lparr>w_reg = empty_registry\<lparr>drydocks := [sample_small_desk], migrations := [row]\<rparr>, w_files = f, w_audit = a, w_calls = c,
      w_snapshots = g, w_acls = l, w_ticks = n\<rparr> = (Inr (Halted o1 s det (Some p)), w)"
    "sd_manifest (the_dir (w_snapshots w p)) = Some m" "sd_tarball (the_dir (w_snapshots w p)) = Some t"
    "mf_overlay_path m = None" "get_drydock (w_reg w) (dd_name sample_small_desk) = Some x"
  using sample_walk [OF assms, of f a c g l n] by (auto simp: small_desk_fields split: prod.splits sum.splits walk.splits option.splits)

lemma quiet_started:
  assumes "planned_migration de (w_reg w) i = Inr (plan, did, d)"
  shows "\<exists>f a n. (\<forall>row. mg_id (f row) = mg_id row) \<and> execute_migration sample_quiet_env de me i w =
     bind (walk_stages sample_quiet_env de me d plan \<lparr>mo_migration_id = i, mo_drydock_id = did,
              mo_terminal_status = ''in_progress'', mo_stages = [], mo_snapshot_path = None, mo_error = None\<rparr>)
       (end_walk sample_quiet_env de me d)
     (w\<lparr>w_reg := (w_reg w)\<lparr>migrations := map f (migrations (w_reg w))\<rparr>, w_ticks := n, w_audit := a\<rparr>)"
proof -
  let ?f = "\<lambda>m. if mg_id m = i then m\<lparr>mg_status := ''in_progress'', mg_current_stage := Some ''precheck''\<rparr> else m"
  have u: "update_mig i (no_update\<lparr>mu_status := Some ''in_progress'', mu_current_stage := Some ''precheck''\<rparr>) w =
      (Inr (), w\<lparr>w_reg := (w_reg w)\<lparr>migrations := map ?f (migrations (w_reg w))\<rparr>\<rparr>)"
    by (simp add: update_mig_def update_migration_def no_update_def insert_reg_def migration_statuses_def update_where_def
      or_keep_def keep_some_def cong: if_cong)
  show ?thesis
    by (intro exI [of _ ?f] exI conjI) (simp_all add: execute_migration_def assms u run_andthen quiet_audit migration_events query_def reads_def
      from_sum_def ret_def bind_def [of "reads _"] bind_def [of "ret _"] bind_def [of "update_mig _ _"] bind_def [of "emit_audit _ _ _ _ _ _ _"])
qed

definition sample_run :: "(exn + MigrationOutcome) \<times> world" where
  "sample_run = execute_migration sample_quiet_env sample_harbor_env sample_mig_env ''m'' sample_mig_world"

lemma sample_planned: "planned_migration sample_harbor_env (w_reg sample_mig_world) ''m'' = Inr (sample_plan, ''a'', sample_small_desk)"
  by (simp add: planned_migration_def get_migration_def sample_mig_world_def sample_migration_def bound_text_def sbind_def
      drydock_by_id_def small_desk_fields sample_plan_def)

lemma sample_run_status: "\<exists>out w'. sample_run = (Inr out, w') \<and> mo_terminal_status out = ''rolled_back''"
proof -
  obtain f a n where f: "\<And>row. mg_id (f row) = mg_id row" and s: "sample_run =
     bind (walk_stages sample_quiet_env sample_harbor_env sample_mig_env sample_small_desk sample_plan sample_outcome)
       (end_walk sample_quiet_env sample_harbor_env sample_mig_env sample_small_desk)
     (sample_mig_world\<lparr>w_reg := (w_reg sample_mig_world)\<lparr>migrations := map f (migrations (w_reg sample_mig_world))\<rparr>, w_ticks := n, w_audit := a\<rparr>)"
    using quiet_started [OF sample_planned] unfolding sample_run_def sample_outcome_def by blast
  have "mg_id (f sample_migration) = ''m''" by (simp add: f sample_migration_def)
  from sample_halts [OF this] obtain o1 s det p w m t x where
    "walk_stages sample_quiet_env sample_harbor_env sample_mig_env sample_small_desk sample_plan sample_outcome
      (sample_mig_world\<lparr>w_reg := (w_reg sample_mig_world)\<lparr>migrations := map f (migrations (w_reg sample_mig_world))\<rparr>, w_ticks := n, w_audit := a\<rparr>)
       = (Inr (Halted o1 s det (Some p)), w)"
    and "sd_manifest (the_dir (w_snapshots w p)) = Some m" "sd_tarball (the_dir (w_snapshots w p)) = Some t"
    "mf_overlay_path m = None" "get_drydock (w_reg w) (dd_name sample_small_desk) = Some x"
    by (simp add: sample_mig_world_def) blast
  then show ?thesis
    using quiet_rollback [of w p m t sample_small_desk x] by (simp add: s bind_def end_walk_def Let_def)
qed


text \<open>The migration of the sample ends rolled back.\<close>

theorem executed_migration_is_terminal_witness:
  "\<exists>out (w' :: world) m'. sample_run = (Inr out, w') \<and> get_migration (w_reg w') ''m'' = Some m' \<and>
     mg_status m' = ''rolled_back'' \<and> mg_completed_at m' \<noteq> None"
proof -
  obtain out w' where r: "sample_run = (Inr out, w')" and s: "mo_terminal_status out = ''rolled_back''"
    using sample_run_status by blast
  show ?thesis
    using executed_migration_is_terminal [OF r [unfolded sample_run_def]] r s by auto
qed

text \<open>After it the desk has its image and its secret file.\<close>

theorem rollback_restores_desk_witness:
  "\<exists>out (w' :: world) x. sample_run = (Inr out, w') \<and> mo_terminal_status out = ''rolled_back'' \<and>
     get_drydock (w_reg w') ''a'' = Some x \<and> dd_image x = ''i'' \<and> w_files w' (''a'', ''k'') = Some (Bytes ''v'')"
proof -
  obtain out w' where r: "sample_run = (Inr out, w')" and s: "mo_terminal_status out = ''rolled_back''"
    using sample_run_status by blast
  have "\<exists>x. get_drydock (w_reg w') ''a'' = Some x \<and> dd_image x = ''i'' \<and> w_files w' = w_files sample_mig_world"
    using rollback_restores_desk [OF r [unfolded sample_run_def] s] by (auto simp: sample_planned small_desk_fields)
  moreover have "w_files sample_mig_world (''a'', ''k'') = Some (Bytes ''v'')" by (simp add: sample_mig_world_def)
  ultimately show ?thesis using r s by (intro exI [of _ out] exI [of _ w']) auto
qed

end
