(* ===== verification/Recovery_Facts.thy ===== *)
theory Recovery_Facts
  imports Recovery Migration_Run
begin

text \<open>
  The daemon always comes up: from a registry whose desks form a forest the recovery returns, and
  afterwards no request and no migration is in progress. The recursive teardown returns although
  the recovery may delete a desk and leave its children behind; a ranking of the desks that every
  deletion keeps shows it.
\<close>

section \<open>Runs that return\<close>

definition totally :: "('s \<Rightarrow> bool) \<Rightarrow> ('s, 'a) rpc \<Rightarrow> ('a \<Rightarrow> 's \<Rightarrow> bool) \<Rightarrow> bool" where
  "totally P m Q \<longleftrightarrow> (\<forall>w. P w \<longrightarrow> (\<exists>x w'. m w = (Inr x, w') \<and> Q x w'))"

named_theorems totally_rules "operations that return"

lemma totallyD: "totally P m Q \<Longrightarrow> P w \<Longrightarrow> \<exists>x w'. m w = (Inr x, w') \<and> Q x w'"
  unfolding totally_def by blast

lemma totally_bind:
  assumes "totally P m R" "\<And>x. totally (R x) (f x) Q"
  shows "totally P (bind m f) Q"
  unfolding totally_def
proof (intro allI impI)
  fix w assume "P w"
  then obtain x w1 where 1: "m w = (Inr x, w1)" "R x w1" using totallyD [OF assms(1)] by blast
  then obtain y w2 where "f x w1 = (Inr y, w2)" "Q y w2" using totallyD [OF assms(2)] by blast
  with 1 show "\<exists>x w'. bind m f w = (Inr x, w') \<and> Q x w'" by (simp add: bind_def)
qed

text \<open>An operation that returns and keeps \<open>P\<close>.\<close>

abbreviation calm :: "('s \<Rightarrow> bool) \<Rightarrow> ('s, 'a) rpc \<Rightarrow> bool" where
  "calm P m \<equiv> totally P m (\<lambda>_. P)"

lemma calm_bind [totally_rules]: "calm P m \<Longrightarrow> (\<And>x. totally P (f x) Q) \<Longrightarrow> totally P (bind m f) Q"
  by (rule totally_bind)

lemma calm_andthen [totally_rules]: "calm P m \<Longrightarrow> totally P n Q \<Longrightarrow> totally P (andthen m n) Q"
  unfolding andthen_def by (rule totally_bind)

lemma calm_ret [totally_rules]: "calm P (ret x)"
  by (simp add: totally_def ret_def)

lemma calm_guarded [totally_rules]: "calm P m \<Longrightarrow> calm P (guarded b m)"
  by (simp add: guarded_def calm_ret)

lemma totally_query:
  "(\<And>x. (\<exists>w. P w \<and> x = g (w_reg w)) \<Longrightarrow> totally P (f x) Q) \<Longrightarrow> totally P (bind (query g) f) Q"
  unfolding totally_def bind_def query_def reads_def by auto

lemma calm_handled:
  assumes "keeps P m" "\<And>e. calm P (h e)"
  shows "calm P (try_except m h)"
  unfolding totally_def
proof (intro allI impI)
  fix w assume "P w"
  obtain r w1 where m: "m w = (r, w1)" by fastforce
  with \<open>P w\<close> have "P w1" using keepsD [OF assms(1)] by blast
  then show "\<exists>x w'. try_except m h w = (Inr x, w') \<and> P w'"
    using m totallyD [OF assms(2)] by (cases r) (auto simp: try_except_def)
qed

lemma calm_outcome_of: "keeps P m \<Longrightarrow> calm P (outcome_of m)"
  by (simp add: totally_def outcome_of_def keeps_def)

lemma calm_utc_now [totally_rules]: "calm (on_reg P) (utc_now env)"
  by (simp add: totally_def utc_now_def effect_defs)

lemma calm_path_exists [totally_rules]: "calm (on_reg P) (path_exists de p)"
  by (simp add: totally_def path_exists_def effect_defs)

lemma calm_remove_worktree [totally_rules]: "calm (on_reg P) (remove_worktree_best_effort de p)"
  unfolding remove_worktree_best_effort_def by (intro totally_rules)

lemma keeps_reg_ext: "keeps (on_reg P) (ext g)"
  unfolding ext_def by (intro keeps_rules)

lemma calm_remove_overlay [totally_rules]: "calm (on_reg P) (remove_overlay_best_effort de p)"
  unfolding remove_overlay_best_effort_def by (intro totally_rules calm_handled keeps_reg_ext)

section \<open>Ranked desks\<close>

definition ranked :: "(string \<Rightarrow> nat) \<Rightarrow> drydock_row set \<Rightarrow> bool" where
  "ranked f L \<longleftrightarrow> (\<forall>c\<in>L. \<forall>p. parent_drydock_id c = Some p \<longrightarrow> p \<in> dd_id ` L \<longrightarrow> f p < f (dd_id c))"

lemma ranked_mono: "ranked f L \<Longrightarrow> K \<subseteq> L \<Longrightarrow> ranked f K"
  unfolding ranked_def by blast

lemma takeWhile_stops: "\<exists>x\<in>set xs. \<not> P x \<Longrightarrow> length (takeWhile P (xs @ ys)) < length xs"
  by (induction xs) auto

lemma takeWhile_until: "\<forall>x\<in>set xs. P x \<Longrightarrow> \<not> P c \<Longrightarrow> length (takeWhile P (xs @ c # ys)) = length xs"
  by (induction xs) auto

lemma lineage_ranked:
  assumes "lineage_ok r"
  shows "\<exists>f. ranked f (set (drydocks r))"
proof -
  let ?f = "\<lambda>i. length (takeWhile (\<lambda>d. dd_id d \<noteq> i) (drydocks r))"
  have "?f p < ?f (dd_id c)" if c: "c \<in> set (drydocks r)" "parent_drydock_id c = Some p" for c p
  proof -
    obtain xs ys where s: "drydocks r = xs @ c # ys" using c(1) by (metis split_list)
    have "p \<in> dd_id ` set xs"
      using rooted_parent_before [of "[]" xs c ys p] assms s c(2) by (simp add: lineage_ok_def)
    then have "?f p < length xs"
      unfolding s by (intro takeWhile_stops) auto
    moreover have "dd_id c \<notin> dd_id ` set xs" using assms s by (auto simp: lineage_ok_def desk_keys_ok_def)
    then have "\<forall>x\<in>set xs. dd_id x \<noteq> dd_id c" by (metis imageI)
    then have "?f (dd_id c) = length xs" unfolding s by (intro takeWhile_until) simp_all
    ultimately show ?thesis by simp
  qed
  then have "ranked ?f (set (drydocks r))" unfolding ranked_def by simp
  then show ?thesis by (intro exI [of _ ?f])
qed

lemma ranked_bounded:
  assumes "ranked f (set ds)"
  shows "\<exists>g. ranked g (set ds) \<and> (\<forall>c\<in>set ds. g (dd_id c) < length ds)"
proof -
  let ?B = "\<lambda>i. {e \<in> set ds. f (dd_id e) < f i}"
  have less: "?B p \<subset> ?B (dd_id c)"
    if "c \<in> set ds" "parent_drydock_id c = Some p" "p \<in> dd_id ` set ds" for c p
  proof -
    have "f p < f (dd_id c)" using assms that unfolding ranked_def by blast
    then show ?thesis using that(3) by auto
  qed
  have "card (?B (dd_id c)) < length ds" if "c \<in> set ds" for c
    using psubset_card_mono [of "set ds" "?B (dd_id c)"] card_length [of ds] that by force
  moreover have "ranked (\<lambda>i. card (?B i)) (set ds)"
    unfolding ranked_def using less by (simp add: psubset_card_mono)
  ultimately show ?thesis by blast
qed

section \<open>The teardown\<close>

text \<open>The desks stay among those of \<open>L\<close>, and \<open>Q\<close> holds of the task log and the migrations.\<close>

definition shrunk ::
    "drydock_row set \<Rightarrow> (task_row list \<Rightarrow> migration_row list \<Rightarrow> bool) \<Rightarrow> registry \<Rightarrow> bool" where
  "shrunk L Q r \<longleftrightarrow> set (drydocks r) \<subseteq> L \<and> Q (task_log r) (migrations r)"

lemma shrunk_delete_drydock: "shrunk L Q r \<Longrightarrow> shrunk L Q (delete_drydock now n r)"
  by (auto simp: shrunk_def delete_drydock_def log_event_def Let_def delete_where_def split: option.split)

lemma shrunk_destroy_one: "calm (on_reg (shrunk L Q)) (destroy_one env de dry d)"
  unfolding totally_def
proof (intro allI impI)
  fix w :: world assume s: "shrunk L Q (w_reg w)"
  obtain x w' now where "destroy_one env de dry d w = (Inr x, w')" and r: "w_reg w' = delete_drydock now (dd_name d)
     (delete_token (dd_id d) (snd (revoke_leases_for_desk (dd_id d) ''desk_destroyed'' (w_reg w))))"
    using destroy_one_does unfolding does_def by metis
  moreover have "shrunk L Q (delete_token (dd_id d) (snd (revoke_leases_for_desk (dd_id d) ''desk_destroyed'' (w_reg w))))"
    using s by (simp add: shrunk_def delete_token_def revoke_leases_for_desk_def Let_def)
  ultimately show "\<exists>x w'. destroy_one env de dry d w = (Inr x, w') \<and> shrunk L Q (w_reg w')"
    using shrunk_delete_drydock by metis
qed

lemma destroy_tree_total:
  assumes L: "ranked f L" "\<forall>c\<in>L. f (dd_id c) < N"
  shows "d \<in> L \<Longrightarrow> \<forall>v\<in>set visited. f v < f (dd_id d) \<Longrightarrow> N \<le> n + f (dd_id d) \<Longrightarrow>
      calm (on_reg (shrunk L Q)) (destroy_tree n env de dry visited d cascaded)"
    and "\<forall>c\<in>set ds. c \<in> L \<and> (\<forall>v\<in>set visited. f v < f (dd_id c)) \<and> N \<le> n + f (dd_id c) \<Longrightarrow>
      calm (on_reg (shrunk L Q)) (destroy_children n env de dry visited ds cascaded)"
proof (induction n env de dry visited d cascaded and n env de dry visited ds cascaded
    rule: destroy_tree_destroy_children.induct)
  case (1 env de dry visited d cascaded)
  then show ?case using L(2) by force
next
  case (2 n env de dry visited d cascaded)
  have "dd_id d \<notin> set visited" using 2(3) by blast
  moreover have "totally (on_reg (shrunk L Q)) (bind (destroy_children n env de dry (dd_id d # visited) children cascaded)
      (\<lambda>(cascaded, failures). bind (destroy_one env de dry d) (\<lambda>more. ret (cascaded, failures @ more))))
      (\<lambda>_. on_reg (shrunk L Q))"
    if "\<exists>w. shrunk L Q (w_reg w) \<and> children = get_children (w_reg w) (dd_id d)" for children
  proof (rule calm_bind)
    have "c \<in> L \<and> f (dd_id d) < f (dd_id c)" if "c \<in> set children" for c
      using \<open>\<exists>w. _\<close> that 2(2) L(1) by (auto simp: get_children_def shrunk_def ranked_def)
    then show "calm (on_reg (shrunk L Q)) (destroy_children n env de dry (dd_id d # visited) children cascaded)"
      using 2 \<open>dd_id d \<notin> set visited\<close> by (intro 2(1)) fastforce+
  qed (auto split: prod.split intro!: totally_rules shrunk_destroy_one)
  ultimately show ?case by (auto intro!: totally_query)
next
  case (3 n env de dry visited cascaded)
  then show ?case by (auto intro: totally_rules)
next
  case (4 n env de dry visited child children cascaded)
  show ?case
    unfolding destroy_children.simps
    by (rule calm_bind, (use 4 in \<open>auto split: prod.split intro!: totally_rules\<close>)+)
qed


section \<open>Requests\<close>

text \<open>Every request in progress is one of \<open>S\<close>.\<close>

definition pending :: "string set \<Rightarrow> task_row list \<Rightarrow> migration_row list \<Rightarrow> bool" where
  "pending S ts ms \<longleftrightarrow> (\<forall>t\<in>set ts. tl_status t = ''in_progress'' \<longrightarrow> tl_request_id t \<in> S)"

lemma finish_request_settles:
  assumes "st \<noteq> ''in_progress''"
  shows "totally (on_reg (shrunk L (pending (insert i S)))) (finish_request env i st out) (\<lambda>_. on_reg (shrunk L (pending S)))"
  using assms
  by (auto simp: totally_def finish_request_def effect_defs finish_task_log_def shrunk_def pending_def set_update_where)

lemma calm_delete_row [totally_rules]: "calm (on_reg (shrunk L Q)) (delete_row env n)"
  using shrunk_delete_drydock by (auto simp: totally_def delete_row_def effect_defs)

lemma calm_rollback_partial [totally_rules]: "calm (on_reg (shrunk L Q)) (rollback_partial_create env de name desk)"
  unfolding rollback_partial_create_def by (cases desk) (auto intro!: totally_rules)

lemma finished:
  assumes "st \<noteq> ''in_progress''"
  shows "totally (on_reg (shrunk L (pending (insert i S)))) (andthen (finish_request env i st out) (ret x))
     (\<lambda>_. on_reg (shrunk L (pending S)))"
  unfolding andthen_def by (rule totally_bind [OF finish_request_settles [OF assms] calm_ret])

lemma recover_create_settles:
  "totally (on_reg (shrunk L (pending (insert i S)))) (recover_create env de i spec) (\<lambda>_. on_reg (shrunk L (pending S)))"
  unfolding recover_create_def Let_def
  by (intro totally_query) (auto split: option.split intro!: calm_bind [OF calm_rollback_partial] finished)

lemma expected_destroy_row: "expected_destroy_drydock r spec = Some d \<Longrightarrow> d \<in> set (drydocks r)"
  by (auto simp: expected_destroy_drydock_def get_drydock_def drydock_by_id_def dest: find_Some_D split: if_splits)

lemma recover_destroy_settles:
  assumes "ranked f L"
  shows "totally (on_reg (shrunk L (pending (insert i S)))) (recover_destroy env de i spec) (\<lambda>_. on_reg (shrunk L (pending S)))"
  unfolding totally_def
proof (intro allI impI)
  fix w :: world assume s: "shrunk L (pending (insert i S)) (w_reg w)"
  show "\<exists>x w'. recover_destroy env de i spec w = (Inr x, w') \<and> shrunk L (pending S) (w_reg w')"
  proof (cases "expected_destroy_drydock (w_reg w) spec")
    case None
    then show ?thesis
      using totallyD [OF finished s, of "''completed''"] by (simp add: recover_destroy_def bind_def query_def reads_def)
  next
    case (Some d)
    let ?D = "set (drydocks (w_reg w))"
    have d: "d \<in> ?D" by (rule expected_destroy_row [OF Some])
    have "ranked f ?D" using assms s ranked_mono by (auto simp: shrunk_def)
    then obtain g where g: "ranked g ?D" "\<forall>c\<in>?D. g (dd_id c) < length (drydocks (w_reg w))"
      using ranked_bounded by blast
    have "shrunk ?D (pending (insert i S)) (w_reg w)" using s by (simp add: shrunk_def)
    moreover have "calm (on_reg (shrunk ?D (pending (insert i S)))) (destroy_tree (Suc (length (drydocks (w_reg w)))) env de False [] d [])"
      by (rule destroy_tree_total(1) [OF g d]) simp_all
    ultimately obtain x w1 where "destroy_tree (Suc (length (drydocks (w_reg w)))) env de False [] d [] w = (Inr x, w1)"
      and "shrunk ?D (pending (insert i S)) (w_reg w1)"
      by (blast dest: totallyD)
    moreover obtain cascaded failures where "x = (cascaded, failures)" by fastforce
    ultimately have 1: "destroy_tree (Suc (length (drydocks (w_reg w)))) env de False [] d [] w = (Inr (cascaded, failures), w1)"
      and "shrunk ?D (pending (insert i S)) (w_reg w1)" by simp_all
    then have "shrunk L (pending (insert i S)) (w_reg w1)" using s by (auto simp: shrunk_def)
    moreover have "(if failures \<noteq> [] then ''failed'' else ''completed'') \<noteq> ''in_progress''" by simp
    ultimately have "\<exists>x w'. andthen (finish_request env i (if failures \<noteq> [] then ''failed'' else ''completed'') out) (ret y) w1 = (Inr x, w') \<and>
        shrunk L (pending S) (w_reg w')" for out and y :: recovered
      by (blast dest: totallyD [OF finished])
    then show ?thesis
      using 1 Some by (simp add: recover_destroy_def bind_def query_def reads_def del: destroy_tree.simps)
  qed
qed

lemma recover_request_settles:
  assumes "ranked f L"
  shows "totally (on_reg (shrunk L (pending (insert (tl_request_id t) S)))) (recover_request env de t)
     (\<lambda>_. on_reg (shrunk L (pending S)))"
  unfolding recover_request_def
  using recover_destroy_settles [OF assms] recover_create_settles by (auto intro!: finished)

lemma recover_rows_settles:
  assumes "ranked f L"
  shows "totally (on_reg (shrunk L (pending (tl_request_id ` set ts)))) (recover_rows env de ts rep)
     (\<lambda>_. on_reg (shrunk L (pending {})))"
proof (induction ts arbitrary: rep)
  case (Cons t ts)
  then show ?case
    unfolding recover_rows.simps list.set image_insert by (rule totally_bind [OF recover_request_settles [OF assms]])
qed (simp add: calm_ret)

lemma recover_in_progress_settles:
  assumes "lineage_ok (w_reg w)" "de_exists de (w_ticks w) path"
  shows "\<exists>rep w'. recover_in_progress env de path w = (Inr rep, w') \<and> pending {} (task_log (w_reg w')) (migrations (w_reg w'))"
proof -
  let ?w = "w\<lparr>w_ticks := Suc (w_ticks w)\<rparr>" and ?rows = "rows_in_progress (w_reg w)" and ?L = "set (drydocks (w_reg w))"
  obtain f where f: "ranked f ?L" using lineage_ranked [OF assms(1)] by blast
  have "shrunk ?L (pending (tl_request_id ` set ?rows)) (w_reg ?w)"
    by (auto simp: shrunk_def pending_def rows_in_progress_def)
  from totallyD [OF recover_rows_settles [OF f] this] obtain rep w' where
    "recover_rows env de ?rows \<lparr>rr_completed = 0, rr_rolled_back = 0, rr_unknown_method = 0\<rparr> ?w = (Inr rep, w')"
    "shrunk ?L (pending {}) (w_reg w')" by blast
  then show ?thesis
    using assms(2) by (simp add: recover_in_progress_def path_exists_def effect_defs shrunk_def)
qed


section \<open>Migrations\<close>

text \<open>No request is in progress, and every migration in progress is one of \<open>S\<close>.\<close>

definition unfinished :: "string set \<Rightarrow> registry \<Rightarrow> bool" where
  "unfinished S r \<longleftrightarrow> pending {} (task_log r) (migrations r) \<and>
     (\<forall>m\<in>set (migrations r). mg_status m = ''in_progress'' \<longrightarrow> mg_id m \<in> S)"

lemma conclude_settles:
  assumes "st \<in> {''failed'', ''rolled_back''}"
  shows "totally (on_reg (unfinished (insert i S))) (conclude env i st payload) (\<lambda>_. on_reg (unfinished S))"
proof -
  have "st \<in> set migration_statuses" "st \<noteq> ''in_progress''" using assms by (auto simp: migration_statuses_def)
  then show ?thesis
    by (auto simp: totally_def conclude_def utc_now_def update_mig_def insert_reg_def update_migration_def or_keep_def
        effect_defs unfinished_def pending_def set_update_where)
qed

lemma unfinished_set_image: "keeps (on_reg (unfinished S)) (set_image env n img)"
  unfolding set_image_def
  by (intro keeps_rules keeps_update_reg) (simp add: unfinished_def update_drydock_def Let_def)

lemma unfinished_restore: "keeps (on_reg (unfinished S)) (rollback_migration_from_snapshot env de me i p)"
  unfolding rollback_migration_from_snapshot_def by (intro keeps_rules unfinished_set_image)

lemma recover_migration_settles:
  "totally (on_reg (unfinished (insert (mg_id m) S))) (recover_migration env de me m) (\<lambda>_. on_reg (unfinished S))"
  unfolding totally_def
proof (intro allI impI)
  fix w :: world assume u: "unfinished (insert (mg_id m) S) (w_reg w)"
  have failed: "\<exists>x v'. andthen (conclude env (mg_id m) ''failed'' payload) (ret False) v = (Inr x, v') \<and> unfinished S (w_reg v')"
    if "unfinished (insert (mg_id m) S) (w_reg v)" for payload v
    using totallyD [OF totally_bind [OF conclude_settles calm_ret] that, of "''failed''"] by (simp add: andthen_def)
  show "\<exists>x w'. recover_migration env de me m w = (Inr x, w') \<and> unfinished S (w_reg w')"
  proof (cases "snapshot_at (mg_snapshot_path m) w")
    case None
    then show ?thesis using failed [OF u] by (simp add: recover_migration_def Let_def bind_def reads_def)
  next
    case (Some p)
    obtain r w1 where r: "rollback_migration_from_snapshot env de me (mg_drydock_id m) p w = (r, w1)" by fastforce
    then have u1: "unfinished (insert (mg_id m) S) (w_reg w1)" using keepsD [OF unfinished_restore r] u by blast
    show ?thesis
    proof (cases r)
      case (Inl e)
      then show ?thesis
        using Some r failed [OF u1] by (simp add: recover_migration_def Let_def bind_def reads_def andthen_def outcome_of_def)
    next
      case (Inr x)
      moreover obtain y w2 where "conclude env (mg_id m) ''rolled_back'' [(''reason'', JStr ''daemon_restart_recovery''),
          (''current_stage'', jopt (mg_current_stage m))] w1 = (Inr y, w2)" "unfinished S (w_reg w2)"
        using totallyD [OF conclude_settles [of "''rolled_back''"] u1] by blast
      ultimately show ?thesis
        using Some r by (intro exI [of _ True] exI [of _ w2]) (simp add: recover_migration_def Let_def bind_def reads_def andthen_def outcome_of_def ret_def)
    qed
  qed
qed

lemma recover_migrations_settles:
  "totally (on_reg (unfinished (mg_id ` set ms))) (recover_migrations env de me ms a b) (\<lambda>_. on_reg (unfinished {}))"
proof (induction ms arbitrary: a b)
  case (Cons m ms)
  have "totally (on_reg (unfinished (mg_id ` set ms)))
      (if x then recover_migrations env de me ms (a + 1) b else recover_migrations env de me ms a (b + 1))
      (\<lambda>_. on_reg (unfinished {}))" for x
    using Cons.IH by simp
  then show ?case
    unfolding recover_migrations.simps list.set image_insert by (rule totally_bind [OF recover_migration_settles])
qed (simp add: calm_ret)

lemma recover_in_progress_migrations_settles:
  "totally (on_reg (\<lambda>r. pending {} (task_log r) (migrations r))) (recover_in_progress_migrations env de me) (\<lambda>_. on_reg (unfinished {}))"
  unfolding totally_def
proof (intro allI impI)
  fix w :: world assume p: "pending {} (task_log (w_reg w)) (migrations (w_reg w))"
  define rows where "rows = sort_key mg_created_at (filter (\<lambda>m. mg_status m = ''in_progress'') (migrations (w_reg w)))"
  have "unfinished (mg_id ` set rows) (w_reg w)" using p by (simp add: unfinished_def rows_def)
  then obtain x w' where "recover_migrations env de me rows 0 0 w = (Inr x, w')" "unfinished {} (w_reg w')"
    using totallyD [OF recover_migrations_settles [of rows env de me 0 0], of w] by blast
  then show "\<exists>x w'. recover_in_progress_migrations env de me w = (Inr x, w') \<and> unfinished {} (w_reg w')"
    by (simp add: recover_in_progress_migrations_def bind_def query_def reads_def rows_def [symmetric])
qed

section \<open>Start-up\<close>

text \<open>
  (C29) The daemon always comes up and leaves nothing in progress: from a registry whose desks
  form a forest the recovery of requests and migrations returns, whatever step of a teardown or
  of a restore fails, and afterwards no request and no migration is in progress.
\<close>

theorem start_up_settles:
  assumes "lineage_ok (w_reg w)" "de_exists de (w_ticks w) path"
  shows "\<exists>report w'. start_up env de me day_before path w = (Inr report, w') \<and>
    (\<forall>t\<in>set (task_log (w_reg w')). tl_status t \<noteq> ''in_progress'') \<and>
    (\<forall>m\<in>set (migrations (w_reg w')). mg_status m \<noteq> ''in_progress'')"
proof -
  obtain rep w1 where 1: "recover_in_progress env de path w = (Inr rep, w1)"
    "pending {} (task_log (w_reg w1)) (migrations (w_reg w1))"
    using recover_in_progress_settles [OF assms] by blast
  with totallyD [OF recover_in_progress_migrations_settles] obtain counts w2 where
    2: "recover_in_progress_migrations env de me w1 = (Inr counts, w2)" "unfinished {} (w_reg w2)" by blast
  let ?r = "snd (evict_old_task_log (day_before (e_now env (w_ticks w2))) (w_reg w2))"
  have "\<exists>report w'. start_up env de me day_before path w = (Inr report, w') \<and> w_reg w' = ?r"
    using 1 2 by (simp add: start_up_def utc_now_def effect_defs split: prod.split)
  moreover have "unfinished {} ?r"
    using 2(2) by (auto simp: unfinished_def pending_def evict_old_task_log_def delete_where_def)
  ultimately show ?thesis unfolding unfinished_def pending_def by (metis empty_iff)
qed


definition sample_crashed :: world where
  "sample_crashed = sample_family\<lparr>w_reg := (w_reg sample_family)\<lparr>
     task_log := [\<lparr>tl_request_id = ''r1'', tl_method = ''DestroyDesk'', tl_spec = JObj [(''name'', JStr ''a'')],
       tl_status = ''in_progress'', tl_outcome = None, tl_created_at = ''t1'', tl_completed_at = None\<rparr>],
     migrations := [sample_migration\<lparr>mg_status := ''in_progress''\<rparr>]\<rparr>\<rparr>"

theorem start_up_settles_witness:
  "\<exists>report w'. start_up sample_env sample_desk_env sample_mig_env (\<lambda>t. t) ''/registry.db'' sample_crashed = (Inr report, w') \<and>
     filter (\<lambda>t. tl_status t = ''in_progress'') (task_log (w_reg w')) = [] \<and>
     filter (\<lambda>m. mg_status m = ''in_progress'') (migrations (w_reg w')) = []"
proof -
  have 1: "lineage_ok (w_reg sample_crashed)" using sample_family_ok by (simp add: sample_crashed_def lineage_ok_def desk_keys_ok_def)
  have 2: "de_exists sample_desk_env (w_ticks sample_crashed) ''/registry.db''" by (simp add: sample_desk_env_def)
  show ?thesis
    using start_up_settles [OF 1 2, of sample_env sample_mig_env "\<lambda>t. t"] by (simp add: filter_empty_conv)
qed

end
