(* ===== verification/Project_Facts.thy ===== *)
theory Project_Facts
  imports Project_Config Policy_Facts
begin

text \<open>
  Facts of the project files: what a declared storage mount adds to the delegations of its
  project, seen through the policy check that later admits its requests.
\<close>

lemma set_append_new [simp]: "set (append_new x xs) = insert x (set xs)"
  by (auto simp: append_new_def)

text \<open>The loop adds exactly the wirings of the entries.\<close>

lemma wire_mounts_set:
  "wire_mounts pe entries scopes fw = Inr (scopes', fw') \<Longrightarrow>
     (\<forall>e\<in>set entries. \<exists>s a. mount_wiring pe e = Inr (s, a)) \<and>
     set scopes' = set scopes \<union> {JStr s | s. \<exists>e\<in>set entries. \<exists>a. mount_wiring pe e = Inr (s, a)} \<and>
     set fw' = set fw \<union> {JStr a | a. \<exists>e\<in>set entries. \<exists>s. mount_wiring pe e = Inr (s, a)}"
proof (induction entries arbitrary: scopes fw)
  case (Cons e es)
  then obtain s a where w: "mount_wiring pe e = Inr (s, a)"
    and "wire_mounts pe es (append_new (JStr s) scopes) (append_new (JStr a) fw) = Inr (scopes', fw')"
    by (auto split: sum.splits)
  from Cons.IH [OF this(2)] show ?case by (auto simp: w)
qed simp

lemma expand_storage_mounts_Inr:
  assumes "expand_storage_mounts pe cfg = Inr cfg'" "truthy (pc_storage_mounts cfg)"
    and "pc_storage_mounts cfg = JList entries" "py_list (pc_delegatable_storage_scopes cfg) = Inr declared"
  shows "\<exists>caps fw scopes' fw'. wire_mounts pe entries declared fw = Inr (scopes', fw') \<and>
    cfg' = cfg\<lparr>pc_capabilities := JList (append_new (JStr ''request_storage_leases'') caps),
      pc_delegatable_storage_scopes := JList scopes', pc_firewall_aws_ip_ranges := JList fw'\<rparr>"
proof -
  have l: "py_list (pc_storage_mounts cfg) = Inr entries" by (simp add: assms(3))
  show ?thesis
    using assms(1) unfolding expand_storage_mounts_def l assms(4)
    by (cases "py_list (pc_capabilities cfg)"; cases "py_list (pc_firewall_aws_ip_ranges cfg)")
      (auto simp: assms(2) split: sum.splits)
qed

abbreviation rstrip_slashes :: "string \<Rightarrow> string" where
  "rstrip_slashes \<equiv> rstrip_by (\<lambda>c. c = CHR ''/'')"

lemma rstrip_by_append:
  "rstrip_by P (xs @ ys) = (if rstrip_by P ys = [] then rstrip_by P xs else xs @ rstrip_by P ys)"
  by (simp add: rstrip_by_def dropWhile_append)

lemma rstrip_Nil_iff: "rstrip_by P s = [] \<longleftrightarrow> (\<forall>c\<in>set s. P c)"
  by (simp add: rstrip_by_def)

lemma lstrip_rstrip: "lstrip_by P (rstrip_by P s) = rstrip_by P (lstrip_by P s)"
proof (induction s)
  case (Cons c s)
  then show ?case
    using rstrip_by_append [of P "[c]" s]
    by (auto simp: lstrip_by_def rstrip_by_def dest: set_dropWhileD)
qed (simp add: lstrip_by_def rstrip_by_def)

lemma strip_slashes_rstrip: "strip_slashes (rstrip_slashes q) = strip_slashes q"
  by (simp add: strip_slashes_def strip_by_def lstrip_rstrip)

text \<open>A bucket as S3 writes it, and the address of a mount.\<close>

definition bucket_ok :: "string \<Rightarrow> bool" where
  "bucket_ok b \<longleftrightarrow> b \<noteq> [] \<and> CHR ''/'' \<notin> set b \<and> strip b = b"

definition mount_source :: "string \<Rightarrow> string \<Rightarrow> string" where
  "mount_source b q = ''s3://'' @ b @ (if q = [] then [] else CHR ''/'' # q)"

lemma mount_body:
  assumes "bucket_ok b"
  shows "rstrip_slashes (drop 5 (mount_source b q)) =
    b @ (if rstrip_slashes q = [] then [] else CHR ''/'' # rstrip_slashes q)"
proof -
  have "rstrip_slashes b = b"
    using assms by (cases b rule: rev_cases) (auto simp: bucket_ok_def rstrip_by_def)
  then have "rstrip_slashes (b @ CHR ''/'' # q) =
      b @ (if rstrip_slashes q = [] then [] else CHR ''/'' # rstrip_slashes q)"
    using rstrip_by_append [of _ b "CHR ''/'' # q"] rstrip_by_append [of _ "''/''" q]
    by (auto simp: rstrip_by_def)
  moreover have "rstrip_slashes [] = []" by (simp add: rstrip_by_def)
  ultimately show ?thesis using \<open>rstrip_slashes b = b\<close> by (simp add: mount_source_def)
qed

lemma mount_wiring_scope:
  assumes "mount_wiring pe (JObj d) = Inr (s, a)" "dict_get d ''source'' = JStr (mount_source b q)" "bucket_ok b"
  obtains m where "m = ''ro'' \<or> m = ''rw''" "dict_get d ''mode'' = JStr ''rw'' \<Longrightarrow> m = ''rw''"
    "s = render_scope \<lparr>sc_bucket = b, sc_prefix = rstrip_slashes q, sc_mode_max = m\<rparr>"
proof -
  have src: "dict_get_default d ''source'' (JStr []) = JStr (mount_source b q)"
    using assms(2) by (auto simp: dict_get_def dict_get_default_def split: option.splits)
  have ne: "rstrip_slashes (drop 5 (mount_source b q)) \<noteq> []"
    using assms(3) by (simp add: mount_body bucket_ok_def)
  obtain m where m: "get_or d ''mode'' (JStr ''ro'') = JStr m" "lower m = ''ro'' \<or> lower m = ''rw''"
    "s = (if lower m = ''rw'' then ''rw:'' else []) @ ''s3://'' @ rstrip_slashes (drop 5 (mount_source b q)) @ ''/*''"
    using assms(1) ne unfolding mount_wiring_def
    by (auto simp: src Let_def split: json.splits if_splits)
  show ?thesis
  proof (rule that [of "lower m"])
    show "lower m = ''rw''" if "dict_get d ''mode'' = JStr ''rw''"
      using m(1) that by (auto simp: get_or_def lower_def lower_char_def is_upper_def code_def)
    show "s = render_scope \<lparr>sc_bucket = b, sc_prefix = rstrip_slashes q, sc_mode_max = lower m\<rparr>"
      unfolding m(3) mount_body [OF assms(3)] by (simp add: render_scope_def)
  qed (rule m(2))
qed

text \<open>The scope a mount adds admits the requests for what it mounts.\<close>

lemma wired_scope_admits:
  assumes "mount_wiring pe (JObj d) = Inr (s, a)" "dict_get d ''source'' = JStr (mount_source b q)" "bucket_ok b"
    and "md = ''rw'' \<Longrightarrow> dict_get d ''mode'' = JStr ''rw''"
  shows "storage_scope_admits \<lparr>rq_bucket = b, rq_prefix = q, rq_mode = md\<rparr> s"
proof -
  obtain m where m: "m = ''ro'' \<or> m = ''rw''" "dict_get d ''mode'' = JStr ''rw'' \<Longrightarrow> m = ''rw''"
    and s: "s = render_scope \<lparr>sc_bucket = b, sc_prefix = rstrip_slashes q, sc_mode_max = m\<rparr>"
    by (rule mount_wiring_scope [OF assms(1-3)]) (rule that)
  have "parse_storage_scope s = Inr \<lparr>sc_bucket = b, sc_prefix = strip_slashes q, sc_mode_max = m\<rparr>"
    using render_parses [of "\<lparr>sc_bucket = b, sc_prefix = rstrip_slashes q, sc_mode_max = m\<rparr>"] m(1) assms(3)
    by (simp add: s bucket_ok_def strip_slashes_rstrip)
  then show ?thesis
    using m(2) assms(4) by (auto simp: storage_scope_admits_def prefix_matches_def)
qed

text \<open>
  (C28) One declaration wires a storage mount completely: after the expansion the project holds
  the capability to ask for storage leases and a scope that admits every request for the
  mounted bucket and prefix, in write mode when the mount is declared so. Nothing else is
  delegated: each storage scope was declared in the file or is the scope of a mount.
\<close>

theorem declared_mount_is_admitted:
  assumes "expand_storage_mounts pe cfg = Inr cfg'" "pc_storage_mounts cfg = JList entries"
    and "py_list (pc_delegatable_storage_scopes cfg) = Inr declared"
    and "JObj d \<in> set entries" "dict_get d ''source'' = JStr (mount_source b q)" "bucket_ok b"
    and "md = ''rw'' \<Longrightarrow> dict_get d ''mode'' = JStr ''rw''"
  shows "\<exists>caps scopes s. pc_capabilities cfg' = JList caps \<and> JStr ''request_storage_leases'' \<in> set caps \<and>
    pc_delegatable_storage_scopes cfg' = JList scopes \<and> JStr s \<in> set scopes \<and>
    storage_scope_admits \<lparr>rq_bucket = b, rq_prefix = q, rq_mode = md\<rparr> s \<and>
    set scopes = set declared \<union> {JStr t | t. \<exists>e\<in>set entries. \<exists>a. mount_wiring pe e = Inr (t, a)}"
proof -
  have ne: "truthy (pc_storage_mounts cfg)" using assms(2,4) by auto
  from expand_storage_mounts_Inr [OF assms(1) ne assms(2,3)] obtain caps fw scopes' fw' where
    w: "wire_mounts pe entries declared fw = Inr (scopes', fw')"
    and c: "cfg' = cfg\<lparr>pc_capabilities := JList (append_new (JStr ''request_storage_leases'') caps),
       pc_delegatable_storage_scopes := JList scopes', pc_firewall_aws_ip_ranges := JList fw'\<rparr>"
    by blast
  note ws = wire_mounts_set [OF w]
  from bspec [OF conjunct1 [OF ws] assms(4)] obtain s a where s: "mount_wiring pe (JObj d) = Inr (s, a)"
    by (elim exE)
  have sc: "set scopes' = set declared \<union> {JStr t | t. \<exists>e\<in>set entries. \<exists>a. mount_wiring pe e = Inr (t, a)}"
    using ws by (elim conjE)
  moreover have "JStr s \<in> set scopes'" unfolding sc using s assms(4) by auto
  moreover have "storage_scope_admits \<lparr>rq_bucket = b, rq_prefix = q, rq_mode = md\<rparr> s"
    by (rule wired_scope_admits [OF s assms(5,6,7)])
  ultimately show ?thesis
    by (intro exI [of _ "append_new (JStr ''request_storage_leases'') caps"] exI [of _ scopes'] exI [of _ s])
      (simp add: c)
qed

definition sample_project_env :: project_env where
  "sample_project_env = \<lparr>pe_file = (\<lambda>p. None), pe_yaml = (\<lambda>t. Inr JNull), pe_str = (\<lambda>v. []), pe_type_name = (\<lambda>v. [])\<rparr>"

definition sample_mount :: dict where
  "sample_mount = [(''source'', JStr ''s3://data/in''), (''target'', JStr ''/mnt/in'')]"

definition sample_project :: ProjectConfig where
  "sample_project = (config_of_dict sample_project_env [(''storage_mounts'', JList [JObj sample_mount])])"

theorem declared_mount_is_admitted_witness:
  "\<exists>cfg' caps scopes s. expand_storage_mounts sample_project_env sample_project = Inr cfg' \<and>
    pc_capabilities cfg' = JList caps \<and> JStr ''request_storage_leases'' \<in> set caps \<and>
    pc_delegatable_storage_scopes cfg' = JList scopes \<and> JStr s \<in> set scopes \<and>
    storage_scope_admits \<lparr>rq_bucket = ''data'', rq_prefix = ''in'', rq_mode = ''ro''\<rparr> s"
proof -
  define p where "p = expand_storage_mounts sample_project_env sample_project"
  have "\<not> isl p" unfolding p_def by code_simp
  then have p: "expand_storage_mounts sample_project_env sample_project = Inr (projr p)"
    unfolding p_def by (cases p) (auto simp: p_def)
  have 1: "pc_storage_mounts sample_project = JList [JObj sample_mount]" by code_simp
  have 2: "py_list (pc_delegatable_storage_scopes sample_project) = Inr []" by code_simp
  have 3: "dict_get sample_mount ''source'' = JStr (mount_source ''data'' ''in'')" by code_simp
  have 4: "bucket_ok ''data''" by code_simp
  show ?thesis
    using declared_mount_is_admitted [OF p 1 2 _ 3 4, of "''ro''"] p by auto
qed

end
