(* ===== verification/Clarification.thy ===== *)
theory Clarification
  imports Auditor Workload Sample
begin

text \<open>
  core/auditor/clarifier.py and daemon/clarification_handlers.py: the one channel from a desk to the
  auditor. A record is sanitised, its lifetime clamped, and stored. \<open>type_name\<close> is the name of a
  value's Python type, which only appears in messages; the set of a JSON object's keys are texts,
  so the branch for another key is absent.
\<close>

section \<open>The sanitizer\<close>

definition KINDS :: "string list" where
  "KINDS = [''workload_intent'', ''config_change'', ''metric_explanation'', ''contract_gap'']"

definition MAX_SUMMARY_CHARS :: nat where
  "MAX_SUMMARY_CHARS = 200"

definition EVIDENCE_KEYS :: "string list" where
  "EVIDENCE_KEYS = [''workload_id'', ''lease_id'', ''metric_name'', ''expected_value'', ''observed_value'', ''until'',
     ''next_tick_at'', ''ticket_url'', ''rationale_hash'']"

definition MAX_EVIDENCE_VALUE_CHARS :: nat where
  "MAX_EVIDENCE_VALUE_CHARS = 200"

definition INJECTION_PATTERNS :: "string list" where
  "INJECTION_PATTERNS = [''ignore previous'', ''ignore all previous'', ''you are now'', ''system prompt'',
     ''forget instructions'', ''forget your instructions'', ''override'', ''disregard'', ''pretend you are'',
     ''act as'', ''from now on, you'', ''new instructions'', ''</system>'', ''<system>'', ''[system]'', ''you must'',
     ''do not refuse'', ''answer the following'', ''developer mode'', ''jailbreak'']"

definition printable :: "char \<Rightarrow> bool" where
  "printable c \<longleftrightarrow> 32 \<le> code c \<and> code c \<le> 126"

text \<open>
  \<^verbatim>\<open>^[\x20-\x7E]+$\<close> with \<^verbatim>\<open>re.match\<close>: the dollar also matches before a newline at the end.
\<close>

definition allowed_summary :: "string \<Rightarrow> bool" where
  "allowed_summary s \<longleftrightarrow>
    (let body = (if s \<noteq> [] \<and> code (last s) = 10 then butlast s else s) in body \<noteq> [] \<and> list_all printable body)"

record Violation =
  vi_code :: string
  vi_message :: string

definition violation :: "string \<Rightarrow> string \<Rightarrow> Violation" where
  "violation c m = \<lparr>vi_code = c, vi_message = m\<rparr>"

record SanitizedClarification =
  sc_kind :: string
  sc_summary :: string
  sc_evidence :: dict

definition text_list :: "string list \<Rightarrow> string" where
  "text_list xs = ''['' @ join '', '' (map quoted (sort xs)) @ '']''"

definition sanitize_kind :: "(json \<Rightarrow> string) \<Rightarrow> json \<Rightarrow> Violation list \<times> string" where
  "sanitize_kind type_name kind =
    (case kind of
       JStr k \<Rightarrow>
         (if k \<in> set KINDS then []
          else [violation ''kind-not-recognized'' (''kind '' @ quoted k @ '' not recognized; valid: '' @ text_list KINDS)], k)
     | v \<Rightarrow> ([violation ''kind-not-string'' (''kind must be a string; got '' @ type_name v)], []))"

definition sanitize_summary :: "(json \<Rightarrow> string) \<Rightarrow> json \<Rightarrow> Violation list \<times> string" where
  "sanitize_summary type_name summary =
    (case summary of
       JStr raw \<Rightarrow>
         let s = strip raw in
         (if s = [] then [violation ''summary-empty'' ''summary must not be empty after trim'']
          else if length s > MAX_SUMMARY_CHARS then
            [violation ''summary-too-long'' (''summary '' @ show_nat (length s) @ '' chars exceeds max '' @ show_nat MAX_SUMMARY_CHARS)]
          else if \<not> allowed_summary s then
            [violation ''summary-not-ascii-printable''
              ''summary contains non-ASCII-printable characters; use plain English text only'']
          else (case find (\<lambda>pattern. contains pattern (lower s)) INJECTION_PATTERNS of
                  None \<Rightarrow> []
                | Some pattern \<Rightarrow> [violation ''summary-injection-pattern''
                    (''summary contains a prompt-injection pattern ('' @ quoted pattern @ ''); refused'')]), s)
     | v \<Rightarrow> ([violation ''summary-not-string'' (''summary must be a string; got '' @ type_name v)], []))"

definition is_scalar :: "json \<Rightarrow> bool" where
  "is_scalar v = (case v of JStr s \<Rightarrow> True | JInt n \<Rightarrow> True | JFloat f \<Rightarrow> True | JBool b \<Rightarrow> True | _ \<Rightarrow> False)"

definition evidence_violation :: "(json \<Rightarrow> string) \<Rightarrow> string \<Rightarrow> json \<Rightarrow> Violation option" where
  "evidence_violation type_name k v =
    (if k \<notin> set EVIDENCE_KEYS then
       Some (violation ''evidence-key-not-allowed'' (''evidence key '' @ quoted k @ '' not in allowlist; valid: '' @ text_list EVIDENCE_KEYS))
     else if \<not> is_scalar v then
       Some (violation ''evidence-value-not-scalar'' (''evidence['' @ quoted k @ ''] must be str/int/float/bool; got '' @ type_name v))
     else (case v of
       JStr s \<Rightarrow>
         if length s > MAX_EVIDENCE_VALUE_CHARS then
           Some (violation ''evidence-value-too-long'' (''evidence['' @ quoted k @ ''] '' @ show_nat (length s) @
              '' chars exceeds max '' @ show_nat MAX_EVIDENCE_VALUE_CHARS))
         else if \<not> allowed_summary s then
           Some (violation ''evidence-value-not-ascii-printable''
             (''evidence['' @ quoted k @ ''] contains non-ASCII-printable characters''))
         else None
     | _ \<Rightarrow> None))"

fun sanitize_items :: "(json \<Rightarrow> string) \<Rightarrow> dict \<Rightarrow> Violation list \<times> dict" where
  "sanitize_items type_name [] = ([], [])"
| "sanitize_items type_name ((k, v) # rest) =
    (let (vs, ev) = sanitize_items type_name rest in
     case evidence_violation type_name k v of Some x \<Rightarrow> (x # vs, ev) | None \<Rightarrow> (vs, (k, v) # ev))"

definition sanitize_evidence :: "(json \<Rightarrow> string) \<Rightarrow> json \<Rightarrow> Violation list \<times> dict" where
  "sanitize_evidence type_name evidence =
    (case evidence of
       JNull \<Rightarrow> ([], [])
     | JObj d \<Rightarrow> sanitize_items type_name d
     | v \<Rightarrow> ([violation ''evidence-not-dict'' (''evidence must be a dict or null; got '' @ type_name v)], []))"

definition sanitize :: "(json \<Rightarrow> string) \<Rightarrow> json \<Rightarrow> json \<Rightarrow> json \<Rightarrow> Violation list + SanitizedClarification" where
  "sanitize type_name kind summary evidence =
    (let (vk, k) = sanitize_kind type_name kind; (vs, s) = sanitize_summary type_name summary;
         (ve, ev) = sanitize_evidence type_name evidence
     in if vk @ vs @ ve \<noteq> [] then Inl (vk @ vs @ ve) else Inr \<lparr>sc_kind = k, sc_summary = s, sc_evidence = ev\<rparr>)"

section \<open>The handler\<close>

definition DEFAULT_TTL_SECONDS :: int where
  "DEFAULT_TTL_SECONDS = 3600"

definition MAX_TTL_SECONDS :: int where
  "MAX_TTL_SECONDS = 86400"

definition MIN_TTL_SECONDS :: int where
  "MIN_TTL_SECONDS = 60"

text \<open>
  \<^verbatim>\<open>int(value)\<close>: \<^const>\<open>None\<close> for a \<^verbatim>\<open>TypeError\<close> or \<^verbatim>\<open>ValueError\<close>. An infinite float raises
  \<^verbatim>\<open>OverflowError\<close>, which the handler does not catch. \<open>int_of_text\<close> reads a string.
\<close>

definition py_int :: "(string \<Rightarrow> int option) \<Rightarrow> json \<Rightarrow> exn + int option" where
  "py_int int_of_text v =
    (case v of
       JInt n \<Rightarrow> Inr (Some n)
     | JBool b \<Rightarrow> Inr (Some (if b then 1 else 0))
     | JFloat (Finite m e) \<Rightarrow> Inr (Some (float_trunc m e))
     | JFloat (Infinity neg) \<Rightarrow> Inl (PyError ''OverflowError'' ''cannot convert float infinity to integer'')
     | JStr s \<Rightarrow> Inr (int_of_text s)
     | _ \<Rightarrow> Inr None)"

definition clarification_rejected :: "Violation list \<Rightarrow> exn" where
  "clarification_rejected vs = rpc_err (-32022) ''clarification_rejected''
     [(''violations'', JList (map (\<lambda>v. JObj [(''code'', JStr (vi_code v)), (''message'', JStr (vi_message v))]) vs))]"

definition clamp_ttl :: "int \<Rightarrow> int" where
  "clamp_ttl n = max MIN_TTL_SECONDS (min MAX_TTL_SECONDS n)"

definition register_clarification ::
    "env \<Rightarrow> wl_env \<Rightarrow> (json \<Rightarrow> string) \<Rightarrow> (string \<Rightarrow> int option) \<Rightarrow> json \<Rightarrow> string option \<Rightarrow> json op" where
  "register_clarification env wl type_name int_of_text params caller =
     bind (required caller (token_required ''RegisterClarification requires bearer token'')) (\<lambda>c.
     bind (required (as_obj params) (invalid_params (reason ''params must be an object''))) (\<lambda>p.
     bind (from_sum (case sanitize type_name (dict_get p ''kind'') (dict_get p ''summary'') (dict_get p ''evidence'') of
                       Inl vs \<Rightarrow> Inl (clarification_rejected vs) | Inr s \<Rightarrow> Inr s)) (\<lambda>s.
     bind (from_sum (py_int int_of_text (case map_of p ''expires_in_seconds'' of None \<Rightarrow> JInt DEFAULT_TTL_SECONDS | Some v \<Rightarrow> v))) (\<lambda>n.
     bind (required n (field_error ''expires_in_seconds'' ''must be integer'')) (\<lambda>asked.
     let expires_in = clamp_ttl asked in
     bind (utc_now env) (\<lambda>now.
     let expires_at = plus_seconds wl now expires_in in
     bind (update_reg (insert_clarification c (sc_kind s) (sc_summary s)
            (if sc_evidence s = [] then None else Some (e_json_dumps env (JObj (sc_evidence s)))) now expires_at)) (\<lambda>i.
     andthen (emit_audit env ''auditor.clarification_registered'' (Some c) JNull ''RegisterClarification'' ''ok''
         [(''drydock_id'', JStr c), (''kind'', JStr (sc_kind s)), (''summary'', JStr (sc_summary s)),
          (''expires_at'', JStr expires_at), (''evidence_keys'', jstrs (sort (map fst (sc_evidence s))))])
       (ret (JObj [(''clarification_id'', JInt i), (''expires_at'', JStr expires_at), (''expires_in_seconds'', JInt expires_in)]))))))))) "

section \<open>Facts\<close>

definition clean_text :: "string \<Rightarrow> bool" where
  "clean_text s \<longleftrightarrow> s \<noteq> [] \<and> length s \<le> 200 \<and> list_all printable s"

definition clean_evidence :: "string \<times> json \<Rightarrow> bool" where
  "clean_evidence x \<longleftrightarrow> fst x \<in> set EVIDENCE_KEYS \<and>
     (case snd x of JStr s \<Rightarrow> length s \<le> 200 \<and> allowed_summary s | JList xs \<Rightarrow> False | JObj d \<Rightarrow> False | JNull \<Rightarrow> False | _ \<Rightarrow> True)"

lemma strip_last: "strip s \<noteq> [] \<Longrightarrow> \<not> is_space (last (strip s))"
  unfolding strip_def by (rule strip_by_last)

lemma allowed_stripped: "allowed_summary (strip s) \<Longrightarrow> list_all printable (strip s)"
  using strip_last [of s] by (auto simp: allowed_summary_def is_space_def Let_def split: if_splits)

lemma sanitize_summary_clean:
  assumes "sanitize_summary type_name v = ([], s)"
  shows "clean_text s \<and> find (\<lambda>pattern. contains pattern (lower s)) INJECTION_PATTERNS = None"
  using assms allowed_stripped
  by (auto simp: sanitize_summary_def clean_text_def Let_def MAX_SUMMARY_CHARS_def split: json.splits if_splits option.splits)

lemma sanitize_items_clean:
  "sanitize_items type_name d = ([], ev) \<Longrightarrow> ev = d \<and> list_all clean_evidence d"
proof (induction d arbitrary: ev)
  case (Cons x d)
  obtain k v where x: "x = (k, v)" by fastforce
  have "evidence_violation type_name k v = None \<Longrightarrow> clean_evidence (k, v)"
    by (auto simp: evidence_violation_def clean_evidence_def is_scalar_def MAX_EVIDENCE_VALUE_CHARS_def
        split: if_splits json.splits)
  then show ?case
    using Cons by (auto simp: x Let_def split: prod.splits option.splits)
qed simp

lemma sanitize_clean:
  assumes "sanitize type_name kind summary evidence = Inr s"
  shows "sc_kind s \<in> set KINDS \<and> clean_text (sc_summary s) \<and>
    find (\<lambda>pattern. contains pattern (lower (sc_summary s))) INJECTION_PATTERNS = None \<and>
    list_all clean_evidence (sc_evidence s)"
proof -
  obtain k x ev where s: "sanitize_kind type_name kind = ([], k)" "sanitize_summary type_name summary = ([], x)"
    "sanitize_evidence type_name evidence = ([], ev)" "s = \<lparr>sc_kind = k, sc_summary = x, sc_evidence = ev\<rparr>"
    using assms by (auto simp: sanitize_def Let_def split: prod.splits if_splits)
  have "k \<in> set KINDS" using s(1) by (auto simp: sanitize_kind_def split: json.splits if_splits)
  moreover have "list_all clean_evidence ev"
    using s(3) sanitize_items_clean by (auto simp: sanitize_evidence_def split: json.splits)
  ultimately show ?thesis using sanitize_summary_clean [OF s(2)] s(4) by simp
qed

text \<open>The dollar of the pattern lets a line break through in a value of the evidence.\<close>

lemma evidence_line_break: "evidence_violation type_name ''until'' (JStr [CHR ''x'', CHR 10]) = None"
  by (simp add: evidence_violation_def EVIDENCE_KEYS_def is_scalar_def MAX_EVIDENCE_VALUE_CHARS_def allowed_summary_def
      printable_def code_def)

section \<open>Property\<close>

text \<open>
  (C33) Only sanitised records reach the auditor: when RegisterClarification answers with a result,
  one row of the caller was stored whose kind is one of the four, whose summary is printable
  text of at most two hundred characters without an injection pattern, whose evidence
  holds allowed keys with bounded scalars, and which expires after at least a minute and at most a
  day.
\<close>

theorem registered_clarification_is_clean:
  assumes "register_clarification env wl type_name int_of_text params caller w = (Inr v, w')"
  shows "\<exists>c row n. caller = Some c \<and> clarifications (w_reg w') = clarifications (w_reg w) @ [row] \<and>
    cl_drydock_id row = c \<and> cl_kind row \<in> set KINDS \<and> clean_text (cl_summary row) \<and>
    find (\<lambda>pattern. contains pattern (lower (cl_summary row))) INJECTION_PATTERNS = None \<and>
    (cl_evidence row = None \<or> (\<exists>ev. cl_evidence row = Some (e_json_dumps env (JObj ev)) \<and> list_all clean_evidence ev)) \<and>
    cl_expires_at row = plus_seconds wl (cl_created_at row) n \<and> 60 \<le> n \<and> n \<le> 86400"
proof -
  note run = register_clarification_def run_simps Let_def
  obtain c where c: "caller = Some c" using assms by (cases caller) (simp_all add: run)
  obtain p where p: "params = JObj p" using assms c by (cases params) (simp_all add: run)
  obtain s where s: "sanitize type_name (dict_get p ''kind'') (dict_get p ''summary'') (dict_get p ''evidence'') = Inr s"
    using assms c p by (cases "sanitize type_name (dict_get p ''kind'') (dict_get p ''summary'') (dict_get p ''evidence'')")
      (simp_all add: run)
  let ?given = "case map_of p ''expires_in_seconds'' of None \<Rightarrow> JInt DEFAULT_TTL_SECONDS | Some v \<Rightarrow> v"
  obtain n where n: "py_int int_of_text ?given = Inr (Some n)"
    using assms c p s by (cases "py_int int_of_text ?given"; cases "projr (py_int int_of_text ?given)") (simp_all add: run)
  let ?now = "e_now env (w_ticks w)"
  let ?ins = "insert_clarification c (sc_kind s) (sc_summary s)
      (if sc_evidence s = [] then None else Some (e_json_dumps env (JObj (sc_evidence s)))) ?now (plus_seconds wl ?now (clamp_ttl n)) (w_reg w)"
  have "w_reg w' = snd ?ins"
    using assms c p s n
    by (auto simp: run effect_simps utc_now_def update_reg_def dest!: emit_audit_cases split: prod.splits)
  moreover have "60 \<le> clamp_ttl n" "clamp_ttl n \<le> 86400"
    by (auto simp: clamp_ttl_def MIN_TTL_SECONDS_def MAX_TTL_SECONDS_def)
  ultimately show ?thesis
    using c sanitize_clean [OF s] by (auto simp: insert_clarification_def Let_def)
qed


definition sample_clock :: wl_env where
  "sample_clock = \<lparr>float_repr = (\<lambda>f. []), plus_seconds = (\<lambda>t n. t @ ''+'')\<rparr>"

definition sample_clarification :: json where
  "sample_clarification = JObj [(''kind'', JStr ''config_change''), (''summary'', JStr ''reload''),
     (''evidence'', JObj [(''until'', JStr ''t9'')])]"

theorem registered_clarification_is_clean_witness:
  "\<exists>v (w' :: world) row. register_clarification sample_env sample_clock (\<lambda>v. []) (\<lambda>s. None) sample_clarification (Some ''dock_a'') sample_world = (Inr v, w') \<and>
     clarifications (w_reg w') = [row] \<and> cl_drydock_id row = ''dock_a'' \<and> clean_text (cl_summary row)"
proof -
  define run where "run = register_clarification sample_env sample_clock (\<lambda>v. []) (\<lambda>s. None) sample_clarification (Some ''dock_a'') sample_world"
  have "\<not> isl (fst run)" unfolding run_def by code_simp
  then have r: "register_clarification sample_env sample_clock (\<lambda>v. []) (\<lambda>s. None) sample_clarification (Some ''dock_a'') sample_world =
      (Inr (projr (fst run)), snd run)" unfolding run_def by (rule run_ok)
  moreover have "clarifications (w_reg sample_world) = []" by (simp add: sample_world_def sample_registry_def empty_registry_def)
  ultimately show ?thesis using registered_clarification_is_clean [OF r] by auto
qed

end
