(* ===== verification/Audit_Query.thy ===== *)
theory Audit_Query
  imports Desk_Spec Sample
begin

text \<open>
  daemon/audit_handlers.py: GetAudit, a newest-first query over the audit log, a page at a time. The
  log is the list of its entries; every line the emitters write parses to one.
\<close>

section \<open>The query\<close>

definition DEFAULT_LIMIT :: int where
  "DEFAULT_LIMIT = 100"

definition MAX_LIMIT :: int where
  "MAX_LIMIT = 1000"

record audit_filters =
  af_limit :: nat
  af_before :: "string option"
  af_event :: "string option"
  af_principal :: "string option"

text \<open>An optional text of the parameters.\<close>

definition text_filter :: "dict \<Rightarrow> string \<Rightarrow> string \<Rightarrow> exn + string option" where
  "text_filter p k why =
    (case dict_get p k of JNull \<Rightarrow> Inr None | JStr s \<Rightarrow> Inr (Some s) | _ \<Rightarrow> Inl (invalid_params (reason why)))"

definition validate_filters :: "json \<Rightarrow> exn + audit_filters" where
  "validate_filters params =
    (case (case params of JNull \<Rightarrow> Some [] | v \<Rightarrow> as_obj v) of
       None \<Rightarrow> Inl (invalid_params (reason ''params must be an object''))
     | Some p \<Rightarrow>
         (case as_int (case map_of p ''limit'' of None \<Rightarrow> JInt DEFAULT_LIMIT | Some v \<Rightarrow> v) of
            Some n \<Rightarrow>
              if n < 1 \<or> n > MAX_LIMIT then Inl (invalid_params (reason ''limit must be int in [1, 1000]''))
              else
                sbind (text_filter p ''before_ts'' ''before_ts must be ISO8601 string'') (\<lambda>before.
                sbind (text_filter p ''event'' ''event must be a string'') (\<lambda>event.
                sbind (text_filter p ''principal'' ''principal must be a string'') (\<lambda>principal.
                  Inr \<lparr>af_limit = nat n, af_before = before, af_event = event, af_principal = principal\<rparr>)))
          | None \<Rightarrow> Inl (invalid_params (reason ''limit must be int in [1, 1000]''))))"

definition entry_ts :: "dict \<Rightarrow> string option" where
  "entry_ts e = as_str (if truthy (dict_get e ''ts'') then dict_get e ''ts'' else dict_get e ''timestamp'')"

definition entry_ts_for_sort :: "dict \<Rightarrow> string" where
  "entry_ts_for_sort e = (case entry_ts e of None \<Rightarrow> [] | Some s \<Rightarrow> s)"

definition entry_matches :: "audit_filters \<Rightarrow> dict \<Rightarrow> bool" where
  "entry_matches f e \<longleftrightarrow>
     (case af_event f of None \<Rightarrow> True | Some ev \<Rightarrow> dict_get e ''event'' = JStr ev) \<and>
     (case af_principal f of None \<Rightarrow> True
      | Some p \<Rightarrow> dict_get e ''principal'' = JStr p \<or> dict_get e ''drydock_id'' = JStr p) \<and>
     (case af_before f of None \<Rightarrow> True
      | Some b \<Rightarrow> (case entry_ts e of None \<Rightarrow> False | Some ts \<Rightarrow> ts < b))"

definition matching :: "audit_filters \<Rightarrow> dict list \<Rightarrow> dict list" where
  "matching f entries = order_desc entry_ts_for_sort (filter (entry_matches f) entries)"

definition audit_page :: "audit_filters \<Rightarrow> dict list \<Rightarrow> dict list \<times> string option" where
  "audit_page f entries =
    (let ms = matching f entries; page = take (af_limit f) ms
     in (page, if af_limit f < length ms then entry_ts (last page) else None))"

definition get_audit :: "json \<Rightarrow> json op" where
  "get_audit params =
     bind (from_sum (validate_filters params)) (\<lambda>f.
     bind (reads w_audit) (\<lambda>entries.
     let (page, cursor) = audit_page f entries in
       ret (JObj [(''events'', JList (map JObj page)), (''next_before_ts'', jopt cursor)])))"


section \<open>Facts\<close>

lemma filter_order_desc: "filter P (order_desc f xs) = order_desc f (filter P xs)"
  by (simp add: order_desc_def filter_sort flip: rev_filter)

lemma order_desc_strict:
  assumes "distinct (map f xs)"
  shows "sorted_wrt (\<lambda>a b. f b < f a) (order_desc f xs)"
proof -
  have "sorted (map f (sort_key f (rev xs)))" by simp
  moreover have "distinct (map f (sort_key f (rev xs)))"
    using assms by (simp add: distinct_map rev_map [symmetric])
  ultimately have "sorted_wrt (<) (map f (sort_key f (rev xs)))" by (simp add: strict_sorted_iff)
  then show ?thesis by (simp add: order_desc_def sorted_wrt_map sorted_wrt_rev)
qed

lemma below_cut:
  fixes f :: "'a \<Rightarrow> 'b::linorder"
  assumes "sorted_wrt (\<lambda>a b. f b < f a) (xs @ ys)" "xs \<noteq> []"
  shows "filter (\<lambda>e. f e < f (last xs)) (xs @ ys) = ys"
proof -
  have "\<not> f e < f (last xs)" if "e \<in> set xs" for e
    using assms that by (induction xs) (auto simp: sorted_wrt_append split: if_splits dest: less_asym)
  moreover have "f e < f (last xs)" if "e \<in> set ys" for e
    using assms that by (auto simp: sorted_wrt_append)
  ultimately show ?thesis by (simp add: filter_id_conv)
qed

lemma matching_before:
  assumes "entry_matches f e0" "entry_ts e0 = Some c" "entry_ts e \<noteq> None"
  shows "entry_matches (f\<lparr>af_before := Some c\<rparr>) e \<longleftrightarrow> entry_matches f e \<and> entry_ts_for_sort e < c"
  using assms by (auto simp: entry_matches_def entry_ts_for_sort_def split: option.splits)

section \<open>Property\<close>

text \<open>
  (C34) Following the cursor loses nothing and repeats nothing: when every entry has a time of its
  own, the entries a query matches, newest first, are the answered page followed by what the
  same query matches before the cursor, and a missing cursor means that the page is all.
\<close>

theorem audit_pages_partition:
  assumes "audit_page f entries = (page, cursor)" "1 \<le> af_limit f"
    and "\<forall>e\<in>set entries. entry_ts e \<noteq> None" "distinct (map entry_ts_for_sort (filter (entry_matches f) entries))"
  shows "matching f entries = page @ (case cursor of None \<Rightarrow> [] | Some c \<Rightarrow> matching (f\<lparr>af_before := Some c\<rparr>) entries)"
proof -
  let ?ms = "matching f entries" and ?n = "af_limit f"
  have p: "page = take ?n ?ms" "cursor = (if ?n < length ?ms then entry_ts (last page) else None)"
    using assms(1) by (auto simp: audit_page_def Let_def)
  show ?thesis
  proof (cases "?n < length ?ms")
    case False
    then show ?thesis using p by simp
  next
    case True
    then have ne: "page \<noteq> []" using p(1) assms(2) by auto
    then have "last page \<in> set ?ms" using p(1) by (metis in_set_takeD last_in_set)
    then have l: "entry_matches f (last page)" "last page \<in> set entries" by (auto simp: matching_def)
    then obtain c where c: "entry_ts (last page) = Some c" using assms(3) by blast
    then have k: "entry_ts_for_sort (last page) = c" by (simp add: entry_ts_for_sort_def)
    have m: "page @ drop ?n ?ms = ?ms" by (simp add: p(1))
    have "matching (f\<lparr>af_before := Some c\<rparr>) entries =
        order_desc entry_ts_for_sort (filter (\<lambda>e. entry_ts_for_sort e < c) (filter (entry_matches f) entries))"
      unfolding matching_def using matching_before [OF l(1) c] assms(3)
      by (simp add: conj_commute cong: filter_cong)
    also have "\<dots> = filter (\<lambda>e. entry_ts_for_sort e < entry_ts_for_sort (last page)) (page @ drop ?n ?ms)"
      unfolding m k unfolding matching_def by (rule filter_order_desc [symmetric])
    also have "\<dots> = drop ?n ?ms"
    proof (rule below_cut [OF _ ne])
      show "sorted_wrt (\<lambda>a b. entry_ts_for_sort b < entry_ts_for_sort a) (page @ drop ?n ?ms)"
        unfolding m unfolding matching_def by (rule order_desc_strict [OF assms(4)])
    qed
    finally show ?thesis using True p c by simp
  qed
qed

definition sample_log :: "dict list" where
  "sample_log = [[(''ts'', JStr ''1''), (''event'', JStr ''a'')], [(''ts'', JStr ''2''), (''event'', JStr ''b'')]]"

definition sample_filters :: audit_filters where
  "sample_filters = \<lparr>af_limit = 1, af_before = None, af_event = None, af_principal = None\<rparr>"

theorem audit_pages_partition_witness:
  "matching sample_filters sample_log = [sample_log ! 1] @ matching (sample_filters\<lparr>af_before := Some ''2''\<rparr>) sample_log"
proof -
  have "audit_page sample_filters sample_log = ([sample_log ! 1], Some ''2'')" by code_simp
  moreover have "1 \<le> af_limit sample_filters" by code_simp
  moreover have "\<forall>e\<in>set sample_log. entry_ts e \<noteq> None" by code_simp
  moreover have "distinct (map entry_ts_for_sort (filter (entry_matches sample_filters) sample_log))" by code_simp
  ultimately show ?thesis using audit_pages_partition [of sample_filters sample_log] by fastforce
qed

text \<open>Two entries of one time at the edge of a page: the second is on no page.\<close>

lemma audit_pages_lose_ties:
  "let es = [[(''ts'', JStr ''1''), (''event'', JStr ''a'')], [(''ts'', JStr ''1''), (''event'', JStr ''b'')]] in
   audit_page sample_filters es = ([es ! 0], Some ''1'') \<and> matching (sample_filters\<lparr>af_before := Some ''1''\<rparr>) es = []"
  by code_simp

end
