(* ===== verification/Overlay.thy ===== *)
theory Overlay
  imports Desk_Handlers
begin

text \<open>
  core/overlay.py and the part of daemon/handlers.py that fills it in: the devcontainer overlay of
  a desk, merged into the base file of its project. The overlay is made once from the parameters
  of CreateDesk and again from the stored row on every resume. Files, the JSON parser and
  printer, environment variables and SHA-256 are fields of an \<open>overlay_env\<close>; the writer answers
  the path and the document, which a step of the \<open>desk_env\<close> puts on the disk.

  A stored row may hold any JSON, so the fields of a configuration that are passed through are
  JSON values; joining what is no text raises \<^verbatim>\<open>TypeError\<close>. A base file whose document is no
  object is an error of the model (Python would accept a list of pairs).
\<close>

record overlay_env =
  oe_home :: string
  oe_getenv :: "string \<Rightarrow> string"
  oe_sha256_hex :: "string \<Rightarrow> string"
  oe_str :: "json \<Rightarrow> string"
  oe_dumps :: "json \<Rightarrow> string"
  oe_float_repr :: "pyfloat \<Rightarrow> string"
  oe_read :: "string \<Rightarrow> (exn + string) option"
  oe_loads :: "string \<Rightarrow> exn + json"
  oe_resolve :: "string \<Rightarrow> string"

definition oe_text :: "overlay_env \<Rightarrow> json \<Rightarrow> string" where
  "oe_text oe v = (case v of JStr s \<Rightarrow> s | JInt n \<Rightarrow> show_int n | _ \<Rightarrow> oe_str oe v)"

section \<open>The configuration\<close>

record OverlayConfig =
  oc_secrets_host_dir :: string
  oc_secrets_container_dir :: string
  oc_firewall_extra_domains :: "json list"
  oc_firewall_ipv6_hosts :: "json list"
  oc_firewall_aws_ip_ranges :: "json list"
  oc_tailscale_hostname :: json
  oc_tailscale_authkey :: string
  oc_tailscale_serve_port :: json
  oc_tailscale_advertise_tags :: "json list"
  oc_remote_control_name :: json
  oc_extra_env :: dict
  oc_extra_mounts :: "json list"
  oc_storage_mounts :: "json list"
  oc_forward_ports :: "json list"
  oc_claude_profile :: json
  oc_wsd_run_host_dir :: string
  oc_drydock_rpc_host_path :: string
  oc_resources_hard :: dict
  oc_egress_proxy :: string
  oc_proxy_config_host_dir :: json
  oc_role :: string
  oc_audit_log_host_path :: string
  oc_registry_db_host_path :: string

definition default_config :: "overlay_env \<Rightarrow> OverlayConfig" where
  "default_config oe =
    (let base = oe_home oe @ ''/.drydock'' in
     \<lparr>oc_secrets_host_dir = base @ ''/secrets'', oc_secrets_container_dir = ''/run/secrets'',
      oc_firewall_extra_domains = [], oc_firewall_ipv6_hosts = [], oc_firewall_aws_ip_ranges = [],
      oc_tailscale_hostname = JStr [], oc_tailscale_authkey = [], oc_tailscale_serve_port = JInt 3000,
      oc_tailscale_advertise_tags = [], oc_remote_control_name = JStr [], oc_extra_env = [],
      oc_extra_mounts = [], oc_storage_mounts = [], oc_forward_ports = [], oc_claude_profile = JStr [],
      oc_wsd_run_host_dir = base @ ''/run'', oc_drydock_rpc_host_path = base @ ''/bin/drydock-rpc'',
      oc_resources_hard = [], oc_egress_proxy = ''disabled'', oc_proxy_config_host_dir = JNull,
      oc_role = ''worker'', oc_audit_log_host_path = base @ ''/audit.log'',
      oc_registry_db_host_path = base @ ''/registry.db''\<rparr>)"

section \<open>From the parameters of CreateDesk\<close>

text \<open>A field of the specification when it is a text, an integer, a list or an object.\<close>

definition text_field :: "dict \<Rightarrow> string \<Rightarrow> json \<Rightarrow> json" where
  "text_field s k dflt = (case dict_get s k of JStr t \<Rightarrow> JStr t | _ \<Rightarrow> dflt)"

definition int_field :: "dict \<Rightarrow> string \<Rightarrow> json \<Rightarrow> json" where
  "int_field s k dflt = (if as_int (dict_get s k) \<noteq> None then dict_get s k else dflt)"

definition list_field :: "dict \<Rightarrow> string \<Rightarrow> json list" where
  "list_field s k = (case dict_get s k of JList xs \<Rightarrow> xs | _ \<Rightarrow> [])"

definition obj_field :: "dict \<Rightarrow> string \<Rightarrow> dict" where
  "obj_field s k = (case dict_get s k of JObj d \<Rightarrow> d | _ \<Rightarrow> [])"

definition overlay_from_spec :: "overlay_env \<Rightarrow> dict \<Rightarrow> OverlayConfig" where
  "overlay_from_spec oe s =
    (default_config oe)
     \<lparr>oc_tailscale_hostname := text_field s ''tailscale_hostname'' (JStr []),
      oc_tailscale_serve_port := int_field s ''tailscale_serve_port'' (JInt 3000),
      oc_tailscale_authkey := (case dict_get s ''tailscale_authkey_env_var'' of JStr v \<Rightarrow> oe_getenv oe v | _ \<Rightarrow> []),
      oc_remote_control_name := text_field s ''remote_control_name'' (JStr []),
      oc_firewall_extra_domains := list_field s ''firewall_extra_domains'',
      oc_firewall_ipv6_hosts := list_field s ''firewall_ipv6_hosts'',
      oc_firewall_aws_ip_ranges := list_field s ''firewall_aws_ip_ranges'',
      oc_forward_ports := list_field s ''forward_ports'',
      oc_claude_profile := text_field s ''claude_profile'' (JStr []),
      oc_extra_env := obj_field s ''extra_env'',
      oc_storage_mounts := list_field s ''storage_mounts'',
      oc_resources_hard := obj_field s ''resources_hard'',
      oc_egress_proxy := (case dict_get s ''egress_proxy'' of JStr t \<Rightarrow> lower t | _ \<Rightarrow> ''disabled''),
      oc_proxy_config_host_dir :=
        (if dict_get s ''egress_proxy'' = JStr ''enabled'' then JStr (oe_home oe @ ''/.drydock/proxy'') else JNull),
      oc_role := (case dict_get s ''role'' of JStr t \<Rightarrow> lower t | _ \<Rightarrow> ''worker'')\<rparr>"

section \<open>The overlay\<close>

definition short_id :: "overlay_env \<Rightarrow> drydock_row \<Rightarrow> string" where
  "short_id oe ws = take 6 (oe_sha256_hex oe (dd_id ws))"

definition default_identity :: "overlay_env \<Rightarrow> drydock_row \<Rightarrow> string" where
  "default_identity oe ws = dd_name ws @ ''-'' @ short_id oe ws"

definition or_identity :: "overlay_env \<Rightarrow> drydock_row \<Rightarrow> json \<Rightarrow> json" where
  "or_identity oe ws v = (if truthy v then v else JStr (default_identity oe ws))"

text \<open>A variable that holds a joined list, absent when the list is empty.\<close>

definition joined_entry :: "string \<Rightarrow> string \<Rightarrow> json list \<Rightarrow> exn + dict" where
  "joined_entry k sep xs =
    (if xs = [] then Inr []
     else (case map_all as_str xs of
             None \<Rightarrow> Inl (PyError ''TypeError'' ''sequence item: expected str instance'')
           | Some ss \<Rightarrow> Inr [(k, JStr (join sep ss))]))"

definition only_if :: "bool \<Rightarrow> 'a list \<Rightarrow> 'a list" where
  "only_if b xs = (if b then xs else [])"

definition proxy_variables :: dict where
  "proxy_variables =
    (let url = JStr ''http://127.0.0.1:4750''; direct = JStr ''localhost,127.0.0.1,100.64.0.0/10'' in
     [(''EGRESS_PROXY_ENABLED'', JStr ''1''), (''HTTP_PROXY'', url), (''HTTPS_PROXY'', url), (''http_proxy'', url),
      (''https_proxy'', url), (''NO_PROXY'', direct), (''no_proxy'', direct)])"

definition build_container_env :: "overlay_env \<Rightarrow> drydock_row \<Rightarrow> OverlayConfig \<Rightarrow> exn + dict" where
  "build_container_env oe ws c =
     sbind (joined_entry ''TAILSCALE_ADVERTISE_TAGS'' '','' (oc_tailscale_advertise_tags c)) (\<lambda>tags.
     sbind (joined_entry ''FIREWALL_EXTRA_DOMAINS'' '' '' (oc_firewall_extra_domains c)) (\<lambda>domains.
     sbind (joined_entry ''FIREWALL_IPV6_HOSTS'' '' '' (oc_firewall_ipv6_hosts c)) (\<lambda>ipv6.
     sbind (joined_entry ''FIREWALL_AWS_IP_RANGES'' '' '' (oc_firewall_aws_ip_ranges c)) (\<lambda>aws.
     Inr (dict_update
       ([(''TAILSCALE_HOSTNAME'', or_identity oe ws (oc_tailscale_hostname c))] @
        only_if (oc_tailscale_authkey c \<noteq> []) [(''TAILSCALE_AUTHKEY'', JStr (oc_tailscale_authkey c))] @
        [(''TAILSCALE_SERVE_PORT'', JStr (oe_text oe (oc_tailscale_serve_port c)))] @ tags @
        [(''REMOTE_CONTROL_NAME'', or_identity oe ws (oc_remote_control_name c))] @ domains @ ipv6 @ aws @
        only_if (oc_egress_proxy c = ''enabled'') proxy_variables @
        only_if (oc_storage_mounts c \<noteq> []) [(''STORAGE_MOUNTS_JSON'', JStr (oe_dumps oe (JList (oc_storage_mounts c))))] @
        [(''DRYDOCK_WORKSPACE_ID'', JStr (dd_id ws)), (''DRYDOCK_WORKSPACE_NAME'', JStr (dd_name ws)),
         (''DRYDOCK_PROJECT'', JStr (dd_project ws))] @
        only_if (dd_workspace_subdir ws \<noteq> []) [(''DRYDOCK_WORKSPACE_SUBDIR'', JStr (dd_workspace_subdir ws))] @
        only_if (oc_wsd_run_host_dir c \<noteq> []) [(''DRYDOCK_DAEMON_SOCKET'', JStr ''/run/drydock/daemon.sock'')] @
        only_if (oc_role c = ''auditor'')
          [(''DRYDOCK_DAEMON_REGISTRY'', JStr ''/var/lib/drydock/registry.db''),
           (''DRYDOCK_AUDIT_LOG'', JStr ''/var/log/drydock/audit.log'')])
       (oc_extra_env c))))))"

definition mount :: "string \<Rightarrow> string \<Rightarrow> string \<Rightarrow> string" where
  "mount source target kind = ''source='' @ source @ '',target='' @ target @ '',type='' @ kind"

definition own_mounts :: "overlay_env \<Rightarrow> drydock_row \<Rightarrow> OverlayConfig \<Rightarrow> string list" where
  "own_mounts oe ws c =
     [mount (join_path (oc_secrets_host_dir c) (dd_id ws)) (oc_secrets_container_dir c) ''bind,readonly''] @
     only_if (oc_wsd_run_host_dir c \<noteq> []) [mount (oc_wsd_run_host_dir c) ''/run/drydock'' ''bind''] @
     only_if (oc_drydock_rpc_host_path c \<noteq> [])
       [mount (oc_drydock_rpc_host_path c) ''/usr/local/bin/drydock-rpc'' ''bind,readonly''] @
     only_if (oc_egress_proxy c = ''enabled'' \<and> truthy (oc_proxy_config_host_dir c))
       [mount (oe_text oe (oc_proxy_config_host_dir c)) ''/run/drydock/proxy'' ''bind,readonly''] @
     only_if (oc_role c = ''auditor'')
       [mount (oc_audit_log_host_path c) ''/var/log/drydock/audit.log'' ''bind,readonly'',
        mount (oc_registry_db_host_path c) ''/var/lib/drydock/registry.db'' ''bind,readonly''] @
     [mount (if truthy (oc_claude_profile c) then ''claude-code-config-'' @ oe_text oe (oc_claude_profile c)
             else ''claude-code-config'') ''/home/node/.claude'' ''volume'',
      mount ''claude-code-bashhistory-${devcontainerId}'' ''/commandhistory'' ''volume'',
      mount ''tailscale-state-${devcontainerId}'' ''/tmp/tailscale'' ''volume'',
      mount ''drydock-vscode-server'' ''/home/node/.vscode-server'' ''volume'',
      mount ''drydock-npm-cache'' ''/home/node/.npm'' ''volume'',
      mount ''drydock-pip-cache'' ''/home/node/.cache/pip'' ''volume'',
      mount ''${localEnv:HOME}/.gitconfig'' ''/home/node/.gitconfig'' ''bind,readonly'']"

definition build_mounts :: "overlay_env \<Rightarrow> drydock_row \<Rightarrow> OverlayConfig \<Rightarrow> json list" where
  "build_mounts oe ws c = map JStr (own_mounts oe ws c) @ oc_extra_mounts c"

definition ceiling_args :: "overlay_env \<Rightarrow> dict \<Rightarrow> exn + string list" where
  "ceiling_args oe d =
    (if d = [] then Inr []
     else (case from_dict (JObj d) of
             Inl CpuOverflow \<Rightarrow> Inl (PyError ''OverflowError'' [])
           | Inl _ \<Rightarrow> Inl (PyError ''ResourceCeilingError'' [])
           | Inr h \<Rightarrow> Inr (to_docker_runargs (oe_float_repr oe) h)))"

definition generate_overlay :: "overlay_env \<Rightarrow> drydock_row \<Rightarrow> OverlayConfig \<Rightarrow> exn + dict" where
  "generate_overlay oe ws c =
     sbind (ceiling_args oe (oc_resources_hard c)) (\<lambda>ceilings.
     sbind (build_container_env oe ws c) (\<lambda>container_env.
     Inr ([(''name'', JStr (dd_name ws)),
        (''runArgs'', jstrs ([''--hostname='' @ oe_text oe (or_identity oe ws (oc_tailscale_hostname c))] @
           only_if (oc_storage_mounts c \<noteq> [])
             [''--cap-add=SYS_ADMIN'', ''--device=/dev/fuse'', ''--security-opt=apparmor=unconfined''] @ ceilings))] @
       only_if (dd_workspace_subdir ws \<noteq> []) [(''workspaceFolder'', JStr (''/workspace/'' @ dd_workspace_subdir ws))] @
       [(''containerEnv'', JObj container_env), (''mounts'', JList (build_mounts oe ws c))] @
       only_if (oc_forward_ports c \<noteq> []) [(''forwardPorts'', JList (oc_forward_ports c))])))"

section \<open>Merging into the base file\<close>

text \<open>What follows the first end of a block comment.\<close>

fun after_block :: "string \<Rightarrow> string option" where
  "after_block (a # b # s) = (if a = CHR ''*'' \<and> b = CHR ''/'' then Some s else after_block (b # s))"
| "after_block _ = None"

lemma after_block_shorter: "after_block s = Some t \<Longrightarrow> length t < length s"
  by (induction s rule: after_block.induct) (auto split: if_splits)

function strip_blocks :: "string \<Rightarrow> string" where
  "strip_blocks [] = []"
| "strip_blocks (a # s) =
    (if a = CHR ''/'' \<and> prefix ''*'' s
     then (case after_block (tl s) of Some t \<Rightarrow> strip_blocks t | None \<Rightarrow> a # strip_blocks s)
     else a # strip_blocks s)"
  by pat_completeness auto
termination
  by (relation "measure length") (auto dest!: after_block_shorter)

function strip_line_comments :: "string \<Rightarrow> string" where
  "strip_line_comments [] = []"
| "strip_line_comments (a # s) =
    (if a = CHR ''/'' \<and> prefix ''/'' s then strip_line_comments (dropWhile (\<lambda>c. c \<noteq> CHR 0x0A) s)
     else a # strip_line_comments s)"
  by pat_completeness auto
termination
  by (relation "measure length") (auto simp: le_imp_less_Suc length_dropWhile_le)

definition strip_jsonc_comments :: "string \<Rightarrow> string" where
  "strip_jsonc_comments text = strip_line_comments (strip_blocks text)"

definition mount_target :: "string \<Rightarrow> string option" where
  "mount_target m = map_option (drop 7) (find (prefix ''target='') (split_on (CHR '','') m))"

text \<open>A mount of the base file may also be an object, which has no \<^verbatim>\<open>split\<close>.\<close>

definition dedup_mounts :: "json list \<Rightarrow> json list \<Rightarrow> exn + json list" where
  "dedup_mounts base overlay =
    (case (map_all as_str overlay, map_all as_str base) of
       (Some os, Some bs) \<Rightarrow>
         Inr (map JStr (filter (\<lambda>m. mount_target m \<notin> set (map mount_target os)) bs) @ overlay)
     | _ \<Rightarrow> Inl (PyError ''AttributeError'' ''split''))"

text \<open>Values a Python set can hold, by the key it compares them with: \<^verbatim>\<open>True == 1\<close>.\<close>

definition hash_key :: "json \<Rightarrow> json option" where
  "hash_key v = (case v of JList xs \<Rightarrow> None | JObj d \<Rightarrow> None | JBool b \<Rightarrow> Some (JInt (if b then 1 else 0)) | _ \<Rightarrow> Some v)"

fun merge_ports :: "json list \<Rightarrow> json list \<Rightarrow> exn + json list" where
  "merge_ports seen [] = Inr []"
| "merge_ports seen (port # ports) =
    (case hash_key port of
       None \<Rightarrow> Inl (PyError ''TypeError'' ''unhashable type'')
     | Some k \<Rightarrow>
         if k \<in> set seen then merge_ports seen ports
         else sbind (merge_ports (k # seen) ports) (\<lambda>merged. Inr (port # merged)))"

definition base_list :: "dict \<Rightarrow> string \<Rightarrow> exn + json list" where
  "base_list d k = py_list (dict_get_default d k (JList []))"

definition base_object :: "dict \<Rightarrow> string \<Rightarrow> exn + dict" where
  "base_object d k =
    (case dict_get_default d k (JObj []) of JObj o' \<Rightarrow> Inr o' | _ \<Rightarrow> Inl (PyError ''TypeError'' ''not a mapping''))"

text \<open>One turn of the loop over the overlay.\<close>

definition merge_entry :: "dict \<Rightarrow> string \<times> json \<Rightarrow> exn + dict" where
  "merge_entry composite entry =
    (let (key, value) = entry; put = (\<lambda>v. AList.update key v composite) in
     if key = ''containerEnv'' then
       sbind (base_object composite key) (\<lambda>b. Inr (put (JObj (dict_update b (case value of JObj d \<Rightarrow> d | _ \<Rightarrow> [])))))
     else if key = ''mounts'' then
       sbind (base_list composite key) (\<lambda>b.
       sbind (py_list value) (\<lambda>o'.
       sbind (dedup_mounts b o') (\<lambda>ms. Inr (put (JList ms)))))
     else if key = ''forwardPorts'' then
       sbind (base_list composite key) (\<lambda>b.
       sbind (py_list value) (\<lambda>o'.
       sbind (merge_ports [] (b @ o')) (\<lambda>ps. Inr (put (JList ps)))))
     else if key = ''runArgs'' then
       sbind (base_list composite key) (\<lambda>b. sbind (py_list value) (\<lambda>o'. Inr (put (JList (b @ o')))))
     else Inr (put value))"

fun merge_entries :: "dict \<Rightarrow> dict \<Rightarrow> exn + dict" where
  "merge_entries composite [] = Inr composite"
| "merge_entries composite (entry # entries) = sbind (merge_entry composite entry) (\<lambda>c. merge_entries c entries)"

text \<open>\<^verbatim>\<open>Path(p).parent\<close> of a path with a directory.\<close>

definition path_parent :: "string \<Rightarrow> string" where
  "path_parent p = rev (tl (dropWhile (\<lambda>c. c \<noteq> CHR ''/'') (rev p)))"

definition anchored :: "overlay_env \<Rightarrow> string \<Rightarrow> string \<Rightarrow> dict \<Rightarrow> dict" where
  "anchored oe base_path key build =
    (case dict_get build key of
       JStr p \<Rightarrow> if prefix ''/'' p then build
                else AList.update key (JStr (oe_resolve oe (join_path (path_parent base_path) p))) build
     | _ \<Rightarrow> build)"

definition anchor_build :: "overlay_env \<Rightarrow> string \<Rightarrow> dict \<Rightarrow> dict" where
  "anchor_build oe base_path composite =
    (case dict_get composite ''build'' of
       JObj build \<Rightarrow> AList.update ''build''
         (JObj (anchored oe base_path ''context'' (anchored oe base_path ''dockerfile'' build))) composite
     | _ \<Rightarrow> composite)"

definition merge_into_base :: "overlay_env \<Rightarrow> string \<Rightarrow> dict \<Rightarrow> exn + dict" where
  "merge_into_base oe base_path overlay =
    (case oe_read oe base_path of
       None \<Rightarrow> Inl (WsError (''Base devcontainer.json not found at '' @ base_path)
                 (Some (''Create '' @ base_path @ '', or check workspace_subdir in the project YAML'')))
     | Some raw \<Rightarrow>
         sbind raw (\<lambda>text.
         sbind (oe_loads oe (strip_jsonc_comments text)) (\<lambda>document.
         case document of
           JObj base \<Rightarrow> sbind (merge_entries base overlay) (\<lambda>composite. Inr (anchor_build oe base_path composite))
         | _ \<Rightarrow> Inl (PyError ''TypeError'' ''dict''))))"

definition write_overlay ::
    "overlay_env \<Rightarrow> drydock_row \<Rightarrow> string \<Rightarrow> OverlayConfig \<Rightarrow> string \<Rightarrow> exn + string \<times> dict" where
  "write_overlay oe ws output_dir c base_path =
     sbind (generate_overlay oe ws c) (\<lambda>overlay.
     sbind (merge_into_base oe base_path overlay) (\<lambda>composite.
     Inr (join_path output_dir (dd_id ws @ ''.devcontainer.json''), composite)))"

section \<open>From the stored row\<close>

text \<open>\<^verbatim>\<open>list(cfg[key])\<close> and \<^verbatim>\<open>dict(cfg[key])\<close> where \<^verbatim>\<open>cfg.get(key)\<close> is true.\<close>

definition stored_list :: "dict \<Rightarrow> string \<Rightarrow> exn + json list" where
  "stored_list cfg k = (if truthy (dict_get cfg k) then py_list (dict_get cfg k) else Inr [])"

definition stored_dict :: "dict \<Rightarrow> string \<Rightarrow> exn + dict" where
  "stored_dict cfg k =
    (if truthy (dict_get cfg k)
     then (case dict_get cfg k of JObj d \<Rightarrow> Inr d | _ \<Rightarrow> Inl (PyError ''TypeError'' ''dict'')) else Inr [])"

definition stored_value :: "dict \<Rightarrow> string \<Rightarrow> json \<Rightarrow> json" where
  "stored_value cfg k dflt = (if truthy (dict_get cfg k) then dict_get cfg k else dflt)"

definition overlay_from_row :: "overlay_env \<Rightarrow> dict \<Rightarrow> exn + OverlayConfig" where
  "overlay_from_row oe cfg =
     sbind (stored_list cfg ''firewall_extra_domains'') (\<lambda>domains.
     sbind (stored_list cfg ''firewall_ipv6_hosts'') (\<lambda>ipv6.
     sbind (stored_list cfg ''firewall_aws_ip_ranges'') (\<lambda>aws.
     sbind (stored_list cfg ''forward_ports'') (\<lambda>ports.
     sbind (stored_list cfg ''extra_mounts'') (\<lambda>mounts.
     sbind (stored_dict cfg ''extra_env'') (\<lambda>extra_env.
     sbind (stored_list cfg ''storage_mounts'') (\<lambda>storage.
     sbind (stored_dict cfg ''resources_hard'') (\<lambda>hard.
     Inr ((default_config oe)
       \<lparr>oc_tailscale_hostname := stored_value cfg ''tailscale_hostname'' (JStr []),
        oc_tailscale_serve_port := stored_value cfg ''tailscale_serve_port'' (JInt 3000),
        oc_remote_control_name := stored_value cfg ''remote_control_name'' (JStr []),
        oc_firewall_extra_domains := domains, oc_firewall_ipv6_hosts := ipv6, oc_firewall_aws_ip_ranges := aws,
        oc_forward_ports := ports, oc_claude_profile := stored_value cfg ''claude_profile'' (JStr []),
        oc_extra_mounts := mounts, oc_extra_env := extra_env, oc_storage_mounts := storage, oc_resources_hard := hard,
        oc_egress_proxy := lower (oe_text oe (stored_value cfg ''egress_proxy'' (JStr ''disabled''))),
        oc_proxy_config_host_dir := stored_value cfg ''proxy_config_host_dir'' JNull,
        oc_role := lower (oe_text oe (stored_value cfg ''role'' (JStr ''worker'')))\<rparr>)))))))))"

text \<open>The base file of a resume; that of a create is in \<^const>\<open>build_desk\<close>.\<close>

definition base_of_row :: "overlay_env \<Rightarrow> drydock_row \<Rightarrow> string" where
  "base_of_row oe ws =
    (let explicit = dict_get (dd_config ws) ''devcontainer_subpath'';
         subpath = (if truthy explicit then oe_text oe explicit
                    else if dd_workspace_subdir ws \<noteq> [] then join_path (dd_workspace_subdir ws) ''.devcontainer''
                    else ''.devcontainer'')
     in join_path (join_path (dd_worktree_path ws) subpath) ''devcontainer.json'')"

definition regenerate_overlay_from_drydock :: "overlay_env \<Rightarrow> drydock_row \<Rightarrow> string option \<Rightarrow> exn + string \<times> dict" where
  "regenerate_overlay_from_drydock oe ws overlay_dir =
     sbind (overlay_from_row oe (dd_config ws)) (\<lambda>c.
     if dd_worktree_path ws = [] then
       Inl (WsError (''Cannot regenerate overlay for '' @ quoted (dd_name ws) @ '': worktree_path unset in registry'')
         (Some (''Rebuild from clean state: ws create '' @ dd_project ws @ '' '' @ dd_name ws @ '' --force'')))
     else
       let stored = dict_get (dd_config ws) ''overlay_path'';
           dir = (case overlay_dir of
                    Some d \<Rightarrow> d
                  | None \<Rightarrow> if truthy stored then path_parent (oe_text oe stored) else oe_home oe @ ''/.drydock/overlays'')
       in write_overlay oe ws dir c (base_of_row oe ws))"

section \<open>Facts\<close>

end
