(* ===== verification/Overlay_Facts.thy ===== *)
theory Overlay_Facts
  imports Overlay Sample
begin

text \<open>
  What the overlay promises. Whatever the base file of a project mounts, the secret directory of
  the container is the one of the desk; a resume rebuilds from the stored row the configuration
  the create had, except for three fields; and the role that mounts the registry of the daemon is
  no part of what SpawnChild compares.
\<close>

section \<open>Types of the stored fields\<close>

lemma map_of_dict_update: "map_of (dict_update d e) = map_of d ++ map_of (rev e)"
proof (induction e arbitrary: d)
  case (Cons p e)
  obtain k v where p: "p = (k, v)" by fastforce
  have "map_of (dict_update d (p # e)) = map_of (dict_update (AList.update k v d) e)"
    by (simp add: dict_update_def p)
  also have "\<dots> = map_of (AList.update k v d) ++ map_of (rev e)" by (rule Cons.IH)
  finally show ?case by (simp add: p update_conv' map_add_def fun_eq_iff split: option.splits)
qed (simp add: dict_update_def)


datatype field_kind = OptText | OptInt | Items | Fields | Words "string list"

fun has_kind :: "field_kind \<Rightarrow> json \<Rightarrow> bool" where
  "has_kind OptText v = (v = JNull \<or> as_str v \<noteq> None)"
| "has_kind OptInt v = (v = JNull \<or> as_int v \<noteq> None)"
| "has_kind Items v = (as_list v \<noteq> None)"
| "has_kind Fields v = (as_obj v \<noteq> None)"
| "has_kind (Words ws) v = (\<exists>w\<in>set ws. v = JStr w)"

definition overlay_fields :: "(string \<times> field_kind) list" where
  "overlay_fields =
     [(''tailscale_hostname'', OptText), (''tailscale_serve_port'', OptInt), (''tailscale_authkey_env_var'', OptText),
      (''remote_control_name'', OptText), (''firewall_extra_domains'', Items), (''firewall_ipv6_hosts'', Items),
      (''firewall_aws_ip_ranges'', Items), (''forward_ports'', Items), (''claude_profile'', OptText),
      (''extra_env'', Fields), (''storage_mounts'', Items), (''resources_hard'', Fields),
      (''egress_proxy'', Words [''disabled'', ''enabled'']), (''role'', Words [''worker'', ''auditor''])]"

definition overlay_typed :: "dict \<Rightarrow> bool" where
  "overlay_typed s \<longleftrightarrow> list_all2 (\<lambda>(k, v) (k', kind). k = k' \<and> has_kind kind v) s overlay_fields"

lemma typed_keys: "overlay_typed s \<Longrightarrow> map fst s = map fst overlay_fields"
  unfolding overlay_typed_def by (induction rule: list_all2_induct) auto

lemma typed_value:
  "list_all2 (\<lambda>(k, v) (k', kind). k = k' \<and> has_kind kind v) s fs \<Longrightarrow> distinct (map fst fs) \<Longrightarrow> (k, kind) \<in> set fs \<Longrightarrow>
   has_kind kind (dict_get s k)"
proof (induction rule: list_all2_induct)
  case (Cons p s q fs)
  then show ?case by (cases p; cases q) (auto simp: dict_get_def image_iff)
qed simp

lemma typed_field:
  assumes "overlay_typed s" "(k, kind) \<in> set overlay_fields"
  shows "has_kind kind (dict_get s k)" "k \<in> set (map fst s)"
proof -
  have "distinct (map fst overlay_fields)" by code_simp
  then show "has_kind kind (dict_get s k)" using typed_value assms unfolding overlay_typed_def by metis
  show "k \<in> set (map fst s)" using assms(2) unfolding typed_keys [OF assms(1)] by force
qed

lemma validated_choice_Inr: "validated_choice v k a b why = Inr x \<Longrightarrow> x = a \<or> x = b"
  by (auto simp: validated_choice_def Let_def split: if_splits)

lemma validated_optional_string_Inr: "validated_optional_string v k = Inr x \<Longrightarrow> x = JNull \<or> as_str x \<noteq> None"
  by (auto simp: validated_optional_string_def split: if_splits)

lemma validated_optional_int_Inr: "validated_optional_int v k = Inr x \<Longrightarrow> x = JNull \<or> as_int x \<noteq> None"
  by (auto simp: validated_optional_int_def split: if_splits)

lemmas validated_Inr = validated_choice_Inr validated_optional_string_Inr validated_optional_int_Inr

lemma validated_spec_typed:
  assumes "validated_spec params = Inr spec"
  shows "overlay_typed (ds_overlay spec)"
  using assms
  apply (simp add: validated_spec_def Let_def split: if_splits)
  apply (elim exE conjE)
  apply (hypsubst | drule sym)
  apply (simp add: overlay_typed_def overlay_fields_def)
  using validated_Inr
  apply blast
  done

lemma map_of_rev_distinct: "distinct (map fst xs) \<Longrightarrow> map_of (rev xs) = map_of xs"
  by (subst map_of_inject_set) (simp_all add: rev_map [symmetric])

lemma map_of_filter_value:
  "distinct (map fst d) \<Longrightarrow> map_of (filter (\<lambda>(k, v). P v) d) k = (case map_of d k of None \<Rightarrow> None | Some v \<Rightarrow> if P v then Some v else None)"
proof (induction d)
  case (Cons p d)
  obtain a v where "p = (a, v)" by fastforce
  with Cons show ?case by (auto simp: map_of_eq_None_iff split: option.splits)
qed simp

lemma stored_field:
  assumes "overlay_typed (ds_overlay spec)"
  shows "dict_get (stored_config overlay spec) k =
    (if k \<in> set (map fst (ds_overlay spec))
     then (if dict_get (ds_overlay spec) k = JList [] then JNull else dict_get (ds_overlay spec) k)
     else dict_get [(''overlay_path'', JStr overlay), (''devcontainer_subpath'', JStr (ds_devcontainer_subpath spec)),
            (''extra_mounts'', jstrs (ds_extra_mounts spec))] k)"
proof -
  let ?s = "ds_overlay spec"
  have d: "distinct (map fst ?s)" and keys: "''overlay_path'' \<notin> set (map fst ?s)" "''devcontainer_subpath'' \<notin> set (map fst ?s)"
      "''extra_mounts'' \<notin> set (map fst ?s)"
    unfolding typed_keys [OF assms] by (code_simp+)
  have d': "distinct (map fst (overlay_config_data spec))"
    unfolding overlay_config_data_def using d by (rule distinct_map_filter)
  have "map_of (stored_config overlay spec) k =
      (case map_of (overlay_config_data spec) k of
         None \<Rightarrow> map_of [(''overlay_path'', JStr overlay), (''devcontainer_subpath'', JStr (ds_devcontainer_subpath spec)),
            (''extra_mounts'', jstrs (ds_extra_mounts spec))] k
       | Some v \<Rightarrow> Some v)"
    unfolding stored_config_def map_of_dict_update map_of_rev_distinct [OF d'] map_add_def by simp
  also have "map_of (overlay_config_data spec) k =
      (case map_of ?s k of None \<Rightarrow> None | Some v \<Rightarrow> if v \<noteq> JNull \<and> v \<noteq> JList [] then Some v else None)"
    unfolding overlay_config_data_def by (rule map_of_filter_value [OF d])
  finally have m: "map_of (stored_config overlay spec) k = (case (case map_of ?s k of None \<Rightarrow> None
      | Some v \<Rightarrow> if v \<noteq> JNull \<and> v \<noteq> JList [] then Some v else None) of
         None \<Rightarrow> map_of [(''overlay_path'', JStr overlay), (''devcontainer_subpath'', JStr (ds_devcontainer_subpath spec)),
            (''extra_mounts'', jstrs (ds_extra_mounts spec))] k
       | Some v \<Rightarrow> Some v)" .
  show ?thesis
  proof (cases "map_of ?s k")
    case None
    then have "k \<notin> set (map fst ?s)" by (simp add: map_of_eq_None_iff)
    then show ?thesis using m None by (simp add: dict_get_def)
  next
    case (Some v)
    then have "k \<in> set (map fst ?s)" by (force dest: map_of_SomeD)
    moreover from this have "k \<noteq> ''overlay_path''" "k \<noteq> ''devcontainer_subpath''" "k \<noteq> ''extra_mounts''" using keys by metis+
    ultimately show ?thesis using m Some by (simp add: dict_get_def)
  qed
qed

section \<open>Properties\<close>

text \<open>
  (C36) A resume rebuilds the overlay configuration from the stored row exactly as the create made it
  from the parameters, but for three fields: the tailscale key is gone, the extra mounts, which
  the create left out, are there, and the directory of the egress allowlists, which the create
  mounted, is not. (A serve port of zero, which the row cannot tell from a missing one, is left
  out.)
\<close>

theorem regenerated_overlay:
  assumes "validated_spec params = Inr spec"
    and "dict_get (ds_overlay spec) ''tailscale_serve_port'' = JNull \<or> truthy (dict_get (ds_overlay spec) ''tailscale_serve_port'')"
  shows "overlay_from_row oe (stored_config overlay spec) =
    Inr ((overlay_from_spec oe (ds_overlay spec))
      \<lparr>oc_tailscale_authkey := [], oc_extra_mounts := map JStr (ds_extra_mounts spec), oc_proxy_config_host_dir := JNull\<rparr>)"
proof -
  let ?s = "ds_overlay spec" and ?c = "stored_config overlay spec"
  have t: "overlay_typed ?s" using assms(1) by (rule validated_spec_typed)
  note k = stored_field [OF t, of overlay] and f = typed_field [OF t]
  have n: "''extra_mounts'' \<notin> set (map fst ?s)" "''proxy_config_host_dir'' \<notin> set (map fst ?s)"
    unfolding typed_keys [OF t] by (code_simp+)
  have l: "(x, Items) \<in> set overlay_fields \<Longrightarrow> stored_list ?c x = Inr (list_field ?s x)" for x
    using f [of x Items] unfolding stored_list_def list_field_def k by (cases "dict_get ?s x") auto
  have d: "(x, Fields) \<in> set overlay_fields \<Longrightarrow> stored_dict ?c x = Inr (obj_field ?s x)" for x
    using f [of x Fields] unfolding stored_dict_def obj_field_def k by (cases "dict_get ?s x") auto
  have v: "(x, OptText) \<in> set overlay_fields \<Longrightarrow> stored_value ?c x (JStr []) = text_field ?s x (JStr [])" for x
    using f [of x OptText] unfolding stored_value_def text_field_def k by (cases "dict_get ?s x") auto
  have c: "(x, Words [a, b]) \<in> set overlay_fields \<Longrightarrow>
      lower (oe_text oe (stored_value ?c x (JStr a))) = (case dict_get ?s x of JStr t \<Rightarrow> lower t | _ \<Rightarrow> a)" if "a \<noteq> []" "b \<noteq> []" for x a b
    using f [of x "Words [a, b]"] that unfolding stored_value_def oe_text_def k by (cases "dict_get ?s x") auto
  have p: "stored_value ?c ''tailscale_serve_port'' (JInt 3000) = int_field ?s ''tailscale_serve_port'' (JInt 3000)"
    using f [of "''tailscale_serve_port''" OptInt] assms(2) unfolding stored_value_def int_field_def k
    by (cases "dict_get ?s ''tailscale_serve_port''") (auto simp: overlay_fields_def)
  have m: "stored_list ?c ''extra_mounts'' = Inr (map JStr (ds_extra_mounts spec))"
    unfolding stored_list_def k using n(1) by (simp add: dict_get_def)
  have x: "stored_value ?c ''proxy_config_host_dir'' JNull = JNull"
    unfolding stored_value_def k using n(2) by (simp add: dict_get_def)
  show ?thesis
    unfolding overlay_from_row_def overlay_from_spec_def default_config_def Let_def p m x
    by (simp add: l d v c [of "''disabled''" "''enabled''" "''egress_proxy''"] c [of "''worker''" "''auditor''" "''role''"]
      overlay_fields_def)
qed

definition sample_overlay_env :: overlay_env where
  "sample_overlay_env = \<lparr>oe_home = ''/h'', oe_getenv = (\<lambda>v. ''key''), oe_sha256_hex = (\<lambda>s. ''0123456789''), oe_str = (\<lambda>v. []),
     oe_dumps = (\<lambda>v. ''{}''), oe_float_repr = (\<lambda>f. []), oe_read = (\<lambda>p. Some (Inr ''{}'')),
     oe_loads = (\<lambda>s. Inr (JObj [(''mounts'', jstrs [''source=x,target=/run/secrets,type=bind'', ''source=y,target=/y,type=bind''])])),
     oe_resolve = (\<lambda>p. p)\<rparr>"

definition sample_create :: json where
  "sample_create = JObj [(''project'', JStr ''p''), (''name'', JStr ''n''), (''egress_proxy'', JStr ''enabled''),
     (''extra_mounts'', jstrs [''source=/d,target=/d,type=bind'']), (''role'', JStr ''auditor'')]"

lemma validated_sample:
  "case validated_spec sample_create of Inl e \<Rightarrow> False
   | Inr spec \<Rightarrow> dict_get (ds_overlay spec) ''tailscale_serve_port'' = JNull \<and>
       ds_extra_mounts spec = [''source=/d,target=/d,type=bind''] \<and> dict_get (ds_overlay spec) ''role'' = JStr ''auditor''"
  by code_simp

theorem regenerated_overlay_witness:
  "\<exists>spec. validated_spec sample_create = Inr spec \<and>
     overlay_from_row sample_overlay_env (stored_config ''/o'' spec) =
       Inr ((overlay_from_spec sample_overlay_env (ds_overlay spec))
         \<lparr>oc_tailscale_authkey := [], oc_extra_mounts := [JStr ''source=/d,target=/d,type=bind''],
          oc_proxy_config_host_dir := JNull\<rparr>)"
proof -
  obtain spec where s: "validated_spec sample_create = Inr spec"
    using validated_sample by (cases "validated_spec sample_create") auto
  moreover have "dict_get (ds_overlay spec) ''tailscale_serve_port'' = JNull" "ds_extra_mounts spec = [''source=/d,target=/d,type=bind'']"
    using validated_sample s by simp_all
  ultimately show ?thesis using regenerated_overlay [OF s, of sample_overlay_env "''/o''"] by simp
qed

text \<open>The base file of a resume lacks the subdirectory of the desk.\<close>

lemma resumed_base_ignores_subdir:
  assumes "validated_spec params = Inr spec" "dd_config ws = stored_config overlay spec" "ds_devcontainer_subpath spec \<noteq> []"
  shows "base_of_row oe ws = join_path (join_path (dd_worktree_path ws) (ds_devcontainer_subpath spec)) ''devcontainer.json''"
proof -
  have t: "overlay_typed (ds_overlay spec)" using assms(1) by (rule validated_spec_typed)
  have n: "''devcontainer_subpath'' \<notin> set (map fst (ds_overlay spec))" unfolding typed_keys [OF t] by code_simp
  have "dict_get (dd_config ws) ''devcontainer_subpath'' = JStr (ds_devcontainer_subpath spec)"
    unfolding assms(2) stored_field [OF t] using n by (simp add: dict_get_def)
  then show ?thesis using assms(3) by (simp add: base_of_row_def oe_text_def Let_def)
qed

text \<open>A comment marker inside a string ends the line.\<close>

lemma strip_jsonc_cuts_strings: "strip_jsonc_comments ''[http://x]'' = ''[http:''"
  by code_simp

text \<open>
  The role of a child is outside the narrowness check: the scope SpawnChild compares is the same for
  every role, and the overlay of the role of the auditor mounts the registry of the daemon.
\<close>

lemma role_not_in_child_spec: "build_child_spec (spec\<lparr>ds_overlay := s\<rparr>) = build_child_spec spec"
  by (simp add: build_child_spec_def)

lemma auditor_overlay_mounts_registry:
  assumes "dict_get s ''role'' = JStr ''auditor''"
  shows "mount (oe_home oe @ ''/.drydock/registry.db'') ''/var/lib/drydock/registry.db'' ''bind,readonly''
           \<in> set (own_mounts oe ws (overlay_from_spec oe s))"
  using assms by (simp add: own_mounts_def overlay_from_spec_def default_config_def Let_def only_if_def
    lower_def lower_char_def is_upper_def code_def)

section \<open>Mounts\<close>

lemma split_on_three:
  "c \<notin> set x \<Longrightarrow> c \<notin> set y \<Longrightarrow> split_on c (x @ c # y @ c # z) = x # y # split_on c z"
  by (simp add: split_on_append_sep split_on_no_sep)

text \<open>
  Where a mount string mounts, as the container engine reads it: the value of every field whose key,
  in any case, is \<^verbatim>\<open>target\<close>, \<^verbatim>\<open>dst\<close> or \<^verbatim>\<open>destination\<close>. The code looks for \<^verbatim>\<open>target=\<close> only; the two
  readings agree on a mount that names its target once, in that spelling.
\<close>

definition mount_field :: "string \<Rightarrow> string \<times> string" where
  "mount_field part = (takeWhile (\<lambda>c. c \<noteq> CHR ''='') part, drop 1 (dropWhile (\<lambda>c. c \<noteq> CHR ''='') part))"

definition names_target :: "string \<Rightarrow> bool" where
  "names_target part \<longleftrightarrow> lower (fst (mount_field part)) \<in> {''target'', ''dst'', ''destination''}"

definition mount_points :: "string \<Rightarrow> string list" where
  "mount_points m = map (\<lambda>part. snd (mount_field part)) (filter names_target (split_on (CHR '','') m))"

definition plainly_targeted :: "string \<Rightarrow> bool" where
  "plainly_targeted m \<longleftrightarrow> (case filter names_target (split_on (CHR '','') m) of
     [] \<Rightarrow> True | [part] \<Rightarrow> prefix ''target='' part | _ \<Rightarrow> False)"

lemma mount_field_key: "CHR ''='' \<notin> set k \<Longrightarrow> mount_field (k @ CHR ''='' # v) = (k, v)"
  by (induction k) (auto simp: mount_field_def)

lemma target_field: "mount_field (''target='' @ v) = (''target'', v)"
  using mount_field_key [of "''target''" v] by simp

lemma source_field: "mount_field (''source='' @ v) = (''source'', v)"
  using mount_field_key [of "''source''" v] by simp

lemma lower_keys: "lower ''target'' = ''target''" "lower ''source'' = ''source''" by code_simp+

lemma target_names: "prefix ''target='' part \<Longrightarrow> names_target part \<and> snd (mount_field part) = drop 7 part"
  by (auto simp: prefix_def names_target_def target_field lower_keys simp del: append_Cons)

lemma plainly_targeted_points:
  assumes "plainly_targeted m" "p \<in> set (mount_points m)"
  shows "mount_target m = Some p"
proof -
  obtain part where f: "filter names_target (split_on (CHR '','') m) = [part]" and t: "prefix ''target='' part"
    using assms by (auto simp: plainly_targeted_def mount_points_def filter_empty_conv split: list.splits)
  have "p = drop 7 part" using assms(2) target_names [OF t] by (simp add: mount_points_def f)
  moreover have "find (prefix ''target='') (split_on (CHR '','') m) = Some part"
  proof (cases "find (prefix ''target='') (split_on (CHR '','') m)")
    case None
    have "part \<in> set (split_on (CHR '','') m)" using filter_is_subset [of names_target "split_on (CHR '','') m"] by (simp add: f)
    with None t show ?thesis by (auto simp: find_None_iff)
  next
    case (Some q)
    then have "q \<in> set (filter names_target (split_on (CHR '','') m))"
      using target_names [of q] by (auto dest: find_Some_D)
    with f Some show ?thesis by simp
  qed
  ultimately show ?thesis by (simp add: mount_target_def)
qed

lemma mount_points_mount:
  assumes "CHR '','' \<notin> set source" "CHR '','' \<notin> set target" "kind \<in> {''bind'', ''bind,readonly'', ''volume''}"
  shows "mount_points (mount source target kind) = [target]"
proof -
  have m: "mount source target kind = (''source='' @ source) @ CHR '','' # (''target='' @ target) @ CHR '','' # ''type='' @ kind"
    by (simp add: mount_def)
  have s: "split_on (CHR '','') (mount source target kind) =
      (''source='' @ source) # (''target='' @ target) # split_on (CHR '','') (''type='' @ kind)"
    unfolding m using assms by (intro split_on_three) simp_all
  have "filter names_target (split_on (CHR '','') (''type='' @ k)) = []" if "k \<in> {''bind'', ''bind,readonly'', ''volume''}" for k
    using that by (elim insertE emptyE) (hypsubst, code_simp)+
  from this [OF assms(3)] have "filter names_target (split_on (CHR '','') (mount source target kind)) = [''target='' @ target]"
    unfolding s by (simp add: names_target_def target_field source_field lower_keys del: append_Cons)
  then show ?thesis by (simp add: mount_points_def target_field del: append_Cons)
qed

lemma mount_target_mount:
  assumes "CHR '','' \<notin> set source" "CHR '','' \<notin> set target"
  shows "mount_target (mount source target kind) = Some target"
proof -
  have m: "mount source target kind = (''source='' @ source) @ CHR '','' # (''target='' @ target) @ CHR '','' # ''type='' @ kind"
    by (simp add: mount_def)
  have s: "split_on (CHR '','') (mount source target kind) =
      (''source='' @ source) # (''target='' @ target) # split_on (CHR '','') (''type='' @ kind)"
    unfolding m using assms by (intro split_on_three) simp_all
  show ?thesis unfolding mount_target_def s by simp
qed

lemma merge_entry_frame:
  "merge_entry base (k, v) = Inr c \<Longrightarrow> k \<noteq> key \<Longrightarrow> map_of c key = map_of base key"
  by (auto simp: merge_entry_def Let_def update_conv' split: if_splits)

lemma merge_entries_frame:
  "merge_entries base overlay = Inr c \<Longrightarrow> key \<notin> set (map fst overlay) \<Longrightarrow> map_of c key = map_of base key"
proof (induction overlay arbitrary: base)
  case (Cons e overlay)
  then obtain b where "merge_entry base e = Inr b" "merge_entries b overlay = Inr c" by auto
  with Cons show ?case using merge_entry_frame [of base "fst e" "snd e" b key] by auto
qed simp

lemma merge_entry_mounts:
  "merge_entry base (''mounts'', JList os) = Inr c \<Longrightarrow>
   \<exists>bs ms. base_list base ''mounts'' = Inr bs \<and> dedup_mounts bs os = Inr ms \<and> map_of c ''mounts'' = Some (JList ms)"
  by (auto simp: merge_entry_def Let_def update_conv')

lemma merge_entries_mounts:
  assumes "merge_entries base overlay = Inr c" "distinct (map fst overlay)" "map_of overlay ''mounts'' = Some (JList os)"
  shows "\<exists>bs ms. base_list base ''mounts'' = Inr bs \<and> dedup_mounts bs os = Inr ms \<and> map_of c ''mounts'' = Some (JList ms)"
  using assms
proof (induction overlay arbitrary: base)
  case (Cons e overlay)
  obtain b where b: "merge_entry base e = Inr b" "merge_entries b overlay = Inr c" using Cons.prems(1) by auto
  show ?case
  proof (cases "fst e = ''mounts''")
    case True
    with Cons.prems have "e = (''mounts'', JList os)" "''mounts'' \<notin> set (map fst overlay)" by (cases e; auto)+
    then show ?thesis using merge_entry_mounts [of base os b] merge_entries_frame [OF b(2)] b(1) by metis
  next
    case False
    then have "map_of b ''mounts'' = map_of base ''mounts''" using merge_entry_frame [of base "fst e" "snd e"] b(1) by simp
    moreover have "map_of overlay ''mounts'' = Some (JList os)" using False Cons.prems(3) by (cases e) simp
    ultimately show ?thesis using Cons.IH [OF b(2)] Cons.prems(2) by (auto simp: base_list_def dict_get_default_def)
  qed
qed simp

lemma generate_overlay_keys:
  assumes "generate_overlay oe ws c = Inr overlay"
  shows "distinct (map fst overlay)" "map_of overlay ''mounts'' = Some (JList (build_mounts oe ws c))"
  using assms by (auto simp: generate_overlay_def only_if_def)

lemma anchor_build_mounts: "dict_get (anchor_build oe p c) ''mounts'' = dict_get c ''mounts''"
  by (simp add: anchor_build_def dict_get_def update_conv' split: json.splits)

lemma map_all_JStr [simp]: "map_all as_str (map JStr ss) = Some ss"
  by (induction ss) auto

text \<open>The mounts of the base file, when they are strings.\<close>

definition base_mounts :: "overlay_env \<Rightarrow> string \<Rightarrow> string list" where
  "base_mounts oe base =
    (case oe_read oe base of
       Some (Inr raw) \<Rightarrow>
         (case oe_loads oe (strip_jsonc_comments raw) of
            Inr (JObj b) \<Rightarrow>
              (case base_list b ''mounts'' of
                 Inr vs \<Rightarrow> (case map_all as_str vs of Some ms \<Rightarrow> ms | None \<Rightarrow> [])
               | Inl e \<Rightarrow> [])
          | _ \<Rightarrow> [])
     | _ \<Rightarrow> [])"

lemma write_overlay_mounts:
  assumes "write_overlay oe ws dir c base = Inr (path, composite)" "oc_extra_mounts c = []"
  shows "dict_get composite ''mounts'' = jstrs
    (filter (\<lambda>m. mount_target m \<notin> mount_target ` set (own_mounts oe ws c)) (base_mounts oe base) @ own_mounts oe ws c)"
proof -
  obtain overlay where g: "generate_overlay oe ws c = Inr overlay" "merge_into_base oe base overlay = Inr composite"
    using assms(1) by (auto simp: write_overlay_def)
  then obtain raw v where r: "oe_read oe base = Some (Inr raw)" "oe_loads oe (strip_jsonc_comments raw) = Inr v" and
    v: "(case v of JObj b \<Rightarrow> sbind (merge_entries b overlay) (\<lambda>d. Inr (anchor_build oe base d))
      | _ \<Rightarrow> Inl (PyError ''TypeError'' ''dict'')) = Inr composite"
    by (auto simp: merge_into_base_def split: option.splits)
  obtain b c' where m: "v = JObj b" "merge_entries b overlay = Inr c'" "composite = anchor_build oe base c'"
    using v by (cases v) auto
  obtain bs ms where d: "base_list b ''mounts'' = Inr bs" "dedup_mounts bs (map JStr (own_mounts oe ws c)) = Inr ms"
    "map_of c' ''mounts'' = Some (JList ms)"
    using merge_entries_mounts [OF m(2) generate_overlay_keys [OF g(1)]] assms(2) by (auto simp: build_mounts_def)
  obtain ss where ss: "map_all as_str bs = Some ss"
    "ms = map JStr (filter (\<lambda>m. mount_target m \<notin> mount_target ` set (own_mounts oe ws c)) ss) @ map JStr (own_mounts oe ws c)"
    using d(2) by (auto simp: dedup_mounts_def split: option.splits)
  have "base_mounts oe base = ss" using r m(1) d(1) ss(1) by (simp add: base_mounts_def)
  then show ?thesis
    unfolding m(3) anchor_build_mounts using d(3) ss(2) by (simp add: dict_get_def)
qed

definition plain :: "string \<Rightarrow> bool" where
  "plain s \<longleftrightarrow> CHR '','' \<notin> set s"

lemma own_mount_points:
  assumes "plain (oe_home oe)" "plain (dd_id ws)" "plain (oe_text oe (oc_claude_profile (overlay_from_spec oe s)))"
  shows "filter (\<lambda>m. ''/run/secrets'' \<in> set (mount_points m)) (own_mounts oe ws (overlay_from_spec oe s)) =
      [mount (oe_home oe @ ''/.drydock/secrets/'' @ dd_id ws) ''/run/secrets'' ''bind,readonly'']"
    and "Some ''/run/secrets'' \<in> mount_target ` set (own_mounts oe ws (overlay_from_spec oe s))"
  using assms
  by (simp_all add: own_mounts_def overlay_from_spec_def default_config_def Let_def only_if_def plain_def join_path_def
      mount_points_mount mount_target_mount oe_text_def)

text \<open>
  (C35) The secret directory a new desk sees is its own. Let no comma occur in the home directory, the
  id of the desk and the requested profile, and let every mount string of the base file name its
  target at most once and, if so, as \<^verbatim>\<open>target=\<close> (not \<^verbatim>\<open>dst=\<close>, \<^verbatim>\<open>destination=\<close> or with capitals).
  Then in the composite file exactly one mount has \<^verbatim>\<open>/run/secrets\<close> as its mount point in any of
  these spellings, its source is the secret directory of the desk, and it is read-only, even when
  the base file mounts something else there.
\<close>

theorem secrets_mount_is_own:
  assumes "write_overlay oe ws dir (overlay_from_spec oe s) base = Inr (path, composite)"
    and "plain (oe_home oe)" "plain (dd_id ws)" "plain (oe_text oe (oc_claude_profile (overlay_from_spec oe s)))"
    and "\<forall>m\<in>set (base_mounts oe base). plainly_targeted m"
  shows "\<exists>ms. dict_get composite ''mounts'' = jstrs ms \<and>
    filter (\<lambda>m. ''/run/secrets'' \<in> set (mount_points m)) ms =
      [mount (oe_home oe @ ''/.drydock/secrets/'' @ dd_id ws) ''/run/secrets'' ''bind,readonly'']"
proof -
  let ?own = "own_mounts oe ws (overlay_from_spec oe s)"
  let ?kept = "filter (\<lambda>m. mount_target m \<notin> mount_target ` set ?own) (base_mounts oe base)"
  have e: "oc_extra_mounts (overlay_from_spec oe s) = []" by (simp add: overlay_from_spec_def default_config_def Let_def)
  note ms = write_overlay_mounts [OF assms(1) e]
  note own = own_mount_points [OF assms(2-4)]
  have "filter (\<lambda>m. ''/run/secrets'' \<in> set (mount_points m)) ?kept = []"
    using assms(5) own(2) plainly_targeted_points by (fastforce simp: filter_empty_conv)
  with own(1) ms show ?thesis by (metis append_Nil filter_append)
qed

theorem secrets_mount_is_own_witness:
  "\<exists>path composite ms. write_overlay sample_overlay_env sample_desk ''/o'' (overlay_from_spec sample_overlay_env []) ''/b'' = Inr (path, composite) \<and>
    ''source=x,target=/run/secrets,type=bind'' \<in> set (base_mounts sample_overlay_env ''/b'') \<and>
    dict_get composite ''mounts'' = jstrs ms \<and>
    filter (\<lambda>m. ''/run/secrets'' \<in> set (mount_points m)) ms = [mount ''/h/.drydock/secrets/dock_a'' ''/run/secrets'' ''bind,readonly'']"
proof -
  have "\<not> isl (write_overlay sample_overlay_env sample_desk ''/o'' (overlay_from_spec sample_overlay_env []) ''/b'')"
    by code_simp
  then obtain path composite where
    "write_overlay sample_overlay_env sample_desk ''/o'' (overlay_from_spec sample_overlay_env []) ''/b'' = Inr (path, composite)"
    by (metis isl_def old.prod.exhaust sum.exhaust)
  moreover have "plain (oe_home sample_overlay_env)" "plain (dd_id sample_desk)"
      "plain (oe_text sample_overlay_env (oc_claude_profile (overlay_from_spec sample_overlay_env [])))"
    by (code_simp, code_simp, code_simp)
  moreover have "\<forall>m\<in>set (base_mounts sample_overlay_env ''/b''). plainly_targeted m" by code_simp
  moreover have "''source=x,target=/run/secrets,type=bind'' \<in> set (base_mounts sample_overlay_env ''/b'')" by code_simp
  moreover have "oe_home sample_overlay_env = ''/h''" "dd_id sample_desk = ''dock_a''" by (code_simp, code_simp)
  ultimately show ?thesis using secrets_mount_is_own [of sample_overlay_env sample_desk "''/o''" "[]" "''/b''" path composite] by simp
qed

end
