(* ===== verification/Schedule.thy ===== *)
theory Schedule
  imports Project_Config Policy Resource_Ceilings "HOL-Library.AList"
begin

text \<open>
  core/schedule.py: the jobs of a desk, read from the schedule file of its worktree and installed as
  a cron file or as launchd agents of the host. The schedule file and the YAML parser are those
  of \<open>project_env\<close>; the cron directory is a map from paths to contents, the agent directory a
  list of named documents, and \<open>denied\<close> says which paths the operating system refuses. The dash of
  the header line is written as a hyphen.

  Proved here: listing an installed schedule gives back one line per job, as long as no text of the
  file contains a line break; a line break in a log path adds a line of its own.
\<close>

section \<open>Python text\<close>

definition is_break :: "char \<Rightarrow> bool" where
  "is_break c \<longleftrightarrow> code c \<in> {10, 11, 12, 13, 28, 29, 30, 133}"

text \<open>\<^verbatim>\<open>s.splitlines()\<close>; a carriage return and a line feed are one break.\<close>

function splitlines :: "string \<Rightarrow> string list" where
  "splitlines [] = []"
| "splitlines (c # s) =
    (if is_break c then [] # splitlines (if code c = 13 \<and> s \<noteq> [] \<and> code (hd s) = 10 then tl s else s)
     else (case splitlines s of [] \<Rightarrow> [[c]] | l # ls \<Rightarrow> (c # l) # ls))"
  by pat_completeness auto
termination
  by (relation "measure length") auto

text \<open>\<^verbatim>\<open>shlex.quote\<close>.\<close>

definition shell_safe :: "char \<Rightarrow> bool" where
  "shell_safe c \<longleftrightarrow> is_alnum c \<or> c \<in> set ''_@%+=:,./-''"

definition shlex_quote :: "string \<Rightarrow> string" where
  "shlex_quote s =
    (if s = [] then quoted []
     else if list_all shell_safe s then s
     else quoted (concat (map (\<lambda>c. if code c = 39 then [CHR 0x27, CHR 0x22, CHR 0x27, CHR 0x22, CHR 0x27] else [c]) s)))"

section \<open>Jobs\<close>

record ScheduleJob =
  job_name :: string
  job_cron :: string
  job_command :: string
  job_log :: string

definition KNOWN_JOB_KEYS :: "string list" where
  "KNOWN_JOB_KEYS = [''cron'', ''command'', ''log'']"

definition job_name_ok :: "string \<Rightarrow> bool" where
  "job_name_ok n = re_dollar (\<lambda>s. list_all (\<lambda>c. is_alnum c \<or> c = CHR ''_'' \<or> c = CHR ''-'') s \<and> 1 \<le> length s \<and> length s \<le> 64) n"

definition cron_field_ok :: "string \<Rightarrow> bool" where
  "cron_field_ok f = re_dollar (\<lambda>s. s = ''*'' \<or> s \<noteq> [] \<and> list_all is_digit s) f"

definition CRON_FIELD_NAMES :: "string list" where
  "CRON_FIELD_NAMES = [''minute'', ''hour'', ''day'', ''month'', ''weekday'']"

definition LAUNCHD_FIELD_KEYS :: "string list" where
  "LAUNCHD_FIELD_KEYS = [''Minute'', ''Hour'', ''Day'', ''Month'', ''Weekday'']"

fun cron_interval :: "string \<Rightarrow> (string \<times> string \<times> string) list \<Rightarrow> exn + (string \<times> int) list" where
  "cron_interval expr [] = Inr []"
| "cron_interval expr ((raw, name, key) # rest) =
    (if \<not> cron_field_ok raw then
       Inl (WsError (''Unsupported cron syntax in '' @ name @ '' field: '' @ quoted raw)
         (Some (''Only '' @ quoted ''*'' @ '' and plain integers are supported (no step/range/list). Got '' @ quoted raw @ '' in '' @
            quoted expr @ ''.'')))
     else (case cron_interval expr rest of
             Inl e \<Rightarrow> Inl e
           | Inr interval \<Rightarrow> Inr (if raw = ''*'' then interval else (key, int (digits_value raw)) # interval)))"

definition parse_cron_5field :: "string \<Rightarrow> exn + (string \<times> int) list list" where
  "parse_cron_5field expr =
    (let fields = words_from [] expr in
     if length fields \<noteq> 5 then
       Inl (WsError (''Cron expression must have exactly 5 fields, got '' @ show_nat (length fields) @ '': '' @ quoted expr)
         (Some (''Use the format: minute hour day month weekday (e.g. '' @ quoted ''0 13 * * *'' @ '').'')))
     else (case cron_interval expr (zip fields (zip CRON_FIELD_NAMES LAUNCHD_FIELD_KEYS)) of
             Inl e \<Rightarrow> Inl e | Inr interval \<Rightarrow> Inr [interval]))"

definition job_text :: "project_env \<Rightarrow> json \<Rightarrow> string" where
  "job_text pe v = (case v of JStr s \<Rightarrow> s | _ \<Rightarrow> pe_str pe v)"

text \<open>One turn of the loop over the jobs of the file.\<close>

definition load_job :: "project_env \<Rightarrow> string \<Rightarrow> string \<times> json \<Rightarrow> exn + ScheduleJob" where
  "load_job pe path entry =
    (let (name, spec) = entry in
     if \<not> job_name_ok name then
       Inl (WsError (''Invalid job name '' @ quoted name @ '': must match [A-Za-z0-9_-]{1,64}'')
         (Some ''Use only letters, digits, hyphens, and underscores in job names.''))
     else (case spec of
       JObj d \<Rightarrow>
         let unknown = sort (remdups (filter (\<lambda>k. k \<notin> set KNOWN_JOB_KEYS) (map fst d))) in
         if unknown \<noteq> [] then
           Inl (WsError (''Unknown keys in job '' @ quoted name @ '': '' @ join '', '' unknown)
             (Some (''Valid job keys: '' @ join '', '' (sort KNOWN_JOB_KEYS))))
         else (case find (\<lambda>k. map_of d k = None) [''cron'', ''command''] of
           Some k \<Rightarrow> Inl (WsError (''Job '' @ quoted name @ '' missing required key '' @ quoted k)
                       (Some (''Add '' @ quoted (k @ '':'') @ '' to job '' @ quoted name @ '' in '' @ path @ ''.'')))
         | None \<Rightarrow>
             let cron = strip (job_text pe (dict_get d ''cron'')) in
             (case parse_cron_5field cron of
                Inl e \<Rightarrow> Inl e
              | Inr _ \<Rightarrow> Inr \<lparr>job_name = name, job_cron = cron, job_command = job_text pe (dict_get d ''command''),
                           job_log = job_text pe (dict_get_default d ''log'' (JStr []))\<rparr>))
     | v \<Rightarrow> Inl (WsError (''Job '' @ quoted name @ '' must be a mapping, got '' @ pe_type_name pe v)
              (Some (''Define '' @ quoted name @ '' with keys: cron, command, log.'')))))"

fun load_jobs :: "project_env \<Rightarrow> string \<Rightarrow> dict \<Rightarrow> exn + ScheduleJob list" where
  "load_jobs pe path [] = Inr []"
| "load_jobs pe path (entry # entries) =
    (case load_job pe path entry of
       Inl e \<Rightarrow> Inl e
     | Inr job \<Rightarrow> (case load_jobs pe path entries of Inl e \<Rightarrow> Inl e | Inr jobs \<Rightarrow> Inr (job # jobs)))"

definition load_schedule :: "project_env \<Rightarrow> string \<Rightarrow> exn + ScheduleJob list" where
  "load_schedule pe path =
    (let no_jobs = WsError (''Schedule file '' @ path @ '' must contain a '' @ quoted ''jobs'' @ '' mapping'')
           (Some (''Add a top-level '' @ quoted ''jobs:'' @ '' key to '' @ path @ ''.''))
     in
     case pe_file pe path of
       None \<Rightarrow> Inl (WsError (''Schedule file not found: '' @ path)
                 (Some (''Create '' @ path @ '' with a '' @ quoted ''jobs:'' @ '' mapping.'')))
     | Some (Inl e) \<Rightarrow> Inl e
     | Some (Inr text) \<Rightarrow>
         (case pe_yaml pe text of
            Inl m \<Rightarrow> Inl (WsError (''Invalid YAML in '' @ path @ '': '' @ m) (Some (''Check '' @ path @ '' for syntax errors.'')))
          | Inr (JObj raw) \<Rightarrow>
              (case map_of raw ''jobs'' of
                 None \<Rightarrow> Inl no_jobs
               | Some (JObj jobs) \<Rightarrow> load_jobs pe path jobs
               | Some v \<Rightarrow> Inl (WsError (quoted ''jobs'' @ '' in '' @ path @ '' must be a mapping'')
                   (Some (''Each entry under '' @ quoted ''jobs:'' @ '' should be a named job with cron/command/log keys.''))))
          | Inr v \<Rightarrow> Inl no_jobs))"

section \<open>Rendering\<close>

definition record_outcome :: "string \<Rightarrow> ScheduleJob \<Rightarrow> string" where
  "record_outcome desk job =
     ''; ec=$?; /usr/local/bin/ws deskwatch-record '' @ shlex_quote desk @ '' job_run '' @ shlex_quote (job_name job) @
     '' $([ $ec -eq 0 ] && echo ok || echo failed) --detail '' @ [CHR 0x22] @ ''exit $ec'' @ [CHR 0x22] @ ''; exit $ec''"

definition render_job_shell :: "string \<Rightarrow> ScheduleJob \<Rightarrow> string" where
  "render_job_shell desk job =
     ''/usr/local/bin/ws exec '' @ shlex_quote desk @ '' -- '' @ job_command job @
     (if job_log job \<noteq> [] then '' >> '' @ shlex_quote (job_log job) @ '' 2>&1'' else []) @ record_outcome desk job"

definition cron_line :: "string \<Rightarrow> ScheduleJob \<Rightarrow> string" where
  "cron_line desk job = job_cron job @ '' root '' @ render_job_shell desk job"

definition cron_header :: "string \<Rightarrow> string list" where
  "cron_header desk =
     [''# Managed by drydock - do not edit. desk='' @ desk,
      ''PATH=/usr/local/sbin:/usr/local/bin:/usr/sbin:/usr/bin:/sbin:/bin'', []]"

definition render_cron_file :: "string \<Rightarrow> ScheduleJob list \<Rightarrow> string" where
  "render_cron_file desk jobs = join [CHR 0x0A] (cron_header desk @ map (cron_line desk) jobs @ [[]])"

definition launchd_label :: "string \<Rightarrow> string \<Rightarrow> string" where
  "launchd_label desk name = ''com.drydock.'' @ desk @ ''.'' @ name"

definition render_launchd_plist :: "string \<Rightarrow> ScheduleJob \<Rightarrow> exn + dict" where
  "render_launchd_plist desk job =
    (case parse_cron_5field (job_cron job) of
       Inl e \<Rightarrow> Inl e
     | Inr intervals \<Rightarrow>
         let calendar = (\<lambda>i. JObj (map (\<lambda>(k, n). (k, JInt n)) i)) in
         Inr ([(''Label'', JStr (launchd_label desk (job_name job))),
           (''ProgramArguments'', jstrs [''/bin/sh'', ''-c'',
              ''/usr/local/bin/ws exec '' @ shlex_quote desk @ '' -- '' @ job_command job @ record_outcome desk job]),
           (''StartCalendarInterval'', if length intervals = 1 then calendar (hd intervals) else JList (map calendar intervals))] @
          (if job_log job \<noteq> [] then [(''StandardOutPath'', JStr (job_log job)), (''StandardErrorPath'', JStr (job_log job))] else [])))"

section \<open>The host\<close>

type_synonym cron_dir = "string \<Rightarrow> string option"

definition cron_file_path :: "string \<Rightarrow> string" where
  "cron_file_path desk = ''/etc/cron.d/drydock-'' @ desk"

definition install_cron :: "(string \<Rightarrow> bool) \<Rightarrow> string \<Rightarrow> ScheduleJob list \<Rightarrow> cron_dir \<Rightarrow> (exn + string) \<times> cron_dir" where
  "install_cron denied desk jobs fs =
    (let path = cron_file_path desk in
     if denied path then
       (Inl (WsError (''Cannot write '' @ path @ '' - permission denied'')
          (Some ''Run with appropriate permissions or use sudo to write to /etc/cron.d.'')), fs)
     else (Inr path, fs(path \<mapsto> render_cron_file desk jobs)))"

definition remove_cron :: "(string \<Rightarrow> bool) \<Rightarrow> string \<Rightarrow> cron_dir \<Rightarrow> (exn + string option) \<times> cron_dir" where
  "remove_cron denied desk fs =
    (let path = cron_file_path desk in
     if fs path = None then (Inr None, fs)
     else if denied path then
       (Inl (WsError (''Cannot remove '' @ path @ '' - permission denied'')
          (Some ''Run with appropriate permissions or use sudo.'')), fs)
     else (Inr (Some path), fs(path := None)))"

definition list_installed_cron :: "string \<Rightarrow> cron_dir \<Rightarrow> string list" where
  "list_installed_cron desk fs =
    (case fs (cron_file_path desk) of
       None \<Rightarrow> []
     | Some text \<Rightarrow> filter (\<lambda>l. l \<noteq> [] \<and> \<not> prefix ''#'' l \<and> \<not> prefix ''PATH='' l) (splitlines text))"

type_synonym agent_dir = "(string \<times> dict) list"

definition plist_name :: "string \<Rightarrow> string" where
  "plist_name label = label @ ''.plist''"

text \<open>\<^verbatim>\<open>agent_dir.glob\<close> on the names of the files, and \<^verbatim>\<open>stem\<close>.\<close>

definition desk_agent :: "string \<Rightarrow> string \<Rightarrow> bool" where
  "desk_agent desk file = fnmatchcase file (launchd_label desk ''*.plist'')"

definition stem :: "string \<Rightarrow> string" where
  "stem file = take (length file - 6) file"

fun write_agents :: "string \<Rightarrow> ScheduleJob list \<Rightarrow> agent_dir \<Rightarrow> (exn + string list) \<times> agent_dir" where
  "write_agents desk [] dir = (Inr [], dir)"
| "write_agents desk (job # jobs) dir =
    (case render_launchd_plist desk job of
       Inl e \<Rightarrow> (Inl e, dir)
     | Inr plist \<Rightarrow>
         let file = plist_name (launchd_label desk (job_name job)) in
         (case write_agents desk jobs (AList.update file plist dir) of
            (Inl e, dir') \<Rightarrow> (Inl e, dir')
          | (Inr written, dir') \<Rightarrow> (Inr (file # written), dir')))"

definition install_launchd :: "string \<Rightarrow> ScheduleJob list \<Rightarrow> agent_dir \<Rightarrow> (exn + string list) \<times> agent_dir" where
  "install_launchd desk jobs dir =
    (let wanted = map (\<lambda>j. launchd_label desk (job_name j)) jobs in
     write_agents desk jobs (filter (\<lambda>(file, _). \<not> (desk_agent desk file \<and> stem file \<notin> set wanted)) dir))"

definition remove_launchd :: "string \<Rightarrow> agent_dir \<Rightarrow> string list \<times> agent_dir" where
  "remove_launchd desk dir =
     (filter (desk_agent desk) (map fst dir), filter (\<lambda>(file, _). \<not> desk_agent desk file) dir)"

definition list_installed_launchd :: "string \<Rightarrow> agent_dir \<Rightarrow> string list" where
  "list_installed_launchd desk dir = map stem (filter (desk_agent desk) (map fst dir))"

section \<open>Facts\<close>

definition one_line :: "string \<Rightarrow> bool" where
  "one_line s \<longleftrightarrow> list_all (\<lambda>c. \<not> is_break c) s"

lemma one_line_append [simp]: "one_line (s @ t) \<longleftrightarrow> one_line s \<and> one_line t"
  by (simp add: one_line_def)

lemma splitlines_one_line: "one_line s \<Longrightarrow> splitlines s = (if s = [] then [] else [s])"
  by (induction s) (auto simp: one_line_def)

lemma splitlines_break: "one_line s \<Longrightarrow> splitlines (s @ CHR 0x0A # t) = s # splitlines t"
  by (induction s) (auto simp: one_line_def is_break_def code_def)

lemma splitlines_join: "list_all one_line ls \<Longrightarrow> splitlines (join [CHR 0x0A] (ls @ [[]])) = ls"
proof (induction ls)
  case (Cons l ls)
  have "join [CHR 0x0A] ((l # ls) @ [[]]) = l @ CHR 0x0A # join [CHR 0x0A] (ls @ [[]])"
    by (cases "ls @ [[]]") simp_all
  with Cons show ?case by (simp add: splitlines_break)
qed simp

lemma one_line_concat: "list_all one_line ls \<Longrightarrow> one_line (concat ls)"
  by (induction ls) (auto simp: one_line_def)

lemma one_line_quote: "one_line s \<Longrightarrow> one_line (shlex_quote s)"
  by (auto simp: shlex_quote_def quoted_def one_line_def list_all_iff is_break_def code_def)

lemma words_from_hd:
  "words_from w s = x # xs \<Longrightarrow> w \<noteq> [] \<or> s \<noteq> [] \<and> \<not> is_space (hd s) \<Longrightarrow> prefix x (rev w @ s)"
proof (induction w s arbitrary: x xs rule: words_from.induct)
  case (2 w c s)
  then show ?case by (cases "is_space c"; cases "w = []") (auto simp: prefix_def)
qed (auto split: if_splits)

lemma strip_hd:
  assumes "strip s \<noteq> []"
  shows "\<not> is_space (hd (strip s))"
proof -
  obtain r where r: "dropWhile is_space s = strip s @ r"
    using rstrip_by_prefix [of is_space "lstrip_by is_space s"] by (auto simp: strip_def strip_by_def lstrip_by_def prefix_def)
  then have "dropWhile is_space s \<noteq> []" using assms by simp
  then have "\<not> is_space (hd (dropWhile is_space s))" by (rule hd_dropWhile)
  then show ?thesis using r assms by simp
qed

text \<open>A cron expression that parses starts with a star or a digit.\<close>

lemma parse_cron_hd:
  assumes "parse_cron_5field (strip s) = Inr is"
  shows "strip s \<noteq> [] \<and> (hd (strip s) = CHR ''*'' \<or> is_digit (hd (strip s)))"
proof -
  let ?s = "strip s"
  obtain f fs where f: "words_from [] ?s = f # fs"
    using assms by (cases "words_from [] ?s") (auto simp: parse_cron_5field_def Let_def)
  then have ne: "?s \<noteq> []" by auto
  then have p: "prefix f ?s" using words_from_hd [OF f] strip_hd by auto
  have "cron_field_ok f"
    using assms f by (auto simp: parse_cron_5field_def Let_def CRON_FIELD_NAMES_def LAUNCHD_FIELD_KEYS_def split: if_splits sum.splits)
  then have "f \<noteq> [] \<and> (hd f = CHR ''*'' \<or> is_digit (hd f))"
    by (cases f) (auto simp: cron_field_ok_def re_dollar_def split: if_splits)
  then show ?thesis using p ne by (auto simp: prefix_def)
qed

definition plain_job :: "ScheduleJob \<Rightarrow> bool" where
  "plain_job j \<longleftrightarrow> one_line (job_name j) \<and> one_line (job_cron j) \<and> one_line (job_command j) \<and> one_line (job_log j)"

lemma one_line_cron_line: "one_line desk \<Longrightarrow> plain_job j \<Longrightarrow> one_line (cron_line desk j)"
  using one_line_quote [of desk] one_line_quote [of "job_name j"] one_line_quote [of "job_log j"]
  by (simp add: cron_line_def render_job_shell_def record_outcome_def plain_job_def) (simp add: one_line_def is_break_def code_def)

lemma load_jobs_cron:
  "load_jobs pe path entries = Inr jobs \<Longrightarrow> j \<in> set jobs \<Longrightarrow> \<exists>s is. job_cron j = strip s \<and> parse_cron_5field (strip s) = Inr is"
proof (induction entries arbitrary: jobs)
  case (Cons e entries)
  obtain j' js where j: "load_job pe path e = Inr j'" "load_jobs pe path entries = Inr js" "jobs = j' # js"
    using Cons.prems(1) by (auto split: sum.splits)
  have "\<exists>s is. job_cron j' = strip s \<and> parse_cron_5field (strip s) = Inr is"
    using j(1) by (auto simp: load_job_def Let_def split: prod.splits if_splits json.splits option.splits sum.splits)
  with Cons j show ?case by auto
qed simp

lemma load_schedule_cron:
  assumes "load_schedule pe path = Inr jobs" "j \<in> set jobs"
  shows "\<exists>s is. job_cron j = strip s \<and> parse_cron_5field (strip s) = Inr is"
  using assms load_jobs_cron by (auto simp: load_schedule_def Let_def split: option.splits sum.splits json.splits)

section \<open>Properties\<close>

text \<open>
  (C38) Listing an installed schedule gives back exactly one line per job, in order, when the texts of
  the desk and its jobs contain no line break.
\<close>

theorem installed_schedule_lists_jobs:
  assumes "load_schedule pe path = Inr jobs" "one_line desk" "list_all plain_job jobs"
    and "install_cron denied desk jobs fs = (Inr file, fs')"
  shows "list_installed_cron desk fs' = map (cron_line desk) jobs"
proof -
  have "list_all one_line (cron_header desk @ map (cron_line desk) jobs)"
    using assms(2,3) one_line_cron_line [OF assms(2)]
    by (auto simp: list_all_iff cron_header_def) (simp_all add: one_line_def is_break_def code_def)
  then have s: "splitlines (render_cron_file desk jobs) = cron_header desk @ map (cron_line desk) jobs"
    unfolding render_cron_file_def using splitlines_join [of "cron_header desk @ map (cron_line desk) jobs"] by simp
  have "l \<noteq> [] \<and> \<not> prefix ''#'' l \<and> \<not> prefix ''PATH='' l" if m: "l \<in> set (map (cron_line desk) jobs)" for l
  proof -
    obtain j where j: "j \<in> set jobs" "l = cron_line desk j" using m by auto
    then have "job_cron j \<noteq> [] \<and> (hd (job_cron j) = CHR ''*'' \<or> is_digit (hd (job_cron j)))"
      using load_schedule_cron [OF assms(1) j(1)] parse_cron_hd by metis
    then show ?thesis unfolding j(2) cron_line_def by (cases "job_cron j") (auto simp: is_digit_def code_def)
  qed
  then have "filter (\<lambda>l. l \<noteq> [] \<and> \<not> prefix ''#'' l \<and> \<not> prefix ''PATH='' l) (map (cron_line desk) jobs) = map (cron_line desk) jobs"
    by (intro filter_True) blast
  moreover have "fs' (cron_file_path desk) = Some (render_cron_file desk jobs)"
    using assms(4) by (auto simp: install_cron_def Let_def split: if_splits)
  ultimately show ?thesis by (simp add: list_installed_cron_def s cron_header_def)
qed

definition sample_schedule_env :: project_env where
  "sample_schedule_env = \<lparr>pe_file = (\<lambda>p. Some (Inr [])),
     pe_yaml = (\<lambda>t. Inr (JObj [(''jobs'', JObj [(''crawl'', JObj [(''cron'', JStr ''0 13 * * *''), (''command'', JStr ''run.sh''),
       (''log'', JStr ''/tmp/a b'')])])])), pe_str = (\<lambda>v. []), pe_type_name = (\<lambda>v. [])\<rparr>"

definition sample_jobs :: "ScheduleJob list" where
  "sample_jobs = [\<lparr>job_name = ''crawl'', job_cron = ''0 13 * * *'', job_command = ''run.sh'', job_log = ''/tmp/a b''\<rparr>]"

theorem installed_schedule_lists_jobs_witness:
  "list_installed_cron ''d'' (snd (install_cron (\<lambda>p. False) ''d'' sample_jobs (\<lambda>p. None))) = map (cron_line ''d'') sample_jobs"
proof -
  have "load_schedule sample_schedule_env ''f'' = Inr sample_jobs" by code_simp
  moreover have "one_line ''d''" "list_all plain_job sample_jobs" by (code_simp, code_simp)
  moreover have "install_cron (\<lambda>p. False) ''d'' sample_jobs (\<lambda>p. None) =
      (Inr (cron_file_path ''d''), snd (install_cron (\<lambda>p. False) ''d'' sample_jobs (\<lambda>p. None)))"
    by (simp add: install_cron_def Let_def)
  ultimately show ?thesis by (rule installed_schedule_lists_jobs)
qed

text \<open>
  A log path with a line break: the quoting of the shell does not keep it on its line, and what
  follows the break is a line of the cron file, run as root.
\<close>

definition breaking_job :: ScheduleJob where
  "breaking_job = \<lparr>job_name = ''j'', job_cron = ''0 13 * * *'', job_command = ''true'',
     job_log = ''x'' @ [CHR 0x0A] @ ''* * * * * root id #''\<rparr>"

lemma log_path_adds_cron_line:
  "\<exists>l\<in>set (list_installed_cron ''d'' (snd (install_cron (\<lambda>p. False) ''d'' [breaking_job] (\<lambda>p. None)))).
     prefix ''* * * * * root id #'' l"
proof -
  have "list_ex (prefix ''* * * * * root id #'') (splitlines (render_cron_file ''d'' [breaking_job]))" by code_simp
  then show ?thesis
    by (auto simp: list_ex_iff list_installed_cron_def install_cron_def Let_def prefix_def)
qed

text \<open>The agents of a desk whose name extends the name of another are removed with the other's.\<close>

lemma agents_of_other_desk: "desk_agent ''a'' (plist_name (launchd_label ''a.b'' ''j''))"
  by code_simp

end
