(* ===== verification/Role_Check.thy ===== *)
theory Role_Check
  imports Project_Config Resource_Ceilings
begin

text \<open>
  core/auditor/role_validator.py: what a project file may declare for the auditor. The validator
  collects the codes of all violations; their messages, which only repeat the fields, are left out.
  How Python reads a float or an integer from a text are the arguments \<open>float_of_text\<close> and
  \<open>int_of_text\<close>. Proved here: a project that passes declares nothing beyond the narrow shape the
  validator is for.
\<close>

definition ALLOWED_FIREWALL_DOMAINS :: "string list" where
  "ALLOWED_FIREWALL_DOMAINS = [''api.anthropic.com'', ''api.telegram.org'']"

definition APPROVED_IMAGE_PREFIXES :: "string list" where
  "APPROVED_IMAGE_PREFIXES = [''ghcr.io/stevefan/drydock-base'', ''ghcr.io/stevefan/drydock-port-auditor'']"

definition MAX_MEMORY_BYTES :: int where
  "MAX_MEMORY_BYTES = 4 * 1024 * 1024 * 1024"

definition FORBIDDEN_CAPABILITIES :: "string list" where
  "FORBIDDEN_CAPABILITIES = [''request_secret_leases'', ''request_storage_leases'', ''request_provision_leases'',
     ''request_workload_leases'', ''request_network_reach'']"

section \<open>Numbers\<close>

text \<open>\<^verbatim>\<open>f > 2.0\<close>; every comparison with NaN is false.\<close>

fun above_max_cpus :: "pyfloat \<Rightarrow> bool" where
  "above_max_cpus (Finite m e) = (if 0 \<le> e then m * 2 ^ nat e > 2 else m > 2 * 2 ^ nat (- e))"
| "above_max_cpus (Infinity neg) = (\<not> neg)"
| "above_max_cpus NotANumber = False"

definition check_cpu :: "(string \<Rightarrow> pyfloat option) \<Rightarrow> json \<Rightarrow> exn + string list" where
  "check_cpu float_of_text v =
    (let judge = (\<lambda>f. if above_max_cpus f then [''cpu-ceiling-exceeded''] else []) in
     case v of
       JInt n \<Rightarrow> (case float_of_int n of None \<Rightarrow> Inl (PyError ''OverflowError'' []) | Some f \<Rightarrow> Inr (judge f))
     | JBool b \<Rightarrow> Inr []
     | JFloat f \<Rightarrow> Inr (judge f)
     | JStr s \<Rightarrow> (case float_of_text s of None \<Rightarrow> Inr [''cpu-ceiling-malformed''] | Some f \<Rightarrow> Inr (judge f))
     | _ \<Rightarrow> Inr [''cpu-ceiling-malformed''])"

text \<open>\<^verbatim>\<open>int(f * 2 ** shift)\<close>; the product of a float and a power of two is exact or overflows.\<close>

definition scaled_int :: "pyfloat \<Rightarrow> int \<Rightarrow> exn + int option" where
  "scaled_int f shift =
    (case f of
       Finite m e \<Rightarrow> if 2 ^ 1024 \<le> \<bar>float_trunc m (e + shift)\<bar> then Inl (PyError ''OverflowError'' [])
                     else Inr (Some (float_trunc m (e + shift)))
     | Infinity neg \<Rightarrow> Inl (PyError ''OverflowError'' [])
     | NotANumber \<Rightarrow> Inr None)"

definition unit_shift :: "char \<Rightarrow> int option" where
  "unit_shift c = (if c = CHR ''k'' then Some 10 else if c = CHR ''m'' then Some 20
     else if c = CHR ''g'' then Some 30 else if c = CHR ''t'' then Some 40 else None)"

definition parse_memory_to_bytes :: "(string \<Rightarrow> pyfloat option) \<Rightarrow> (string \<Rightarrow> int option) \<Rightarrow> json \<Rightarrow> exn + int option" where
  "parse_memory_to_bytes float_of_text int_of_text v =
    (case v of
       JInt n \<Rightarrow> Inr (if 0 \<le> n then Some n else None)
     | JBool b \<Rightarrow> Inr (Some (if b then 1 else 0))
     | JFloat (Finite m e) \<Rightarrow> Inr (if 0 \<le> m then Some (float_trunc m e) else None)
     | JFloat (Infinity neg) \<Rightarrow> if neg then Inr None else Inl (PyError ''OverflowError'' [])
     | JStr raw \<Rightarrow>
         let s = lower (strip raw) in
         if s = [] then Inr None
         else (case unit_shift (last s) of
           Some shift \<Rightarrow> (case float_of_text (butlast s) of None \<Rightarrow> Inr None | Some f \<Rightarrow> scaled_int f shift)
         | None \<Rightarrow> Inr (int_of_text s))
     | _ \<Rightarrow> Inr None)"

definition check_memory :: "(string \<Rightarrow> pyfloat option) \<Rightarrow> (string \<Rightarrow> int option) \<Rightarrow> json \<Rightarrow> exn + string list" where
  "check_memory float_of_text int_of_text v =
    (case parse_memory_to_bytes float_of_text int_of_text v of
       Inl e \<Rightarrow> Inl e
     | Inr None \<Rightarrow> Inr [''memory-ceiling-malformed'']
     | Inr (Some bytes) \<Rightarrow> Inr (if bytes > MAX_MEMORY_BYTES then [''memory-ceiling-exceeded''] else []))"

section \<open>The validator\<close>

definition unhashable :: "json \<Rightarrow> bool" where
  "unhashable v = (case v of JList xs \<Rightarrow> True | JObj d \<Rightarrow> True | _ \<Rightarrow> False)"

definition is_number :: "json \<Rightarrow> bool" where
  "is_number v = (case v of JInt n \<Rightarrow> True | JBool b \<Rightarrow> True | JFloat f \<Rightarrow> True | _ \<Rightarrow> False)"

text \<open>\<^verbatim>\<open>[x for x in value if P x]\<close> for a test of membership in a set of texts, and \<^verbatim>\<open>sorted\<close> of the result.\<close>

definition selected :: "(json \<Rightarrow> bool) \<Rightarrow> json \<Rightarrow> exn + json list" where
  "selected P v =
    (case py_list v of
       Inl e \<Rightarrow> Inl e
     | Inr xs \<Rightarrow>
         let ys = filter P xs in
         if list_ex unhashable xs then Inl (PyError ''TypeError'' ''unhashable type'')
         else if length ys \<le> 1 \<or> list_all (\<lambda>y. as_str y \<noteq> None) ys \<or> list_all is_number ys then Inr ys
         else Inl (PyError ''TypeError'' ''not supported between instances''))"

definition flag :: "bool \<Rightarrow> string \<Rightarrow> string list" where
  "flag b c = (if b then [c] else [])"

definition check_ceilings :: "(string \<Rightarrow> pyfloat option) \<Rightarrow> (string \<Rightarrow> int option) \<Rightarrow> json \<Rightarrow> exn + string list" where
  "check_ceilings float_of_text int_of_text v =
    (case v of
       JObj hard \<Rightarrow>
         let cpu = dict_get hard ''cpu_max''; memory = dict_get hard ''memory_max'' in
         if cpu = JNull \<or> memory = JNull then Inr [''resource-ceiling-required'']
         else (case check_cpu float_of_text cpu of
                 Inl e \<Rightarrow> Inl e
               | Inr a \<Rightarrow> (case check_memory float_of_text int_of_text memory of Inl e \<Rightarrow> Inl e | Inr b \<Rightarrow> Inr (a @ b)))
     | _ \<Rightarrow> Inl (PyError ''AttributeError'' ''get''))"

definition check_image :: "json \<Rightarrow> exn + string list" where
  "check_image v =
    (case v of
       JNull \<Rightarrow> Inr []
     | JStr im \<Rightarrow> Inr (flag (\<not> list_ex (\<lambda>p. prefix p im) APPROVED_IMAGE_PREFIXES) ''image-not-approved'')
     | _ \<Rightarrow> Inl (PyError ''AttributeError'' ''startswith''))"

text \<open>The codes of the violations; a valid project has none.\<close>

definition validate_auditor_role ::
    "(string \<Rightarrow> pyfloat option) \<Rightarrow> (string \<Rightarrow> int option) \<Rightarrow> ProjectConfig \<Rightarrow> exn + string list" where
  "validate_auditor_role float_of_text int_of_text cfg =
    (if pc_role cfg \<noteq> ''auditor'' then Inr []
     else
       case selected (\<lambda>d. d \<notin> JStr ` set ALLOWED_FIREWALL_DOMAINS) (pc_firewall_extra_domains cfg) of Inl e \<Rightarrow> Inl e | Inr bad \<Rightarrow>
       (case selected (\<lambda>c. c \<in> JStr ` set FORBIDDEN_CAPABILITIES) (pc_capabilities cfg) of Inl e \<Rightarrow> Inl e | Inr forbidden \<Rightarrow>
       (case check_ceilings float_of_text int_of_text (pc_resources_hard cfg) of Inl e \<Rightarrow> Inl e | Inr ceilings \<Rightarrow>
       (case check_image (pc_image cfg) of Inl e \<Rightarrow> Inl e | Inr im \<Rightarrow>
          Inr (flag (bad \<noteq> []) ''egress-domain-not-allowed'' @
            flag (truthy (pc_firewall_aws_ip_ranges cfg)) ''aws-egress-forbidden'' @
            flag (truthy (pc_firewall_ipv6_hosts cfg)) ''ipv6-egress-forbidden'' @
            flag (truthy (pc_delegatable_network_reach cfg)) ''network-reach-delegation-forbidden'' @
            flag (forbidden \<noteq> []) ''broker-capability-forbidden'' @
            flag (truthy (pc_delegatable_secrets cfg)) ''secret-delegation-forbidden'' @
            flag (truthy (pc_delegatable_storage_scopes cfg)) ''storage-delegation-forbidden'' @
            flag (truthy (pc_delegatable_provision_scopes cfg)) ''provision-delegation-forbidden'' @
            flag (truthy (pc_delegatable_firewall_domains cfg)) ''firewall-delegation-forbidden'' @
            ceilings @ im @
            flag (truthy (pc_storage_mounts cfg)) ''storage-mount-forbidden'' @
            flag (truthy (pc_extra_mounts cfg)) ''extra-mount-forbidden'' @
            flag (truthy (pc_forward_ports cfg)) ''forward-port-forbidden'')))))"

section \<open>Facts\<close>

lemma flag_Nil [simp]: "flag b c = [] \<longleftrightarrow> \<not> b"
  by (simp add: flag_def)

lemma selected_Nil:
  assumes "selected P v = Inr []"
  shows "\<exists>xs. py_list v = Inr xs \<and> (\<forall>x\<in>set xs. \<not> P x)"
  using assms by (auto simp: selected_def Let_def filter_empty_conv split: sum.splits if_splits)

lemma check_memory_Nil:
  "check_memory ft it v = Inr [] \<Longrightarrow> \<exists>n. parse_memory_to_bytes ft it v = Inr (Some n) \<and> n \<le> MAX_MEMORY_BYTES"
  by (auto simp: check_memory_def split: sum.splits option.splits if_splits)

lemma check_ceilings_Nil:
  assumes "check_ceilings ft it v = Inr []"
  shows "\<exists>hard n. v = JObj hard \<and> check_cpu ft (dict_get hard ''cpu_max'') = Inr [] \<and>
    parse_memory_to_bytes ft it (dict_get hard ''memory_max'') = Inr (Some n) \<and> n \<le> MAX_MEMORY_BYTES"
  using assms check_memory_Nil by (auto simp: check_ceilings_def Let_def split: json.splits if_splits sum.splits)

section \<open>Property\<close>

text \<open>
  (C37) A project of the auditor that passes the validator is narrow: it opens no domain but the two
  that are allowed and no address range, declares none of the capabilities of the broker, delegates
  nothing, mounts and forwards nothing, and has a memory ceiling of at most four gigabytes.
\<close>

theorem valid_auditor_is_narrow:
  assumes "validate_auditor_role float_of_text int_of_text cfg = Inr []" "pc_role cfg = ''auditor''"
  shows "(\<exists>xs. py_list (pc_firewall_extra_domains cfg) = Inr xs \<and> set xs \<subseteq> JStr ` set ALLOWED_FIREWALL_DOMAINS) \<and>
    (\<exists>cs. py_list (pc_capabilities cfg) = Inr cs \<and> set cs \<inter> JStr ` set FORBIDDEN_CAPABILITIES = {}) \<and>
    (\<exists>hard n. pc_resources_hard cfg = JObj hard \<and> check_cpu float_of_text (dict_get hard ''cpu_max'') = Inr [] \<and>
       parse_memory_to_bytes float_of_text int_of_text (dict_get hard ''memory_max'') = Inr (Some n) \<and> n \<le> MAX_MEMORY_BYTES) \<and>
    (pc_image cfg = JNull \<or> (\<exists>i p. pc_image cfg = JStr i \<and> p \<in> set APPROVED_IMAGE_PREFIXES \<and> prefix p i)) \<and>
    \<not> list_ex truthy [pc_firewall_aws_ip_ranges cfg, pc_firewall_ipv6_hosts cfg, pc_delegatable_network_reach cfg,
      pc_delegatable_secrets cfg, pc_delegatable_storage_scopes cfg, pc_delegatable_provision_scopes cfg,
      pc_delegatable_firewall_domains cfg, pc_storage_mounts cfg, pc_extra_mounts cfg, pc_forward_ports cfg]"
proof -
  have v:
    "selected (\<lambda>d. d \<notin> JStr ` set ALLOWED_FIREWALL_DOMAINS) (pc_firewall_extra_domains cfg) = Inr []"
    "selected (\<lambda>c. c \<in> JStr ` set FORBIDDEN_CAPABILITIES) (pc_capabilities cfg) = Inr []"
    "check_ceilings float_of_text int_of_text (pc_resources_hard cfg) = Inr []"
    "check_image (pc_image cfg) = Inr []"
    "\<not> list_ex truthy [pc_firewall_aws_ip_ranges cfg, pc_firewall_ipv6_hosts cfg, pc_delegatable_network_reach cfg,
      pc_delegatable_secrets cfg, pc_delegatable_storage_scopes cfg, pc_delegatable_provision_scopes cfg,
      pc_delegatable_firewall_domains cfg, pc_storage_mounts cfg, pc_extra_mounts cfg, pc_forward_ports cfg]"
    using assms by (auto simp: validate_auditor_role_def split: sum.splits)
  have "pc_image cfg = JNull \<or> (\<exists>i p. pc_image cfg = JStr i \<and> p \<in> set APPROVED_IMAGE_PREFIXES \<and> prefix p i)"
    using v(4) by (auto simp: check_image_def list_ex_iff split: json.splits)
  then show ?thesis
    using selected_Nil [OF v(1)] selected_Nil [OF v(2)] check_ceilings_Nil [OF v(3)] v(5) by blast
qed

definition sample_auditor_file :: dict where
  "sample_auditor_file = [(''role'', JStr ''auditor''), (''firewall_extra_domains'', jstrs [''api.telegram.org'']),
     (''resources_hard'', JObj [(''cpu_max'', JFloat (Finite 1 0)), (''memory_max'', JInt 1024)])]"

definition sample_reader :: project_env where
  "sample_reader = \<lparr>pe_file = (\<lambda>p. None), pe_yaml = (\<lambda>t. Inr JNull), pe_str = (\<lambda>v. []), pe_type_name = (\<lambda>v. [])\<rparr>"

theorem valid_auditor_is_narrow_witness:
  "\<exists>xs. py_list (pc_firewall_extra_domains (config_of_dict sample_reader sample_auditor_file)) = Inr xs \<and>
     set xs \<subseteq> JStr ` set ALLOWED_FIREWALL_DOMAINS"
proof -
  have "validate_auditor_role (\<lambda>s. None) (\<lambda>s. None) (config_of_dict sample_reader sample_auditor_file) = Inr []" by code_simp
  moreover have "pc_role (config_of_dict sample_reader sample_auditor_file) = ''auditor''" by code_simp
  ultimately show ?thesis using valid_auditor_is_narrow by blast
qed

text \<open>A processor share of NaN is below every ceiling.\<close>

lemma nan_cpu_passes: "check_cpu (\<lambda>s. None) (JFloat NotANumber) = Inr []"
  by code_simp

end
