(* ===== verification/Deskwatch.thy ===== *)
theory Deskwatch
  imports Resource_Ceilings Effects Sample
begin

text \<open>
  core/deskwatch.py: whether the declared workload of a desk does its job. Scheduled jobs are judged by
  their last recorded run, outputs by the age of a file in the container, probes by a command that
  is run again when its last result is old. A time is a number of microseconds; how Python
  reads a time stamp, a number in a text and a float, and prints a value, are fields of a
  \<open>deskwatch_env\<close>. The texts of caught exceptions are left empty, a dash is a hyphen, and an
  example in a hint is written on one line. The report leaves out the time of the evaluation, which
  is an argument.
\<close>

record deskwatch_env =
  dwe_iso :: "string \<Rightarrow> int option"
  dwe_int :: "string \<Rightarrow> int option"
  dwe_micros :: "pyfloat \<Rightarrow> int option"
  dwe_str :: "json \<Rightarrow> string"

definition dwe_text :: "deskwatch_env \<Rightarrow> json \<Rightarrow> string" where
  "dwe_text de v = (case v of JStr s \<Rightarrow> s | _ \<Rightarrow> dwe_str de v)"

section \<open>Durations\<close>

definition DURATION_UNITS :: "(char \<times> int) list" where
  "DURATION_UNITS = [(CHR ''s'', 1), (CHR ''m'', 60), (CHR ''h'', 3600), (CHR ''d'', 86400)]"

text \<open>The number and the lowered unit letter of a text that matches \<^verbatim>\<open>_DURATION_RE\<close>.\<close>

definition match_duration :: "string \<Rightarrow> (nat \<times> char) option" where
  "match_duration s =
    (let t = dropWhile is_space s; digits = takeWhile is_digit t; rest = dropWhile is_space (dropWhile is_digit t) in
     case rest of
       c # trail \<Rightarrow> if digits \<noteq> [] \<and> lower_char c \<in> set ''smhd'' \<and> list_all is_space trail
                    then Some (digits_value digits, lower_char c) else None
     | [] \<Rightarrow> None)"

text \<open>
  \<^verbatim>\<open>timedelta(seconds=n)\<close>, limited to 999999999 days. That is below \<open>2 ^ 53\<close> seconds, so the
  \<^verbatim>\<open>float\<close> the code makes of an integer first is exact wherever the limit admits it.
\<close>

definition timedelta :: "int \<Rightarrow> exn + int" where
  "timedelta seconds =
    (if \<bar>seconds div 86400\<bar> > 999999999 then Inl (PyError ''OverflowError'' []) else Inr (seconds * 1000000))"

definition parse_duration :: "deskwatch_env \<Rightarrow> json \<Rightarrow> exn + int" where
  "parse_duration de v =
    (case v of
       JInt n \<Rightarrow> timedelta n
     | JBool b \<Rightarrow> timedelta (if b then 1 else 0)
     | JFloat f \<Rightarrow> (case dwe_micros de f of None \<Rightarrow> Inl (PyError ''OverflowError'' []) | Some us \<Rightarrow> Inr us)
     | _ \<Rightarrow>
         (case match_duration (dwe_text de v) of
            None \<Rightarrow> Inl (WsError (''Invalid duration: '' @ dwe_str de v)
                      (Some (''Use forms like '' @ quoted ''25h'' @ '', '' @ quoted ''30m'' @ '', '' @ quoted ''1d'' @ '', or bare seconds'')))
          | Some (n, u) \<Rightarrow> timedelta (int n * the (map_of DURATION_UNITS u))))"

text \<open>\<^verbatim>\<open>int(delta.total_seconds())\<close>.\<close>

definition whole_seconds :: "int \<Rightarrow> int" where
  "whole_seconds us = (if 0 \<le> us then us div 1000000 else - ((- us) div 1000000))"

definition format_age :: "int \<Rightarrow> string" where
  "format_age delta =
    (let total = whole_seconds delta in
     if total < 60 then show_int total @ ''s''
     else if total < 3600 then show_int (total div 60) @ ''m''
     else if total < 86400 then
       let h = total div 60 div 60; m = total div 60 mod 60 in
       if m \<noteq> 0 then show_int h @ ''h '' @ show_int m @ ''m'' else show_int h @ ''h''
     else
       let d = total div 86400; h = total mod 86400 div 3600 in
       if h \<noteq> 0 then show_int d @ ''d '' @ show_int h @ ''h'' else show_int d @ ''d'')"

section \<open>Expectations\<close>

record JobExpectation =
  je_name :: string
  expect_success_within :: int

record OutputExpectation =
  oe_path :: string
  oe_max_age :: int
  may_be_empty :: bool

record ProbeExpectation =
  pb_name :: string
  pb_cmd :: string
  pb_interval :: int

record DeskwatchConfig =
  dc_jobs :: "JobExpectation list"
  dc_outputs :: "OutputExpectation list"
  dc_probes :: "ProbeExpectation list"

definition sum_bind :: "exn + 'a \<Rightarrow> ('a \<Rightarrow> exn + 'b) \<Rightarrow> exn + 'b" where
  "sum_bind m f = (case m of Inl e \<Rightarrow> Inl e | Inr x \<Rightarrow> f x)"

fun sum_map :: "('a \<Rightarrow> exn + 'b) \<Rightarrow> 'a list \<Rightarrow> exn + 'b list" where
  "sum_map f [] = Inr []"
| "sum_map f (x # xs) = sum_bind (f x) (\<lambda>y. sum_bind (sum_map f xs) (\<lambda>ys. Inr (y # ys)))"

text \<open>An entry of a section: an object with the required keys.\<close>

definition entry_with :: "string list \<Rightarrow> exn \<Rightarrow> json \<Rightarrow> exn + dict" where
  "entry_with keys bad item =
    (case item of JObj d \<Rightarrow> if list_all (\<lambda>k. map_of d k \<noteq> None) keys then Inr d else Inl bad | _ \<Rightarrow> Inl bad)"

definition parse_job :: "deskwatch_env \<Rightarrow> json \<Rightarrow> exn + JobExpectation" where
  "parse_job de item =
     sum_bind (entry_with [''name''] (WsError (''deskwatch.jobs entries must be dicts with at least '' @ quoted ''name'')
        (Some ''Example: - name: daily-crawl, expect_success_within: 25h'')) item) (\<lambda>d.
     sum_bind (parse_duration de (dict_get_default d ''expect_success_within'' (JStr ''25h''))) (\<lambda>within.
     Inr \<lparr>je_name = dwe_text de (dict_get d ''name''), expect_success_within = within\<rparr>))"

definition parse_output :: "deskwatch_env \<Rightarrow> json \<Rightarrow> exn + OutputExpectation" where
  "parse_output de item =
     sum_bind (entry_with [''path''] (WsError (''deskwatch.outputs entries must be dicts with at least '' @ quoted ''path'')
        (Some ''Example: - path: /drydock/data/out.db, max_age: 25h'')) item) (\<lambda>d.
     sum_bind (parse_duration de (dict_get_default d ''max_age'' (JStr ''25h''))) (\<lambda>age.
     Inr \<lparr>oe_path = dwe_text de (dict_get d ''path''), oe_max_age = age,
          may_be_empty = truthy (dict_get_default d ''may_be_empty'' (JBool False))\<rparr>))"

definition parse_probe :: "deskwatch_env \<Rightarrow> json \<Rightarrow> exn + ProbeExpectation" where
  "parse_probe de item =
     sum_bind (entry_with [''name'', ''cmd''] (WsError (''deskwatch.probes entries must have '' @ quoted ''name'' @ '' and '' @ quoted ''cmd'')
        (Some (''Example: - name: db-readable, cmd: '' @ quoted ''test -r /path''))) item) (\<lambda>d.
     sum_bind (parse_duration de (dict_get_default d ''interval'' (JStr ''1h''))) (\<lambda>interval.
     Inr \<lparr>pb_name = dwe_text de (dict_get d ''name''), pb_cmd = dwe_text de (dict_get d ''cmd''), pb_interval = interval\<rparr>))"

text \<open>\<^verbatim>\<open>for item in raw.get(key) or []\<close>.\<close>

definition config_section :: "dict \<Rightarrow> string \<Rightarrow> (json \<Rightarrow> exn + 'a) \<Rightarrow> exn + 'a list" where
  "config_section raw key parse =
     sum_bind (if truthy (dict_get raw key) then py_list (dict_get raw key) else Inr []) (sum_map parse)"

definition parse_deskwatch_config :: "deskwatch_env \<Rightarrow> json \<Rightarrow> exn + DeskwatchConfig" where
  "parse_deskwatch_config de raw =
    (if \<not> truthy raw then Inr \<lparr>dc_jobs = [], dc_outputs = [], dc_probes = []\<rparr>
     else (case raw of
       JObj d \<Rightarrow>
         sum_bind (config_section d ''jobs'' (parse_job de)) (\<lambda>jobs.
         sum_bind (config_section d ''outputs'' (parse_output de)) (\<lambda>outputs.
         sum_bind (config_section d ''probes'' (parse_probe de)) (\<lambda>probes.
         Inr \<lparr>dc_jobs = jobs, dc_outputs = outputs, dc_probes = probes\<rparr>)))
     | _ \<Rightarrow> Inl (PyError ''AttributeError'' ''get'')))"

section \<open>Checks\<close>

record Check =
  ck_kind :: string
  ck_name :: string
  ck_healthy :: bool
  ck_detail :: string
  ck_raw :: dict

definition check :: "string \<Rightarrow> string \<Rightarrow> bool \<Rightarrow> string \<Rightarrow> dict \<Rightarrow> Check" where
  "check kind name healthy detail raw =
     \<lparr>ck_kind = kind, ck_name = name, ck_healthy = healthy, ck_detail = detail, ck_raw = raw\<rparr>"

definition check_to_dict :: "Check \<Rightarrow> dict" where
  "check_to_dict c =
     [(''kind'', JStr (ck_kind c)), (''name'', JStr (ck_name c)), (''healthy'', JBool (ck_healthy c)),
      (''detail'', JStr (ck_detail c))] @ ck_raw c"

definition parse_ts :: "deskwatch_env \<Rightarrow> string \<Rightarrow> exn + int" where
  "parse_ts de ts =
    (case dwe_iso de (if suffix ''Z'' ts then butlast ts @ ''+00:00'' else ts) of
       None \<Rightarrow> Inl (PyError ''ValueError'' ''Invalid isoformat string'') | Some t \<Rightarrow> Inr t)"

definition seconds :: "int \<Rightarrow> json" where
  "seconds us = JInt (whole_seconds us)"

definition evaluate_job :: "deskwatch_env \<Rightarrow> registry \<Rightarrow> string \<Rightarrow> int \<Rightarrow> JobExpectation \<Rightarrow> exn + Check" where
  "evaluate_job de r drydock_id now job =
    (let within = expect_success_within job in
     case last_deskwatch_event r drydock_id ''job_run'' (je_name job) of
       None \<Rightarrow> Inr (check ''job'' (je_name job) False (''no run on record; expected within '' @ format_age within)
                 [(''last_run'', JNull), (''expect_success_within'', seconds within)])
     | Some e \<Rightarrow>
         sum_bind (parse_ts de (dw_timestamp e)) (\<lambda>t.
         let age = now - t; last_ok = (dw_status e = ''ok''); fresh = (age \<le> within);
             noted = (case dw_detail e of Some (c # cs) \<Rightarrow> c # cs | _ \<Rightarrow> ''no detail'');
             detail = (if \<not> last_ok then ''last run '' @ format_age age @ '' ago -> '' @ dw_status e @ '' ('' @ noted @ '')''
                       else if \<not> fresh then ''last success '' @ format_age age @ '' ago, exceeds '' @ format_age within
                       else ''last success '' @ format_age age @ '' ago, within '' @ format_age within)
         in Inr (check ''job'' (je_name job) (last_ok \<and> fresh) detail
              [(''last_run'', JStr (dw_timestamp e)), (''last_status'', JStr (dw_status e)), (''age_seconds'', seconds age),
               (''expect_success_within'', seconds within)])))"

definition evaluate_jobs :: "deskwatch_env \<Rightarrow> registry \<Rightarrow> string \<Rightarrow> int \<Rightarrow> JobExpectation list \<Rightarrow> exn + Check list" where
  "evaluate_jobs de r drydock_id now jobs = sum_map (evaluate_job de r drydock_id now) jobs"

definition docker_exec_probe :: "env \<Rightarrow> string \<Rightarrow> string list \<Rightarrow> proc op" where
  "docker_exec_probe env container_id argv = subprocess_run env ([''docker'', ''exec'', container_id] @ argv) None"

text \<open>
  The modification time and the bytes that \<^verbatim>\<open>stat\<close> printed, \<^const>\<open>None\<close> for the \<^verbatim>\<open>ValueError\<close> the code
  catches. The \<^verbatim>\<open>OverflowError\<close> and \<^verbatim>\<open>OSError\<close> of \<^verbatim>\<open>fromtimestamp\<close>, for times no file system
  stores, are left out.
\<close>

definition parse_stat :: "deskwatch_env \<Rightarrow> string \<Rightarrow> (int \<times> int) option" where
  "parse_stat de out =
    (case words_from [] out of
       [m, s] \<Rightarrow> (case (dwe_int de m, dwe_int de s) of (Some t, Some n) \<Rightarrow> Some (t * 1000000, n) | _ \<Rightarrow> None)
     | _ \<Rightarrow> None)"

definition judge_output :: "deskwatch_env \<Rightarrow> int \<Rightarrow> OutputExpectation \<Rightarrow> proc \<Rightarrow> Check" where
  "judge_output de now out p =
    (let path = oe_path out; verdict = (\<lambda>h detail raw. check ''output'' path h detail ((''path'', JStr path) # raw)) in
     case p of
       Completed rc text err \<Rightarrow>
         if rc \<noteq> 0 then verdict False ''missing'' [(''missing'', JBool True)]
         else (case parse_stat de text of
           None \<Rightarrow> verdict False (''unparseable stat output: '' @ quoted (strip text)) []
         | Some (mtime, bytes) \<Rightarrow>
             let age = now - mtime in
             if bytes = 0 \<and> \<not> may_be_empty out
             then verdict False ''empty file (may_be_empty: false)'' [(''size'', JInt 0), (''age_seconds'', seconds age)]
             else if age > oe_max_age out
             then verdict False (''age '' @ format_age age @ '' exceeds '' @ format_age (oe_max_age out))
               [(''size'', JInt bytes), (''age_seconds'', seconds age), (''max_age_seconds'', seconds (oe_max_age out))]
             else verdict True (''fresh ('' @ format_age age @ '' old, '' @ show_int bytes @ '' bytes)'')
               [(''size'', JInt bytes), (''age_seconds'', seconds age)])
     | _ \<Rightarrow> verdict False ''stat failed: '' [])"

definition evaluate_output :: "env \<Rightarrow> deskwatch_env \<Rightarrow> string \<Rightarrow> int \<Rightarrow> OutputExpectation \<Rightarrow> Check op" where
  "evaluate_output env de container_id now out =
    (if container_id = [] then
       ret (check ''output'' (oe_path out) False ''container not running; cannot check'' [(''path'', JStr (oe_path out))])
     else bind (docker_exec_probe env container_id [''stat'', ''-c'', ''%Y %s'', oe_path out]) (\<lambda>p. ret (judge_output de now out p)))"

fun map_op :: "('a \<Rightarrow> 'b op) \<Rightarrow> 'a list \<Rightarrow> 'b list op" where
  "map_op f [] = ret []"
| "map_op f (x # xs) = bind (f x) (\<lambda>y. bind (map_op f xs) (\<lambda>ys. ret (y # ys)))"

definition evaluate_outputs :: "env \<Rightarrow> deskwatch_env \<Rightarrow> string \<Rightarrow> int \<Rightarrow> OutputExpectation list \<Rightarrow> Check list op" where
  "evaluate_outputs env de container_id now outputs = map_op (evaluate_output env de container_id now) outputs"

definition record_event :: "env \<Rightarrow> string \<Rightarrow> string \<Rightarrow> string \<Rightarrow> string \<Rightarrow> unit op" where
  "record_event env drydock_id name status detail =
     bind (utc_now env) (\<lambda>ts.
     bind (update_reg (record_deskwatch_event drydock_id ''probe_result'' name status (Some detail) ts)) (\<lambda>_. ret ()))"

definition probe_status :: "proc \<Rightarrow> string \<times> string" where
  "probe_status p =
    (case p of
       Completed rc out err \<Rightarrow> (if rc = 0 then ''ok'' else ''failed'',
         ''exit '' @ show_int rc @ (if strip err \<noteq> [] then '': '' @ take 120 (strip err) else []))
     | _ \<Rightarrow> (''failed'', ''probe exception: ''))"

definition probe_due :: "deskwatch_env \<Rightarrow> int \<Rightarrow> bool \<Rightarrow> ProbeExpectation \<Rightarrow> deskwatch_row option \<Rightarrow> exn + bool" where
  "probe_due de now force_rerun probe prior =
    (case prior of
       Some e \<Rightarrow> if force_rerun then Inr True
                 else sum_bind (parse_ts de (dw_timestamp e)) (\<lambda>t. Inr (\<not> now - t < pb_interval probe))
     | None \<Rightarrow> Inr True)"

definition probe_check :: "deskwatch_env \<Rightarrow> int \<Rightarrow> ProbeExpectation \<Rightarrow> deskwatch_row \<Rightarrow> exn + Check" where
  "probe_check de now probe e =
     sum_bind (parse_ts de (dw_timestamp e)) (\<lambda>t.
     let age = now - t in
     Inr (check ''probe'' (pb_name probe) (dw_status e = ''ok'')
       (dw_status e @ '' ('' @ format_age age @ '' ago)'' @ (case dw_detail e of Some (c # cs) \<Rightarrow> '' - '' @ c # cs | _ \<Rightarrow> []))
       [(''cmd'', JStr (pb_cmd probe)), (''last_status'', JStr (dw_status e)), (''age_seconds'', seconds age)]))"

definition evaluate_probe ::
    "env \<Rightarrow> deskwatch_env \<Rightarrow> string \<Rightarrow> string \<Rightarrow> int \<Rightarrow> bool \<Rightarrow> ProbeExpectation \<Rightarrow> Check op" where
  "evaluate_probe env de drydock_id container_id now force_rerun probe =
    (let find_last = query (\<lambda>r. last_deskwatch_event r drydock_id ''probe_result'' (pb_name probe)) in
     bind find_last (\<lambda>last.
     bind (from_sum (probe_due de now force_rerun probe last)) (\<lambda>due.
       if due \<and> container_id = [] then
         andthen (record_event env drydock_id (pb_name probe) ''missing'' ''container not running'')
           (ret (check ''probe'' (pb_name probe) False ''container not running'' [(''cmd'', JStr (pb_cmd probe))]))
       else
         bind (if due then
                 bind (docker_exec_probe env container_id [''sh'', ''-lc'', pb_cmd probe]) (\<lambda>p.
                 andthen (record_event env drydock_id (pb_name probe) (fst (probe_status p)) (snd (probe_status p))) find_last)
               else ret last) (\<lambda>last.
         bind (required last (PyError ''TypeError'' [])) (\<lambda>e.
           from_sum (probe_check de now probe e))))))"

definition evaluate_probes ::
    "env \<Rightarrow> deskwatch_env \<Rightarrow> string \<Rightarrow> string \<Rightarrow> int \<Rightarrow> bool \<Rightarrow> ProbeExpectation list \<Rightarrow> Check list op" where
  "evaluate_probes env de drydock_id container_id now force_rerun probes =
     map_op (evaluate_probe env de drydock_id container_id now force_rerun) probes"

record desk_report =
  dr_desk :: string
  dr_drydock_id :: string
  dr_checks :: "Check list"
  dr_violations :: nat
  dr_healthy :: bool

definition evaluate_desk ::
    "env \<Rightarrow> deskwatch_env \<Rightarrow> drydock_row \<Rightarrow> string \<Rightarrow> DeskwatchConfig \<Rightarrow> int \<Rightarrow> bool \<Rightarrow> desk_report op" where
  "evaluate_desk env de ws container_id config now force_rerun =
     bind (query (\<lambda>r. evaluate_jobs de r (dd_id ws) now (dc_jobs config))) (\<lambda>found.
     bind (from_sum found) (\<lambda>jobs.
     bind (evaluate_outputs env de container_id now (dc_outputs config)) (\<lambda>outputs.
     bind (evaluate_probes env de (dd_id ws) container_id now force_rerun (dc_probes config)) (\<lambda>probes.
     let checks = jobs @ outputs @ probes; violations = length (filter (\<lambda>c. \<not> ck_healthy c) checks) in
     ret \<lparr>dr_desk = dd_name ws, dr_drydock_id = dd_id ws, dr_checks = checks, dr_violations = violations,
          dr_healthy = (violations = 0)\<rparr>))))"

section \<open>Facts\<close>

lemma sum_bind_Inr [simp]: "sum_bind m f = Inr y \<longleftrightarrow> (\<exists>x. m = Inr x \<and> f x = Inr y)"
  by (auto simp: sum_bind_def split: sum.splits)

lemma sum_map_Inr: "sum_map f xs = Inr ys \<Longrightarrow> list_all2 (\<lambda>x y. f x = Inr y) xs ys"
  by (induction xs arbitrary: ys) auto

lemma map_op_Cons_Inr:
  "map_op f (x # xs) w = (Inr zs, w') \<longleftrightarrow>
   (\<exists>y ys w1. f x w = (Inr y, w1) \<and> map_op f xs w1 = (Inr ys, w') \<and> zs = y # ys)"
  by (auto simp: bind_def ret_def split: prod.splits sum.splits)

definition job_met :: "deskwatch_env \<Rightarrow> registry \<Rightarrow> string \<Rightarrow> int \<Rightarrow> JobExpectation \<Rightarrow> bool" where
  "job_met de r drydock_id now job \<longleftrightarrow>
    (\<exists>e t. last_deskwatch_event r drydock_id ''job_run'' (je_name job) = Some e \<and> dw_status e = ''ok'' \<and>
       parse_ts de (dw_timestamp e) = Inr t \<and> now - t \<le> expect_success_within job)"

definition output_met :: "env \<Rightarrow> deskwatch_env \<Rightarrow> string \<Rightarrow> int \<Rightarrow> OutputExpectation \<Rightarrow> bool" where
  "output_met env de container_id now out \<longleftrightarrow>
    (\<exists>n text err mtime bytes.
       e_run env n [''docker'', ''exec'', container_id, ''stat'', ''-c'', ''%Y %s'', oe_path out] None = Completed 0 text err \<and>
       parse_stat de text = Some (mtime, bytes) \<and> (bytes \<noteq> 0 \<or> may_be_empty out) \<and> now - mtime \<le> oe_max_age out)"

definition probe_met :: "registry \<Rightarrow> string \<Rightarrow> string \<Rightarrow> bool" where
  "probe_met r drydock_id name \<longleftrightarrow>
    (\<exists>e. last_deskwatch_event r drydock_id ''probe_result'' name = Some e \<and> dw_status e = ''ok'')"

lemma check_healthy [simp]: "ck_healthy (check k n h d r) = h"
  by (simp add: check_def)

lemma evaluate_job_healthy: "evaluate_job de r i now job = Inr c \<Longrightarrow> ck_healthy c = job_met de r i now job"
  by (auto simp: evaluate_job_def job_met_def Let_def split: option.splits)

lemma judge_output_healthy:
  "ck_healthy (judge_output de now out p) \<Longrightarrow>
   \<exists>text err mtime bytes. p = Completed 0 text err \<and> parse_stat de text = Some (mtime, bytes) \<and>
     (bytes \<noteq> 0 \<or> may_be_empty out) \<and> now - mtime \<le> oe_max_age out"
  by (cases p) (auto simp: judge_output_def Let_def split: option.splits if_splits)

lemma evaluate_output_healthy:
  assumes "evaluate_output env de cid now out w = (Inr c, w')"
  shows "ck_healthy c \<Longrightarrow> output_met env de cid now out" "w_reg w' = w_reg w"
proof -
  show "w_reg w' = w_reg w"
    using assms by (auto simp: evaluate_output_def docker_exec_probe_def effect_defs split: if_splits)
  assume h: "ck_healthy c"
  then have "c = judge_output de now out (e_run env (w_ticks w) [''docker'', ''exec'', cid, ''stat'', ''-c'', ''%Y %s'', oe_path out] None)"
    using assms by (auto simp: evaluate_output_def docker_exec_probe_def effect_defs split: if_splits)
  then show "output_met env de cid now out"
    using judge_output_healthy [of de now out] h unfolding output_met_def by metis
qed

lemma evaluate_outputs_healthy:
  "map_op (evaluate_output env de cid now) outs w = (Inr cs, w') \<Longrightarrow>
   (list_all ck_healthy cs \<longrightarrow> list_all (output_met env de cid now) outs) \<and> w_reg w' = w_reg w"
proof (induction outs arbitrary: w cs)
  case Nil
  then show ?case by (simp add: ret_def)
next
  case (Cons out outs)
  obtain y ys w1 where s: "evaluate_output env de cid now out w = (Inr y, w1)"
      "map_op (evaluate_output env de cid now) outs w1 = (Inr ys, w')" "cs = y # ys"
    using Cons.prems unfolding map_op_Cons_Inr by blast
  then show ?case using Cons.IH [OF s(2)] evaluate_output_healthy [OF s(1)] by simp
qed

lemma last_event_other:
  "n \<noteq> name \<Longrightarrow> last_deskwatch_event (snd (record_deskwatch_event i k name st d ts r)) i' k' n = last_deskwatch_event r i' k' n"
  by (simp add: record_deskwatch_event_def last_deskwatch_event_def Let_def)

lemma record_event_reg:
  "record_event env i name st d w = (res, w') \<Longrightarrow>
   \<exists>ts. res = Inr () \<and> w_reg w' = snd (record_deskwatch_event i ''probe_result'' name st (Some d) ts (w_reg w))"
  by (auto simp: record_event_def effect_defs case_prod_unfold)

lemma probe_check_healthy: "probe_check de now probe e = Inr c \<Longrightarrow> ck_healthy c = (dw_status e = ''ok'')"
  by (auto simp: probe_check_def Let_def)


lemma evaluate_probe_healthy:
  assumes "evaluate_probe env de i cid now force probe w = (Inr c, w')"
  shows "ck_healthy c \<Longrightarrow> probe_met (w_reg w') i (pb_name probe)"
    and "n \<noteq> pb_name probe \<Longrightarrow> probe_met (w_reg w') i n = probe_met (w_reg w) i n"
proof -
  let ?last = "\<lambda>w. last_deskwatch_event (w_reg w) i ''probe_result'' (pb_name probe)"
  obtain due where due: "probe_due de now force probe (?last w) = Inr due"
    using assms by (auto simp: evaluate_probe_def effect_defs Let_def split: sum.splits)
  consider (missing) "due" "cid = []" | (run) "due" "cid \<noteq> []" | (cached) "\<not> due" by blast
  then have "(ck_healthy c \<longrightarrow> probe_met (w_reg w') i (pb_name probe)) \<and>
      (n \<noteq> pb_name probe \<longrightarrow> probe_met (w_reg w') i n = probe_met (w_reg w) i n)"
  proof cases
    case missing
    obtain res w1 where r: "record_event env i (pb_name probe) ''missing'' ''container not running'' w = (res, w1)" by fastforce
    from record_event_reg [OF r] have "\<not> ck_healthy c" "w_reg w' = w_reg w1"
      using assms due missing r by (auto simp: evaluate_probe_def effect_defs Let_def)
    then show ?thesis using record_event_reg [OF r] by (auto simp: probe_met_def last_event_other)
  next
    case run
    obtain p w1 where p: "docker_exec_probe env cid [''sh'', ''-lc'', pb_cmd probe] w = (Inr p, w1)" "w_reg w1 = w_reg w"
      by (auto simp: docker_exec_probe_def effect_defs)
    obtain res w2 where r: "record_event env i (pb_name probe) (fst (probe_status p)) (snd (probe_status p)) w1 = (res, w2)" by fastforce
    from record_event_reg [OF r] have "w' = w2" "\<exists>e. ?last w2 = Some e \<and> probe_check de now probe e = Inr c"
      using assms due run p(1) r by (auto simp: evaluate_probe_def effect_defs Let_def split: option.splits sum.splits)
    then show ?thesis using record_event_reg [OF r] p(2) probe_check_healthy
      by (auto simp: probe_met_def last_event_other)
  next
    case cached
    have "w' = w" "\<exists>e. ?last w = Some e \<and> probe_check de now probe e = Inr c"
      using assms due cached by (auto simp: evaluate_probe_def effect_defs Let_def split: option.splits sum.splits)
    then show ?thesis using probe_check_healthy by (auto simp: probe_met_def)
  qed
  then show "ck_healthy c \<Longrightarrow> probe_met (w_reg w') i (pb_name probe)"
    and "n \<noteq> pb_name probe \<Longrightarrow> probe_met (w_reg w') i n = probe_met (w_reg w) i n" by blast+
qed

lemma evaluate_probes_frame:
  "map_op (evaluate_probe env de i cid now force) probes w = (Inr cs, w') \<Longrightarrow> n \<notin> pb_name ` set probes \<Longrightarrow>
   probe_met (w_reg w') i n = probe_met (w_reg w) i n"
proof (induction probes arbitrary: w cs)
  case (Cons p ps)
  obtain y ys w1 where s: "evaluate_probe env de i cid now force p w = (Inr y, w1)"
      "map_op (evaluate_probe env de i cid now force) ps w1 = (Inr ys, w')"
    using Cons.prems(1) unfolding map_op_Cons_Inr by blast
  then show ?case using Cons.IH [OF s(2)] evaluate_probe_healthy(2) [OF s(1), of n] Cons.prems(2) by simp
qed (simp add: ret_def)

lemma evaluate_probes_healthy:
  "map_op (evaluate_probe env de i cid now force) probes w = (Inr cs, w') \<Longrightarrow> list_all ck_healthy cs \<Longrightarrow>
   p \<in> set probes \<Longrightarrow> probe_met (w_reg w') i (pb_name p)"
proof (induction probes arbitrary: w cs p)
  case (Cons q ps)
  obtain y ys w1 where s: "evaluate_probe env de i cid now force q w = (Inr y, w1)"
      "map_op (evaluate_probe env de i cid now force) ps w1 = (Inr ys, w')" "cs = y # ys"
    using Cons.prems(1) unfolding map_op_Cons_Inr by blast
  show ?case
  proof (cases "pb_name p \<in> pb_name ` set ps")
    case True
    then obtain p' where p: "p' \<in> set ps" "pb_name p' = pb_name p" by auto
    moreover have "list_all ck_healthy ys" using Cons.prems(2) s(3) by simp
    ultimately show ?thesis using Cons.IH [OF s(2)] p(2) by metis
  next
    case False
    then have "p = q" using Cons.prems(3) by auto
    then show ?thesis using evaluate_probe_healthy(1) [OF s(1)] evaluate_probes_frame [OF s(2) False] Cons.prems(2) s(3) by simp
  qed
qed simp

section \<open>Property\<close>

text \<open>
  (C40) A desk that is reported healthy meets its expectations: the last run of every job is a success
  within its bound, \<^verbatim>\<open>stat\<close> found every output, not empty unless it may be and not older than its
  bound, and the last recorded result of every probe is a success.
\<close>

theorem healthy_desk_meets_expectations:
  assumes "evaluate_desk env de ws container_id config now force_rerun w = (Inr report, w')" "dr_healthy report"
  shows "list_all (job_met de (w_reg w) (dd_id ws) now) (dc_jobs config) \<and>
    list_all (output_met env de container_id now) (dc_outputs config) \<and>
    list_all (\<lambda>p. probe_met (w_reg w') (dd_id ws) (pb_name p)) (dc_probes config)"
proof -
  obtain jobs outputs probes w1 where s:
    "evaluate_jobs de (w_reg w) (dd_id ws) now (dc_jobs config) = Inr jobs"
    "evaluate_outputs env de container_id now (dc_outputs config) w = (Inr outputs, w1)"
    "evaluate_probes env de (dd_id ws) container_id now force_rerun (dc_probes config) w1 = (Inr probes, w')"
    "dr_healthy report = (filter (\<lambda>c. \<not> ck_healthy c) (jobs @ outputs @ probes) = [])"
    using assms(1) by (auto simp: evaluate_desk_def effect_defs Let_def split: sum.splits prod.splits)
  then have h: "list_all ck_healthy jobs" "list_all ck_healthy outputs" "list_all ck_healthy probes"
    using assms(2) by (auto simp: filter_empty_conv list_all_iff)
  have "list_all2 (\<lambda>j c. evaluate_job de (w_reg w) (dd_id ws) now j = Inr c) (dc_jobs config) jobs"
    using s(1) unfolding evaluate_jobs_def by (rule sum_map_Inr)
  then have "list_all (job_met de (w_reg w) (dd_id ws) now) (dc_jobs config)"
    using h(1) by (induction rule: list_all2_induct) (auto dest: evaluate_job_healthy)
  moreover have "list_all (output_met env de container_id now) (dc_outputs config)"
    using evaluate_outputs_healthy s(2) h(2) unfolding evaluate_outputs_def by blast
  moreover have "list_all (\<lambda>p. probe_met (w_reg w') (dd_id ws) (pb_name p)) (dc_probes config)"
    using evaluate_probes_healthy s(3) h(3) unfolding evaluate_probes_def list_all_iff by blast
  ultimately show ?thesis by blast
qed

definition sample_watch :: deskwatch_env where
  "sample_watch = \<lparr>dwe_iso = (\<lambda>s. Some 0), dwe_int = (\<lambda>s. Some 7), dwe_micros = (\<lambda>f. None), dwe_str = (\<lambda>v. [])\<rparr>"

definition watched_world :: world where
  "watched_world = sample_world\<lparr>w_reg := snd (record_deskwatch_event ''dock_a'' ''job_run'' ''crawl'' ''ok'' None ''t'' sample_registry)\<rparr>"

definition watched_config :: DeskwatchConfig where
  "watched_config = \<lparr>dc_jobs = [\<lparr>je_name = ''crawl'', expect_success_within = 10\<rparr>], dc_outputs = [],
     dc_probes = [\<lparr>pb_name = ''db'', pb_cmd = ''true'', pb_interval = 10\<rparr>]\<rparr>"

theorem healthy_desk_meets_expectations_witness:
  "\<exists>report w'. evaluate_desk sample_env sample_watch sample_desk ''c1'' watched_config 5 False watched_world = (Inr report, w') \<and>
     job_met sample_watch (w_reg watched_world) ''dock_a'' 5 \<lparr>je_name = ''crawl'', expect_success_within = 10\<rparr> \<and>
     probe_met (w_reg w') ''dock_a'' ''db''"
proof -
  let ?run = "evaluate_desk sample_env sample_watch sample_desk ''c1'' watched_config 5 False watched_world"
  have "case fst ?run of Inr report \<Rightarrow> dr_healthy report | Inl e \<Rightarrow> False" by code_simp
  then obtain report w' where r: "?run = (Inr report, w')" "dr_healthy report"
    by (cases ?run) (auto split: sum.splits)
  have "dd_id sample_desk = ''dock_a''" by (simp add: sample_desk_def)
  then show ?thesis using healthy_desk_meets_expectations [OF r] r(1) by (simp add: watched_config_def)
qed

end
