(* ===== verification/Spec2Isabelle.thy ===== *)
theory Spec2Isabelle
  imports Broker_Properties Desk_Properties Server Concurrency Workload_Facts Recovery_Facts Project_Facts Auditor_Facts Clarification Audit_Query Overlay_Facts Schedule Role_Check Deskwatch
begin

text \<open>
  A verification of Drydock (src/src/drydock), the daemon that runs sandboxed workspaces ("desks") on
  a host. The daemon answers JSON-RPC requests over a Unix socket. Desks are rows of a SQLite
  registry; a desk may spawn children with narrower policies, request leases on secrets, storage,
  cloud provisioning and network reach, lift its resource ceilings for the time of a workload,
  and is stopped, resumed, migrated and destroyed through the daemon. An auditor desk may act on
  the others. The calls that create, spawn and destroy desks, grant capabilities, register and release
  workloads and act for the auditor are logged and replayed by their request ids.

  \<^bold>\<open>Shape of the model.\<close> A Python value of the wire is a \<open>json\<close>, a Python function that may raise
  returns \<open>exn + 'a\<close>, and an operation of the daemon is a function from a \<open>world\<close> to a result or an
  exception and a new world (\<open>'a op\<close> of theory Effects): the registry, the secret files, the audit
  log, the child processes started, the allowlist files written and the snapshots on disk. What an
  operation wrote before it raised stays written. A statement on the registry fails on a violated
  constraint only: a full disk or a locked database file is not modelled. The definitions follow the source function by function, with its early
  exits in its order, and are executable. Everything outside the sources is a field of a record the
  operations take as an argument: the clock, random bytes, SHA-256, child processes, the JSON
  printer and refusals by the operating system (\<open>env\<close>), git checkouts, files and trust seeding of a
  desk (\<open>desk_env\<close>), the steps of a migration on disk (\<open>mig_env\<close>), time arithmetic and float
  printing (\<open>wl_env\<close>), YAML and project files (\<open>project_env\<close>), the files and the JSON parser of the
  overlay (\<open>overlay_env\<close>), time stamps of the health checks (\<open>deskwatch_env\<close>). An answer may depend on the number of questions asked before, so nothing
  is assumed to answer the same twice.

  \<^bold>\<open>The theories, by part of the program.\<close>

  \<^item> Ground: Prelude (JSON, exceptions, Python strings, SQL orderings, list lemmas) and Effects (the
    world, the sequencing of operations, the rules by which an operation keeps a predicate).
    Sample holds a small concrete harbor for the witnesses.
  \<^item> core/policy.py: Policy (canonical domains and mounts, \<open>validate_spawn\<close>, storage scopes, IAM globs,
    network reach) and Policy_Facts (spawning is containment of canonical sets, a
    rejection names an item outside them; the matchers behind one locale \<open>scope_matcher\<close>; provision globs are narrow).
  \<^item> core/registry.py, core/runtime.py, core/capability.py: Registry (every table and method) and
    Registry_Facts (the steps \<open>table_step\<close> and \<open>reg_step\<close> of the registry; unique keys and row numbers,
    one auditor, schema statuses in every reachable registry; the locale \<open>row_store\<close> of insert and lookup, interpreted on leases, workload leases and tasks).
  \<^item> core/audit.py, daemon/rpc_common.py, daemon/auth.py: Audit_Log, Rpc_Common (\<open>with_task_log\<close> and its
    replay, the locale \<open>logged_handler\<close>), Auth. Concurrency has the seven methods of the server that
    are wrapped in \<open>with_task_log\<close> and the daemon's threads as a step relation: a call of such a
    method is a run of these steps, and in every interleaving its id runs the handler at most once.
  \<^item> core/secrets.py, core/storage.py, daemon/capability_handlers.py: Secrets_Backend, Capability
    (RequestCapability and ReleaseCapability), Capability_Facts (the locale \<open>broker_invariant\<close> of
    predicates the handlers keep, interpreted on the registry invariant, the task log, the desks,
    the leases granted and the AWS leases) and Broker_Properties.
  \<^item> core/resource_ceilings.py, core/cgroup.py, core/workload.py, daemon/workload_handlers.py:
    Resource_Ceilings, Workload and Workload_Facts (lifts can be undone from the stored record, one
    active lease per desk, schema statuses, the sweeper closes what expired, granted leases have a
    known kind and are bounded).
  \<^item> daemon/handlers.py, core/devcontainer.py, core/proxy.py: Desk_Spec (validation and the scope a
    spawn compares), Devcontainer, Proxy (allowlist documents), Desk_Handlers (create, spawn,
    resume), Desk_Teardown (destroy, stop, inspect, list), Desk_Facts and Desk_Properties. The
    abstract side is the forest of desks; DestroyDesk refines the removal of a tree from it, and a
    spawned desk holds exactly the policy of its request.
  \<^item> core/overlay.py: Overlay and Overlay_Facts (the secrets a desk sees are its own, for base files that name
    their targets plainly; what a resume rebuilds of the overlay of a create).
  \<^item> core/project_config.py, core/auditor/role_validator.py, core/schedule.py, core/deskwatch.py:
    Project_Config and Project_Facts (a declared mount is admitted by the policy it expands to),
    Role_Check (a valid auditor project is narrow), Schedule (an installed schedule lists its jobs),
    Deskwatch (a desk reported healthy meets its expectations).
  \<^item> core/snapshot.py, core/migration.py, core/migration_executor.py, daemon/recovery.py: Manifest,
    Snapshot, Migration, Migration_Facts (the locale \<open>walk_frame\<close> of what the stages keep; an
    executed migration is terminal, a rolled back one restored), Migration_Run (a concrete run that
    is rolled back), Recovery and Recovery_Facts (the start of the daemon returns and leaves
    nothing in progress).
  \<^item> daemon/server.py: Server (parsing, authentication, dispatch over a table of handlers, the sweeper).
  \<^item> daemon/proxy_handlers.py, daemon/auditor_handlers.py: Auditor and Auditor_Facts (which allowlist files
    a desk can have written; what an action of the auditor reaches).
    core/auditor/clarifier.py and daemon/clarification_handlers.py: Clarification.
    daemon/audit_handlers.py: Audit_Query.

  \<^bold>\<open>How the parts meet.\<close> The dispatcher resolves the caller from the token table and passes it to a
  handler. CreateDesk, SpawnChild, DestroyDesk, RequestCapability, RegisterWorkload, ReleaseWorkload
  and AuditorAction run inside \<open>with_task_log\<close>; ReleaseCapability, StopDesk, RegisterClarification and
  UpdateProxyAllowlist change state without it, and a repeated call of theirs runs again. SpawnChild compares the child's
  scope with the parent's row through \<open>validate_spawn\<close>; the broker reads the same row for each
  request; the teardown of a desk, the auditor's stop, the migration executor and the recovery
  call the same container, registry and token operations. The locales state what a client needs
  of these operations, and their interpretations on the model discharge it.

  \<^bold>\<open>Fuel.\<close> Only the recursive teardown takes fuel. It is called with one more than the number of
  desks; since every parent is registered before its children and a level of the recursion goes to a
  child, a chain of calls visits each desk once, so the fuel is never used up
  (\<open>destroy_tree_returns\<close>; the recovery, which may delete a parent first, keeps a ranking that
  shows the same). All other recursions end by structure or by a measure.

  \<^bold>\<open>Representation.\<close> Characters are those below code point 256, with Python's white space and case
  mapping there; a dash of a message is written as a hyphen. A finite float is \<open>m * 2 ^ e\<close>. Where an
  error carries the text of another exception, the text is left empty. JSON objects are association
  lists in insertion order. Rows are typed records, so the decoding of columns is left out.

  \<^bold>\<open>Not modelled.\<close> The socket and its threads (the model starts with a request's text; Concurrency
  covers the interleaving of the task log), the schema migrations of SQLite, git, docker and
  tailnet calls beyond their command lines and answers, file modes and durability, named volumes
  (the daemon never captures them), the text a plan prints. The command line (cli) is argument
  parsing and printing around these calls. The auditor's watch loop prompts a language model on
  measurements; its answers have no specification here. Peer probes and the host audit only read.
\<close>

end
